(* ===== verification/Prelude.thy ===== *)
theory Prelude
  imports Main "HOL-Library.Word"
begin

text \<open>
  What every component of the development shares: the Go facts the sources rely on.
  \<^item> Go errors are their messages (\<open>gerror = string\<close>); a function that returns only an
    \<open>error\<close> returns \<open>gerror option\<close>, one that returns a value and an error a sum.
  \<^item> \<open>outcome\<close> is the result of a call that changes state: it returns, it panics, or it waits
    for ever on a lock. Every outcome carries the state the other goroutines go on with.
  \<^item> \<open>int64\<close> values are \<open>int\<close> with the wrap-around written out (\<open>wrap64\<close>, \<open>i64_add\<close>);
    \<open>uint32\<close> values are \<open>32 word\<close>.
  \<^item> A Go map is \<open>'k \<rightharpoonup> 'v\<close>. Its iteration order is not specified by the language, so a loop
    over a map takes the order as an argument, and \<open>ranges m ks\<close> says that \<open>ks\<close> is one.
  \<^item> The parts of \<open>strings\<close> and \<open>strconv\<close> in use, as executable functions on byte strings,
    with their round trips.
\<close>

named_theorems go_eval \<comment> \<open>unfolds the string and number functions on closed terms\<close>
named_theorems outcome_simps \<comment> \<open>the outcome monad on known results\<close>

type_synonym gerror = string
type_synonym 'a result = "gerror + 'a"

subsection \<open>Outcomes\<close>

datatype ('s, 'a) outcome = Done 's 'a | Panicked 's | Blocked 's

fun bind_o :: "('s, 'a) outcome \<Rightarrow> ('s \<Rightarrow> 'a \<Rightarrow> ('s, 'b) outcome) \<Rightarrow> ('s, 'b) outcome" where
  "bind_o (Done s a) f = f s a"
| "bind_o (Panicked s) f = Panicked s"
| "bind_o (Blocked s) f = Blocked s"

fun out_state :: "('s, 'a) outcome \<Rightarrow> 's" where
  "out_state (Done s a) = s"
| "out_state (Panicked s) = s"
| "out_state (Blocked s) = s"

fun is_done :: "('s, 'a) outcome \<Rightarrow> bool" where
  "is_done (Done s a) = True"
| "is_done _ = False"

declare bind_o.simps [outcome_simps]

text \<open>A loop \<open>for _, x := range xs\<close> whose body threads a state and an accumulator.\<close>

fun loop_o :: "('x \<Rightarrow> 's \<Rightarrow> 'a \<Rightarrow> ('s, 'a) outcome) \<Rightarrow> 'x list \<Rightarrow> 's \<Rightarrow> 'a \<Rightarrow> ('s, 'a) outcome" where
  "loop_o body [] s a = Done s a"
| "loop_o body (x # xs) s a = bind_o (body x s a) (loop_o body xs)"

lemma bind_o_Done_iff:
  "bind_o m f = Done s b \<longleftrightarrow> (\<exists>s' a. m = Done s' a \<and> f s' a = Done s b)"
  by (cases m) auto

text \<open>
  The rule for loops: what one round keeps, the whole loop keeps, whether it ends, panics or
  blocks.
\<close>

lemma loop_o_invariant:
  assumes "P s" and "\<And>x s a. x \<in> set xs \<Longrightarrow> P s \<Longrightarrow> P (out_state (body x s a))"
  shows "P (out_state (loop_o body xs s a))"
  using assms
proof (induction xs arbitrary: s a)
  case Nil
  then show ?case by simp
next
  case (Cons x xs)
  show ?case
  proof (cases "body x s a")
    case (Done s' a')
    with Cons.prems(1) Cons.prems(2) [of x s a] have "P s'" by simp
    then have "P (out_state (loop_o body xs s' a'))"
      using Cons.prems(2) by (intro Cons.IH) auto
    with Done show ?thesis by simp
  qed (use Cons.prems(1) Cons.prems(2) [of x s a] in simp_all)
qed

subsection \<open>Machine integers\<close>

definition wrap64 :: "int \<Rightarrow> int" where
  "wrap64 x = (x + 2 ^ 63) mod 2 ^ 64 - 2 ^ 63"

definition i64_add :: "int \<Rightarrow> int \<Rightarrow> int" where
  "i64_add a b = wrap64 (a + b)"

definition max_int64 :: int where
  "max_int64 = 2 ^ 63 - 1"

definition in_int64 :: "int \<Rightarrow> bool" where
  "in_int64 x \<longleftrightarrow> - (2 ^ 63) \<le> x \<and> x < 2 ^ 63"

lemma wrap64_id: "in_int64 x \<Longrightarrow> wrap64 x = x"
  by (simp add: wrap64_def in_int64_def)

lemma wrap64_range: "in_int64 (wrap64 x)"
proof -
  have "0 \<le> (x + 2 ^ 63) mod 2 ^ 64" "(x + 2 ^ 63) mod 2 ^ 64 < 2 ^ 64" by simp_all
  then show ?thesis by (simp add: wrap64_def in_int64_def)
qed

lemma wrap64_add_left: "wrap64 (wrap64 a + b) = wrap64 (a + b)"
proof -
  have "(wrap64 a + b + 2 ^ 63) mod 2 ^ 64 = ((a + 2 ^ 63) mod 2 ^ 64 + b) mod 2 ^ 64" by (simp add: wrap64_def)
  also have "\<dots> = (a + b + 2 ^ 63) mod 2 ^ 64" by (subst mod_add_left_eq) (simp add: add_ac)
  finally show ?thesis by (simp only: wrap64_def)
qed

lemma wrap64_add_cong: "wrap64 a = wrap64 b \<Longrightarrow> wrap64 (c + a) = wrap64 (c + b)"
  by (metis add.commute wrap64_add_left)

lemma i64_add_id: "in_int64 (a + b) \<Longrightarrow> i64_add a b = a + b"
  by (simp add: i64_add_def wrap64_id)

subsection \<open>Go maps and their iteration\<close>

definition ranges :: "('k \<rightharpoonup> 'v) \<Rightarrow> 'k list \<Rightarrow> bool" where
  "ranges m ks \<longleftrightarrow> distinct ks \<and> set ks = dom m"

definition map_filter_vals :: "('v \<Rightarrow> bool) \<Rightarrow> ('k \<rightharpoonup> 'v) \<Rightarrow> ('k \<rightharpoonup> 'v)" where
  "map_filter_vals f m = (\<lambda>k. case m k of None \<Rightarrow> None | Some v \<Rightarrow> if f v then Some v else None)"

definition vals_in_order :: "('k \<rightharpoonup> 'v) \<Rightarrow> 'k list \<Rightarrow> 'v list" where
  "vals_in_order m ks = List.map_filter m ks"

lemma map_filter_vals_Some [simp]:
  "map_filter_vals f m k = Some v \<longleftrightarrow> m k = Some v \<and> f v"
  by (auto simp: map_filter_vals_def split: option.splits if_splits)

lemma map_filter_vals_None:
  "map_filter_vals f m k = None \<longleftrightarrow> (\<forall>v. m k = Some v \<longrightarrow> \<not> f v)"
  by (auto simp: map_filter_vals_def split: option.splits if_splits)

lemma map_filter_vals_id: "(\<And>k v. m k = Some v \<Longrightarrow> f v) \<Longrightarrow> map_filter_vals f m = m"
  by (rule ext) (auto simp: map_filter_vals_def split: option.splits)

lemma set_vals_in_order: "ranges m ks \<Longrightarrow> set (vals_in_order m ks) = ran m"
  by (force simp: ranges_def vals_in_order_def map_filter_def ran_def dom_def)

lemma vals_in_order_Cons [simp]:
  "vals_in_order m (k # ks) = (case m k of None \<Rightarrow> vals_in_order m ks | Some v \<Rightarrow> v # vals_in_order m ks)"
  by (simp add: vals_in_order_def map_filter_def split: option.splits)

lemma vals_in_order_Nil [simp]: "vals_in_order m [] = []"
  by (simp add: vals_in_order_def map_filter_def)

end
