(* ===== verification/KeyedStore.thy ===== *)
theory KeyedStore
  imports Prelude
begin

text \<open>
  The contract of the tables the program keeps under a name (nodes of a cluster, rejected nodes,
  clusters of a centre node, users): what a lookup returns after a store, a removal and a filter.
  The clients' facts are proved once here and reach the components through interpretations.
\<close>

datatype 'v store_op = Put string 'v | Del string

fun op_key :: "'v store_op \<Rightarrow> string" where
  "op_key (Put k v) = k"
| "op_key (Del k) = k"

fun run_store_ops :: "(string \<Rightarrow> 'v \<Rightarrow> 's \<Rightarrow> 's) \<Rightarrow> (string \<Rightarrow> 's \<Rightarrow> 's) \<Rightarrow> 'v store_op list \<Rightarrow> 's \<Rightarrow> 's" where
  "run_store_ops put del [] s = s"
| "run_store_ops put del (Put k v # ops) s = run_store_ops put del ops (put k v s)"
| "run_store_ops put del (Del k # ops) s = run_store_ops put del ops (del k s)"

text \<open>What the last operation on a key left there, \<open>None\<close> when there was none.\<close>

fun last_write :: "string \<Rightarrow> 'v store_op list \<Rightarrow> 'v option option" where
  "last_write k [] = None"
| "last_write k (x # xs) =
     (case last_write k xs of
        Some r \<Rightarrow> Some r
      | None \<Rightarrow> (case x of Put k' v \<Rightarrow> if k' = k then Some (Some v) else None
                          | Del k' \<Rightarrow> if k' = k then Some None else None))"

lemma last_write_None_iff: "last_write k ops = None \<longleftrightarrow> k \<notin> op_key ` set ops"
proof (induction ops)
  case (Cons x xs)
  then show ?case by (cases x) (auto split: option.splits)
qed simp

locale keyed_store =
  fixes lookup :: "'s \<Rightarrow> string \<Rightarrow> 'v option"
    and put :: "string \<Rightarrow> 'v \<Rightarrow> 's \<Rightarrow> 's"
    and del :: "string \<Rightarrow> 's \<Rightarrow> 's"
  assumes lookup_put: "lookup (put k v s) = (lookup s)(k \<mapsto> v)"
    and lookup_del: "lookup (del k s) = (lookup s)(k := None)"
begin

lemma lookup_put_same: "lookup (put k v s) k = Some v"
  by (simp add: lookup_put)

lemma lookup_put_other: "k' \<noteq> k \<Longrightarrow> lookup (put k v s) k' = lookup s k'"
  by (simp add: lookup_put)

lemma lookup_del_same: "lookup (del k s) k = None"
  by (simp add: lookup_del)

lemma lookup_del_put: "lookup s k = None \<Longrightarrow> lookup (del k (put k v s)) = lookup s"
  by (auto simp: lookup_put lookup_del)

text \<open>A whole history: a name shows what its last operation wrote, or what was there before.\<close>

lemma lookup_run:
  "lookup (run_store_ops put del ops s) k
     = (case last_write k ops of None \<Rightarrow> lookup s k | Some r \<Rightarrow> r)"
proof (induction ops arbitrary: s)
  case (Cons x xs)
  then show ?case
    by (cases x) (auto simp: lookup_put lookup_del split: option.splits)
qed simp

lemma lookup_run_untouched:
  "k \<notin> op_key ` set ops \<Longrightarrow> lookup (run_store_ops put del ops s) k = lookup s k"
  by (simp add: lookup_run last_write_None_iff [THEN iffD2])

end

locale filtered_store = keyed_store +
  fixes filt :: "('v \<Rightarrow> bool) \<Rightarrow> 's \<Rightarrow> 's"
  assumes lookup_filt: "lookup (filt f s) = map_filter_vals f (lookup s)"
begin

lemma filt_keeps_iff: "lookup (filt f s) k = Some v \<longleftrightarrow> lookup s k = Some v \<and> f v"
  by (simp add: lookup_filt)

lemma filt_idem: "lookup (filt f (filt f s)) = lookup (filt f s)"
  by (rule ext) (auto simp: lookup_filt map_filter_vals_def split: option.splits)

lemma filt_put_accepted: "f v \<Longrightarrow> lookup (filt f (put k v s)) = lookup (put k v (filt f s))"
  by (rule ext) (auto simp: lookup_filt lookup_put map_filter_vals_def split: option.splits)

lemma filt_put_refused: "\<not> f v \<Longrightarrow> lookup (filt f (put k v s)) k = None"
  by (auto simp: lookup_filt lookup_put map_filter_vals_def)

end

end
