(* ===== verification/GoStrings.thy ===== *)
theory GoStrings
  imports Prelude
begin

text \<open>
  The functions of Go's \<open>strings\<close>, \<open>strconv\<close> and \<open>fmt\<close> the sources call, on byte strings.
  \<open>strings.Split\<close> is used with one-byte separators only. \<open>strings.ToLower\<close> is its ASCII part.
  A \<open>strconv\<close> error quotes its input between double quotes; the escapes \<open>strconv.Quote\<close>
  would put into that text for non-printing bytes are left out.
\<close>

subsection \<open>strings\<close>

fun has_prefix :: "string \<Rightarrow> string \<Rightarrow> bool" where
  "has_prefix [] s = True"
| "has_prefix (p # ps) [] = False"
| "has_prefix (p # ps) (c # cs) = (p = c \<and> has_prefix ps cs)"

fun str_contains :: "string \<Rightarrow> string \<Rightarrow> bool" where
  "str_contains [] sub = (sub = [])"
| "str_contains (c # cs) sub = (has_prefix sub (c # cs) \<or> str_contains cs sub)"

fun split_on :: "char \<Rightarrow> string \<Rightarrow> string list" where
  "split_on sep [] = [[]]"
| "split_on sep (c # cs) =
     (if c = sep then [] # split_on sep cs
      else case split_on sep cs of [] \<Rightarrow> [[c]] | w # ws \<Rightarrow> (c # w) # ws)"

fun str_join :: "string \<Rightarrow> string list \<Rightarrow> string" where
  "str_join sep [] = []"
| "str_join sep [x] = x"
| "str_join sep (x # y # zs) = x @ sep @ str_join sep (y # zs)"

definition char_lower :: "char \<Rightarrow> char" where
  "char_lower c = (if 65 \<le> (of_char c :: nat) \<and> (of_char c :: nat) \<le> 90
     then char_of ((of_char c :: nat) + 32) else c)"

definition to_lower :: "string \<Rightarrow> string" where
  "to_lower s = map char_lower s"

fun replace_all :: "string \<Rightarrow> string \<Rightarrow> nat \<Rightarrow> string \<Rightarrow> string" where
  "replace_all old new skip [] = []"
| "replace_all old new (Suc skip) (c # cs) = replace_all old new skip cs"
| "replace_all old new 0 (c # cs) =
     (if has_prefix old (c # cs) then new @ replace_all old new (length old - 1) cs
      else c # replace_all old new 0 cs)"

lemma has_prefix_iff: "has_prefix p s \<longleftrightarrow> (\<exists>t. s = p @ t)"
  by (induction p s rule: has_prefix.induct) auto

lemma has_prefix_append [simp]: "has_prefix p (p @ s)"
  by (auto simp: has_prefix_iff)

lemma str_contains_iff: "str_contains s sub \<longleftrightarrow> (\<exists>u v. s = u @ sub @ v)"
proof (induction s)
  case Nil
  then show ?case by auto
next
  case (Cons c cs)
  have "(\<exists>u v. c # cs = u @ sub @ v) \<longleftrightarrow> has_prefix sub (c # cs) \<or> (\<exists>u v. cs = u @ sub @ v)"
    by (auto simp: has_prefix_iff Cons_eq_append_conv)
  with Cons show ?case by simp
qed

lemma split_on_nonempty [simp]: "split_on sep s \<noteq> []"
  by (induction s) (auto split: list.splits)

lemma split_on_no_sep: "sep \<notin> set s \<Longrightarrow> split_on sep s = [s]"
  by (induction s) auto

lemma split_on_append_sep:
  "sep \<notin> set s \<Longrightarrow> split_on sep (s @ sep # t) = s # split_on sep t"
  by (induction s) auto

lemma length_split_on: "length (split_on sep s) = Suc (count_list s sep)"
  by (induction s) (auto split: list.splits)

text \<open>Splitting what was joined gives the pieces back when no piece holds the separator.\<close>

lemma split_on_join:
  "xs \<noteq> [] \<Longrightarrow> (\<And>x. x \<in> set xs \<Longrightarrow> sep \<notin> set x) \<Longrightarrow> split_on sep (str_join [sep] xs) = xs"
proof (induction "[sep]" xs rule: str_join.induct)
  case (2 x)
  then show ?case by (simp add: split_on_no_sep)
next
  case (3 x y zs)
  then have "split_on sep (str_join [sep] (y # zs)) = y # zs" by simp
  with 3 show ?case by (simp add: split_on_append_sep)
qed simp

lemma str_join_split_on: "str_join [sep] (split_on sep s) = s"
proof (induction s)
  case Nil
  then show ?case by simp
next
  case (Cons c cs)
  then show ?case
    by (cases "split_on sep cs" rule: list.exhaust; cases "tl (split_on sep cs)")
      (auto split: list.splits)
qed

lemma to_lower_append [simp]: "to_lower (s @ t) = to_lower s @ to_lower t"
  by (simp add: to_lower_def)

subsection \<open>strconv and fmt verbs for integers\<close>

definition digit_char :: "nat \<Rightarrow> char" where
  "digit_char d = char_of (48 + d)"

definition is_digit :: "char \<Rightarrow> bool" where
  "is_digit c \<longleftrightarrow> 48 \<le> (of_char c :: nat) \<and> (of_char c :: nat) \<le> 57"

definition digit_val :: "char \<Rightarrow> nat" where
  "digit_val c = of_char c - 48"

fun nat_digits :: "nat \<Rightarrow> string" where
  "nat_digits n = (if n < 10 then [digit_char n] else nat_digits (n div 10) @ [digit_char (n mod 10)])"

declare nat_digits.simps [simp del]

definition itoa :: "int \<Rightarrow> string" where
  "itoa i = (if i < 0 then CHR ''-'' # nat_digits (nat (- i)) else nat_digits (nat i))"

fun digits_val :: "nat \<Rightarrow> string \<Rightarrow> nat option" where
  "digits_val acc [] = Some acc"
| "digits_val acc (c # cs) = (if is_digit c then digits_val (acc * 10 + digit_val c) cs else None)"

definition conv_error :: "string \<Rightarrow> string \<Rightarrow> string \<Rightarrow> gerror" where
  "conv_error fn s why = ''strconv.'' @ fn @ '': parsing '' @ [CHR 0x22] @ s @ [CHR 0x22] @ '': '' @ why"

definition parse_uint :: "nat \<Rightarrow> string \<Rightarrow> int result" where
  "parse_uint bits s = (if s = [] then Inl (conv_error ''ParseUint'' s ''invalid syntax'')
     else case digits_val 0 s of
       None \<Rightarrow> Inl (conv_error ''ParseUint'' s ''invalid syntax'')
     | Some n \<Rightarrow> if n < 2 ^ bits then Inr (int n)
                 else Inl (conv_error ''ParseUint'' s ''value out of range''))"

definition strip_sign :: "string \<Rightarrow> bool \<times> string" where
  "strip_sign s = (case s of
       [] \<Rightarrow> (False, [])
     | c # cs \<Rightarrow> if c = CHR ''+'' then (False, cs) else if c = CHR ''-'' then (True, cs) else (False, s))"

definition parse_int :: "nat \<Rightarrow> string \<Rightarrow> int result" where
  "parse_int bits s = (case strip_sign s of (neg, ds) \<Rightarrow>
     if ds = [] then Inl (conv_error ''ParseInt'' s ''invalid syntax'')
     else case digits_val 0 ds of
       None \<Rightarrow> Inl (conv_error ''ParseInt'' s ''invalid syntax'')
     | Some n \<Rightarrow>
         if \<not> neg \<and> 2 ^ (bits - 1) \<le> n \<or> neg \<and> 2 ^ (bits - 1) < n
         then Inl (conv_error ''ParseInt'' s ''value out of range'')
         else Inr (if neg then - int n else int n))"

lemma digit_char_simps:
  assumes "d < 10"
  shows "is_digit (digit_char d)" and "digit_val (digit_char d) = d"
    and "(of_char (digit_char d) :: nat) = 48 + d"
proof -
  show *: "(of_char (digit_char d) :: nat) = 48 + d"
    using assms by (simp add: digit_char_def of_char_of)
  show "is_digit (digit_char d)" "digit_val (digit_char d) = d"
    using assms * by (simp_all add: is_digit_def digit_val_def)
qed

lemma digits_val_append:
  "digits_val acc (s @ t) = (case digits_val acc s of None \<Rightarrow> None | Some a \<Rightarrow> digits_val a t)"
  by (induction acc s rule: digits_val.induct) auto

lemma digits_val_nat_digits: "digits_val 0 (nat_digits n) = Some n"
proof (induction n rule: nat_digits.induct)
  case (1 n)
  show ?case
  proof (cases "n < 10")
    case True
    then show ?thesis by (simp add: nat_digits.simps [of n] digit_char_simps)
  next
    case False
    with 1 have "digits_val 0 (nat_digits (n div 10)) = Some (n div 10)" by simp
    moreover have "n mod 10 < 10" by simp
    ultimately show ?thesis
      using False by (simp add: nat_digits.simps [of n] digits_val_append digit_char_simps)
  qed
qed

lemma nat_digits_nonempty [simp]: "nat_digits n \<noteq> []"
  by (subst nat_digits.simps) simp

lemma nat_digits_are_digits: "c \<in> set (nat_digits n) \<Longrightarrow> is_digit c"
proof (induction n rule: nat_digits.induct)
  case (1 n)
  then show ?case
    by (cases "n < 10") (auto simp: nat_digits.simps [of n] digit_char_simps)
qed

lemma is_digit_not [simp]:
  "\<not> is_digit (CHR ''-'')" "\<not> is_digit (CHR ''+'')" "\<not> is_digit (CHR ''|'')" "\<not> is_digit (CHR '':'')"
  by (simp_all add: is_digit_def)

lemma strip_sign_nat_digits: "strip_sign (nat_digits n) = (False, nat_digits n)"
proof (cases "nat_digits n")
  case (Cons c cs)
  then have "is_digit c" using nat_digits_are_digits [of c n] by simp
  then have "c \<noteq> CHR ''+''" "c \<noteq> CHR ''-''" by auto
  with Cons show ?thesis by (simp add: strip_sign_def)
qed simp

text \<open>Printing an \<open>int64\<close> with \<open>%d\<close> and reading it back with \<open>ParseInt(s, 10, 64)\<close>.\<close>

lemma parse_int_itoa: "in_int64 i \<Longrightarrow> parse_int 64 (itoa i) = Inr i"
proof (cases "i < 0")
  case True
  assume "in_int64 i"
  with True have "nat (- i) \<le> 2 ^ 63" by (simp add: in_int64_def)
  with True show ?thesis
    by (simp add: itoa_def parse_int_def strip_sign_def digits_val_nat_digits not_less)
next
  case False
  assume "in_int64 i"
  with False have "nat i < 2 ^ 63" by (simp add: in_int64_def nat_less_iff)
  with False show ?thesis
    by (simp add: itoa_def parse_int_def strip_sign_nat_digits digits_val_nat_digits not_le)
qed

lemma itoa_nonempty [simp]: "itoa i \<noteq> []"
  by (simp add: itoa_def)

lemma itoa_chars: "c \<in> set (itoa i) \<Longrightarrow> c = CHR ''-'' \<or> is_digit c"
  by (auto simp: itoa_def nat_digits_are_digits split: if_splits)

lemma itoa_no_bar: "CHR ''|'' \<notin> set (itoa i)"
  using itoa_chars by fastforce

lemma itoa_no_colon: "CHR '':'' \<notin> set (itoa i)"
  using itoa_chars by fastforce

lemma itoa_nonneg_no_minus: "0 \<le> i \<Longrightarrow> CHR ''-'' \<notin> set (itoa i)"
  using nat_digits_are_digits by (fastforce simp: itoa_def)

lemma itoa_inject: "in_int64 i \<Longrightarrow> in_int64 j \<Longrightarrow> itoa i = itoa j \<Longrightarrow> i = j"
  by (metis parse_int_itoa sum.inject(2))

lemma parse_int_range: "parse_int 64 s = Inr i \<Longrightarrow> in_int64 i"
  by (auto simp: parse_int_def in_int64_def split: prod.splits if_splits option.splits)

lemmas strconv_eval [go_eval] =
  parse_int_def parse_uint_def strip_sign_def is_digit_def digit_val_def digit_char_def
  itoa_def nat_digits.simps char_lower_def to_lower_def

end
