(* ===== verification/Cluster.thy ===== *)
theory Cluster
  imports KeyedStore GoStrings
begin

text \<open>
  The package \<open>cluster\<close> without its user manager, and \<open>global/cluster\<close>: nodes, the tables of
  nodes (\<open>NodeManager\<close>), an end node's view of its cluster (\<open>Cluster\<close>: known nodes and rejected
  nodes) and the clusters a centre node keeps (\<open>CenterClusterManager\<close>).
  \<open>time.Now().Unix()\<close> is an argument \<open>now\<close>; one value stands for the calls of one operation.
  gRPC connections are left out (I/O), the mutexes appear where their scope matters
  (\<open>NodeManager_Filter\<close> releases its lock between reading and replacing the table).
\<close>

subsection \<open>Nodes (cluster/node.go)\<close>

definition NodeTimeOut :: int where
  "NodeTimeOut = 60"

definition HeartBeatTimeout :: int where
  "HeartBeatTimeout = 60"

record pnode =
  pn_Host :: string
  pn_Port :: int
  pn_ClusterName :: string
  pn_Name :: string

record node =
  nd_Node :: pnode
  nd_InToken :: string
  nd_OutToken :: string
  nd_GetHeartBeatTime :: int
  nd_ReportHeartBeatTime :: int
  nd_CreateTime :: int
  nd_isLocal :: bool

record local_node =
  ln_Node :: pnode
  ln_Token :: string

abbreviation nd_Name :: "node \<Rightarrow> string" where
  "nd_Name n \<equiv> pn_Name (nd_Node n)"

definition Node_CompareWithProtoNode :: "node \<Rightarrow> pnode \<Rightarrow> bool" where
  "Node_CompareWithProtoNode n1 n2 \<longleftrightarrow>
     pn_Host (nd_Node n1) = pn_Host n2 \<and> pn_Port (nd_Node n1) = pn_Port n2 \<and>
     pn_ClusterName (nd_Node n1) = pn_ClusterName n2 \<and> pn_Name (nd_Node n1) = pn_Name n2"

definition Node_Compare :: "node \<Rightarrow> node \<Rightarrow> bool" where
  "Node_Compare n1 n2 \<longleftrightarrow>
     pn_Host (nd_Node n1) = pn_Host (nd_Node n2) \<and> pn_Port (nd_Node n1) = pn_Port (nd_Node n2) \<and>
     pn_ClusterName (nd_Node n1) = pn_ClusterName (nd_Node n2) \<and> nd_Name n1 = nd_Name n2"

definition Node_IsLocal :: "node \<Rightarrow> bool" where
  "Node_IsLocal n = nd_isLocal n"

definition Node_IsValid :: "int \<Rightarrow> node \<Rightarrow> bool" where
  "Node_IsValid now n \<longleftrightarrow>
     i64_add (nd_GetHeartBeatTime n) NodeTimeOut > now \<or>
     i64_add (nd_ReportHeartBeatTime n) NodeTimeOut > now \<or>
     i64_add (nd_CreateTime n) NodeTimeOut > now"

definition Node_RegisteredRemote :: "int \<Rightarrow> node \<Rightarrow> bool" where
  "Node_RegisteredRemote now n \<longleftrightarrow>
     nd_OutToken n \<noteq> '''' \<and> i64_add (nd_ReportHeartBeatTime n) NodeTimeOut > now"

definition Node_RegisteredLocal :: "int \<Rightarrow> node \<Rightarrow> bool" where
  "Node_RegisteredLocal now n \<longleftrightarrow>
     nd_InToken n \<noteq> '''' \<and> i64_add (nd_GetHeartBeatTime n) NodeTimeOut > now"

definition Node_IsComplete :: "node \<Rightarrow> bool" where
  "Node_IsComplete n \<longleftrightarrow> pn_Host (nd_Node n) \<noteq> '''' \<and> pn_Port (nd_Node n) > 1000 \<and>
     pn_ClusterName (nd_Node n) \<noteq> '''' \<and> nd_Name n \<noteq> ''''"

record static_node =
  sn_Name :: string
  sn_Host :: string
  sn_Port :: int

definition staticNode_IsValide :: "static_node \<Rightarrow> node \<Rightarrow> bool" where
  "staticNode_IsValide sn n \<longleftrightarrow> sn_Host sn \<noteq> '''' \<and> sn_Host sn \<noteq> pn_Host (nd_Node n) \<and>
     sn_Port sn > 1000 \<and> sn_Name sn \<noteq> nd_Name n"

subsection \<open>NodeManager (cluster/node_manager.go)\<close>

record node_manager =
  nm_nodes :: "string \<rightharpoonup> node"
  nm_name :: string

definition NewNodeManager :: node_manager where
  "NewNodeManager = \<lparr>nm_nodes = Map.empty, nm_name = ''NodeManager''\<rparr>"

definition NodeManager_Add :: "string \<Rightarrow> node \<Rightarrow> node_manager \<Rightarrow> node_manager" where
  "NodeManager_Add key n nm = nm\<lparr>nm_nodes := (nm_nodes nm)(key \<mapsto> n)\<rparr>"

definition NodeManager_HaveNode :: "node_manager \<Rightarrow> string \<Rightarrow> bool" where
  "NodeManager_HaveNode nm key \<longleftrightarrow> nm_nodes nm key \<noteq> None"

definition NodeManager_Delete :: "string \<Rightarrow> node_manager \<Rightarrow> node_manager" where
  "NodeManager_Delete key nm = nm\<lparr>nm_nodes := (nm_nodes nm)(key := None)\<rparr>"

definition NodeManager_SetName :: "string \<Rightarrow> node_manager \<Rightarrow> node_manager" where
  "NodeManager_SetName name nm = nm\<lparr>nm_name := name\<rparr>"

text \<open>The result of \<open>config.UnmarshalKey("cluster.nodes", ..)\<close> (viper) is an argument.\<close>

definition NodeManager_LoadStaticNode ::
    "static_node list result \<Rightarrow> local_node \<Rightarrow> int \<Rightarrow> node_manager \<Rightarrow> node_manager \<times> gerror option" where
  "NodeManager_LoadStaticNode unmarshalled ln now nm =
     (case unmarshalled of
        Inl e \<Rightarrow> (nm, Some e)
      | Inr nodeList \<Rightarrow>
          (let localNode = \<lparr>nd_Node = ln_Node ln, nd_InToken = '''', nd_OutToken = '''',
                 nd_GetHeartBeatTime = 0, nd_ReportHeartBeatTime = 0, nd_CreateTime = 0,
                 nd_isLocal = False\<rparr>
           in (fold (\<lambda>sn m. if staticNode_IsValide sn localNode
                 then NodeManager_Add (sn_Name sn)
                   \<lparr>nd_Node = \<lparr>pn_Host = sn_Host sn, pn_Port = sn_Port sn,
                       pn_ClusterName = pn_ClusterName (nd_Node localNode), pn_Name = sn_Name sn\<rparr>,
                    nd_InToken = '''', nd_OutToken = '''', nd_GetHeartBeatTime = 0,
                    nd_ReportHeartBeatTime = 0, nd_CreateTime = now, nd_isLocal = True\<rparr> m
                 else m) nodeList nm, None)))"

definition NodeManager_Clear :: "node_manager \<Rightarrow> node_manager" where
  "NodeManager_Clear nm = nm\<lparr>nm_nodes := Map.empty\<rparr>"

definition NodeManager_Get :: "node_manager \<Rightarrow> string \<Rightarrow> node option" where
  "NodeManager_Get nm nodeName = nm_nodes nm nodeName"

definition NodeManager_GetAllNode :: "node_manager \<Rightarrow> (string \<rightharpoonup> node)" where
  "NodeManager_GetAllNode nm = nm_nodes nm"

definition NodeManager_GetNodesWithFilter :: "(node \<Rightarrow> bool) \<Rightarrow> string list \<Rightarrow> node_manager \<Rightarrow> node list" where
  "NodeManager_GetNodesWithFilter f ord nm = filter f (vals_in_order (nm_nodes nm) ord)"

text \<open>
  \<open>Filter\<close> copies the kept nodes under the read lock, releases it, and installs the copy under
  the write lock: two critical sections.
\<close>

definition NodeManager_Filter_copy :: "(node \<Rightarrow> bool) \<Rightarrow> node_manager \<Rightarrow> (string \<rightharpoonup> node)" where
  "NodeManager_Filter_copy f nm = map_filter_vals f (nm_nodes nm)"

definition NodeManager_Filter_install :: "(string \<rightharpoonup> node) \<Rightarrow> node_manager \<Rightarrow> node_manager" where
  "NodeManager_Filter_install tmp nm = nm\<lparr>nm_nodes := tmp\<rparr>"

definition NodeManager_Filter :: "(node \<Rightarrow> bool) \<Rightarrow> node_manager \<Rightarrow> node_manager" where
  "NodeManager_Filter f nm = NodeManager_Filter_install (NodeManager_Filter_copy f nm) nm"

lemmas NodeManager_defs = NewNodeManager_def NodeManager_Add_def NodeManager_HaveNode_def
  NodeManager_Delete_def NodeManager_SetName_def NodeManager_Clear_def NodeManager_Get_def
  NodeManager_GetAllNode_def NodeManager_GetNodesWithFilter_def NodeManager_Filter_copy_def
  NodeManager_Filter_install_def NodeManager_Filter_def

lemma NodeManager_Get_nodes: "NodeManager_Get nm = nm_nodes nm"
  by (rule ext) (simp add: NodeManager_Get_def)

interpretation nodes: filtered_store NodeManager_Get NodeManager_Add NodeManager_Delete NodeManager_Filter
  by unfold_locales (simp_all add: NodeManager_defs NodeManager_Get_nodes)

subsection \<open>Cluster (cluster/cluster.go)\<close>

record cluster =
  cl_Name :: string
  cl_Token :: string
  cl_NodeManager :: node_manager
  cl_WrongTokenNode :: node_manager

definition Cluster_Init :: "cluster \<Rightarrow> cluster" where
  "Cluster_Init c = c\<lparr>cl_NodeManager := NewNodeManager,
     cl_WrongTokenNode := NodeManager_SetName ''WrongNodeManager'' NewNodeManager\<rparr>"

definition Cluster_Get :: "cluster \<Rightarrow> string \<Rightarrow> node option" where
  "Cluster_Get c nodeName = NodeManager_Get (cl_NodeManager c) nodeName"

definition Cluster_LoadStaticNode ::
    "static_node list result \<Rightarrow> local_node \<Rightarrow> int \<Rightarrow> cluster \<Rightarrow> cluster \<times> gerror option" where
  "Cluster_LoadStaticNode unmarshalled ln now c =
     (case NodeManager_LoadStaticNode unmarshalled ln now (cl_NodeManager c) of
        (nm, e) \<Rightarrow> (c\<lparr>cl_NodeManager := nm\<rparr>, e))"

definition Cluster_Add :: "node \<Rightarrow> cluster \<Rightarrow> cluster" where
  "Cluster_Add n c = c\<lparr>cl_NodeManager := NodeManager_Add (nd_Name n) n (cl_NodeManager c)\<rparr>"

definition Cluster_GetNodeFromWrongNodeList :: "cluster \<Rightarrow> string \<Rightarrow> node option" where
  "Cluster_GetNodeFromWrongNodeList c nodeName = NodeManager_Get (cl_WrongTokenNode c) nodeName"

definition Cluster_AddToWrongNodeList :: "node \<Rightarrow> cluster \<Rightarrow> cluster" where
  "Cluster_AddToWrongNodeList n c =
     c\<lparr>cl_WrongTokenNode := NodeManager_Add (nd_Name n) n (cl_WrongTokenNode c)\<rparr>"

definition Cluster_IsSameCluster :: "string \<Rightarrow> string \<Rightarrow> cluster \<Rightarrow> gerror option" where
  "Cluster_IsSameCluster clusterName token c =
     (if cl_Name c \<noteq> clusterName then Some ''wrong cluster''
      else if cl_Token c \<noteq> token then Some ''wrong token'' else None)"

definition Cluster_GetProtoNodesWithFilter :: "(node \<Rightarrow> bool) \<Rightarrow> cluster \<Rightarrow> (string \<rightharpoonup> pnode)" where
  "Cluster_GetProtoNodesWithFilter f c =
     map_option nd_Node \<circ> map_filter_vals f (NodeManager_GetAllNode (cl_NodeManager c))"

definition Cluster_GetNodesWithFilter :: "(node \<Rightarrow> bool) \<Rightarrow> string list \<Rightarrow> cluster \<Rightarrow> node list" where
  "Cluster_GetNodesWithFilter f ord c = NodeManager_GetNodesWithFilter f ord (cl_NodeManager c)"

text \<open>The keys of the map of all nodes, in the order the loop meets them.\<close>

definition Cluster_GetNodeNameList :: "string list \<Rightarrow> cluster \<Rightarrow> string list" where
  "Cluster_GetNodeNameList ord c =
     filter (\<lambda>k. Cluster_GetProtoNodesWithFilter (\<lambda>_. True) c k \<noteq> None) ord"

text \<open>
  On success the caller's node is replaced by the stored one, whose heartbeat time is set in
  place.
\<close>

definition Cluster_AuthRemoteNode :: "int \<Rightarrow> node \<Rightarrow> cluster \<Rightarrow> cluster \<times> node result" where
  "Cluster_AuthRemoteNode now nod c =
     (case NodeManager_Get (cl_NodeManager c) (nd_Name nod) of
        None \<Rightarrow> (c, Inl ''node not exist'')
      | Some n \<Rightarrow>
          if \<not> Node_Compare nod n then
            (c, Inl (''there at least two node with same name['' @ nd_Name n
                     @ ''], but have different meta info.''))
          else if nd_InToken nod \<noteq> nd_InToken n then (c, Inl ''wrong token'')
          else if nd_GetHeartBeatTime n \<noteq> 0 \<and> i64_add (nd_GetHeartBeatTime n) HeartBeatTimeout < now
            then (c, Inl ''invalid token, token timeout'')
          else (let n' = n\<lparr>nd_GetHeartBeatTime := now\<rparr>
                in (c\<lparr>cl_NodeManager := NodeManager_Add (nd_Name nod) n' (cl_NodeManager c)\<rparr>, Inr n')))"

definition Cluster_Delete :: "string \<Rightarrow> cluster \<Rightarrow> cluster" where
  "Cluster_Delete nodeName c = c\<lparr>cl_NodeManager := NodeManager_Delete nodeName (cl_NodeManager c)\<rparr>"

definition Cluster_DeleteFromWrongTokenNodeList :: "string \<Rightarrow> cluster \<Rightarrow> cluster" where
  "Cluster_DeleteFromWrongTokenNodeList nodeName c =
     c\<lparr>cl_WrongTokenNode := NodeManager_Delete nodeName (cl_WrongTokenNode c)\<rparr>"

definition Cluster_Clear :: "cluster \<Rightarrow> cluster" where
  "Cluster_Clear c = c\<lparr>cl_NodeManager := NodeManager_Clear (cl_NodeManager c)\<rparr>"

text \<open>The three predicates by name dereference the node they look up: \<open>None\<close> is the panic.\<close>

definition Cluster_IsValid :: "int \<Rightarrow> string \<Rightarrow> cluster \<Rightarrow> bool option" where
  "Cluster_IsValid now nodeName c = map_option (Node_IsValid now) (NodeManager_Get (cl_NodeManager c) nodeName)"

definition Cluster_RegisteredLocal :: "int \<Rightarrow> string \<Rightarrow> cluster \<Rightarrow> bool option" where
  "Cluster_RegisteredLocal now nodeName c =
     map_option (Node_RegisteredLocal now) (NodeManager_Get (cl_NodeManager c) nodeName)"

definition Cluster_RegisteredRemote :: "int \<Rightarrow> string \<Rightarrow> cluster \<Rightarrow> bool option" where
  "Cluster_RegisteredRemote now nodeName c =
     map_option (Node_RegisteredRemote now) (NodeManager_Get (cl_NodeManager c) nodeName)"

definition getNodeFilterByCurrentTime :: "int \<Rightarrow> int \<Rightarrow> node \<Rightarrow> bool" where
  "getNodeFilterByCurrentTime now currentTime n = Node_IsValid now n"

definition Cluster_FilterTimeoutNode :: "int \<Rightarrow> cluster \<Rightarrow> cluster" where
  "Cluster_FilterTimeoutNode now c =
     c\<lparr>cl_NodeManager := NodeManager_Filter (getNodeFilterByCurrentTime now now) (cl_NodeManager c)\<rparr>"

definition Cluster_HaveNode :: "cluster \<Rightarrow> string \<Rightarrow> bool" where
  "Cluster_HaveNode c nodeName = NodeManager_HaveNode (cl_NodeManager c) nodeName"

definition Cluster_GetAllNode :: "cluster \<Rightarrow> (string \<rightharpoonup> node)" where
  "Cluster_GetAllNode c = NodeManager_GetAllNode (cl_NodeManager c)"

definition Cluster_Filter :: "int \<Rightarrow> (node \<Rightarrow> bool) \<Rightarrow> cluster \<Rightarrow> cluster" where
  "Cluster_Filter now f c =
     c\<lparr>cl_NodeManager := NodeManager_Filter f (cl_NodeManager c),
       cl_WrongTokenNode := NodeManager_Filter (\<lambda>n. i64_add (nd_CreateTime n) NodeTimeOut > now)
         (cl_WrongTokenNode c)\<rparr>"

lemmas Cluster_defs = Cluster_Init_def Cluster_Get_def Cluster_Add_def
  Cluster_GetNodeFromWrongNodeList_def Cluster_AddToWrongNodeList_def Cluster_Delete_def
  Cluster_DeleteFromWrongTokenNodeList_def Cluster_Clear_def Cluster_HaveNode_def
  Cluster_GetAllNode_def Cluster_Filter_def Cluster_FilterTimeoutNode_def
  Cluster_GetProtoNodesWithFilter_def Cluster_GetNodesWithFilter_def

text \<open>
  Both tables of a cluster meet the contract. \<open>Cluster_Add\<close> and \<open>Cluster_AddToWrongNodeList\<close>
  store a node under its own name.
\<close>

definition put_known :: "string \<Rightarrow> node \<Rightarrow> cluster \<Rightarrow> cluster" where
  "put_known k n c = c\<lparr>cl_NodeManager := NodeManager_Add k n (cl_NodeManager c)\<rparr>"

definition put_wrong :: "string \<Rightarrow> node \<Rightarrow> cluster \<Rightarrow> cluster" where
  "put_wrong k n c = c\<lparr>cl_WrongTokenNode := NodeManager_Add k n (cl_WrongTokenNode c)\<rparr>"

lemma Cluster_Add_put: "Cluster_Add n c = put_known (nd_Name n) n c"
  by (simp add: Cluster_Add_def put_known_def)

lemma Cluster_AddToWrongNodeList_put: "Cluster_AddToWrongNodeList n c = put_wrong (nd_Name n) n c"
  by (simp add: Cluster_AddToWrongNodeList_def put_wrong_def)

lemma Cluster_Get_nodes: "Cluster_Get c = NodeManager_Get (cl_NodeManager c)"
  by (rule ext) (simp add: Cluster_Get_def)

lemma Cluster_GetNodeFromWrongNodeList_nodes:
  "Cluster_GetNodeFromWrongNodeList c = NodeManager_Get (cl_WrongTokenNode c)"
  by (rule ext) (simp add: Cluster_GetNodeFromWrongNodeList_def)

interpretation known: filtered_store Cluster_Get put_known Cluster_Delete "Cluster_Filter now" for now
  by unfold_locales
    (simp_all add: Cluster_Get_nodes put_known_def Cluster_Delete_def Cluster_Filter_def
      nodes.lookup_put nodes.lookup_del nodes.lookup_filt)

interpretation wrong: keyed_store Cluster_GetNodeFromWrongNodeList put_wrong
    Cluster_DeleteFromWrongTokenNodeList
  by unfold_locales
    (simp_all add: Cluster_GetNodeFromWrongNodeList_nodes put_wrong_def
      Cluster_DeleteFromWrongTokenNodeList_def nodes.lookup_put nodes.lookup_del)

subsection \<open>InitCluster (global/cluster/cluster.go)\<close>

text \<open>
  The configuration values and the generated token are arguments (viper and google/uuid). The
  local node is entered with heartbeat times that never time out.
\<close>

record cluster_cfg =
  cfg_ProxyHost :: string
  cfg_ServerRpcPort :: int
  cfg_ClusterName :: string
  cfg_ServerName :: string
  cfg_ClusterToken :: string
  cfg_ClusterNodes :: "static_node list result"

definition initLocalNode :: "cluster_cfg \<Rightarrow> string \<Rightarrow> local_node" where
  "initLocalNode cfg uuid = \<lparr>ln_Node = \<lparr>pn_Host = cfg_ProxyHost cfg, pn_Port = cfg_ServerRpcPort cfg,
     pn_ClusterName = cfg_ClusterName cfg, pn_Name = cfg_ServerName cfg\<rparr>, ln_Token = uuid\<rparr>"

definition local_entry :: "local_node \<Rightarrow> int \<Rightarrow> node" where
  "local_entry ln now = \<lparr>nd_Node = ln_Node ln, nd_InToken = ln_Token ln, nd_OutToken = ln_Token ln,
     nd_GetHeartBeatTime = max_int64 - NodeTimeOut, nd_ReportHeartBeatTime = max_int64 - NodeTimeOut,
     nd_CreateTime = now, nd_isLocal = False\<rparr>"

definition InitCluster :: "cluster_cfg \<Rightarrow> string \<Rightarrow> int \<Rightarrow> cluster \<Rightarrow> cluster \<times> gerror option" where
  "InitCluster cfg uuid now c =
     (let ln = initLocalNode cfg uuid;
          c1 = (Cluster_Init c)\<lparr>cl_Name := cfg_ClusterName cfg, cl_Token := cfg_ClusterToken cfg\<rparr>;
          c2 = Cluster_Add (local_entry ln now) c1
      in Cluster_LoadStaticNode (cfg_ClusterNodes cfg) ln now c2)"

subsection \<open>Lemmas\<close>

lemma IsValid_cong:
  "nd_GetHeartBeatTime m = nd_GetHeartBeatTime n \<Longrightarrow> nd_ReportHeartBeatTime m = nd_ReportHeartBeatTime n
   \<Longrightarrow> nd_CreateTime m = nd_CreateTime n \<Longrightarrow> Node_IsValid now m = Node_IsValid now n"
  by (simp add: Node_IsValid_def)

lemma IsValid_if_reported_forever:
  "nd_ReportHeartBeatTime n = max_int64 - NodeTimeOut \<Longrightarrow> now < max_int64 \<Longrightarrow> Node_IsValid now n"
  by (simp add: Node_IsValid_def i64_add_def wrap64_def max_int64_def NodeTimeOut_def)

lemma LoadStaticNode_keeps:
  "nm_nodes nm (pn_Name (ln_Node ln)) = Some n \<Longrightarrow>
   nm_nodes (fst (NodeManager_LoadStaticNode cfg ln now nm)) (pn_Name (ln_Node ln)) = Some n"
proof (cases cfg)
  case (Inr nodeList)
  assume "nm_nodes nm (pn_Name (ln_Node ln)) = Some n"
  then show ?thesis
    unfolding Inr NodeManager_LoadStaticNode_def sum.case Let_def fst_conv
    by (induction nodeList arbitrary: nm)
      (auto simp: staticNode_IsValide_def NodeManager_Add_def)
qed (simp add: NodeManager_LoadStaticNode_def)

text \<open>After start-up the cluster knows the local node, under its own name, for ever valid.\<close>

lemma InitCluster_has_local:
  assumes "InitCluster cfg uuid now c = (c', e)"
  shows "Cluster_Get c' (cfg_ServerName cfg) = Some (local_entry (initLocalNode cfg uuid) now)"
proof -
  define ln where "ln = initLocalNode cfg uuid"
  define c2 where "c2 = Cluster_Add (local_entry ln now)
    ((Cluster_Init c)\<lparr>cl_Name := cfg_ClusterName cfg, cl_Token := cfg_ClusterToken cfg\<rparr>)"
  have name: "pn_Name (ln_Node ln) = cfg_ServerName cfg" by (simp add: ln_def initLocalNode_def)
  have "nm_nodes (cl_NodeManager c2) (pn_Name (ln_Node ln)) = Some (local_entry ln now)"
    by (simp add: c2_def Cluster_Add_def NodeManager_Add_def local_entry_def)
  then have "nm_nodes (fst (NodeManager_LoadStaticNode (cfg_ClusterNodes cfg) ln now (cl_NodeManager c2)))
      (pn_Name (ln_Node ln)) = Some (local_entry ln now)"
    by (rule LoadStaticNode_keeps)
  moreover have "c' = fst (Cluster_LoadStaticNode (cfg_ClusterNodes cfg) ln now c2)"
    using assms by (simp add: InitCluster_def ln_def c2_def Let_def)
  ultimately show ?thesis
    by (simp add: Cluster_LoadStaticNode_def Cluster_Get_nodes NodeManager_Get_nodes
        name [symmetric] ln_def [symmetric] split: prod.splits)
qed

lemma AuthRemoteNode_Inr_iff:
  "snd (Cluster_AuthRemoteNode now nod c) = Inr n' \<longleftrightarrow>
   (\<exists>n. Cluster_Get c (nd_Name nod) = Some n \<and> Node_Compare nod n \<and> nd_InToken nod = nd_InToken n
      \<and> (nd_GetHeartBeatTime n = 0 \<or> now \<le> i64_add (nd_GetHeartBeatTime n) HeartBeatTimeout)
      \<and> n' = n\<lparr>nd_GetHeartBeatTime := now\<rparr>)"
  by (auto simp: Cluster_AuthRemoteNode_def Cluster_Get_def Let_def not_less split: option.splits)

lemma AuthRemoteNode_state:
  "fst (Cluster_AuthRemoteNode now nod c) =
     (case snd (Cluster_AuthRemoteNode now nod c) of
        Inl e \<Rightarrow> c | Inr n' \<Rightarrow> put_known (nd_Name nod) n' c)"
  by (auto simp: Cluster_AuthRemoteNode_def put_known_def Let_def split: option.splits)

end
