(* ===== verification/Center.thy ===== *)
theory Center
  imports Cluster
begin

text \<open>
  The centre node (\<open>cluster/cluster_manager.go\<close>, \<open>server/rpc/center_node_server.go\<close>): it keeps
  one cluster per name, answers heartbeats with the valid nodes of the sender's cluster and
  filters dead nodes every ten seconds. Its steps are an inductive relation; the invariant of
  the tables holds in every reachable state, and a node that sent a heartbeat is told to every
  member that asks within the timeout.
\<close>

subsection \<open>CenterClusterManager\<close>

record center_clusters =
  ccm_clusters :: "string \<rightharpoonup> cluster"

definition NewCenterClusterManager :: center_clusters where
  "NewCenterClusterManager = \<lparr>ccm_clusters = Map.empty\<rparr>"

definition CenterClusterManager_Init :: "center_clusters \<Rightarrow> center_clusters" where
  "CenterClusterManager_Init ccm = ccm\<lparr>ccm_clusters := Map.empty\<rparr>"

definition CenterClusterManager_GetCluster :: "center_clusters \<Rightarrow> string \<Rightarrow> cluster option" where
  "CenterClusterManager_GetCluster ccm clusterName = ccm_clusters ccm clusterName"

text \<open>
  A new cluster gets a \<open>NodeManager\<close> only: its list of rejected nodes stays the zero value,
  which no operation of the centre node touches.
\<close>

definition CenterClusterManager_Add :: "string \<Rightarrow> node \<Rightarrow> center_clusters \<Rightarrow> center_clusters" where
  "CenterClusterManager_Add clusterName n ccm =
     (case ccm_clusters ccm clusterName of
        Some cl \<Rightarrow> ccm\<lparr>ccm_clusters := (ccm_clusters ccm)(clusterName \<mapsto>
          cl\<lparr>cl_NodeManager := NodeManager_Add (nd_Name n) n (cl_NodeManager cl)\<rparr>)\<rparr>
      | None \<Rightarrow> ccm\<lparr>ccm_clusters := (ccm_clusters ccm)(clusterName \<mapsto>
          \<lparr>cl_Name = clusterName, cl_Token = '''',
           cl_NodeManager = NodeManager_Add (nd_Name n) n NewNodeManager,
           cl_WrongTokenNode = \<lparr>nm_nodes = Map.empty, nm_name = ''''\<rparr>\<rparr>)\<rparr>)"

definition CenterClusterManager_DeleteNode :: "string \<Rightarrow> string \<Rightarrow> center_clusters \<Rightarrow> center_clusters" where
  "CenterClusterManager_DeleteNode clusterName nodeName ccm =
     (case ccm_clusters ccm clusterName of
        Some cl \<Rightarrow> ccm\<lparr>ccm_clusters := (ccm_clusters ccm)(clusterName \<mapsto>
          cl\<lparr>cl_NodeManager := NodeManager_Delete nodeName (cl_NodeManager cl)\<rparr>)\<rparr>
      | None \<Rightarrow> ccm)"

definition CenterClusterManager_DeleteCluster :: "string \<Rightarrow> center_clusters \<Rightarrow> center_clusters" where
  "CenterClusterManager_DeleteCluster clusterName ccm =
     ccm\<lparr>ccm_clusters := (ccm_clusters ccm)(clusterName := None)\<rparr>"

definition CenterClusterManager_Clear :: "center_clusters \<Rightarrow> center_clusters" where
  "CenterClusterManager_Clear ccm = ccm\<lparr>ccm_clusters := Map.empty\<rparr>"

definition CenterClusterManager_Filter :: "int \<Rightarrow> center_clusters \<Rightarrow> center_clusters" where
  "CenterClusterManager_Filter now ccm =
     ccm\<lparr>ccm_clusters := map_option (\<lambda>cl. cl\<lparr>cl_NodeManager :=
       NodeManager_Filter (Node_IsValid now) (cl_NodeManager cl)\<rparr>) \<circ> ccm_clusters ccm\<rparr>"

subsection \<open>CenterNodeServer.HeartBeat\<close>

record heartbeat_rsp =
  hb_Code :: int
  hb_Msg :: string
  hb_NodesMap :: "string \<rightharpoonup> pnode"

abbreviation empty_hb_rsp :: heartbeat_rsp where
  "empty_hb_rsp \<equiv> \<lparr>hb_Code = 0, hb_Msg = '''', hb_NodesMap = Map.empty\<rparr>"

definition Center_HeartBeat :: "int \<Rightarrow> pnode \<Rightarrow> center_clusters \<Rightarrow> center_clusters \<times> heartbeat_rsp" where
  "Center_HeartBeat now p s =
     (let n0 = \<lparr>nd_Node = p, nd_InToken = '''', nd_OutToken = '''', nd_GetHeartBeatTime = now,
                nd_ReportHeartBeatTime = 0, nd_CreateTime = now, nd_isLocal = False\<rparr>
      in if \<not> Node_IsComplete n0 then
           (s, empty_hb_rsp\<lparr>hb_Code := 500, hb_Msg := ''not complete node''\<rparr>)
         else case CenterClusterManager_GetCluster s (pn_ClusterName p) of
           Some cl \<Rightarrow>
             (let cl' = (case Cluster_Get cl (pn_Name p) of
                   Some n \<Rightarrow> cl\<lparr>cl_NodeManager := NodeManager_Add (pn_Name p)
                               (n\<lparr>nd_GetHeartBeatTime := now\<rparr>) (cl_NodeManager cl)\<rparr>
                 | None \<Rightarrow> Cluster_Add n0 cl)
              in (s\<lparr>ccm_clusters := (ccm_clusters s)(pn_ClusterName p \<mapsto> cl')\<rparr>,
                  empty_hb_rsp\<lparr>hb_NodesMap := Cluster_GetProtoNodesWithFilter (Node_IsValid now) cl'\<rparr>))
         | None \<Rightarrow> (CenterClusterManager_Add (pn_ClusterName p) n0 s, empty_hb_rsp))"

text \<open>
  \<open>CenterNodeServer.filter\<close> runs \<open>s.clusters.Filter()\<close> at every tick: one tick is one filter
  step, and the handler and the ticker take turns in any order.
\<close>

inductive center_step :: "int \<Rightarrow> center_clusters \<Rightarrow> center_clusters \<Rightarrow> bool" where
  heartbeat: "center_step now s (fst (Center_HeartBeat now p s))"
| tick: "center_step now s (CenterClusterManager_Filter now s)"

inductive center_run :: "int \<Rightarrow> int \<Rightarrow> center_clusters \<Rightarrow> center_clusters \<Rightarrow> bool" for lo hi where
  start: "center_run lo hi s s"
| step: "center_run lo hi s s' \<Longrightarrow> center_step now s' s'' \<Longrightarrow> lo \<le> now \<Longrightarrow> now \<le> hi
         \<Longrightarrow> center_run lo hi s s''"

inductive_simps center_step_iff: "center_step now s s'"

subsection \<open>Lemmas\<close>

text \<open>The node a centre table holds under a cluster's and a node's name.\<close>

definition center_lookup :: "center_clusters \<Rightarrow> string \<Rightarrow> string \<Rightarrow> node option" where
  "center_lookup s c k = (case ccm_clusters s c of None \<Rightarrow> None | Some cl \<Rightarrow> Cluster_Get cl k)"

lemma center_lookup_filter:
  "center_lookup (CenterClusterManager_Filter now s) c k = Some n \<longleftrightarrow>
   center_lookup s c k = Some n \<and> Node_IsValid now n"
  by (auto simp: center_lookup_def CenterClusterManager_Filter_def Cluster_Get_def
      NodeManager_Filter_def NodeManager_Filter_copy_def NodeManager_Filter_install_def
      NodeManager_Get_def split: option.splits)

definition fresh_node :: "int \<Rightarrow> pnode \<Rightarrow> node" where
  "fresh_node now p = \<lparr>nd_Node = p, nd_InToken = '''', nd_OutToken = '''', nd_GetHeartBeatTime = now,
     nd_ReportHeartBeatTime = 0, nd_CreateTime = now, nd_isLocal = False\<rparr>"

lemma center_lookup_heartbeat:
  "center_lookup (fst (Center_HeartBeat now p s)) c k =
     (if Node_IsComplete (fresh_node now p) \<and> c = pn_ClusterName p \<and> k = pn_Name p
      then (case center_lookup s c k of
              Some n \<Rightarrow> Some (n\<lparr>nd_GetHeartBeatTime := now\<rparr>) | None \<Rightarrow> Some (fresh_node now p))
      else center_lookup s c k)"
  by (auto simp: center_lookup_def Center_HeartBeat_def CenterClusterManager_GetCluster_def
      CenterClusterManager_Add_def Cluster_Get_def Cluster_Add_def NodeManager_defs fresh_node_def
      Let_def split: option.splits)

definition center_inv :: "center_clusters \<Rightarrow> bool" where
  "center_inv s \<longleftrightarrow> (\<forall>c k n. center_lookup s c k = Some n \<longrightarrow>
     nd_Name n = k \<and> pn_ClusterName (nd_Node n) = c \<and> Node_IsComplete n)"

lemma IsComplete_heartbeat_time [simp]:
  "Node_IsComplete (n\<lparr>nd_GetHeartBeatTime := t\<rparr>) = Node_IsComplete n"
  by (simp add: Node_IsComplete_def)

lemma fresh_node_simps [simp]:
  "nd_Node (fresh_node now p) = p" "nd_GetHeartBeatTime (fresh_node now p) = now"
  by (simp_all add: fresh_node_def)

lemma center_step_inv: "center_step now s s' \<Longrightarrow> center_inv s \<Longrightarrow> center_inv s'"
proof (induction rule: center_step.induct)
  case (heartbeat now s p)
  then show ?case
    by (fastforce simp: center_inv_def center_lookup_heartbeat split: if_splits option.splits)
next
  case (tick now s)
  then show ?case by (auto simp: center_inv_def center_lookup_filter)
qed

lemma center_run_inv: "center_run lo hi s s' \<Longrightarrow> center_inv s \<Longrightarrow> center_inv s'"
  by (induction rule: center_run.induct) (auto intro: center_step_inv)

lemma center_lookup_empty [simp]: "center_lookup NewCenterClusterManager c k = None"
  by (simp add: center_lookup_def NewCenterClusterManager_def)

lemma center_inv_empty: "center_inv NewCenterClusterManager"
  by (simp add: center_inv_def)

text \<open>The table holds the node \<open>p\<close> under the name \<open>k\<close>, heard of between \<open>lo\<close> and \<open>hi\<close>.\<close>

definition heard_since :: "int \<Rightarrow> int \<Rightarrow> string \<Rightarrow> string \<Rightarrow> pnode \<Rightarrow> center_clusters \<Rightarrow> bool" where
  "heard_since lo hi c k p s \<longleftrightarrow>
     (\<exists>n. center_lookup s c k = Some n \<and> nd_Node n = p \<and> lo \<le> nd_GetHeartBeatTime n \<and> nd_GetHeartBeatTime n \<le> hi)"

lemma IsValid_heard:
  assumes "lo \<le> nd_GetHeartBeatTime n" "nd_GetHeartBeatTime n \<le> hi" "now < lo + NodeTimeOut"
    and "0 \<le> lo" "hi + NodeTimeOut \<le> max_int64"
  shows "Node_IsValid now n"
proof -
  have "in_int64 (nd_GetHeartBeatTime n + NodeTimeOut)"
    using assms by (simp add: in_int64_def max_int64_def NodeTimeOut_def)
  then show ?thesis using assms by (simp add: Node_IsValid_def i64_add_id)
qed

lemma center_step_heard:
  assumes "center_step now s s'" "heard_since lo hi c k p s" "lo \<le> now" "now \<le> hi"
    and "hi < lo + NodeTimeOut" "0 \<le> lo" "hi + NodeTimeOut \<le> max_int64"
  shows "heard_since lo hi c k p s'"
  using assms
proof (induction rule: center_step.induct)
  case (heartbeat now s q)
  then show ?case
    by (auto simp: heard_since_def center_lookup_heartbeat)
next
  case (tick now s)
  then show ?case
    by (auto simp: heard_since_def center_lookup_filter intro!: IsValid_heard [of lo _ hi])
qed

lemma center_run_heard:
  assumes "center_run lo hi s s'" "heard_since lo hi c k p s"
    and "hi < lo + NodeTimeOut" "0 \<le> lo" "hi + NodeTimeOut \<le> max_int64"
  shows "heard_since lo hi c k p s'"
  using assms
  by (induction rule: center_run.induct) (auto intro: center_step_heard)

text \<open>The node the table names after a heartbeat of \<open>p\<close>: one that was there before stays.\<close>

definition listed_node :: "center_clusters \<Rightarrow> pnode \<Rightarrow> pnode" where
  "listed_node s p = (case center_lookup s (pn_ClusterName p) (pn_Name p) of Some n \<Rightarrow> nd_Node n | None \<Rightarrow> p)"

lemma Center_HeartBeat_heard:
  "Node_IsComplete (fresh_node now p) \<Longrightarrow> lo \<le> now \<Longrightarrow> now \<le> hi \<Longrightarrow>
   heard_since lo hi (pn_ClusterName p) (pn_Name p) (listed_node s p) (fst (Center_HeartBeat now p s))"
  by (auto simp: heard_since_def listed_node_def center_lookup_heartbeat split: option.splits)

lemma Center_HeartBeat_response:
  assumes "Node_IsComplete (fresh_node now q)" "ccm_clusters s (pn_ClusterName q) \<noteq> None"
  shows "hb_NodesMap (snd (Center_HeartBeat now q s)) k =
    (case center_lookup (fst (Center_HeartBeat now q s)) (pn_ClusterName q) k of
       None \<Rightarrow> None | Some n \<Rightarrow> if Node_IsValid now n then Some (nd_Node n) else None)"
  using assms
  by (auto simp: Center_HeartBeat_def fresh_node_def center_lookup_def Let_def
      CenterClusterManager_GetCluster_def Cluster_GetProtoNodesWithFilter_def Cluster_Get_def
      NodeManager_defs map_filter_vals_def split: option.splits)

subsection \<open>Properties\<close>

text \<open>
  C38: the tables of the centre node stay well formed. In every state the server can reach from
  start-up, by any sequence of heartbeats and filter ticks, each node stands under its own name
  in the cluster it announced, and only complete nodes (a host, a port above 1000, a cluster and
  a name) are stored.
\<close>

theorem center_tables_wellformed:
  assumes "center_run lo hi NewCenterClusterManager s"
    and "center_lookup s c k = Some n"
  shows "nd_Name n = k \<and> pn_ClusterName (nd_Node n) = c \<and> Node_IsComplete n"
  using center_run_inv [OF assms(1) center_inv_empty] assms(2) by (auto simp: center_inv_def)

definition demo_a :: pnode where
  "demo_a = \<lparr>pn_Host = ''h1'', pn_Port = 2000, pn_ClusterName = ''c'', pn_Name = ''a''\<rparr>"

definition demo_b :: pnode where
  "demo_b = \<lparr>pn_Host = ''h2'', pn_Port = 2000, pn_ClusterName = ''c'', pn_Name = ''b''\<rparr>"

lemma demo_complete: "Node_IsComplete (fresh_node t demo_a)" "Node_IsComplete (fresh_node t demo_b)"
  by (simp_all add: Node_IsComplete_def demo_a_def demo_b_def)

lemma demo_names: "pn_Name demo_a = ''a''" "pn_ClusterName demo_a = ''c''"
    "pn_Name demo_b = ''b''" "pn_ClusterName demo_b = ''c''"
  by (simp_all add: demo_a_def demo_b_def)

lemma center_run_single: "lo \<le> now \<Longrightarrow> now \<le> hi \<Longrightarrow> center_step now s s' \<Longrightarrow> center_run lo hi s s'"
  by (rule center_run.step [OF center_run.start])

theorem center_tables_wellformed_witness:
  "nd_Name (fresh_node 5 demo_a) = ''a'' \<and> pn_ClusterName (nd_Node (fresh_node 5 demo_a)) = ''c''
   \<and> Node_IsComplete (fresh_node 5 demo_a)"
proof -
  have "center_run 0 9 NewCenterClusterManager (fst (Center_HeartBeat 5 demo_a NewCenterClusterManager))"
    by (rule center_run_single [OF _ _ center_step.heartbeat]) simp_all
  moreover have "center_lookup (fst (Center_HeartBeat 5 demo_a NewCenterClusterManager)) ''c'' ''a''
      = Some (fresh_node 5 demo_a)"
    using demo_complete(1) [of 5] by (simp add: center_lookup_heartbeat demo_names)
  ultimately show ?thesis using center_tables_wellformed by blast
qed

text \<open>
  C37: node discovery through the centre node. Once a complete node \<open>p\<close> has sent a heartbeat at
  time \<open>t\<close>, any member \<open>q\<close> of the same cluster that sends a heartbeat less than sixty seconds
  later is told of it under its name, with its host and port, whatever heartbeats of any nodes and
  filter ticks lie between. Where the table already held a node of that name and cluster when \<open>p\<close>
  came, it is that node, with the host and port it had, that stays listed.
\<close>

theorem center_discovery:
  assumes "Node_IsComplete (fresh_node t p)" and "Node_IsComplete (fresh_node t' q)"
    and "pn_ClusterName q = pn_ClusterName p"
    and "center_run t t' (fst (Center_HeartBeat t p s)) s'"
    and "t \<le> t'" "t' < t + NodeTimeOut" "0 \<le> t" "t' + NodeTimeOut \<le> max_int64"
  shows "hb_NodesMap (snd (Center_HeartBeat t' q s')) (pn_Name p) =
    Some (case center_lookup s (pn_ClusterName p) (pn_Name p) of None \<Rightarrow> p | Some n \<Rightarrow> nd_Node n)"
proof -
  have heard: "heard_since t t' (pn_ClusterName p) (pn_Name p) (listed_node s p) s'"
    using assms by (intro center_run_heard [OF assms(4)] Center_HeartBeat_heard) auto
  then have "ccm_clusters s' (pn_ClusterName q) \<noteq> None"
    using assms(3) by (auto simp: heard_since_def center_lookup_def split: option.splits)
  moreover have "heard_since t t' (pn_ClusterName p) (pn_Name p) (listed_node s p) (fst (Center_HeartBeat t' q s'))"
    using heard assms by (intro center_step_heard [OF center_step.heartbeat]) auto
  ultimately have "hb_NodesMap (snd (Center_HeartBeat t' q s')) (pn_Name p) = Some (listed_node s p)"
    using assms IsValid_heard [of t _ t' t'] by (auto simp: heard_since_def Center_HeartBeat_response)
  then show ?thesis by (simp add: listed_node_def split: option.splits)
qed

text \<open>
  The node \<open>a\<close> is unknown before and is told as it is; it comes back at another host while the
  first entry is still there, and the members are told the first host.
\<close>

definition demo_a_moved :: pnode where
  "demo_a_moved = demo_a\<lparr>pn_Host := ''h3''\<rparr>"

theorem center_discovery_witness:
  "hb_NodesMap (snd (Center_HeartBeat 50 demo_b (CenterClusterManager_Filter 30
     (fst (Center_HeartBeat 10 demo_a NewCenterClusterManager))))) ''a'' = Some demo_a \<and>
   hb_NodesMap (snd (Center_HeartBeat 50 demo_b (fst (Center_HeartBeat 20 demo_a_moved
     (fst (Center_HeartBeat 10 demo_a NewCenterClusterManager)))))) ''a'' = Some demo_a"
proof (rule conjI)
  let ?s = "fst (Center_HeartBeat 10 demo_a NewCenterClusterManager)"
  have "center_run 10 50 ?s (CenterClusterManager_Filter 30 ?s)"
    by (rule center_run_single [OF _ _ center_step.tick]) simp_all
  from center_discovery [OF demo_complete(1) demo_complete(2) _ this]
  show "hb_NodesMap (snd (Center_HeartBeat 50 demo_b (CenterClusterManager_Filter 30 ?s))) ''a'' = Some demo_a"
    by (simp add: NodeTimeOut_def max_int64_def demo_names)
  have moved: "Node_IsComplete (fresh_node 20 demo_a_moved)" "pn_Name demo_a_moved = ''a''" "pn_ClusterName demo_a_moved = ''c''"
    by (simp_all add: Node_IsComplete_def demo_a_moved_def demo_a_def)
  have "center_run 20 50 (fst (Center_HeartBeat 20 demo_a_moved ?s)) (fst (Center_HeartBeat 20 demo_a_moved ?s))"
    by (rule center_run.start)
  from center_discovery [OF moved(1) demo_complete(2) _ this]
  show "hb_NodesMap (snd (Center_HeartBeat 50 demo_b (fst (Center_HeartBeat 20 demo_a_moved ?s)))) ''a'' = Some demo_a"
    using demo_complete(1) [of 10]
    by (simp add: NodeTimeOut_def max_int64_def demo_names moved center_lookup_heartbeat)
qed

end
