(* ===== verification/Membership.thy ===== *)
theory Membership
  imports Center
begin

text \<open>
  How end nodes admit each other (\<open>server/rpc/end_node_server.go\<close>): the interceptor with its
  authentication and gateway mode, the handlers \<open>RegisterNode\<close> and \<open>HeartBeat\<close>, and the client
  side of both with the periodic clean-up. The answers of remote nodes are arguments of the
  client steps, the generated token (google/uuid) is an argument of \<open>RegisterNode\<close>, and log
  output is left out.
\<close>

subsection \<open>State\<close>

text \<open>
  \<open>en_shared_rsp\<close> is the part of the responses in \<open>methodRspMap\<close> that changes: these objects are
  allocated once and shared by all calls.
\<close>

record end_node =
  en_Name :: string
  en_local :: local_node
  en_cluster :: cluster
  en_shared_rsp :: "string \<rightharpoonup> int \<times> string"

record node_auth =
  na_Token :: string
  na_Node :: pnode

subsection \<open>The interceptor\<close>

text \<open>A method of the service by its short name, with the message type its entry holds.\<close>

definition methodRspMap :: "(string \<times> string) list" where
  "methodRspMap =
    [(''GetUsers'', ''GetUsersRsp''), (''AddUsers'', ''UserOpRsp''), (''DeleteUsers'', ''UserOpRsp''),
     (''ClearUsers'', ''ClearUsersRsp''), (''UpdateUsers'', ''UserOpRsp''), (''ResetUser'', ''UserOpRsp''),
     (''GetSub'', ''GetSubRsp''), (''GetBandWidthStats'', ''GetBandwidthStatsRsp''),
     (''HeartBeat'', ''HeartBeatRsp''), (''RegisterNode'', ''RegisterNodeRsp''),
     (''AddInbound'', ''InboundOpRsp''), (''DeleteInbound'', ''InboundOpRsp''),
     (''TransferInbound'', ''InboundOpRsp''), (''CopyInbound'', ''InboundOpRsp''),
     (''CopyUser'', ''InboundOpRsp''), (''GetInbound'', ''GetInboundRsp''), (''GetTag'', ''GetTagRsp''),
     (''UpdateProxy'', ''UpdateProxyRsp''), (''AddAdaptiveConfig'', ''AdaptiveRsp''),
     (''DeleteAdaptiveConfig'', ''AdaptiveRsp''), (''Adaptive'', ''AdaptiveRsp''),
     (''FastAddInbound'', ''FastAddInboundReq''), (''SetGatewayModel'', ''SetGatewayModelRsp''),
     (''ObtainNewCert'', ''ObtainNewCertRsp''), (''TransferCert'', ''TransferCertRsp''),
     (''GetCerts'', ''GetCertsRsp''), (''GetPingMetric'', ''GetPingMetricRsp'')]"

text \<open>Message types (server/rpc/proto) without a field \<open>Code\<close> or \<open>Msg\<close> that the reflection sets.\<close>

definition lacks_code_or_msg :: "string \<Rightarrow> bool" where
  "lacks_code_or_msg ty \<longleftrightarrow> ty = ''FastAddInboundReq'' \<or> ty = ''GetCertsRsp''"

definition onlyGatewayMethods :: string where
  "onlyGatewayMethods = ''HeartBeat|RegisterNode|SetGatewayModel|GetPingMetric|GetBandWidthStats''"

definition isOnlyGatewayMethod :: "string \<Rightarrow> bool" where
  "isOnlyGatewayMethod mth = str_contains onlyGatewayMethods mth"

definition newEmptyRsp :: "string \<Rightarrow> end_node \<Rightarrow> int \<times> string" where
  "newEmptyRsp mth s = (case en_shared_rsp s mth of None \<Rightarrow> (0, '''') | Some r \<Rightarrow> r)"

text \<open>
  \<open>True\<close> lets the request through. A refusal writes the code 400 and the message into the shared
  response of the method, which panics when the type has no such field or there is no entry.
\<close>

definition authRemoteNode :: "int \<Rightarrow> string \<Rightarrow> node_auth \<Rightarrow> end_node \<Rightarrow> (end_node, bool) outcome" where
  "authRemoteNode now mth auth s =
     (if mth = ''RegisterNode'' then Done s True
      else
        (let nod = \<lparr>nd_Node = na_Node auth, nd_InToken = na_Token auth, nd_OutToken = '''',
               nd_GetHeartBeatTime = 0, nd_ReportHeartBeatTime = 0, nd_CreateTime = 0, nd_isLocal = False\<rparr>
         in case Cluster_AuthRemoteNode now nod (en_cluster s) of
              (c, Inr n) \<Rightarrow> Done (s\<lparr>en_cluster := c\<rparr>) True
            | (c, Inl e) \<Rightarrow>
                if ln_Token (en_local s) \<noteq> nd_InToken nod then
                  (case map_of methodRspMap mth of
                     None \<Rightarrow> Panicked s
                   | Some ty \<Rightarrow> if lacks_code_or_msg ty then Panicked s
                       else Done (s\<lparr>en_shared_rsp := (en_shared_rsp s)(mth \<mapsto> (400, ''auth err > '' @ e))\<rparr>) False)
                else Done s True))"

datatype 'r reply = Handled 'r | Canned int string

definition UnaryServerInterceptor ::
    "bool \<Rightarrow> int \<Rightarrow> string \<Rightarrow> node_auth \<Rightarrow> (end_node \<Rightarrow> (end_node, 'r) outcome) \<Rightarrow> end_node
     \<Rightarrow> (end_node, 'r reply) outcome" where
  "UnaryServerInterceptor onlyGateway now mth auth handler s =
     (if onlyGateway \<and> \<not> isOnlyGatewayMethod mth
      then (case newEmptyRsp mth s of (code, msg) \<Rightarrow> Done s (Canned code msg))
      else bind_o (authRemoteNode now mth auth s) (\<lambda>s' ok.
        if \<not> ok then (case newEmptyRsp mth s' of (code, msg) \<Rightarrow> Done s' (Canned code msg))
        else bind_o (handler s') (\<lambda>s'' r. Done s'' (Handled r))))"

subsection \<open>RegisterNode and HeartBeat\<close>

record register_rsp =
  rg_Code :: int
  rg_Msg :: string
  rg_Data :: string

definition reg_error :: "int \<Rightarrow> string \<Rightarrow> register_rsp" where
  "reg_error code msg = \<lparr>rg_Code = code, rg_Msg = msg, rg_Data = ''''\<rparr>"

definition EndNode_RegisterNode :: "int \<Rightarrow> string \<Rightarrow> node_auth \<Rightarrow> end_node \<Rightarrow> end_node \<times> register_rsp" where
  "EndNode_RegisterNode now uuid req s =
     (let clusterToken = na_Token req; p = na_Node req in
      if pn_Host p = '''' \<or> pn_Port p \<le> 0 then (s, reg_error 100 ''empty host or invalid port'')
      else if pn_Name p = en_Name s then (s, reg_error 103 ''remote node has same name with local node'')
      else case Cluster_IsSameCluster (pn_ClusterName p) clusterToken (en_cluster s) of
        Some e \<Rightarrow>
          (s\<lparr>en_cluster := Cluster_AddToWrongNodeList
               \<lparr>nd_Node = p, nd_InToken = '''', nd_OutToken = '''', nd_GetHeartBeatTime = 0,
                nd_ReportHeartBeatTime = 0, nd_CreateTime = now, nd_isLocal = False\<rparr> (en_cluster s)\<rparr>,
           reg_error 101 e)
      | None \<Rightarrow>
          (let nodeName = pn_Name p;
               c = Cluster_DeleteFromWrongTokenNodeList nodeName (en_cluster s)
           in case Cluster_Get c nodeName of
                Some n \<Rightarrow>
                  if \<not> Node_CompareWithProtoNode n p then
                    (s\<lparr>en_cluster := c\<rparr>, reg_error 105 ''repeated register, bug with different node'')
                  else if Node_RegisteredLocal now n then
                    (s\<lparr>en_cluster := put_known nodeName (n\<lparr>nd_GetHeartBeatTime := now\<rparr>) c\<rparr>,
                     \<lparr>rg_Code = 102, rg_Msg = ''repeated register'', rg_Data = nd_InToken n\<rparr>)
                  else
                    (s\<lparr>en_cluster := put_known nodeName
                         (n\<lparr>nd_InToken := uuid, nd_GetHeartBeatTime := now\<rparr>) c\<rparr>,
                     \<lparr>rg_Code = 0, rg_Msg = '''', rg_Data = uuid\<rparr>)
              | None \<Rightarrow>
                  (s\<lparr>en_cluster := Cluster_Add
                       \<lparr>nd_Node = p, nd_InToken = uuid, nd_OutToken = '''', nd_GetHeartBeatTime = now,
                        nd_ReportHeartBeatTime = 0, nd_CreateTime = now, nd_isLocal = False\<rparr> c\<rparr>,
                   \<lparr>rg_Code = 0, rg_Msg = '''', rg_Data = uuid\<rparr>)))"

definition EndNode_HeartBeat :: "int \<Rightarrow> node_auth \<Rightarrow> end_node \<Rightarrow> end_node \<times> heartbeat_rsp" where
  "EndNode_HeartBeat now req s =
     (case Cluster_Get (en_cluster s) (pn_Name (na_Node req)) of
        None \<Rightarrow> (s, empty_hb_rsp\<lparr>hb_Code := 104, hb_Msg := ''node has been drop''\<rparr>)
      | Some n \<Rightarrow> (s, empty_hb_rsp\<lparr>hb_NodesMap :=
          Cluster_GetProtoNodesWithFilter (\<lambda>n. nd_Name n \<noteq> en_Name s \<and> Node_IsValid now n) (en_cluster s)\<rparr>))"

subsection \<open>The client side\<close>

text \<open>
  What a remote call returned: the transport error, if any, and the response (the zero response
  when there was an error, as the generated client returns a nil message).
\<close>

record 'r rpc_result =
  rr_err :: "gerror option"
  rr_rsp :: 'r

definition registerToEndNode ::
    "int \<Rightarrow> gerror option \<Rightarrow> register_rsp rpc_result \<Rightarrow> string \<Rightarrow> end_node \<Rightarrow> end_node" where
  "registerToEndNode now dialErr res key s =
     (case (Cluster_Get (en_cluster s) key, dialErr) of
        (Some n, None) \<Rightarrow>
          (let rsp = rr_rsp res;
               errMsg = (case rr_err res of
                   Some e \<Rightarrow> ''register to end node failed > '' @ e
                 | None \<Rightarrow> if rg_Code rsp \<noteq> 0 then rg_Msg rsp else '''');
               moved = (errMsg \<noteq> '''' \<and> \<not> Node_IsLocal n \<and> (rg_Code rsp > 0 \<and> rg_Code rsp \<noteq> 102)
                        \<and> rr_err res = None);
               n' = (if rg_Data rsp \<noteq> '''' then n\<lparr>nd_OutToken := rg_Data rsp, nd_ReportHeartBeatTime := now\<rparr>
                     else n)
           in if moved then s\<lparr>en_cluster := Cluster_AddToWrongNodeList n' (Cluster_Delete (nd_Name n) (en_cluster s))\<rparr>
              else s\<lparr>en_cluster := put_known key n' (en_cluster s)\<rparr>)
      | _ \<Rightarrow> s)"

text \<open>The loop over the map of the response, in the order \<open>nodesMap\<close> lists it.\<close>

fun addRemoteNode :: "int \<Rightarrow> (string \<times> pnode) list \<Rightarrow> end_node \<Rightarrow> end_node" where
  "addRemoteNode now [] s = s"
| "addRemoteNode now ((key, remoteNode) # rest) s =
     addRemoteNode now rest
       (if Cluster_Get (en_cluster s) key = None \<and> pn_Name remoteNode \<noteq> pn_Name (ln_Node (en_local s))
        then if Cluster_GetNodeFromWrongNodeList (en_cluster s) (pn_Name remoteNode) \<noteq> None then s
          else s\<lparr>en_cluster := Cluster_Add
            \<lparr>nd_Node = remoteNode, nd_InToken = '''', nd_OutToken = '''', nd_GetHeartBeatTime = 0,
             nd_ReportHeartBeatTime = 0, nd_CreateTime = now, nd_isLocal = False\<rparr> (en_cluster s)\<rparr>
        else s)"

definition heartbeatToEndNode ::
    "int \<Rightarrow> gerror option \<Rightarrow> heartbeat_rsp rpc_result \<Rightarrow> (string \<times> pnode) list \<Rightarrow> string \<Rightarrow> end_node \<Rightarrow> end_node" where
  "heartbeatToEndNode now dialErr res nodesMap key s =
     (case (Cluster_Get (en_cluster s) key, dialErr) of
        (Some n, None) \<Rightarrow>
          if rr_err res \<noteq> None \<or> hb_Code (rr_rsp res) \<noteq> 0 then
            (let n1 = (if hb_Code (rr_rsp res) \<noteq> 0 then n\<lparr>nd_ReportHeartBeatTime := now\<rparr> else n)
             in s\<lparr>en_cluster := put_known key (n1\<lparr>nd_OutToken := ''''\<rparr>) (en_cluster s)\<rparr>)
          else addRemoteNode now nodesMap
            (s\<lparr>en_cluster := put_known key (n\<lparr>nd_ReportHeartBeatTime := now\<rparr>) (en_cluster s)\<rparr>)
      | _ \<Rightarrow> s)"

text \<open>
  One round over the known nodes, in the order \<open>ord\<close>: which nodes get a goroutine that registers
  or reports, and the state with the heartbeat times of the static nodes renewed. Each decision
  reads the node itself only. The loop leaves at the first invalid node (\<open>return\<close>).
\<close>

datatype contact = Register string | Report string

definition renew_static :: "int \<Rightarrow> node \<Rightarrow> node" where
  "renew_static now n = (if Node_IsLocal n then n\<lparr>nd_ReportHeartBeatTime := now\<rparr> else n)"

fun registerOrHeartBeatToEndNode ::
    "int \<Rightarrow> string list \<Rightarrow> end_node \<Rightarrow> contact list \<Rightarrow> end_node \<times> contact list" where
  "registerOrHeartBeatToEndNode now [] s acc = (s, acc)"
| "registerOrHeartBeatToEndNode now (k # ks) s acc =
     (case Cluster_Get (en_cluster s) k of
        None \<Rightarrow> registerOrHeartBeatToEndNode now ks s acc
      | Some n \<Rightarrow>
          if nd_Name n = en_Name s then registerOrHeartBeatToEndNode now ks s acc
          else
            (let n' = renew_static now n;
                 s' = s\<lparr>en_cluster := put_known k n' (en_cluster s)\<rparr>
             in if \<not> Node_IsValid now n' then (s', acc)
                else if \<not> Node_RegisteredRemote now n'
                  then registerOrHeartBeatToEndNode now ks s' (acc @ [Register k])
                  else registerOrHeartBeatToEndNode now ks s' (acc @ [Report k])))"

definition heartbeatToCenterNode ::
    "int \<Rightarrow> string \<Rightarrow> int \<Rightarrow> gerror option \<Rightarrow> heartbeat_rsp rpc_result \<Rightarrow> (string \<times> pnode) list
     \<Rightarrow> end_node \<Rightarrow> end_node" where
  "heartbeatToCenterNode now centerHost centerPort dialErr res nodesMap s =
     (if centerHost = '''' \<or> centerPort \<le> 1000 then s
      else if dialErr \<noteq> None then s
      else if rr_err res \<noteq> None then s
      else addRemoteNode now nodesMap s)"

text \<open>The node part of one tick of \<open>EndNodeServer.filter\<close>.\<close>

definition EndNode_filter_nodes :: "int \<Rightarrow> end_node \<Rightarrow> end_node" where
  "EndNode_filter_nodes now s =
     s\<lparr>en_cluster := Cluster_Filter now (\<lambda>n. Node_IsValid now n \<or> Node_IsLocal n) (en_cluster s)\<rparr>"

subsection \<open>Steps and invariant\<close>

text \<open>
  Everything that changes the membership state, at a time \<open>now\<close>: requests of other nodes, the
  answers to the node's own calls (never for the local entry, which the round skips) and the
  clean-up. With \<open>honest\<close> set, the maps of nodes that answers carry hold each node under its name,
  as the maps that \<open>HeartBeat\<close> handlers build do.
\<close>

definition honest_map :: "(string \<times> pnode) list \<Rightarrow> bool" where
  "honest_map nodesMap \<longleftrightarrow> (\<forall>(key, p) \<in> set nodesMap. pn_Name p = key)"

inductive member_step :: "bool \<Rightarrow> int \<Rightarrow> end_node \<Rightarrow> end_node \<Rightarrow> bool" for honest where
  registered: "member_step honest now s (fst (EndNode_RegisterNode now uuid req s))"
| authenticated: "authRemoteNode now mth auth s = Done s' ok \<Longrightarrow> member_step honest now s s'"
| register_answer: "key \<noteq> en_Name s \<Longrightarrow> member_step honest now s (registerToEndNode now d res key s)"
| report_answer: "key \<noteq> en_Name s \<Longrightarrow> (honest \<longrightarrow> honest_map nodesMap)
    \<Longrightarrow> member_step honest now s (heartbeatToEndNode now d hres nodesMap key s)"
| center_answer: "(honest \<longrightarrow> honest_map nodesMap)
    \<Longrightarrow> member_step honest now s (heartbeatToCenterNode now host port d hres nodesMap s)"
| round: "member_step honest now s (fst (registerOrHeartBeatToEndNode now ord s []))"
| cleanup: "member_step honest now s (EndNode_filter_nodes now s)"

inductive member_run :: "end_node \<Rightarrow> end_node \<Rightarrow> bool" where
  start: "member_run s s"
| step: "member_run s s' \<Longrightarrow> member_step False now s' s'' \<Longrightarrow> now < max_int64 \<Longrightarrow> member_run s s''"

text \<open>Nodes stand under their names; the local entry is there, unchanged and never times out.\<close>

definition named_table :: "(string \<rightharpoonup> node) \<Rightarrow> bool" where
  "named_table m \<longleftrightarrow> (\<forall>k n. m k = Some n \<longrightarrow> nd_Name n = k)"

definition local_ok :: "end_node \<Rightarrow> bool" where
  "local_ok s \<longleftrightarrow> en_Name s = pn_Name (ln_Node (en_local s)) \<and>
     (\<exists>n. Cluster_Get (en_cluster s) (en_Name s) = Some n \<and> nd_Node n = ln_Node (en_local s) \<and>
        nd_ReportHeartBeatTime n = max_int64 - NodeTimeOut)"

definition member_inv :: "end_node \<Rightarrow> bool" where
  "member_inv s \<longleftrightarrow> named_table (Cluster_Get (en_cluster s)) \<and> local_ok s"

definition same_identity :: "end_node \<Rightarrow> end_node \<Rightarrow> bool" where
  "same_identity s s' \<longleftrightarrow> en_Name s' = en_Name s \<and> en_local s' = en_local s"

lemma named_table_upd: "named_table m \<Longrightarrow> nd_Name n = k \<Longrightarrow> named_table (m(k \<mapsto> n))"
  by (auto simp: named_table_def)

lemma named_tableD: "named_table m \<Longrightarrow> m k = Some n \<Longrightarrow> nd_Name n = k"
  by (auto simp: named_table_def)

lemma named_table_del: "named_table m \<Longrightarrow> named_table (m(k := None))"
  by (auto simp: named_table_def)

lemma named_table_filter: "named_table m \<Longrightarrow> named_table (map_filter_vals f m)"
  by (auto simp: named_table_def)

lemmas named_table_intros = named_table_upd named_table_del named_table_filter

lemma Get_AddToWrong [simp]: "Cluster_Get (Cluster_AddToWrongNodeList n c) = Cluster_Get c"
  by (simp add: Cluster_Get_nodes Cluster_AddToWrongNodeList_def)

lemma Get_DeleteFromWrong [simp]: "Cluster_Get (Cluster_DeleteFromWrongTokenNodeList k c) = Cluster_Get c"
  by (simp add: Cluster_Get_nodes Cluster_DeleteFromWrongTokenNodeList_def)

lemma Get_Add: "Cluster_Get (Cluster_Add n c) = (Cluster_Get c)(nd_Name n \<mapsto> n)"
  by (simp add: Cluster_Add_put known.lookup_put)

lemmas Get_simps = Get_Add known.lookup_put known.lookup_del

text \<open>
  A change of the table of known nodes is harmless when it stores nodes under their names, and
  leaves the local entry alone but for its first heartbeat time.
\<close>

lemma member_inv_put:
  assumes "member_inv s" "nd_Name n = k" "k \<noteq> en_Name s"
    and "Cluster_Get c = (Cluster_Get (en_cluster s))(k \<mapsto> n)"
  shows "member_inv (s\<lparr>en_cluster := c\<rparr>)"
  using assms by (auto simp: member_inv_def local_ok_def intro: named_table_upd)

lemma member_inv_same:
  assumes "member_inv s" "Cluster_Get c = Cluster_Get (en_cluster s)"
  shows "member_inv (s\<lparr>en_cluster := c\<rparr>)"
  using assms by (auto simp: member_inv_def local_ok_def)

lemma member_inv_delete:
  assumes "member_inv s" "k \<noteq> en_Name s"
    and "Cluster_Get c = (Cluster_Get (en_cluster s))(k := None)"
  shows "member_inv (s\<lparr>en_cluster := c\<rparr>)"
  using assms by (auto simp: member_inv_def local_ok_def intro: named_table_del)

lemma member_inv_filter:
  assumes "member_inv s" "now < max_int64"
  shows "member_inv (EndNode_filter_nodes now s)"
  using assms
  by (auto simp: member_inv_def local_ok_def EndNode_filter_nodes_def known.lookup_filt
      IsValid_if_reported_forever intro: named_table_filter)

lemma member_inv_register: "member_inv s \<Longrightarrow> member_inv (fst (EndNode_RegisterNode now uuid req s))"
proof -
  assume inv: "member_inv s"
  let ?p = "na_Node req" and ?c = "Cluster_DeleteFromWrongTokenNodeList (pn_Name (na_Node req)) (en_cluster s)"
  have put: "member_inv (s\<lparr>en_cluster := put_known (pn_Name ?p) n ?c\<rparr>)"
    if "nd_Name n = pn_Name ?p" "pn_Name ?p \<noteq> en_Name s" for n
    using inv that by (intro member_inv_put [of s n "pn_Name ?p"]) (simp_all add: Get_simps)
  have same: "member_inv (s\<lparr>en_cluster := ?c\<rparr>)" using inv by (rule member_inv_same) simp
  have name: "nd_Name n = pn_Name ?p" if "Cluster_Get (en_cluster s) (pn_Name ?p) = Some n" for n
    using inv that by (auto simp: member_inv_def dest: named_tableD)
  have wrong: "member_inv (s\<lparr>en_cluster := Cluster_AddToWrongNodeList n (en_cluster s)\<rparr>)" for n
    using inv by (rule member_inv_same) simp
  show ?thesis
    using inv put same name wrong
    by (simp add: EndNode_RegisterNode_def Let_def Cluster_Add_put split: option.split)
qed

lemma Node_Compare_request:
  "Node_Compare \<lparr>nd_Node = p, nd_InToken = a, nd_OutToken = b, nd_GetHeartBeatTime = t,
     nd_ReportHeartBeatTime = u, nd_CreateTime = v, nd_isLocal = l\<rparr> n \<longleftrightarrow> nd_Node n = p"
  by (cases p, cases "nd_Node n") (auto simp: Node_Compare_def)

lemma authRemoteNode_Done:
  assumes "authRemoteNode now mth auth s = Done s' ok"
  shows "Cluster_Get (en_cluster s') = Cluster_Get (en_cluster s) \<and> en_cluster s' = en_cluster s
         \<and> same_identity s s' \<or>
     (\<exists>n. Cluster_Get (en_cluster s) (pn_Name (na_Node auth)) = Some n \<and> nd_Node n = na_Node auth \<and>
        s' = s\<lparr>en_cluster := put_known (pn_Name (na_Node auth)) (n\<lparr>nd_GetHeartBeatTime := now\<rparr>)
              (en_cluster s)\<rparr>)"
  using assms
  by (auto simp: authRemoteNode_def Let_def Cluster_AuthRemoteNode_def Cluster_Get_def put_known_def
      Node_Compare_request same_identity_def split: if_splits option.splits)

lemma member_inv_auth:
  assumes "member_inv s" "authRemoteNode now mth auth s = Done s' ok"
  shows "member_inv s'"
  using authRemoteNode_Done [OF assms(2)] assms(1)
  by (auto simp: member_inv_def local_ok_def same_identity_def Get_simps intro!: named_table_upd)

lemma member_inv_registerToEndNode:
  assumes "member_inv s" "key \<noteq> en_Name s"
  shows "member_inv (registerToEndNode now d res key s)"
proof (cases "Cluster_Get (en_cluster s) key")
  case (Some n)
  with assms(1) have name: "nd_Name n = key" by (auto simp: member_inv_def dest: named_tableD)
  have put: "member_inv (s\<lparr>en_cluster := put_known key n' (en_cluster s)\<rparr>)" if "nd_Name n' = key" for n'
    using assms that by (intro member_inv_put [of s n' key]) (simp_all add: Get_simps)
  have moved: "member_inv (s\<lparr>en_cluster := Cluster_AddToWrongNodeList n' (Cluster_Delete key (en_cluster s))\<rparr>)" for n'
    using assms by (intro member_inv_delete [of s key]) (simp_all add: Get_simps)
  show ?thesis
    using assms(1) put moved name Some by (simp add: registerToEndNode_def Let_def split: option.split)
qed (use assms in \<open>simp add: registerToEndNode_def\<close>)

lemma same_identity_refl [simp]: "same_identity s s"
  by (simp add: same_identity_def)

lemma addRemoteNode_inv:
  "member_inv s \<Longrightarrow> member_inv (addRemoteNode now nodesMap s) \<and> same_identity s (addRemoteNode now nodesMap s)"
proof (induction now nodesMap s rule: addRemoteNode.induct)
  case (2 now key p rest s)
  have "member_inv (s\<lparr>en_cluster := Cluster_Add n (en_cluster s)\<rparr>)"
    if "pn_Name (nd_Node n) \<noteq> pn_Name (ln_Node (en_local s))" for n
    using 2(2) that by (intro member_inv_put [of s n "nd_Name n"])
      (auto simp: Get_simps member_inv_def local_ok_def)
  with 2 show ?case by (auto simp: same_identity_def)
qed simp

lemma member_inv_heartbeatToEndNode:
  assumes "member_inv s" "key \<noteq> en_Name s"
  shows "member_inv (heartbeatToEndNode now d hres nodesMap key s)"
proof (cases "Cluster_Get (en_cluster s) key")
  case (Some n)
  with assms(1) have name: "nd_Name n = key" by (auto simp: member_inv_def dest: named_tableD)
  have "member_inv (s\<lparr>en_cluster := put_known key n' (en_cluster s)\<rparr>)" if "nd_Name n' = key" for n'
    using assms that by (auto intro: member_inv_put simp: Get_simps)
  with Some name show ?thesis
    using assms(1) by (auto simp: heartbeatToEndNode_def Let_def addRemoteNode_inv split: option.splits)
qed (use assms in \<open>simp add: heartbeatToEndNode_def\<close>)

lemma member_inv_round:
  "member_inv s \<Longrightarrow> member_inv (fst (registerOrHeartBeatToEndNode now ord s acc))"
proof (induction now ord s acc rule: registerOrHeartBeatToEndNode.induct)
  case (2 now k ks s acc)
  show ?case
  proof (cases "Cluster_Get (en_cluster s) k")
    case (Some n)
    with 2(5) have name: "nd_Name n = k" by (auto simp: member_inv_def dest: named_tableD)
    have "member_inv (s\<lparr>en_cluster := put_known k n' (en_cluster s)\<rparr>)"
      if "nd_Name n' = k" "k \<noteq> en_Name s" for n'
      using 2(5) that by (auto intro: member_inv_put simp: Get_simps)
    then have put: "nd_Name n \<noteq> en_Name s \<Longrightarrow>
        member_inv (s\<lparr>en_cluster := put_known k (renew_static now n) (en_cluster s)\<rparr>)"
      using name by (simp add: renew_static_def)
    show ?thesis
    proof (cases "nd_Name n = en_Name s")
      case True
      then show ?thesis using 2(2) [OF Some] 2(5) Some by simp
    next
      case False
      then show ?thesis
        using put [OF False] 2(3) [OF Some False refl refl] 2(4) [OF Some False refl refl] Some
        by (simp add: Let_def)
    qed
  qed (use 2 in auto)
qed simp

lemma member_step_inv:
  "member_step h now s s' \<Longrightarrow> now < max_int64 \<Longrightarrow> member_inv s \<Longrightarrow> member_inv s'"
  by (induction rule: member_step.induct)
    (auto simp: heartbeatToCenterNode_def addRemoteNode_inv
      intro: member_inv_register member_inv_auth member_inv_registerToEndNode
        member_inv_heartbeatToEndNode member_inv_round member_inv_filter)

lemma member_run_inv: "member_run s s' \<Longrightarrow> member_inv s \<Longrightarrow> member_inv s'"
  by (induction rule: member_run.induct) (auto intro: member_step_inv)

end
