(* ===== verification/MembershipProps.thy ===== *)
theory MembershipProps
  imports Membership
begin

text \<open>
  What the membership protocol of the end nodes guarantees: who passes the interceptor, what a
  registration answers, that the local entry survives every step, how long a granted token is
  good for, and which nodes a round contacts.
\<close>

subsection \<open>The interceptor\<close>

definition gateway_methods :: "string list" where
  "gateway_methods =
     [''HeartBeat'', ''RegisterNode'', ''SetGatewayModel'', ''GetPingMetric'', ''GetBandWidthStats'']"

lemma isOnlyGatewayMethod_iff:
  "mth \<in> set (map fst methodRspMap) \<Longrightarrow> isOnlyGatewayMethod mth \<longleftrightarrow> mth \<in> set gateway_methods"
proof -
  have "list_all (\<lambda>m. isOnlyGatewayMethod m \<longleftrightarrow> m \<in> set gateway_methods) (map fst methodRspMap)"
    by code_simp
  then show "mth \<in> set (map fst methodRspMap) \<Longrightarrow> isOnlyGatewayMethod mth \<longleftrightarrow> mth \<in> set gateway_methods"
    unfolding list_all_iff by blast
qed

text \<open>
  Gateway mode. While only the gateway is on, every method of the service other than the five
  of the list is answered with the canned response, without authentication, without running the
  handler and without any change of state; the five methods behave as in normal mode.
\<close>

theorem gateway_mode_filters_methods:
  assumes "mth \<in> set (map fst methodRspMap)"
  shows "UnaryServerInterceptor True now mth auth handler s =
    (if mth \<in> set gateway_methods then UnaryServerInterceptor False now mth auth handler s
     else Done s (Canned (fst (newEmptyRsp mth s)) (snd (newEmptyRsp mth s))))"
  unfolding UnaryServerInterceptor_def isOnlyGatewayMethod_iff [OF assms]
  by (simp split: prod.split)

definition demo_auth :: node_auth where
  "demo_auth = \<lparr>na_Token = ''x'', na_Node = demo_a\<rparr>"

definition demo_cfg :: cluster_cfg where
  "demo_cfg = \<lparr>cfg_ProxyHost = ''h0'', cfg_ServerRpcPort = 2001, cfg_ClusterName = ''c'',
     cfg_ServerName = ''n'', cfg_ClusterToken = ''ct'',
     cfg_ClusterNodes = Inr [\<lparr>sn_Name = ''s'', sn_Host = ''h3'', sn_Port = 2003\<rparr>]\<rparr>"

definition demo_cluster :: cluster where
  "demo_cluster = \<lparr>cl_Name = '''', cl_Token = '''', cl_NodeManager = NewNodeManager,
     cl_WrongTokenNode = NewNodeManager\<rparr>"

text \<open>The state of the server when it starts.\<close>

definition boot :: "cluster_cfg \<Rightarrow> string \<Rightarrow> int \<Rightarrow> cluster \<Rightarrow> end_node" where
  "boot cfg uuid now c = \<lparr>en_Name = cfg_ServerName cfg, en_local = initLocalNode cfg uuid,
     en_cluster = fst (InitCluster cfg uuid now c), en_shared_rsp = Map.empty\<rparr>"

definition demo_node :: end_node where
  "demo_node = boot demo_cfg ''lt'' 5 demo_cluster"

definition demo_static :: node where
  "demo_static = \<lparr>nd_Node = \<lparr>pn_Host = ''h3'', pn_Port = 2003, pn_ClusterName = ''c'', pn_Name = ''s''\<rparr>,
     nd_InToken = '''', nd_OutToken = '''', nd_GetHeartBeatTime = 0, nd_ReportHeartBeatTime = 0,
     nd_CreateTime = 5, nd_isLocal = True\<rparr>"

lemma demo_node_simps:
  "en_Name demo_node = ''n''" "en_local demo_node = initLocalNode demo_cfg ''lt''"
  "ln_Token (initLocalNode demo_cfg ''lt'') = ''lt''" "en_shared_rsp demo_node = Map.empty"
  "cl_Name (en_cluster demo_node) = ''c''" "cl_Token (en_cluster demo_node) = ''ct''"
  "Cluster_Get (en_cluster demo_node) =
     [''n'' \<mapsto> local_entry (initLocalNode demo_cfg ''lt'') 5, ''s'' \<mapsto> demo_static]"
  by (simp_all add: demo_node_def boot_def demo_cfg_def demo_cluster_def demo_static_def Cluster_Get_nodes
      InitCluster_def initLocalNode_def Cluster_LoadStaticNode_def NodeManager_LoadStaticNode_def
      staticNode_IsValide_def Cluster_defs NodeManager_defs NodeManager_Get_nodes local_entry_def Let_def)

theorem gateway_mode_filters_methods_witness:
  "UnaryServerInterceptor True 5 ''ClearUsers'' demo_auth (\<lambda>s. Done s ()) demo_node =
     Done demo_node (Canned 0 '''')"
  by (subst gateway_mode_filters_methods)
    (simp_all add: methodRspMap_def gateway_methods_def newEmptyRsp_def demo_node_def boot_def)

text \<open>Who may call: everyone may register; otherwise the local token or a live token of a known node.\<close>

definition authorised :: "int \<Rightarrow> string \<Rightarrow> node_auth \<Rightarrow> end_node \<Rightarrow> bool" where
  "authorised now mth auth s \<longleftrightarrow> mth = ''RegisterNode'' \<or> na_Token auth = ln_Token (en_local s) \<or>
     (\<exists>n. Cluster_Get (en_cluster s) (pn_Name (na_Node auth)) = Some n \<and> nd_Node n = na_Node auth \<and>
        nd_InToken n = na_Token auth \<and>
        (nd_GetHeartBeatTime n = 0 \<or> now \<le> i64_add (nd_GetHeartBeatTime n) HeartBeatTimeout))"

lemma authRemoteNode_authorised:
  "authorised now mth auth s \<Longrightarrow> \<exists>s'. authRemoteNode now mth auth s = Done s' True \<and>
     en_local s' = en_local s \<and> en_shared_rsp s' = en_shared_rsp s"
  by (auto simp: authorised_def authRemoteNode_def Let_def Cluster_AuthRemoteNode_def Cluster_Get_def
      Node_Compare_request not_less split: option.split)

lemma authRemoteNode_refused:
  assumes "\<not> authorised now mth auth s"
  shows "authRemoteNode now mth auth s =
    (case map_of methodRspMap mth of
       None \<Rightarrow> Panicked s
     | Some ty \<Rightarrow> if lacks_code_or_msg ty then Panicked s
         else Done (s\<lparr>en_shared_rsp := (en_shared_rsp s)(mth \<mapsto>
           (400, ''auth err > '' @ projl (snd (Cluster_AuthRemoteNode now
             \<lparr>nd_Node = na_Node auth, nd_InToken = na_Token auth, nd_OutToken = '''',
              nd_GetHeartBeatTime = 0, nd_ReportHeartBeatTime = 0, nd_CreateTime = 0, nd_isLocal = False\<rparr>
             (en_cluster s)))))\<rparr>) False)"
  using assms
  by (auto simp: authorised_def authRemoteNode_def Let_def Cluster_AuthRemoteNode_def Cluster_Get_def
      Node_Compare_request not_less split: option.split)

lemma methodRspMap_lookup:
  "map_of methodRspMap mth = None \<and> mth \<notin> set (map fst methodRspMap) \<or>
   (\<exists>ty. map_of methodRspMap mth = Some ty \<and> mth \<in> set (map fst methodRspMap) \<and>
      (lacks_code_or_msg ty \<longleftrightarrow> mth \<in> {''FastAddInbound'', ''GetCerts''}))"
proof -
  have "list_all (\<lambda>(m, ty). map_of methodRspMap m = Some ty \<and>
      (lacks_code_or_msg ty \<longleftrightarrow> m = ''FastAddInbound'' \<or> m = ''GetCerts'')) methodRspMap"
    by code_simp
  then show ?thesis
    by (cases "map_of methodRspMap mth") (force simp: list_all_iff map_of_eq_None_iff dest: map_of_SomeD)+
qed

text \<open>
  C3: access control of the interceptor. In normal mode an authorised request reaches its handler,
  in the state with the sender's heartbeat time renewed and nothing else changed; an unauthorised
  request never does: it leaves all nodes and tokens as they were and gets the code 400, or
  panics when the method is one of the two whose entry in \<open>methodRspMap\<close> has no code or message
  (or is not in the table at all).
\<close>

theorem interceptor_access_control:
  "if authorised now mth auth s
   then \<exists>s1. UnaryServerInterceptor False now mth auth handler s = bind_o (handler s1) (\<lambda>s2 r. Done s2 (Handled r))
        \<and> en_local s1 = en_local s \<and> en_shared_rsp s1 = en_shared_rsp s
        \<and> (s1 = s \<or> (\<exists>n. Cluster_Get (en_cluster s) (pn_Name (na_Node auth)) = Some n \<and>
             s1 = s\<lparr>en_cluster := put_known (pn_Name (na_Node auth)) (n\<lparr>nd_GetHeartBeatTime := now\<rparr>)
                   (en_cluster s)\<rparr>))
   else en_cluster (out_state (UnaryServerInterceptor False now mth auth handler s)) = en_cluster s \<and>
     (if mth \<in> set (map fst methodRspMap) - {''FastAddInbound'', ''GetCerts''}
      then \<exists>s1 msg. UnaryServerInterceptor False now mth auth handler s = Done s1 (Canned 400 msg)
      else UnaryServerInterceptor False now mth auth handler s = Panicked s)"
proof (cases "authorised now mth auth s")
  case True
  then obtain s' where s': "authRemoteNode now mth auth s = Done s' True" "en_local s' = en_local s"
      "en_shared_rsp s' = en_shared_rsp s"
    using authRemoteNode_authorised by blast
  have "s' = s \<or> (\<exists>n. Cluster_Get (en_cluster s) (pn_Name (na_Node auth)) = Some n \<and>
             s' = s\<lparr>en_cluster := put_known (pn_Name (na_Node auth)) (n\<lparr>nd_GetHeartBeatTime := now\<rparr>)
                   (en_cluster s)\<rparr>)"
    using authRemoteNode_Done [OF s'(1)] s'(2,3) by (auto simp: same_identity_def)
  moreover have "UnaryServerInterceptor False now mth auth handler s = bind_o (handler s') (\<lambda>s2 r. Done s2 (Handled r))"
    by (simp add: UnaryServerInterceptor_def s'(1) outcome_simps)
  ultimately show ?thesis using True s'(2,3) by auto
next
  case False
  with methodRspMap_lookup [of mth] show ?thesis
    by (auto simp: UnaryServerInterceptor_def authRemoteNode_refused [OF False] newEmptyRsp_def outcome_simps)
qed

text \<open>
  A refused request leaks into later replies. The response objects of \<open>methodRspMap\<close> are shared,
  so after a refused call of a method, gateway mode answers every later call of that method, also
  an authorised one, with the code 400 of the refusal instead of an empty response.
\<close>

theorem refusal_pollutes_gateway_reply:
  assumes "\<not> authorised now mth auth s" and "mth \<notin> set gateway_methods"
    and "mth \<in> set (map fst methodRspMap) - {''FastAddInbound'', ''GetCerts''}"
  shows "\<exists>s1 msg. UnaryServerInterceptor False now mth auth handler s = Done s1 (Canned 400 msg) \<and>
    (\<forall>now' auth' (handler' :: end_node \<Rightarrow> (end_node, 'b) outcome).
       UnaryServerInterceptor True now' mth auth' handler' s1 = Done s1 (Canned 400 msg))"
proof -
  have "\<not> isOnlyGatewayMethod mth" using assms isOnlyGatewayMethod_iff by blast
  moreover obtain ty where "map_of methodRspMap mth = Some ty" "\<not> lacks_code_or_msg ty"
    using methodRspMap_lookup [of mth] assms(3) by auto
  ultimately show ?thesis
    by (auto simp: UnaryServerInterceptor_def authRemoteNode_refused [OF assms(1)] newEmptyRsp_def outcome_simps)
qed

theorem refusal_pollutes_gateway_reply_witness:
  "\<exists>s1 msg. UnaryServerInterceptor False 9 ''GetSub'' demo_auth (\<lambda>s. Done s ()) demo_node = Done s1 (Canned 400 msg) \<and>
    (\<forall>now' auth' (handler' :: end_node \<Rightarrow> (end_node, unit) outcome).
       UnaryServerInterceptor True now' ''GetSub'' auth' handler' s1 = Done s1 (Canned 400 msg))"
proof (rule refusal_pollutes_gateway_reply)
  show "\<not> authorised 9 ''GetSub'' demo_auth demo_node"
    by (simp add: authorised_def demo_auth_def demo_node_simps demo_names)
  show "''GetSub'' \<notin> set gateway_methods" by (simp add: gateway_methods_def)
  show "''GetSub'' \<in> set (map fst methodRspMap) - {''FastAddInbound'', ''GetCerts''}"
    by (simp add: methodRspMap_def)
qed

subsection \<open>Registration\<close>

text \<open>What the operations do to the list of rejected nodes.\<close>

lemma rejected_put_known: "Cluster_GetNodeFromWrongNodeList (put_known k n c) = Cluster_GetNodeFromWrongNodeList c"
  by (simp add: Cluster_GetNodeFromWrongNodeList_nodes put_known_def)

lemma rejected_Add: "Cluster_GetNodeFromWrongNodeList (Cluster_Add n c) = Cluster_GetNodeFromWrongNodeList c"
  by (simp add: Cluster_GetNodeFromWrongNodeList_nodes Cluster_Add_def)

lemma rejected_AddTo:
  "Cluster_GetNodeFromWrongNodeList (Cluster_AddToWrongNodeList n c) = (Cluster_GetNodeFromWrongNodeList c)(nd_Name n \<mapsto> n)"
  by (simp add: Cluster_AddToWrongNodeList_put wrong.lookup_put)

lemmas rejected_simps = rejected_put_known rejected_Add rejected_AddTo wrong.lookup_del

text \<open>
  C36: what \<open>RegisterNode\<close> answers. A request is accepted (code 0, or 102 for one that is still
  registered) exactly when it names a host and a port, is not the node itself, knows the cluster's
  name and token and does not clash with a known node of the same name; the token in the answer is
  then the one stored for the sender, whose entry is alive, no other known node changes, and the
  sender leaves the list of rejected nodes. No refusal carries a token or changes the table of known
  nodes: a request without an address (100) and one under the node's own name (103) change nothing
  at all, a wrong cluster or token (101) enters the sender in the list of rejected nodes, and a clash
  with a known node (105) takes its name off that list.
\<close>

theorem RegisterNode_answer:
  "case EndNode_RegisterNode now uuid req s of (s', rsp) \<Rightarrow>
     let p = na_Node req; k = pn_Name p;
         known = Cluster_Get (en_cluster s); known' = Cluster_Get (en_cluster s');
         rejected = Cluster_GetNodeFromWrongNodeList (en_cluster s);
         rejected' = Cluster_GetNodeFromWrongNodeList (en_cluster s')
     in if pn_Host p \<noteq> '''' \<and> pn_Port p > 0 \<and> k \<noteq> en_Name s \<and>
        pn_ClusterName p = cl_Name (en_cluster s) \<and> na_Token req = cl_Token (en_cluster s) \<and>
        (\<forall>n. known k = Some n \<longrightarrow> Node_CompareWithProtoNode n p)
     then rg_Code rsp = (case known k of Some n \<Rightarrow> if Node_RegisteredLocal now n then 102 else 0 | None \<Rightarrow> 0) \<and>
       rg_Data rsp = (case known k of Some n \<Rightarrow> if Node_RegisteredLocal now n then nd_InToken n else uuid | None \<Rightarrow> uuid) \<and>
       (\<exists>n. known' k = Some n \<and> nd_InToken n = rg_Data rsp \<and>
          nd_GetHeartBeatTime n = now \<and> Node_CompareWithProtoNode n p) \<and>
       (\<forall>k'. k' \<noteq> k \<longrightarrow> known' k' = known k') \<and> rejected' = rejected(k := None)
     else rg_Data rsp = '''' \<and> known' = known \<and>
       (if pn_Host p = '''' \<or> pn_Port p \<le> 0 then rg_Code rsp = 100 \<and> s' = s
        else if k = en_Name s then rg_Code rsp = 103 \<and> s' = s
        else if pn_ClusterName p \<noteq> cl_Name (en_cluster s) \<or> na_Token req \<noteq> cl_Token (en_cluster s)
        then rg_Code rsp = 101 \<and> (\<exists>n. rejected' = rejected(k \<mapsto> n) \<and> nd_Node n = p \<and> nd_CreateTime n = now)
        else rg_Code rsp = 105 \<and> rejected' = rejected(k := None))"
  apply (simp add: EndNode_RegisterNode_def Let_def reg_error_def Cluster_IsSameCluster_def Get_simps
      rejected_simps fun_eq_iff split: option.split)
  apply (auto simp: Node_CompareWithProtoNode_def fun_eq_iff)
  done


definition demo_reg :: node_auth where
  "demo_reg = \<lparr>na_Token = ''ct'', na_Node = demo_a\<rparr>"

theorem RegisterNode_answer_witness:
  "rg_Code (snd (EndNode_RegisterNode 9 ''u'' demo_reg demo_node)) \<in> {0, 102} \<and>
   rg_Data (snd (EndNode_RegisterNode 9 ''u'' demo_reg demo_node)) = ''u'' \<and>
   Cluster_Get (en_cluster (fst (EndNode_RegisterNode 9 ''u'' demo_reg demo_node))) ''s'' = Some demo_static"
proof -
  have "rg_Data (snd (EndNode_RegisterNode 9 ''u'' demo_reg demo_node)) = ''u''"
    by (simp add: EndNode_RegisterNode_def demo_node_simps Get_simps demo_reg_def demo_a_def
        Cluster_IsSameCluster_def Let_def)
  then show ?thesis
    using RegisterNode_answer [where now = 9 and uuid = "''u''" and req = demo_reg and s = demo_node]
    by (simp add: split_beta Let_def demo_node_simps demo_reg_def demo_a_def)
qed

subsection \<open>The local entry\<close>

lemma LoadStaticNode_named:
  "named_table (nm_nodes nm) \<Longrightarrow> named_table (nm_nodes (fst (NodeManager_LoadStaticNode cfg ln now nm)))"
proof (cases cfg)
  case (Inr nodeList)
  assume "named_table (nm_nodes nm)"
  then show ?thesis
    unfolding Inr NodeManager_LoadStaticNode_def sum.case Let_def fst_conv
    by (induction nodeList arbitrary: nm) (simp_all add: NodeManager_Add_def named_table_upd)
qed (simp add: NodeManager_LoadStaticNode_def)

lemma boot_named: "named_table (Cluster_Get (en_cluster (boot cfg uuid now c)))"
proof -
  have "named_table (nm_nodes (cl_NodeManager (Cluster_Add (local_entry (initLocalNode cfg uuid) now)
      ((Cluster_Init c)\<lparr>cl_Name := cfg_ClusterName cfg, cl_Token := cfg_ClusterToken cfg\<rparr>))))"
    by (simp add: Cluster_defs NodeManager_defs named_table_def local_entry_def)
  from LoadStaticNode_named [OF this, of "cfg_ClusterNodes cfg" "initLocalNode cfg uuid" now]
  show ?thesis
    by (simp add: boot_def InitCluster_def Let_def Cluster_LoadStaticNode_def Cluster_Get_nodes
        NodeManager_Get_nodes split_beta)
qed

lemma member_inv_boot: "member_inv (boot cfg uuid now c)"
proof -
  obtain c' e where "InitCluster cfg uuid now c = (c', e)" by fastforce
  from InitCluster_has_local [OF this] this have "local_ok (boot cfg uuid now c)"
    by (simp add: local_ok_def boot_def) (simp add: initLocalNode_def local_entry_def)
  with boot_named show ?thesis by (simp add: member_inv_def)
qed

text \<open>
  C1: the local node is never dropped. From start-up on, whatever requests, answers (also from
  nodes that lie about names), rounds and clean-ups happen, the server's own entry stays in the
  table of known nodes, with the data it announces, and counts as valid at every time; and every
  known node stands under its own name.
\<close>

theorem local_node_never_dropped:
  assumes "member_run (boot cfg uuid t0 c) s" and "now < max_int64"
  shows "\<exists>n. Cluster_Get (en_cluster s) (en_Name s) = Some n \<and> nd_Node n = ln_Node (en_local s) \<and>
     Node_IsValid now n \<and> (\<forall>k m. Cluster_Get (en_cluster s) k = Some m \<longrightarrow> nd_Name m = k)"
proof -
  have "member_inv s" using member_run_inv [OF assms(1) member_inv_boot] .
  then obtain n where "Cluster_Get (en_cluster s) (en_Name s) = Some n" "nd_Node n = ln_Node (en_local s)"
      "nd_ReportHeartBeatTime n = max_int64 - NodeTimeOut" "named_table (Cluster_Get (en_cluster s))"
    by (auto simp: member_inv_def local_ok_def)
  then show ?thesis
    using IsValid_if_reported_forever assms(2) by (auto simp: named_table_def)
qed

theorem local_node_never_dropped_witness:
  "\<exists>n. Cluster_Get (en_cluster (EndNode_filter_nodes 999999 demo_node)) (en_Name (EndNode_filter_nodes 999999 demo_node)) = Some n
     \<and> Node_IsValid 1999999 n"
proof -
  have "member_run demo_node (EndNode_filter_nodes 999999 demo_node)"
    by (rule member_run.step [OF member_run.start member_step.cleanup]) (simp add: max_int64_def)
  then have "member_run (boot demo_cfg ''lt'' 5 demo_cluster) (EndNode_filter_nodes 999999 demo_node)"
    by (simp add: demo_node_def)
  from local_node_never_dropped [OF this, of 1999999] show ?thesis
    by (auto simp: max_int64_def)
qed

subsection \<open>Rounds\<close>

definition valid_at :: "int \<Rightarrow> end_node \<Rightarrow> string \<Rightarrow> bool" where
  "valid_at now s k \<longleftrightarrow> (\<exists>n. Cluster_Get (en_cluster s) k = Some n \<and> Node_IsValid now (renew_static now n))"

definition contact_for :: "int \<Rightarrow> end_node \<Rightarrow> string \<Rightarrow> contact" where
  "contact_for now s k =
     (case Cluster_Get (en_cluster s) k of
        Some n \<Rightarrow> if Node_RegisteredRemote now (renew_static now n) then Report k else Register k
      | None \<Rightarrow> Register k)"

lemma round_contacts_gen:
  assumes "named_table (Cluster_Get (en_cluster s))" "distinct ks"
    and "set ks \<subseteq> dom (Cluster_Get (en_cluster s))" "en_Name s' = en_Name s"
    and "\<forall>k \<in> set ks. Cluster_Get (en_cluster s') k = Cluster_Get (en_cluster s) k"
  shows "snd (registerOrHeartBeatToEndNode now ks s' acc) = acc @ map (contact_for now s)
     (filter (\<lambda>k. k \<noteq> en_Name s) (takeWhile (\<lambda>k. k = en_Name s \<or> valid_at now s k) ks))"
  using assms(2-)
proof (induction ks arbitrary: s' acc)
  case (Cons k ks)
  then obtain n where n: "Cluster_Get (en_cluster s) k = Some n" by auto
  with assms(1) have name: "nd_Name n = k" by (rule named_tableD)
  define s1 where "s1 = s'\<lparr>en_cluster := put_known k (renew_static now n) (en_cluster s')\<rparr>"
  have IH: "snd (registerOrHeartBeatToEndNode now ks s'' acc') = acc' @ map (contact_for now s)
     (filter (\<lambda>k. k \<noteq> en_Name s) (takeWhile (\<lambda>k. k = en_Name s \<or> valid_at now s k) ks))"
    if "s'' = s' \<or> s'' = s1" for s'' acc'
    using that Cons.prems by (intro Cons.IH) (auto simp: s1_def Get_simps)
  show ?case
    using Cons.prems n name IH [of s'] IH [of s1]
    by (simp add: Let_def valid_at_def contact_for_def s1_def)
qed simp

text \<open>
  Whom a round contacts. In a reachable state the loop over the known nodes contacts, once
  each and in the order of the iteration, the other nodes that come before the first one that is
  no longer valid: a report where the node holds a live token of the peer, a registration
  otherwise. It stops at the first invalid node, so all nodes are contacted when none is
  invalid, and a single expired entry can keep the nodes after it from being contacted.
\<close>

theorem round_contacts:
  assumes "member_run (boot cfg uuid t0 c) s" and "ranges (Cluster_Get (en_cluster s)) ord"
  shows "snd (registerOrHeartBeatToEndNode now ord s []) = map (contact_for now s)
     (filter (\<lambda>k. k \<noteq> en_Name s) (takeWhile (\<lambda>k. k = en_Name s \<or> valid_at now s k) ord))"
  using round_contacts_gen [of s ord s now "[]"] member_run_inv [OF assms(1) member_inv_boot] assms(2)
  by (simp add: member_inv_def ranges_def)

theorem round_contacts_witness:
  "snd (registerOrHeartBeatToEndNode 9 [''n'', ''s''] demo_node []) = [Register ''s'']"
proof -
  have "member_run (boot demo_cfg ''lt'' 5 demo_cluster) demo_node"
    by (simp add: demo_node_def member_run.start)
  moreover have "ranges (Cluster_Get (en_cluster demo_node)) [''n'', ''s'']"
    by (auto simp: ranges_def demo_node_simps)
  ultimately show ?thesis
    using round_contacts [of demo_cfg "''lt''" 5 demo_cluster demo_node "[''n'', ''s'']" 9]
    by (simp add: demo_node_simps valid_at_def contact_for_def renew_static_def demo_static_def
        Node_IsLocal_def Node_IsValid_def Node_RegisteredRemote_def NodeTimeOut_def i64_add_def wrap64_def)
qed

subsection \<open>Lifetime of a token\<close>

text \<open>
  The steps of a node that the token of a peer \<open>k\<close> survives: all of \<open>member_step\<close> but the refusal of the
  node's own registration by the peer itself, which moves the peer to the rejected nodes. The maps
  of nodes in answers hold each node under its name.
\<close>

definition refuses :: "register_rsp rpc_result \<Rightarrow> bool" where
  "refuses res \<longleftrightarrow> rr_err res = None \<and> rg_Code (rr_rsp res) > 0 \<and> rg_Code (rr_rsp res) \<noteq> 102"

inductive peer_step :: "string \<Rightarrow> int \<Rightarrow> end_node \<Rightarrow> end_node \<Rightarrow> bool" for k now where
  peer_registers: "peer_step k now s (fst (EndNode_RegisterNode now uuid req s))"
| peer_authenticated: "authRemoteNode now mth auth s = Done s' ok \<Longrightarrow> peer_step k now s s'"
| peer_answers: "key \<noteq> en_Name s \<Longrightarrow> (key = k \<longrightarrow> \<not> refuses res) \<Longrightarrow> peer_step k now s (registerToEndNode now d res key s)"
| peer_reports: "key \<noteq> en_Name s \<Longrightarrow> honest_map nodesMap
    \<Longrightarrow> peer_step k now s (heartbeatToEndNode now d hres nodesMap key s)"
| center_reports: "honest_map nodesMap \<Longrightarrow> peer_step k now s (heartbeatToCenterNode now host port d cres nodesMap s)"
| next_round: "peer_step k now s (fst (registerOrHeartBeatToEndNode now ord s []))"
| clean_up: "peer_step k now s (EndNode_filter_nodes now s)"

lemma peer_step_member: "peer_step k now s s' \<Longrightarrow> member_step True now s s'"
  by (induction rule: peer_step.induct) (auto intro: member_step.intros)

inductive peer_run :: "int \<Rightarrow> int \<Rightarrow> string \<Rightarrow> end_node \<Rightarrow> end_node \<Rightarrow> bool" for lo hi k where
  peer_start: "peer_run lo hi k s s"
| peer_next: "peer_run lo hi k s s' \<Longrightarrow> peer_step k now s' s'' \<Longrightarrow> lo \<le> now \<Longrightarrow> now \<le> hi \<Longrightarrow> peer_run lo hi k s s''"

definition entry_ok :: "int \<Rightarrow> int \<Rightarrow> string \<Rightarrow> pnode \<Rightarrow> node \<Rightarrow> bool" where
  "entry_ok lo hi tok p n \<longleftrightarrow> nd_Node n = p \<and> nd_InToken n = tok \<and>
     lo \<le> nd_GetHeartBeatTime n \<and> nd_GetHeartBeatTime n \<le> hi"

definition holds_token :: "int \<Rightarrow> int \<Rightarrow> string \<Rightarrow> pnode \<Rightarrow> end_node \<Rightarrow> bool" where
  "holds_token lo hi tok p s \<longleftrightarrow> (\<exists>n. Cluster_Get (en_cluster s) (pn_Name p) = Some n \<and> entry_ok lo hi tok p n)"

lemma entry_ok_updates [simp]:
  "entry_ok lo hi tok p (n\<lparr>nd_OutToken := o1\<rparr>) = entry_ok lo hi tok p n"
  "entry_ok lo hi tok p (n\<lparr>nd_ReportHeartBeatTime := r\<rparr>) = entry_ok lo hi tok p n"
  "entry_ok lo hi tok p (renew_static t n) = entry_ok lo hi tok p n"
  by (simp_all add: entry_ok_def renew_static_def)

lemma entry_ok_heard: "entry_ok lo hi tok p n \<Longrightarrow> lo \<le> now \<Longrightarrow> now \<le> hi \<Longrightarrow>
    entry_ok lo hi tok p (n\<lparr>nd_GetHeartBeatTime := now\<rparr>)"
  by (simp add: entry_ok_def)

lemma entry_ok_live:
  assumes "entry_ok lo hi tok p n" "now \<le> hi" "hi < lo + NodeTimeOut" "0 \<le> lo" "hi + NodeTimeOut \<le> max_int64"
  shows "i64_add (nd_GetHeartBeatTime n) NodeTimeOut > now"
proof -
  have "in_int64 (nd_GetHeartBeatTime n + NodeTimeOut)"
    using assms by (simp add: entry_ok_def in_int64_def max_int64_def NodeTimeOut_def)
  then show ?thesis using assms by (simp add: entry_ok_def i64_add_id)
qed

lemma token_RegisterNode:
  assumes "holds_token lo hi tok p s" "tok \<noteq> ''''" "lo \<le> now" "now \<le> hi"
    and "hi < lo + NodeTimeOut" "0 \<le> lo" "hi + NodeTimeOut \<le> max_int64"
  shows "holds_token lo hi tok p (fst (EndNode_RegisterNode now uuid req s))"
proof -
  obtain n where n: "Cluster_Get (en_cluster s) (pn_Name p) = Some n" "entry_ok lo hi tok p n"
    using assms(1) by (auto simp: holds_token_def)
  have "Node_RegisteredLocal now n"
    using entry_ok_live [OF n(2) assms(4-)] n(2) assms(2) by (simp add: Node_RegisteredLocal_def entry_ok_def)
  then show ?thesis
    using n entry_ok_heard [OF n(2) assms(3,4)]
    by (cases "pn_Name p = pn_Name (na_Node req)")
      (simp_all add: EndNode_RegisterNode_def Let_def holds_token_def Get_simps split: option.split, auto)
qed

lemma token_addRemoteNode:
  "holds_token lo hi tok p s \<Longrightarrow> honest_map nodesMap \<Longrightarrow> holds_token lo hi tok p (addRemoteNode now nodesMap s)"
proof (induction now nodesMap s rule: addRemoteNode.induct)
  case (2 now key q rest s)
  then have "honest_map rest" "pn_Name q = key" by (simp_all add: honest_map_def)
  with 2(2) have "holds_token lo hi tok p (s\<lparr>en_cluster := Cluster_Add n (en_cluster s)\<rparr>)"
    if "Cluster_Get (en_cluster s) key = None" "nd_Node n = q" for n
    using that by (auto simp: holds_token_def Get_simps)
  then show ?case using 2(1) [OF _ \<open>honest_map rest\<close>] 2(2) by simp
qed simp

lemma token_round:
  "holds_token lo hi tok p s \<Longrightarrow> holds_token lo hi tok p (fst (registerOrHeartBeatToEndNode now ord s acc))"
proof (induction now ord s acc rule: registerOrHeartBeatToEndNode.induct)
  case (2 now k ks s acc)
  show ?case
  proof (cases "Cluster_Get (en_cluster s) k")
    case (Some n)
    have put: "holds_token lo hi tok p (s\<lparr>en_cluster := put_known k (renew_static now n) (en_cluster s)\<rparr>)"
      using 2(5) Some by (auto simp: holds_token_def Get_simps)
    show ?thesis
    proof (cases "nd_Name n = en_Name s")
      case False
      then show ?thesis
        using put 2(3) [OF Some False refl refl] 2(4) [OF Some False refl refl] Some
        by (simp add: Let_def)
    qed (use 2(2) [OF Some] 2(5) Some in simp)
  qed (use 2 in auto)
qed simp

lemma token_answers:
  assumes "holds_token lo hi tok p s"
  shows "key = pn_Name p \<longrightarrow> \<not> refuses res
     \<Longrightarrow> named_table (Cluster_Get (en_cluster s)) \<Longrightarrow> holds_token lo hi tok p (registerToEndNode now d res key s)"
    and "honest_map nodesMap \<Longrightarrow> holds_token lo hi tok p (heartbeatToEndNode now d hres nodesMap key s)"
proof -
  have put: "holds_token lo hi tok p (s\<lparr>en_cluster := put_known key n' (en_cluster s)\<rparr>)"
    if "\<And>lo hi tok p. entry_ok lo hi tok p n' = entry_ok lo hi tok p n" "Cluster_Get (en_cluster s) key = Some n" for n n'
    using assms that by (auto simp: holds_token_def Get_simps)
  show "holds_token lo hi tok p (registerToEndNode now d res key s)"
    if "key = pn_Name p \<longrightarrow> \<not> refuses res" "named_table (Cluster_Get (en_cluster s))"
    using that assms put named_tableD [OF that(2), of key]
    by (auto simp: registerToEndNode_def refuses_def Let_def holds_token_def Get_simps split: option.splits if_splits)
  show "honest_map nodesMap \<Longrightarrow> holds_token lo hi tok p (heartbeatToEndNode now d hres nodesMap key s)"
    using assms put
    by (simp add: heartbeatToEndNode_def Let_def token_addRemoteNode split: option.split)
qed

lemma token_auth:
  assumes "holds_token lo hi tok p s" "authRemoteNode now mth auth s = Done s' ok" "lo \<le> now" "now \<le> hi"
  shows "holds_token lo hi tok p s'"
  using authRemoteNode_Done [OF assms(2)] assms(1) entry_ok_heard [OF _ assms(3,4)]
  by (auto simp: holds_token_def Get_simps)

lemma token_clean_up:
  assumes "holds_token lo hi tok p s" "now \<le> hi" "hi < lo + NodeTimeOut" "0 \<le> lo" "hi + NodeTimeOut \<le> max_int64"
  shows "holds_token lo hi tok p (EndNode_filter_nodes now s)"
proof -
  obtain n where n: "Cluster_Get (en_cluster s) (pn_Name p) = Some n" "entry_ok lo hi tok p n"
    using assms(1) by (auto simp: holds_token_def)
  then have "Node_IsValid now n" using entry_ok_live [OF n(2) assms(2-)] by (simp add: Node_IsValid_def)
  with n show ?thesis by (simp add: holds_token_def EndNode_filter_nodes_def known.lookup_filt map_filter_vals_def)
qed

lemma token_step:
  assumes "peer_step (pn_Name p) now s s'" "holds_token lo hi tok p s" "named_table (Cluster_Get (en_cluster s))"
    and "tok \<noteq> ''''" "lo \<le> now" "now \<le> hi" "hi < lo + NodeTimeOut" "0 \<le> lo" "hi + NodeTimeOut \<le> max_int64"
  shows "holds_token lo hi tok p s'"
  using assms
  by (induction rule: peer_step.induct) (auto simp: heartbeatToCenterNode_def
      intro: token_RegisterNode token_auth token_answers token_round token_addRemoteNode token_clean_up)

lemma peer_run_token:
  assumes "peer_run lo hi (pn_Name p) s s'" "member_inv s" "holds_token lo hi tok p s" "tok \<noteq> ''''"
    and "hi < lo + NodeTimeOut" "0 \<le> lo" "hi + NodeTimeOut \<le> max_int64"
  shows "member_inv s' \<and> holds_token lo hi tok p s'"
  using assms
proof (induction rule: peer_run.induct)
  case (peer_next s s' now s'')
  then have "now < max_int64" by (simp add: max_int64_def NodeTimeOut_def)
  with peer_next show ?case
    by (auto simp: member_inv_def intro: token_step dest: member_step_inv [OF peer_step_member])
qed simp

text \<open>
  C2: a granted token works. When a node accepts a registration at time \<open>t\<close>, every request that
  the peer sends less than sixty seconds later with the token of the answer is authorised,
  through any requests, answers, rounds and clean-ups in between. The one exception is a refusal of
  this node's own registration by the peer itself; and the maps of nodes in answers are taken to hold
  each node under its own name.
\<close>

theorem granted_token_is_accepted:
  assumes "member_run (boot cfg uuid0 t0 c) s"
    and "EndNode_RegisterNode t uuid req s = (s1, rsp)" and "rg_Code rsp = 0 \<or> rg_Code rsp = 102"
    and "rg_Data rsp \<noteq> ''''"
    and "peer_run t t' (pn_Name (na_Node req)) s1 s2"
    and "t \<le> t'" "t' < t + NodeTimeOut" "0 \<le> t" "t' + NodeTimeOut \<le> max_int64"
  shows "authorised t' mth \<lparr>na_Token = rg_Data rsp, na_Node = na_Node req\<rparr> s2"
proof -
  let ?p = "na_Node req"
  have inv: "member_inv s1"
    using member_inv_register [OF member_run_inv [OF assms(1) member_inv_boot], of t uuid req] assms(2) by simp
  have "\<exists>n. Cluster_Get (en_cluster s1) (pn_Name ?p) = Some n \<and> nd_Node n = ?p \<and> nd_InToken n = rg_Data rsp
      \<and> nd_GetHeartBeatTime n = t"
    using assms(2,3)
    by (auto simp: EndNode_RegisterNode_def Let_def reg_error_def Get_simps Node_CompareWithProtoNode_def
        split: option.splits if_splits intro!: pnode.equality)
  then have "holds_token t t' (rg_Data rsp) ?p s1"
    using assms(6) by (auto simp: holds_token_def entry_ok_def)
  from peer_run_token [OF assms(5) inv this assms(4) assms(7-9)]
  obtain n where "Cluster_Get (en_cluster s2) (pn_Name ?p) = Some n" "entry_ok t t' (rg_Data rsp) ?p n"
    by (auto simp: holds_token_def)
  with entry_ok_live [of t t' "rg_Data rsp" ?p n t'] assms(7-9) show ?thesis
    by (auto simp: authorised_def entry_ok_def HeartBeatTimeout_def NodeTimeOut_def)
qed

theorem granted_token_is_accepted_witness:
  "authorised 60 ''GetSub'' \<lparr>na_Token = ''u'', na_Node = demo_a\<rparr>
     (EndNode_filter_nodes 30 (fst (EndNode_RegisterNode 9 ''u'' demo_reg demo_node)))"
proof -
  let ?s1 = "fst (EndNode_RegisterNode 9 ''u'' demo_reg demo_node)"
  have reg: "EndNode_RegisterNode 9 ''u'' demo_reg demo_node = (?s1, \<lparr>rg_Code = 0, rg_Msg = '''', rg_Data = ''u''\<rparr>)"
    and get: "Cluster_Get (en_cluster ?s1) ''a'' =
      Some \<lparr>nd_Node = demo_a, nd_InToken = ''u'', nd_OutToken = '''', nd_GetHeartBeatTime = 9,
        nd_ReportHeartBeatTime = 0, nd_CreateTime = 9, nd_isLocal = False\<rparr>"
    by (simp_all add: EndNode_RegisterNode_def demo_node_simps Get_simps demo_reg_def demo_a_def
        Cluster_IsSameCluster_def Let_def)
  have "peer_run 9 60 (pn_Name (na_Node demo_reg)) ?s1 (EndNode_filter_nodes 30 ?s1)"
    by (intro peer_run.peer_next [OF peer_run.peer_start peer_step.clean_up]) simp_all
  moreover have "member_run (boot demo_cfg ''lt'' 5 demo_cluster) demo_node"
    by (simp add: demo_node_def member_run.start)
  ultimately show ?thesis
    using granted_token_is_accepted [OF _ reg] by (simp add: NodeTimeOut_def max_int64_def demo_reg_def)
qed

end
