(* ===== verification/Config.thy ===== *)
theory Config
  imports GoStrings
begin

text \<open>
  The configuration data of the proxy (\<open>proxy/config/v2ray_xray.go\<close>), as far as the program reads
  or writes it. A \<open>json.RawMessage\<close> is the JSON value it holds: the program gets raw messages
  from the decoder only, which has checked their syntax. The structs of xray-core's package
  \<open>conf\<close> are records of the fields the program names, the other fields of a struct are one
  opaque JSON value that is copied along. How the library reads and writes these structs is the
  record \<open>codecs\<close>, with the round trip of \<open>encoding/json\<close> as the hypothesis \<open>codec_ok\<close>; the struct
  \<open>V2rayInboundUser\<close> is the program's own, and its encoding is written out.
\<close>

subsection \<open>JSON\<close>

datatype json = JNull | JBool bool | JNum int | JFrac string | JStr string
  | JArr "json list" | JObj "(string \<times> json) list"

subsection \<open>Stream settings\<close>

record tls_cfg =
  tls_ServerName :: string
  tls_ALPN :: "string list option"
  tls_Certs :: "(string \<times> string) list"

record kcp_cfg =
  kcp_Header :: "json option"
  kcp_Seed :: "string option"

record ws_cfg =
  ws_Path :: string
  ws_Headers :: "string \<rightharpoonup> string"

record http_cfg =
  h2_Host :: "string list option"
  h2_Path :: string

record quic_cfg =
  quic_Header :: "json option"
  quic_Security :: string
  quic_Key :: string

text \<open>\<open>ss_TCP\<close> is the header of the TCP settings, if there are such settings.\<close>

record stream_cfg =
  ss_Network :: "string option"
  ss_Security :: string
  ss_TLS :: "tls_cfg option"
  ss_XTLS :: "tls_cfg option"
  ss_TCP :: "json option"
  ss_KCP :: "kcp_cfg option"
  ss_WS :: "ws_cfg option"
  ss_HTTP :: "http_cfg option"
  ss_QUIC :: "quic_cfg option"
  ss_GRPC :: "string option"

subsection \<open>Inbounds\<close>

record inbound_cfg =
  ic_Protocol :: string
  ic_PortRange :: "32 word"
  ic_ListenOn :: string
  ic_Settings :: "json option"
  ic_Tag :: string
  ic_Allocation :: "json option"
  ic_StreamSetting :: "stream_cfg option"
  ic_DomainOverride :: "json option"
  ic_SniffingConfig :: "json option"

definition NewInboundDetourConfig :: "string \<Rightarrow> string \<Rightarrow> string \<Rightarrow> 32 word \<Rightarrow> inbound_cfg" where
  "NewInboundDetourConfig protocol listenon tag port =
     \<lparr>ic_Protocol = protocol, ic_PortRange = port, ic_ListenOn = listenon, ic_Settings = None,
      ic_Tag = tag, ic_Allocation = None, ic_StreamSetting = None, ic_DomainOverride = None, ic_SniffingConfig = None\<rparr>"

definition NewStreamSetting :: "string \<Rightarrow> string \<Rightarrow> string \<Rightarrow> string \<Rightarrow> stream_cfg" where
  "NewStreamSetting network tls keyFile certFile =
     \<lparr>ss_Network = Some network, ss_Security = tls,
      ss_TLS = Some \<lparr>tls_ServerName = '''', tls_ALPN = None, tls_Certs = [(certFile, keyFile)]\<rparr>,
      ss_XTLS = None, ss_TCP = None, ss_KCP = None, ss_WS = None, ss_HTTP = None, ss_QUIC = None,
      ss_GRPC = None\<rparr>"

subsection \<open>Protocol settings\<close>

record inbound_fallback =
  fb_Dest :: "json option"
  fb_rest :: json

record vless_cfg =
  vl_Clients :: "json list"
  vl_Decryption :: string
  vl_Fallbacks :: "inbound_fallback list"

record vmess_cfg =
  vm_Users :: "json list"
  vm_rest :: json

record trojan_user =
  tu_Password :: string
  tu_Email :: string
  tu_Level :: "8 word"
  tu_Flow :: string

record trojan_cfg =
  tj_Clients :: "trojan_user list"
  tj_Fallbacks :: "inbound_fallback list"

record codecs =
  vless_dec :: "json \<Rightarrow> vless_cfg result"
  vless_enc :: "vless_cfg \<Rightarrow> json"
  vmess_dec :: "json \<Rightarrow> vmess_cfg result"
  vmess_enc :: "vmess_cfg \<Rightarrow> json"
  trojan_dec :: "json \<Rightarrow> trojan_cfg result"
  trojan_enc :: "trojan_cfg \<Rightarrow> json"

definition codec_ok :: "codecs \<Rightarrow> bool" where
  "codec_ok cc \<longleftrightarrow> (\<forall>c. vless_dec cc (vless_enc cc c) = Inr c) \<and>
     (\<forall>c. vmess_dec cc (vmess_enc cc c) = Inr c) \<and> (\<forall>c. trojan_dec cc (trojan_enc cc c) = Inr c)"

subsection \<open>V2rayInboundUser and its JSON form\<close>

record inbound_user =
  iu_Email :: string
  iu_ID :: string
  iu_Flow :: string
  iu_Level :: "32 word"
  iu_AlterID :: "32 word"

definition empty_inbound_user :: inbound_user where
  "empty_inbound_user = \<lparr>iu_Email = '''', iu_ID = '''', iu_Flow = '''', iu_Level = 0, iu_AlterID = 0\<rparr>"

text \<open>The tags \<open>omitempty\<close> leave out an empty flow and zero numbers.\<close>

definition encode_user :: "inbound_user \<Rightarrow> json" where
  "encode_user u = JObj ([(''email'', JStr (iu_Email u)), (''id'', JStr (iu_ID u))]
     @ (if iu_Flow u \<noteq> '''' then [(''flow'', JStr (iu_Flow u))] else [])
     @ (if iu_Level u \<noteq> 0 then [(''level'', JNum (uint (iu_Level u)))] else [])
     @ (if iu_AlterID u \<noteq> 0 then [(''alterId'', JNum (uint (iu_AlterID u)))] else []))"

definition type_error :: gerror where
  "type_error = ''json: cannot unmarshal value into Go struct field''"

text \<open>
  Decoding a member of the object: keys match without regard to case, \<open>null\<close> changes nothing, a
  value of the wrong type is an error, and the decoder goes on to the next member.
\<close>

definition decode_string :: "json \<Rightarrow> string \<Rightarrow> string result" where
  "decode_string j old = (case j of JStr s \<Rightarrow> Inr s | JNull \<Rightarrow> Inr old | _ \<Rightarrow> Inl type_error)"

definition decode_uint32 :: "json \<Rightarrow> 32 word \<Rightarrow> (32 word) result" where
  "decode_uint32 j old =
     (case j of JNum i \<Rightarrow> if 0 \<le> i \<and> i < 2 ^ 32 then Inr (word_of_int i) else Inl type_error
      | JNull \<Rightarrow> Inr old | _ \<Rightarrow> Inl type_error)"

definition decode_member :: "string \<times> json \<Rightarrow> inbound_user \<Rightarrow> inbound_user \<times> gerror option" where
  "decode_member m u =
     (let k = to_lower (fst m); j = snd m;
          str = (\<lambda>old upd. case decode_string j old of Inr s \<Rightarrow> (upd s, None) | Inl e \<Rightarrow> (u, Some e));
          num = (\<lambda>old upd. case decode_uint32 j old of Inr s \<Rightarrow> (upd s, None) | Inl e \<Rightarrow> (u, Some e))
      in if k = ''email'' then str (iu_Email u) (\<lambda>s. u\<lparr>iu_Email := s\<rparr>)
         else if k = ''id'' then str (iu_ID u) (\<lambda>s. u\<lparr>iu_ID := s\<rparr>)
         else if k = ''flow'' then str (iu_Flow u) (\<lambda>s. u\<lparr>iu_Flow := s\<rparr>)
         else if k = ''level'' then num (iu_Level u) (\<lambda>s. u\<lparr>iu_Level := s\<rparr>)
         else if k = ''alterid'' then num (iu_AlterID u) (\<lambda>s. u\<lparr>iu_AlterID := s\<rparr>)
         else (u, None))"

fun decode_members :: "(string \<times> json) list \<Rightarrow> inbound_user \<Rightarrow> gerror option \<Rightarrow> inbound_user \<times> gerror option" where
  "decode_members [] u e = (u, e)"
| "decode_members (m # ms) u e =
     (case decode_member m u of (u', e') \<Rightarrow> decode_members ms u' (case e of None \<Rightarrow> e' | Some x \<Rightarrow> Some x))"

text \<open>\<open>json.Unmarshal\<close> into a zero user: the user as far as it was filled, and the error.\<close>

definition decode_user :: "json \<Rightarrow> inbound_user \<times> gerror option" where
  "decode_user j =
     (case j of JObj ms \<Rightarrow> decode_members ms empty_inbound_user None
      | JNull \<Rightarrow> (empty_inbound_user, None)
      | _ \<Rightarrow> (empty_inbound_user, Some type_error))"

subsection \<open>Lemmas\<close>

lemma codec_ok_simps:
  assumes "codec_ok cc"
  shows "vless_dec cc (vless_enc cc v) = Inr v" "vmess_dec cc (vmess_enc cc m) = Inr m"
    "trojan_dec cc (trojan_enc cc t) = Inr t"
  using assms by (simp_all add: codec_ok_def)

lemma to_lower_keys:
  "to_lower ''email'' = ''email''" "to_lower ''id'' = ''id''" "to_lower ''flow'' = ''flow''"
  "to_lower ''level'' = ''level''" "to_lower ''alterId'' = ''alterid''"
  by code_simp+

lemma decode_uint32_uint: "decode_uint32 (JNum (uint (w :: 32 word))) old = Inr w"
proof -
  have "uint w < 2 ^ LENGTH(32)" by (rule uint_lt2p)
  then show ?thesis by (simp add: decode_uint32_def)
qed

lemma decode_encode_user: "decode_user (encode_user u) = (u, None)"
  by (cases u)
    (simp add: decode_user_def encode_user_def decode_member_def Let_def to_lower_keys decode_uint32_uint
      decode_string_def empty_inbound_user_def)

end
