(* ===== verification/Inbounds.thy ===== *)
theory Inbounds
  imports Config
begin

text \<open>
  \<open>proxy/manager/inbound_manager.go\<close>: an inbound and the table of inbounds, with the set of ports
  in use kept beside it. The mutex of an inbound is left out, every operation on one is a single
  critical section.
\<close>

subsection \<open>Inbound\<close>

record inbound =
  ib_Config :: inbound_cfg
  ib_Tag :: string

definition emptyTcpHeaderConfig :: json where
  "emptyTcpHeaderConfig = JObj [(''type'', JStr ''none'')]"

definition CompleteInboundConfigInformation :: "inbound \<Rightarrow> inbound" where
  "CompleteInboundConfigInformation i =
     (case ic_StreamSetting (ib_Config i) of
        None \<Rightarrow> i
      | Some ss \<Rightarrow>
          (case ss_TCP ss of
             None \<Rightarrow> i
           | Some header \<Rightarrow>
               if header = JNull
               then i\<lparr>ib_Config := (ib_Config i)\<lparr>ic_StreamSetting :=
                      Some (ss\<lparr>ss_TCP := Some emptyTcpHeaderConfig\<rparr>)\<rparr>\<rparr>
               else i))"

text \<open>
  Base64 and JSON decoding of the raw string are the argument \<open>decode\<close>. On an error the fields set
  so far stay, as in the source.
\<close>

definition Inbound_Init :: "(string \<Rightarrow> inbound_cfg result) \<Rightarrow> string \<Rightarrow> inbound \<Rightarrow> inbound \<times> gerror option" where
  "Inbound_Init decode rawString i =
     (case decode rawString of
        Inl e \<Rightarrow> (i, Some e)
      | Inr cfg \<Rightarrow>
          (let i1 = i\<lparr>ib_Config := cfg, ib_Tag := ic_Tag cfg\<rparr>
           in if ib_Tag i1 = '''' then (i1, Some ''inbound tag can't be empty'')
              else (CompleteInboundConfigInformation i1, None)))"

subsection \<open>InboundManager\<close>

record inbound_manager =
  im_inbounds :: "string \<rightharpoonup> inbound"
  im_listeningPorts :: "32 word set"

definition NewInboundManager :: inbound_manager where
  "NewInboundManager = \<lparr>im_inbounds = Map.empty, im_listeningPorts = {}\<rparr>"

abbreviation ib_Port :: "inbound \<Rightarrow> 32 word" where
  "ib_Port i \<equiv> ic_PortRange (ib_Config i)"

definition InboundManager_Add :: "inbound \<Rightarrow> inbound_manager \<Rightarrow> inbound_manager \<times> gerror option" where
  "InboundManager_Add i m =
     (if ib_Tag i = '''' then (m, Some ''inbound tag can't be empty'')
      else if ib_Port i \<in> im_listeningPorts m
        then (m, Some (''port('' @ itoa (uint (ib_Port i)) @ '') is used''))
      else if im_inbounds m (ib_Tag i) \<noteq> None
        then (m, Some (''repeat add inbound with tag('' @ ib_Tag i @ '')''))
      else (m\<lparr>im_inbounds := (im_inbounds m)(ib_Tag i \<mapsto> i),
              im_listeningPorts := insert (ib_Port i) (im_listeningPorts m)\<rparr>, None))"

definition InboundManager_Delete :: "string \<Rightarrow> inbound_manager \<Rightarrow> inbound_manager \<times> gerror option" where
  "InboundManager_Delete tag m =
     (case im_inbounds m tag of
        None \<Rightarrow> (m, Some (''inbound with tag('' @ tag @ '') is not exist''))
      | Some i \<Rightarrow> (m\<lparr>im_inbounds := (im_inbounds m)(tag := None),
                     im_listeningPorts := im_listeningPorts m - {ib_Port i}\<rparr>, None))"

definition InboundManager_Get :: "inbound_manager \<Rightarrow> string \<Rightarrow> inbound option" where
  "InboundManager_Get m tag = im_inbounds m tag"

definition InboundManager_AddVlessTCPTLS :: "inbound_manager \<Rightarrow> string \<Rightarrow> inbound option" where
  "InboundManager_AddVlessTCPTLS m tag = im_inbounds m tag"

subsection \<open>The contract of a registry\<close>

text \<open>
  A table whose \<open>add\<close> and \<open>del\<close> may refuse: a refusal leaves the table as it was, a success changes
  one entry, and a key can always be deleted while it is there.
\<close>

locale registry =
  fixes get :: "'s \<Rightarrow> string \<Rightarrow> 'e option"
    and add :: "'e \<Rightarrow> 's \<Rightarrow> 's \<times> gerror option"
    and del :: "string \<Rightarrow> 's \<Rightarrow> 's \<times> gerror option"
    and key :: "'e \<Rightarrow> string"
  assumes add_ok: "add e s = (s', None) \<Longrightarrow> get s (key e) = None \<and> get s' = (get s)(key e \<mapsto> e)"
    and add_err: "add e s = (s', Some x) \<Longrightarrow> s' = s"
    and del_ok: "del k s = (s', None) \<Longrightarrow> get s k \<noteq> None \<and> get s' = (get s)(k := None)"
    and del_err: "del k s = (s', Some x) \<Longrightarrow> s' = s \<and> get s k = None"
begin

lemma del_present: "get s k \<noteq> None \<Longrightarrow> \<exists>s'. del k s = (s', None)"
  by (cases "del k s") (metis del_err not_None_eq)

lemma add_then_del:
  assumes "add e s = (s', None)"
  shows "\<exists>s''. del (key e) s' = (s'', None) \<and> get s'' = get s"
proof -
  have s': "get s (key e) = None" "get s' = (get s)(key e \<mapsto> e)" using add_ok [OF assms] by auto
  then obtain s'' where "del (key e) s' = (s'', None)" using del_present [of s' "key e"] by auto
  moreover from del_ok [OF this] s' have "get s'' = get s" by auto
  ultimately show ?thesis by blast
qed

lemma get_add_other: "add e s = (s', r) \<Longrightarrow> k \<noteq> key e \<Longrightarrow> get s' k = get s k"
  using add_ok add_err by (cases r) fastforce+

lemma get_del_other: "del k s = (s', r) \<Longrightarrow> k' \<noteq> k \<Longrightarrow> get s' k' = get s k'"
  using del_ok del_err by (cases r) fastforce+

end

lemma InboundManager_Get_map: "InboundManager_Get m = im_inbounds m"
  by (rule ext) (simp add: InboundManager_Get_def)

interpretation inbounds: registry InboundManager_Get InboundManager_Add InboundManager_Delete ib_Tag
  by unfold_locales
    (auto simp: InboundManager_Get_map InboundManager_Add_def InboundManager_Delete_def
      split: if_splits option.splits)

subsection \<open>The invariant of the table\<close>

text \<open>
  Inbounds stand under their tags, which are not empty, no two listen on the same port, and the
  set of ports is exactly that of the inbounds.
\<close>

definition im_inv :: "inbound_manager \<Rightarrow> bool" where
  "im_inv m \<longleftrightarrow> im_inbounds m '''' = None \<and>
     (\<forall>t i. im_inbounds m t = Some i \<longrightarrow> ib_Tag i = t \<and> ib_Port i \<in> im_listeningPorts m) \<and>
     (\<forall>p \<in> im_listeningPorts m. \<exists>t i. im_inbounds m t = Some i \<and> ib_Port i = p) \<and>
     (\<forall>t t' i i'. im_inbounds m t = Some i \<longrightarrow> im_inbounds m t' = Some i' \<longrightarrow> ib_Port i = ib_Port i' \<longrightarrow> t = t')"

lemma im_inv_new: "im_inv NewInboundManager"
  by (simp add: im_inv_def NewInboundManager_def)

lemma im_inv_add:
  assumes "im_inv m"
  shows "im_inv (fst (InboundManager_Add i m))"
proof (cases "ib_Tag i = '''' \<or> ib_Port i \<in> im_listeningPorts m \<or> im_inbounds m (ib_Tag i) \<noteq> None")
  case False
  then have new: "im_inbounds m (ib_Tag i) = None" "ib_Port i \<notin> im_listeningPorts m" "ib_Tag i \<noteq> ''''"
    by auto
  have other: "t \<noteq> ib_Tag i" if "im_inbounds m t = Some j" for t j
    using that new(1) by auto
  have fresh: "ib_Port j \<noteq> ib_Port i" if "im_inbounds m t = Some j" for t j
    using that new(2) assms by (metis im_inv_def)
  have ports: "\<exists>t j. ((im_inbounds m)(ib_Tag i \<mapsto> i)) t = Some j \<and> ib_Port j = p"
    if "p = ib_Port i \<or> p \<in> im_listeningPorts m" for p
  proof (cases "p = ib_Port i")
    case False
    with that assms obtain t j where "im_inbounds m t = Some j" "ib_Port j = p"
      unfolding im_inv_def by blast
    with other show ?thesis by (intro exI [of _ t]) auto
  qed auto
  have "im_inv (m\<lparr>im_inbounds := (im_inbounds m)(ib_Tag i \<mapsto> i),
      im_listeningPorts := insert (ib_Port i) (im_listeningPorts m)\<rparr>)"
    using assms new ports fresh by (auto simp: im_inv_def)
  with False show ?thesis by (simp add: InboundManager_Add_def)
qed (use assms in \<open>auto simp: InboundManager_Add_def\<close>)

lemma im_inv_delete:
  assumes "im_inv m"
  shows "im_inv (fst (InboundManager_Delete tag m))"
proof (cases "im_inbounds m tag")
  case (Some i)
  have "\<exists>t j. t \<noteq> tag \<and> im_inbounds m t = Some j \<and> ib_Port j = p"
    if "p \<in> im_listeningPorts m" "p \<noteq> ib_Port i" for p
    using assms that Some by (auto simp: im_inv_def) (metis option.inject)
  moreover have "ib_Port j \<noteq> ib_Port i" if "im_inbounds m t = Some j" "t \<noteq> tag" for t j
    using assms that Some by (auto simp: im_inv_def)
  ultimately show ?thesis
    using assms Some by (auto simp: im_inv_def InboundManager_Delete_def)
qed (use assms in \<open>simp add: InboundManager_Delete_def\<close>)

lemma add_succeeds_iff:
  "snd (InboundManager_Add i m) = None \<longleftrightarrow>
     ib_Tag i \<noteq> '''' \<and> ib_Port i \<notin> im_listeningPorts m \<and> im_inbounds m (ib_Tag i) = None"
  by (auto simp: InboundManager_Add_def)

end
