(* ===== verification/ProtocolUsers.thy ===== *)
theory ProtocolUsers
  imports Inbounds
begin

text \<open>
  The users of an inbound (\<open>proxy/manager/user_xray.go\<close>, \<open>inbound_xray.go\<close>): per protocol, how a user
  is added to, removed from and listed in the settings of an inbound. The operations work on the
  configuration of the inbound and return an outcome: reading \<open>*in.Settings\<close> panics when there are
  no settings. The generated identifier (google/uuid) is an argument of \<open>NewUser\<close>.
\<close>

subsection \<open>User\<close>

datatype account = VmessAccount string "32 word" | VlessAccount string string | TrojanAccount string string

record puser =
  pu_Tag :: string
  pu_Level :: "32 word"
  pu_Email :: string
  pu_AlterId :: "32 word"
  pu_UUID :: string
  pu_Account :: "account option"
  pu_Protocol :: string
  pu_IsXtls :: bool
  pu_Flow :: string

definition VlessProtocolName :: string where "VlessProtocolName = ''vless''"
definition TrojanProtocolName :: string where "TrojanProtocolName = ''trojan''"
definition VmessProtocolName :: string where "VmessProtocolName = ''vmess''"
definition XTLSName :: string where "XTLSName = ''xtls''"

lemmas protocol_names = VlessProtocolName_def TrojanProtocolName_def VmessProtocolName_def XTLSName_def

definition NewUser :: "string \<Rightarrow> string \<Rightarrow> string \<Rightarrow> (puser \<Rightarrow> puser) list \<Rightarrow> puser result" where
  "NewUser uuid email boundTag options =
     (if email = '''' then Inl ''User email can not be empty''
      else Inr (fold (\<lambda>f u. f u) options
        \<lparr>pu_Tag = boundTag, pu_Level = 0, pu_Email = email, pu_AlterId = 0, pu_UUID = uuid,
         pu_Account = None, pu_Protocol = VmessProtocolName, pu_IsXtls = False, pu_Flow = ''''\<rparr>))"

text \<open>The options; whether a string is a UUID is decided by the library (\<open>valid\<close>).\<close>

definition UUID_option :: "(string \<Rightarrow> bool) \<Rightarrow> string \<Rightarrow> string \<Rightarrow> puser \<Rightarrow> puser" where
  "UUID_option valid fresh custom user =
     (if valid custom then user\<lparr>pu_UUID := custom\<rparr> else user\<lparr>pu_UUID := fresh\<rparr>)"

definition Level_option :: "32 word \<Rightarrow> puser \<Rightarrow> puser" where
  "Level_option level user = user\<lparr>pu_Level := level\<rparr>"

definition Protocol_option :: "string \<Rightarrow> puser \<Rightarrow> puser" where
  "Protocol_option protocol user = user\<lparr>pu_Protocol := protocol\<rparr>"

text \<open>The error of the default branch is built and dropped: the result is always \<open>nil\<close>.\<close>

definition SetUserAccount :: "puser \<Rightarrow> puser \<times> gerror option" where
  "SetUserAccount user =
     (let p = to_lower (pu_Protocol user);
          withFlow = (if pu_IsXtls user then user\<lparr>pu_Flow := ''xtls-rprx-direct''\<rparr> else user);
          flow = (if pu_IsXtls user then ''xtls-rprx-direct'' else '''')
      in if p = VmessProtocolName
           then (user\<lparr>pu_Account := Some (VmessAccount (pu_UUID user) (pu_AlterId user))\<rparr>, None)
         else if p = VlessProtocolName
           then (withFlow\<lparr>pu_Account := Some (VlessAccount (pu_UUID user) flow)\<rparr>, None)
         else if p = TrojanProtocolName
           then (withFlow\<lparr>pu_Account := Some (TrojanAccount (pu_UUID user) flow)\<rparr>, None)
         else (user, None))"

text \<open>\<open>None\<close> for a panic: an inbound without stream settings is dereferenced.\<close>

definition CompleteUserInformation :: "puser \<Rightarrow> inbound option \<Rightarrow> (puser \<times> gerror option) option" where
  "CompleteUserInformation user inb =
     (case inb of
        None \<Rightarrow> Some (user, Some (''inbound with tag('' @ pu_Tag user @ '') is not exist''))
      | Some i \<Rightarrow>
          (case ic_StreamSetting (ib_Config i) of
             None \<Rightarrow> None
           | Some ss \<Rightarrow> Some (SetUserAccount (user\<lparr>pu_Protocol := ic_Protocol (ib_Config i),
               pu_IsXtls := (ss_Security ss = XTLSName)\<rparr>))))"

subsection \<open>Reading the settings\<close>

definition wrong_protocol :: "string \<Rightarrow> string \<Rightarrow> gerror" where
  "wrong_protocol need got = ''wrong protocol, need '' @ need @ '', but '' @ got"

definition NewVlessInboundConfig :: "codecs \<Rightarrow> inbound_cfg \<Rightarrow> (inbound_cfg, vless_cfg result) outcome" where
  "NewVlessInboundConfig cc inn =
     (if to_lower (ic_Protocol inn) \<noteq> VlessProtocolName
      then Done inn (Inl (wrong_protocol VlessProtocolName (ic_Protocol inn)))
      else (case ic_Settings inn of None \<Rightarrow> Panicked inn | Some j \<Rightarrow> Done inn (vless_dec cc j)))"

definition NewVmessInboundConfig :: "codecs \<Rightarrow> inbound_cfg \<Rightarrow> (inbound_cfg, vmess_cfg result) outcome" where
  "NewVmessInboundConfig cc inn =
     (if to_lower (ic_Protocol inn) \<noteq> VmessProtocolName
      then Done inn (Inl (wrong_protocol VmessProtocolName (ic_Protocol inn)))
      else (case ic_Settings inn of None \<Rightarrow> Panicked inn | Some j \<Rightarrow> Done inn (vmess_dec cc j)))"

definition NewTrojanInboundConfig :: "codecs \<Rightarrow> inbound_cfg \<Rightarrow> (inbound_cfg, trojan_cfg result) outcome" where
  "NewTrojanInboundConfig cc inn =
     (if to_lower (ic_Protocol inn) \<noteq> TrojanProtocolName
      then Done inn (Inl (wrong_protocol TrojanProtocolName (ic_Protocol inn)))
      else (case ic_Settings inn of None \<Rightarrow> Panicked inn | Some j \<Rightarrow> Done inn (trojan_dec cc j)))"

subsection \<open>Adding a user\<close>

definition addVmessUser :: "codecs \<Rightarrow> puser \<Rightarrow> inbound_cfg \<Rightarrow> (inbound_cfg, gerror option) outcome" where
  "addVmessUser cc user inn =
     bind_o (NewVmessInboundConfig cc inn) (\<lambda>inn r. case r of
         Inl e \<Rightarrow> Done inn (Some e)
       | Inr c \<Rightarrow>
           (let u = \<lparr>iu_Email = pu_Email user, iu_ID = pu_UUID user, iu_Flow = '''', iu_Level = 0, iu_AlterID = 0\<rparr>
            in Done (inn\<lparr>ic_Settings := Some (vmess_enc cc (c\<lparr>vm_Users := vm_Users c @ [encode_user u]\<rparr>))\<rparr>) None))"

definition addVlessUser :: "codecs \<Rightarrow> puser \<Rightarrow> inbound_cfg \<Rightarrow> (inbound_cfg, gerror option) outcome" where
  "addVlessUser cc user inn =
     bind_o (NewVlessInboundConfig cc inn) (\<lambda>inn r. case r of
         Inl e \<Rightarrow> Done inn (Some e)
       | Inr c \<Rightarrow>
           (let u = \<lparr>iu_Email = pu_Email user, iu_ID = pu_UUID user,
                     iu_Flow = (if pu_IsXtls user then pu_Flow user else ''''), iu_Level = 0, iu_AlterID = 0\<rparr>
            in Done (inn\<lparr>ic_Settings := Some (vless_enc cc (c\<lparr>vl_Clients := vl_Clients c @ [encode_user u]\<rparr>))\<rparr>) None))"

text \<open>The level is cut to a byte.\<close>

definition addTrojanUser :: "codecs \<Rightarrow> puser \<Rightarrow> inbound_cfg \<Rightarrow> (inbound_cfg, gerror option) outcome" where
  "addTrojanUser cc user inn =
     bind_o (NewTrojanInboundConfig cc inn) (\<lambda>inn r. case r of
         Inl e \<Rightarrow> Done inn (Some e)
       | Inr c \<Rightarrow>
           (let u = \<lparr>tu_Password = pu_UUID user, tu_Email = pu_Email user, tu_Level = ucast (pu_Level user),
                     tu_Flow = (if pu_IsXtls user then pu_Flow user else '''')\<rparr>
            in Done (inn\<lparr>ic_Settings := Some (trojan_enc cc (c\<lparr>tj_Clients := tj_Clients c @ [u]\<rparr>))\<rparr>) None))"

subsection \<open>Removing a user\<close>

text \<open>
  The loop deletes the first entry with the email and leaves; it fails at the last entry, so an
  empty list is no error.
\<close>

fun remove_first :: "('u \<Rightarrow> string) \<Rightarrow> gerror \<Rightarrow> string \<Rightarrow> 'u list \<Rightarrow> 'u list result" where
  "remove_first email_of err email [] = Inr []"
| "remove_first email_of err email (x # xs) =
     (if email_of x = email then Inr xs
      else if xs = [] then Inl err
      else (case remove_first email_of err email xs of Inl e \<Rightarrow> Inl e | Inr ys \<Rightarrow> Inr (x # ys)))"

definition raw_email :: "json \<Rightarrow> string" where
  "raw_email j = iu_Email (fst (decode_user j))"

definition removeVmessUser :: "codecs \<Rightarrow> puser \<Rightarrow> inbound_cfg \<Rightarrow> (inbound_cfg, gerror option) outcome" where
  "removeVmessUser cc user inn =
     bind_o (NewVmessInboundConfig cc inn) (\<lambda>inn r. case r of
         Inl e \<Rightarrow> Done inn (Some e)
       | Inr c \<Rightarrow>
           (case remove_first raw_email (''No User '' @ pu_Email user) (pu_Email user) (vm_Users c) of
              Inl e \<Rightarrow> Done inn (Some e)
            | Inr us \<Rightarrow> Done (inn\<lparr>ic_Settings := Some (vmess_enc cc (c\<lparr>vm_Users := us\<rparr>))\<rparr>) None))"

definition removeVlessUser :: "codecs \<Rightarrow> puser \<Rightarrow> inbound_cfg \<Rightarrow> (inbound_cfg, gerror option) outcome" where
  "removeVlessUser cc user inn =
     bind_o (NewVlessInboundConfig cc inn) (\<lambda>inn r. case r of
         Inl e \<Rightarrow> Done inn (Some e)
       | Inr c \<Rightarrow>
           (case remove_first raw_email ('' '' @ pu_Email user) (pu_Email user) (vl_Clients c) of
              Inl e \<Rightarrow> Done inn (Some e)
            | Inr us \<Rightarrow> Done (inn\<lparr>ic_Settings := Some (vless_enc cc (c\<lparr>vl_Clients := us\<rparr>))\<rparr>) None))"

definition removeTrojanUser :: "codecs \<Rightarrow> puser \<Rightarrow> inbound_cfg \<Rightarrow> (inbound_cfg, gerror option) outcome" where
  "removeTrojanUser cc user inn =
     bind_o (NewTrojanInboundConfig cc inn) (\<lambda>inn r. case r of
         Inl e \<Rightarrow> Done inn (Some e)
       | Inr c \<Rightarrow>
           (case remove_first tu_Email ('' '' @ pu_Email user) (pu_Email user) (tj_Clients c) of
              Inl e \<Rightarrow> Done inn (Some e)
            | Inr us \<Rightarrow> Done (inn\<lparr>ic_Settings := Some (trojan_enc cc (c\<lparr>tj_Clients := us\<rparr>))\<rparr>) None))"

text \<open>The switches of \<open>addUserToFile\<close> and \<open>removeUserFromFile\<close> (proxy_manager.go); other protocols do nothing.\<close>

definition add_by_protocol :: "codecs \<Rightarrow> puser \<Rightarrow> inbound_cfg \<Rightarrow> (inbound_cfg, gerror option) outcome" where
  "add_by_protocol cc user inn =
     (let p = to_lower (ic_Protocol inn)
      in if p = VmessProtocolName then addVmessUser cc user inn
         else if p = VlessProtocolName then addVlessUser cc user inn
         else if p = TrojanProtocolName then addTrojanUser cc user inn
         else Done inn None)"

definition remove_by_protocol :: "codecs \<Rightarrow> puser \<Rightarrow> inbound_cfg \<Rightarrow> (inbound_cfg, gerror option) outcome" where
  "remove_by_protocol cc user inn =
     (let p = to_lower (ic_Protocol inn)
      in if p = VmessProtocolName then removeVmessUser cc user inn
         else if p = VlessProtocolName then removeVlessUser cc user inn
         else if p = TrojanProtocolName then removeTrojanUser cc user inn
         else Done inn None)"

subsection \<open>Listing the users\<close>

text \<open>Entries that do not decode are skipped.\<close>

definition raw_emails :: "json list \<Rightarrow> string list" where
  "raw_emails js = map raw_email (filter (\<lambda>j. snd (decode_user j) = None) js)"

definition getVmessUsers :: "codecs \<Rightarrow> inbound_cfg \<Rightarrow> (inbound_cfg, string list) outcome" where
  "getVmessUsers cc inn = bind_o (NewVmessInboundConfig cc inn) (\<lambda>inn r.
     case r of Inl e \<Rightarrow> Done inn [] | Inr c \<Rightarrow> Done inn (raw_emails (vm_Users c)))"

definition getVlessUsers :: "codecs \<Rightarrow> inbound_cfg \<Rightarrow> (inbound_cfg, string list) outcome" where
  "getVlessUsers cc inn = bind_o (NewVlessInboundConfig cc inn) (\<lambda>inn r.
     case r of Inl e \<Rightarrow> Done inn [] | Inr c \<Rightarrow> Done inn (raw_emails (vl_Clients c)))"

definition getTrojanUsers :: "codecs \<Rightarrow> inbound_cfg \<Rightarrow> (inbound_cfg, string list) outcome" where
  "getTrojanUsers cc inn = bind_o (NewTrojanInboundConfig cc inn) (\<lambda>inn r.
     case r of Inl e \<Rightarrow> Done inn [] | Inr c \<Rightarrow> Done inn (map tu_Email (tj_Clients c)))"

definition GetInboundUsers :: "codecs \<Rightarrow> inbound_cfg \<Rightarrow> (inbound_cfg, string list) outcome" where
  "GetInboundUsers cc inn =
     (let p = to_lower (ic_Protocol inn)
      in if p = VlessProtocolName then getVlessUsers cc inn
         else if p = VmessProtocolName then getVmessUsers cc inn
         else if p = TrojanProtocolName then getTrojanUsers cc inn
         else Done inn [])"

subsection \<open>Fresh settings and copies\<close>

definition NewProtocolSetting :: "codecs \<Rightarrow> string \<Rightarrow> json" where
  "NewProtocolSetting cc p =
     (if to_lower p = VmessProtocolName then vmess_enc cc \<lparr>vm_Users = [], vm_rest = JNull\<rparr>
      else if to_lower p = TrojanProtocolName then trojan_enc cc \<lparr>tj_Clients = [], tj_Fallbacks = []\<rparr>
      else vless_enc cc \<lparr>vl_Clients = [], vl_Decryption = ''none'', vl_Fallbacks = []\<rparr>)"

definition CopyNewInbound :: "codecs \<Rightarrow> inbound \<Rightarrow> string \<Rightarrow> string \<Rightarrow> int \<Rightarrow> inbound" where
  "CopyNewInbound cc srcInbound newProtocol newTag newPort =
     \<lparr>ib_Config = (ib_Config srcInbound)\<lparr>ic_Tag := newTag, ic_PortRange := word_of_int newPort,
        ic_Protocol := newProtocol, ic_Settings := Some (NewProtocolSetting cc newProtocol)\<rparr>,
      ib_Tag = newTag\<rparr>"

definition Inbound_GetUsers :: "codecs \<Rightarrow> inbound \<Rightarrow> string list option" where
  "Inbound_GetUsers cc i = (case GetInboundUsers cc (ib_Config i) of Done _ us \<Rightarrow> Some us | _ \<Rightarrow> None)"

subsection \<open>The contract of a protocol's users\<close>

text \<open>
  What the three protocols promise of an inbound whose settings are readable (\<open>valid\<close>): the list
  of users, adding one at the end and removing the first one of a name. \<open>same_but_settings\<close> says
  that nothing but the settings changes.
\<close>

definition same_but_settings :: "inbound_cfg \<Rightarrow> inbound_cfg \<Rightarrow> bool" where
  "same_but_settings i i' \<longleftrightarrow> i' = i\<lparr>ic_Settings := ic_Settings i'\<rparr>"

locale protocol_users =
  fixes users :: "codecs \<Rightarrow> inbound_cfg \<Rightarrow> (inbound_cfg, string list) outcome"
    and add :: "codecs \<Rightarrow> puser \<Rightarrow> inbound_cfg \<Rightarrow> (inbound_cfg, gerror option) outcome"
    and remove :: "codecs \<Rightarrow> puser \<Rightarrow> inbound_cfg \<Rightarrow> (inbound_cfg, gerror option) outcome"
    and valid :: "codecs \<Rightarrow> inbound_cfg \<Rightarrow> bool"
  assumes users_done: "valid cc i \<Longrightarrow> \<exists>us. users cc i = Done i us"
    and add_law: "codec_ok cc \<Longrightarrow> valid cc i \<Longrightarrow> users cc i = Done i us \<Longrightarrow>
      \<exists>i'. add cc u i = Done i' None \<and> valid cc i' \<and> same_but_settings i i' \<and>
        users cc i' = Done i' (us @ [pu_Email u])"
    and remove_law: "codec_ok cc \<Longrightarrow> valid cc i \<Longrightarrow> users cc i = Done i us \<Longrightarrow>
      pu_Email u \<in> set us \<or> us = [] \<Longrightarrow>
      \<exists>i'. remove cc u i = Done i' None \<and> valid cc i' \<and> same_but_settings i i' \<and>
        users cc i' = Done i' (remove1 (pu_Email u) us)"
    and remove_missing: "codec_ok cc \<Longrightarrow> valid cc i \<Longrightarrow> users cc i = Done i us \<Longrightarrow>
      pu_Email u \<notin> set us \<Longrightarrow> us \<noteq> [] \<Longrightarrow> \<exists>e. remove cc u i = Done i (Some e)"
begin

text \<open>Adding a new user and removing it again gives the users of before.\<close>

lemma add_remove:
  assumes "codec_ok cc" "valid cc i" "users cc i = Done i us" "pu_Email u \<notin> set us"
  shows "\<exists>i' i''. add cc u i = Done i' None \<and> remove cc u i' = Done i'' None \<and>
     users cc i'' = Done i'' us \<and> valid cc i''"
proof -
  obtain i' where i': "add cc u i = Done i' None" "valid cc i'" "users cc i' = Done i' (us @ [pu_Email u])"
    using add_law [OF assms(1-3), of u] by auto
  obtain i'' where "remove cc u i' = Done i'' None" "valid cc i''"
      "users cc i'' = Done i'' (remove1 (pu_Email u) (us @ [pu_Email u]))"
    using remove_law [OF assms(1) i'(2,3), of u] by auto
  with i' assms(4) show ?thesis by (auto simp: remove1_append)
qed

end

text \<open>Readable settings, per protocol.\<close>

definition vmess_valid :: "codecs \<Rightarrow> inbound_cfg \<Rightarrow> bool" where
  "vmess_valid cc i \<longleftrightarrow> to_lower (ic_Protocol i) = VmessProtocolName \<and>
     (\<exists>j c. ic_Settings i = Some j \<and> vmess_dec cc j = Inr c \<and> (\<forall>x \<in> set (vm_Users c). snd (decode_user x) = None))"

definition vless_valid :: "codecs \<Rightarrow> inbound_cfg \<Rightarrow> bool" where
  "vless_valid cc i \<longleftrightarrow> to_lower (ic_Protocol i) = VlessProtocolName \<and>
     (\<exists>j c. ic_Settings i = Some j \<and> vless_dec cc j = Inr c \<and> (\<forall>x \<in> set (vl_Clients c). snd (decode_user x) = None))"

definition trojan_valid :: "codecs \<Rightarrow> inbound_cfg \<Rightarrow> bool" where
  "trojan_valid cc i \<longleftrightarrow> to_lower (ic_Protocol i) = TrojanProtocolName \<and>
     (\<exists>j c. ic_Settings i = Some j \<and> trojan_dec cc j = Inr c)"

lemma remove_first_Inr:
  "email \<in> set (map f xs) \<or> xs = [] \<Longrightarrow>
   \<exists>ys. remove_first f err email xs = Inr ys \<and> map f ys = remove1 email (map f xs) \<and> set ys \<subseteq> set xs"
proof (induction f err email xs rule: remove_first.induct)
  case (2 f err email x xs)
  show ?case
  proof (cases "f x = email")
    case False
    with 2(2) have "email \<in> set (map f xs)" "xs \<noteq> []" by auto
    with 2(1) [OF False] obtain ys where "remove_first f err email xs = Inr ys"
        "map f ys = remove1 email (map f xs)" "set ys \<subseteq> set xs"
      by auto
    with False \<open>xs \<noteq> []\<close> show ?thesis by auto
  qed auto
qed simp

lemma remove_first_Inl:
  "email \<notin> set (map f xs) \<Longrightarrow> xs \<noteq> [] \<Longrightarrow> remove_first f err email xs = Inl err"
  by (induction f err email xs rule: remove_first.induct) (auto split: sum.split)

lemma raw_emails_valid: "\<forall>x \<in> set js. snd (decode_user x) = None \<Longrightarrow> raw_emails js = map raw_email js"
  by (simp add: raw_emails_def)

lemma raw_email_encode [simp]: "raw_email (encode_user u) = iu_Email u"
  by (simp add: raw_email_def decode_encode_user)

lemmas vmess_user_defs = NewVmessInboundConfig_def getVmessUsers_def addVmessUser_def removeVmessUser_def
  vmess_valid_def
lemmas vless_user_defs = NewVlessInboundConfig_def getVlessUsers_def addVlessUser_def removeVlessUser_def
  vless_valid_def
lemmas trojan_user_defs = NewTrojanInboundConfig_def getTrojanUsers_def addTrojanUser_def removeTrojanUser_def
  trojan_valid_def

interpretation vmess: protocol_users getVmessUsers addVmessUser removeVmessUser vmess_valid
proof
  fix cc i us u
  assume ok: "codec_ok cc" and "vmess_valid cc i" and "getVmessUsers cc i = Done i us"
  then obtain j c where c: "to_lower (ic_Protocol i) = VmessProtocolName" "ic_Settings i = Some j"
      "vmess_dec cc j = Inr c" "\<forall>x \<in> set (vm_Users c). snd (decode_user x) = None"
    and us: "us = map raw_email (vm_Users c)"
    by (auto simp: vmess_user_defs raw_emails_valid)
  from ok c us show "\<exists>i'. addVmessUser cc u i = Done i' None \<and> vmess_valid cc i' \<and> same_but_settings i i' \<and>
      getVmessUsers cc i' = Done i' (us @ [pu_Email u])"
    by (simp add: vmess_user_defs codec_ok_simps Let_def same_but_settings_def decode_encode_user
        raw_emails_valid)
  show "\<exists>i'. removeVmessUser cc u i = Done i' None \<and> vmess_valid cc i' \<and> same_but_settings i i' \<and>
      getVmessUsers cc i' = Done i' (remove1 (pu_Email u) us)"
    if listed: "pu_Email u \<in> set us \<or> us = []"
  proof -
    obtain ys where "remove_first raw_email (''No User '' @ pu_Email u) (pu_Email u) (vm_Users c) = Inr ys"
        "map raw_email ys = remove1 (pu_Email u) us" "set ys \<subseteq> set (vm_Users c)"
      using remove_first_Inr [of "pu_Email u" raw_email "vm_Users c"] listed us by auto
    with ok c show ?thesis
      by (simp add: vmess_user_defs codec_ok_simps same_but_settings_def raw_emails_valid subset_iff)
  qed
  show "\<exists>e. removeVmessUser cc u i = Done i (Some e)" if "pu_Email u \<notin> set us" "us \<noteq> []"
    using remove_first_Inl [of "pu_Email u" raw_email "vm_Users c"] that us c
    by (simp add: vmess_user_defs)
qed (auto simp: vmess_user_defs)

interpretation vless: protocol_users getVlessUsers addVlessUser removeVlessUser vless_valid
proof
  fix cc i us u
  assume ok: "codec_ok cc" and "vless_valid cc i" and "getVlessUsers cc i = Done i us"
  then obtain j c where c: "to_lower (ic_Protocol i) = VlessProtocolName" "ic_Settings i = Some j"
      "vless_dec cc j = Inr c" "\<forall>x \<in> set (vl_Clients c). snd (decode_user x) = None"
    and us: "us = map raw_email (vl_Clients c)"
    by (auto simp: vless_user_defs raw_emails_valid)
  from ok c us show "\<exists>i'. addVlessUser cc u i = Done i' None \<and> vless_valid cc i' \<and> same_but_settings i i' \<and>
      getVlessUsers cc i' = Done i' (us @ [pu_Email u])"
    by (simp add: vless_user_defs codec_ok_simps Let_def same_but_settings_def decode_encode_user
        raw_emails_valid)
  show "\<exists>i'. removeVlessUser cc u i = Done i' None \<and> vless_valid cc i' \<and> same_but_settings i i' \<and>
      getVlessUsers cc i' = Done i' (remove1 (pu_Email u) us)"
    if listed: "pu_Email u \<in> set us \<or> us = []"
  proof -
    obtain ys where "remove_first raw_email ('' '' @ pu_Email u) (pu_Email u) (vl_Clients c) = Inr ys"
        "map raw_email ys = remove1 (pu_Email u) us" "set ys \<subseteq> set (vl_Clients c)"
      using remove_first_Inr [of "pu_Email u" raw_email "vl_Clients c"] listed us by auto
    with ok c show ?thesis
      by (simp add: vless_user_defs codec_ok_simps same_but_settings_def raw_emails_valid subset_iff)
  qed
  show "\<exists>e. removeVlessUser cc u i = Done i (Some e)" if "pu_Email u \<notin> set us" "us \<noteq> []"
    using remove_first_Inl [of "pu_Email u" raw_email "vl_Clients c"] that us c
    by (simp add: vless_user_defs)
qed (auto simp: vless_user_defs)

interpretation trojan: protocol_users getTrojanUsers addTrojanUser removeTrojanUser trojan_valid
proof
  fix cc i us u
  assume ok: "codec_ok cc" and "trojan_valid cc i" and "getTrojanUsers cc i = Done i us"
  then obtain j c where c: "to_lower (ic_Protocol i) = TrojanProtocolName" "ic_Settings i = Some j"
      "trojan_dec cc j = Inr c" and us: "us = map tu_Email (tj_Clients c)"
    by (auto simp: trojan_user_defs)
  from ok c us show "\<exists>i'. addTrojanUser cc u i = Done i' None \<and> trojan_valid cc i' \<and> same_but_settings i i' \<and>
      getTrojanUsers cc i' = Done i' (us @ [pu_Email u])"
    by (simp add: trojan_user_defs codec_ok_simps Let_def same_but_settings_def)
  show "\<exists>i'. removeTrojanUser cc u i = Done i' None \<and> trojan_valid cc i' \<and> same_but_settings i i' \<and>
      getTrojanUsers cc i' = Done i' (remove1 (pu_Email u) us)"
    if listed: "pu_Email u \<in> set us \<or> us = []"
  proof -
    obtain ys where "remove_first tu_Email ('' '' @ pu_Email u) (pu_Email u) (tj_Clients c) = Inr ys"
        "map tu_Email ys = remove1 (pu_Email u) us" "set ys \<subseteq> set (tj_Clients c)"
      using remove_first_Inr [of "pu_Email u" tu_Email "tj_Clients c"] listed us by auto
    with ok c show ?thesis
      by (simp add: trojan_user_defs codec_ok_simps same_but_settings_def)
  qed
  show "\<exists>e. removeTrojanUser cc u i = Done i (Some e)" if "pu_Email u \<notin> set us" "us \<noteq> []"
    using remove_first_Inl [of "pu_Email u" tu_Email "tj_Clients c"] that us c
    by (simp add: trojan_user_defs)
qed (auto simp: trojan_user_defs)

text \<open>The three together, behind the switches on the protocol.\<close>

definition readable :: "codecs \<Rightarrow> inbound_cfg \<Rightarrow> bool" where
  "readable cc i \<longleftrightarrow> vmess_valid cc i \<or> vless_valid cc i \<or> trojan_valid cc i"

lemma by_protocol_simps:
  "vmess_valid cc i \<Longrightarrow> GetInboundUsers cc i = getVmessUsers cc i \<and> add_by_protocol cc u i = addVmessUser cc u i
     \<and> remove_by_protocol cc u i = removeVmessUser cc u i"
  "vless_valid cc i \<Longrightarrow> GetInboundUsers cc i = getVlessUsers cc i \<and> add_by_protocol cc u i = addVlessUser cc u i
     \<and> remove_by_protocol cc u i = removeVlessUser cc u i"
  "trojan_valid cc i \<Longrightarrow> GetInboundUsers cc i = getTrojanUsers cc i \<and> add_by_protocol cc u i = addTrojanUser cc u i
     \<and> remove_by_protocol cc u i = removeTrojanUser cc u i"
  by (simp_all add: GetInboundUsers_def add_by_protocol_def remove_by_protocol_def Let_def protocol_names
      vmess_valid_def vless_valid_def trojan_valid_def)

interpretation file_users: protocol_users GetInboundUsers add_by_protocol remove_by_protocol readable
proof
  fix cc i
  show "readable cc i \<Longrightarrow> \<exists>us. GetInboundUsers cc i = Done i us"
    unfolding readable_def using vmess.users_done vless.users_done trojan.users_done
    by (metis by_protocol_simps)
next
  fix cc i us u
  assume h: "codec_ok cc" "readable cc i" "GetInboundUsers cc i = Done i us"
  then consider "vmess_valid cc i" "getVmessUsers cc i = Done i us" | "vless_valid cc i" "getVlessUsers cc i = Done i us"
    | "trojan_valid cc i" "getTrojanUsers cc i = Done i us"
    unfolding readable_def by (metis by_protocol_simps)
  note cs = this
  show "\<exists>i'. add_by_protocol cc u i = Done i' None \<and> readable cc i' \<and> same_but_settings i i' \<and>
      GetInboundUsers cc i' = Done i' (us @ [pu_Email u])"
    using cs
  proof cases
    case 1
    then show ?thesis using vmess.add_law [OF h(1) 1, of u] by (auto simp: readable_def by_protocol_simps)
  next
    case 2
    then show ?thesis using vless.add_law [OF h(1) 2, of u] by (auto simp: readable_def by_protocol_simps)
  next
    case 3
    then show ?thesis using trojan.add_law [OF h(1) 3, of u] by (auto simp: readable_def by_protocol_simps)
  qed
  show "\<exists>i'. remove_by_protocol cc u i = Done i' None \<and> readable cc i' \<and> same_but_settings i i' \<and>
      GetInboundUsers cc i' = Done i' (remove1 (pu_Email u) us)"
    if listed: "pu_Email u \<in> set us \<or> us = []"
    using cs
  proof cases
    case 1
    then show ?thesis using vmess.remove_law [OF h(1) 1 listed] by (auto simp: readable_def by_protocol_simps)
  next
    case 2
    then show ?thesis using vless.remove_law [OF h(1) 2 listed] by (auto simp: readable_def by_protocol_simps)
  next
    case 3
    then show ?thesis using trojan.remove_law [OF h(1) 3 listed] by (auto simp: readable_def by_protocol_simps)
  qed
  show "\<exists>e. remove_by_protocol cc u i = Done i (Some e)" if "pu_Email u \<notin> set us" "us \<noteq> []"
    using cs by cases (use that h(1) in \<open>auto simp: by_protocol_simps
      dest: vmess.remove_missing vless.remove_missing trojan.remove_missing\<close>)
qed

end
