(* ===== verification/AdaptivePorts.thy ===== *)
theory AdaptivePorts
  imports Config
begin

text \<open>
  \<open>proxy/manager/adaptive.go\<close>: the pool of ports and the tags of the inbounds whose port changes
  periodically. The sets are Go maps to \<open>true\<close>. A port value is what the configuration may hold:
  a string, a JSON number (\<open>float64\<close>, by its integer part), an \<open>int\<close> (what YAML yields, and what
  \<open>Build\<close> stores) or an \<open>uint32\<close>; the type switch of \<open>AddPort\<close> knows the first two only.
  \<open>parseStringPortRange\<close> clamps the bounds through \<open>float64\<close>, which is exact on the values that
  remain after clamping; a start beyond \<open>65535\<close> yields no port here.
\<close>

definition minPort :: int where "minPort = 100"
definition maxPort :: int where "maxPort = 65535"

datatype port_value = PString string | PFloat int | PInt int | PUint32 "32 word"

record adaptive =
  ad_CronRule :: string
  ad_Ports :: "int set"
  ad_Tags :: "string set"

record raw_adaptive =
  ra_Cron :: string
  ra_Ports :: "port_value list"
  ra_Tags :: "string list"

definition port_range_error :: gerror where
  "port_range_error = ''port shuold in 100-65535''"

definition parseStringPortRange :: "string \<Rightarrow> int set \<Rightarrow> int set \<times> gerror option" where
  "parseStringPortRange stringPortRange ports =
     (if str_contains stringPortRange ''-'' then
        (let parts = split_on (CHR ''-'') stringPortRange; start = parts ! 0; stop = parts ! 1
         in case parse_int 64 start of
              Inl e \<Rightarrow> (ports, Some e)
            | Inr startPort \<Rightarrow>
                (case parse_int 64 stop of
                   Inl e \<Rightarrow> (ports, Some e)
                 | Inr endPort \<Rightarrow> (ports \<union> {max startPort minPort..min endPort maxPort}, None)))
      else
        (case parse_int 64 stringPortRange of
           Inl e \<Rightarrow> (ports, Some e)
         | Inr port \<Rightarrow> if port > maxPort \<or> port < minPort then (ports, Some port_range_error)
             else (insert port ports, None)))"

definition Adaptive_AddPort :: "port_value \<Rightarrow> adaptive \<Rightarrow> adaptive \<times> gerror option" where
  "Adaptive_AddPort port a =
     (case port of
        PString s \<Rightarrow> (case parseStringPortRange s (ad_Ports a) of (ps, e) \<Rightarrow> (a\<lparr>ad_Ports := ps\<rparr>, e))
      | PFloat intPort \<Rightarrow>
          if intPort < minPort \<or> intPort > maxPort then (a, Some port_range_error)
          else (a\<lparr>ad_Ports := insert intPort (ad_Ports a)\<rparr>, None)
      | _ \<Rightarrow> (a, None))"

definition Adaptive_AddTag :: "string \<Rightarrow> adaptive \<Rightarrow> adaptive" where
  "Adaptive_AddTag tag a = a\<lparr>ad_Tags := insert tag (ad_Tags a)\<rparr>"

definition Adaptive_DeletePort :: "int \<Rightarrow> adaptive \<Rightarrow> adaptive" where
  "Adaptive_DeletePort port a = a\<lparr>ad_Ports := ad_Ports a - {port}\<rparr>"

definition Adaptive_DeleteTag :: "string \<Rightarrow> adaptive \<Rightarrow> adaptive" where
  "Adaptive_DeleteTag tag a = a\<lparr>ad_Tags := ad_Tags a - {tag}\<rparr>"

text \<open>The tags in the order the loop over the map meets them.\<close>

definition Adaptive_GetTags :: "string list \<Rightarrow> adaptive \<Rightarrow> string list" where
  "Adaptive_GetTags ord a = filter (\<lambda>t. t \<in> ad_Tags a) ord"

text \<open>Errors of single ports are dropped. The largest \<open>int64\<close> is added as a sentinel for \<open>Build\<close>.\<close>

definition Adaptive_Init :: "raw_adaptive \<Rightarrow> adaptive \<Rightarrow> adaptive" where
  "Adaptive_Init raw a =
     (let a1 = a\<lparr>ad_CronRule := ra_Cron raw, ad_Tags := ad_Tags a \<union> set (ra_Tags raw)\<rparr>;
          a2 = fold (\<lambda>p a. fst (Adaptive_AddPort p a)) (ra_Ports raw) a1
      in a2\<lparr>ad_Ports := insert max_int64 (ad_Ports a2)\<rparr>)"

text \<open>
  The loop of \<open>Build\<close> over the sorted ports: \<open>s\<close> and \<open>e\<close> are the bounds of the current run, and a run
  is emitted when the next port does not continue it; the last run is never emitted.
\<close>

fun build_groups :: "int \<Rightarrow> int \<Rightarrow> int list \<Rightarrow> (int \<times> int) list" where
  "build_groups s e [] = []"
| "build_groups s e (p # ps) = (if p - e = 1 then build_groups s p ps else (s, e) # build_groups p p ps)"

definition group_value :: "int \<times> int \<Rightarrow> port_value" where
  "group_value g = (case g of (s, e) \<Rightarrow> if s = e then PInt s else PString (itoa s @ ''-'' @ itoa e))"

definition Adaptive_Build :: "string list \<Rightarrow> adaptive \<Rightarrow> raw_adaptive" where
  "Adaptive_Build tag_ord a =
     \<lparr>ra_Cron = ad_CronRule a,
      ra_Ports = (case sorted_list_of_set (ad_Ports a) of
          [] \<Rightarrow> [] | p # ps \<Rightarrow> map group_value (build_groups p p ps)),
      ra_Tags = filter (\<lambda>t. t \<in> ad_Tags a) tag_ord\<rparr>"

text \<open>
  \<open>getRandPort\<close> (proxy_manager.go): \<open>ord\<close> is the order of the loop over the pool, \<open>targetIndex\<close> the
  random number below its size; \<open>None\<close> is the panic of \<open>rand.Intn(0)\<close>.
\<close>

fun nth_port :: "int list \<Rightarrow> nat \<Rightarrow> nat \<Rightarrow> int" where
  "nth_port [] index targetIndex = -1"
| "nth_port (port # ps) index targetIndex =
     (if port = max_int64 then nth_port ps index targetIndex
      else if targetIndex = index then port
      else nth_port ps (Suc index) targetIndex)"

definition getRandPort :: "int list \<Rightarrow> nat \<Rightarrow> adaptive \<Rightarrow> int option" where
  "getRandPort ord targetIndex a =
     (if card (ad_Ports a) = 1 then Some (-1)
      else if card (ad_Ports a) < card (ad_Tags a) * 2 then Some (-1)
      else if card (ad_Ports a) = 0 then None
      else Some (nth_port ord 0 targetIndex))"

subsection \<open>Runs\<close>

lemma build_groups_cover:
  "s \<le> e \<Longrightarrow> sorted (e # ps @ [m]) \<Longrightarrow> distinct (e # ps @ [m]) \<Longrightarrow> m - last (e # ps) \<noteq> 1 \<Longrightarrow>
   (\<Union>(a, b) \<in> set (build_groups s e (ps @ [m])). {a..b}) = {s..e} \<union> set ps"
proof (induction ps arbitrary: s e)
  case (Cons p ps)
  show ?case
  proof (cases "p - e = 1")
    case True
    then have "{s..p} = insert p {s..e}" using Cons.prems(1) by auto
    with Cons.IH [of s p] Cons.prems True show ?thesis by auto
  next
    case False
    with Cons.IH [of p p] Cons.prems show ?thesis by auto
  qed
qed simp

lemma build_groups_bounds:
  assumes "(a, b) \<in> set (build_groups s e ps)" "s \<le> e" "sorted (e # ps)" "distinct (e # ps)"
  shows "a \<le> b \<and> (a = s \<or> a - 1 \<notin> {s..e} \<union> set ps) \<and> b + 1 \<notin> {s..e} \<union> set ps \<and> s \<le> a"
  using assms
proof (induction ps arbitrary: s e)
  case (Cons p ps)
  show ?case
  proof (cases "p - e = 1")
    case True
    then have "{s..p} = insert p {s..e}" using Cons.prems(2) by auto
    with Cons.IH [of s p] Cons.prems True show ?thesis by auto
  next
    case gap: False
    show ?thesis
    proof (cases "(a, b) = (s, e)")
      case True
      have "e + 1 \<notin> set ps" using Cons.prems(3,4) gap by fastforce
      with True Cons.prems gap show ?thesis by auto
    next
      case False
      with gap Cons.prems(1) have ab: "(a, b) \<in> set (build_groups p p ps)" by (auto split: if_splits)
      have "a \<le> b \<and> (a = p \<or> a - 1 \<notin> {p..p} \<union> set ps) \<and> b + 1 \<notin> {p..p} \<union> set ps \<and> p \<le> a"
        using Cons.IH [OF ab] Cons.prems by auto
      moreover have "p - 1 \<notin> {s..e} \<union> set (p # ps)" "s \<le> p" "e < p"
        using Cons.prems gap by fastforce+
      ultimately show ?thesis by (cases "a = p") auto
    qed
  qed
qed simp

subsection \<open>What a list of port values means\<close>

definition value_ports :: "port_value \<Rightarrow> int set" where
  "value_ports v =
     (case v of
        PString s \<Rightarrow> fst (parseStringPortRange s {})
      | PFloat p \<Rightarrow> if p < minPort \<or> p > maxPort then {} else {p}
      | _ \<Rightarrow> {})"

lemma parseStringPortRange_union:
  "fst (parseStringPortRange s ports) = ports \<union> fst (parseStringPortRange s {})"
  by (simp add: parseStringPortRange_def Let_def split: sum.split)

lemma AddPort_ports: "ad_Ports (fst (Adaptive_AddPort v a)) = ad_Ports a \<union> value_ports v"
  using parseStringPortRange_union [of _ "ad_Ports a"]
  by (cases v) (simp_all add: Adaptive_AddPort_def value_ports_def split_beta)

lemma AddPort_tags: "ad_Tags (fst (Adaptive_AddPort v a)) = ad_Tags a"
    "ad_CronRule (fst (Adaptive_AddPort v a)) = ad_CronRule a"
  by (cases v; simp add: Adaptive_AddPort_def split_beta)+

lemma fold_AddPort:
  "ad_Ports (fold (\<lambda>p a. fst (Adaptive_AddPort p a)) vs a) = ad_Ports a \<union> (\<Union>v \<in> set vs. value_ports v)"
  "ad_Tags (fold (\<lambda>p a. fst (Adaptive_AddPort p a)) vs a) = ad_Tags a"
  by (induction vs arbitrary: a) (auto simp: AddPort_ports AddPort_tags)

lemma Init_ports:
  "ad_Ports (Adaptive_Init raw a) = insert max_int64 (ad_Ports a \<union> (\<Union>v \<in> set (ra_Ports raw). value_ports v))"
  "ad_Tags (Adaptive_Init raw a) = ad_Tags a \<union> set (ra_Tags raw)"
  by (simp_all add: Adaptive_Init_def Let_def fold_AddPort)

lemma value_ports_range:
  assumes "minPort \<le> a" "a \<le> b" "b \<le> maxPort"
  shows "value_ports (PString (itoa a @ ''-'' @ itoa b)) = {a..b}"
proof -
  have "0 \<le> a" "0 \<le> b" "in_int64 a" "in_int64 b"
    using assms by (simp_all add: minPort_def maxPort_def in_int64_def)
  then have split: "split_on (CHR ''-'') (itoa a @ ''-'' @ itoa b) = [itoa a, itoa b]"
    by (simp add: split_on_append_sep split_on_no_sep itoa_nonneg_no_minus)
  have "str_contains (itoa a @ ''-'' @ itoa b) ''-''" by (auto simp: str_contains_iff)
  with split assms \<open>in_int64 a\<close> \<open>in_int64 b\<close> show ?thesis
    by (simp add: value_ports_def parseStringPortRange_def Let_def parse_int_itoa max_def min_def)
qed

text \<open>A pool as the program makes it: ports in the allowed range and the sentinel.\<close>

definition pool_ok :: "adaptive \<Rightarrow> bool" where
  "pool_ok a \<longleftrightarrow> max_int64 \<in> ad_Ports a \<and> ad_Ports a - {max_int64} \<subseteq> {minPort..maxPort}"

lemma sorted_list_of_set_last:
  assumes "finite P" "\<And>p. p \<in> P \<Longrightarrow> p < (m :: int)"
  shows "sorted_list_of_set (insert m P) = sorted_list_of_set P @ [m]"
proof (rule sorted_distinct_set_unique)
  show "sorted (sorted_list_of_set P @ [m])"
    using assms by (auto simp: sorted_append intro: less_imp_le)
  show "distinct (sorted_list_of_set P @ [m])" using assms by auto
  show "set (sorted_list_of_set (insert m P)) = set (sorted_list_of_set P @ [m])"
    using assms(1) set_sorted_list_of_set [of "insert m P"] by (metis finite_insert set_append
      set_sorted_list_of_set list.simps(15) empty_set insert_is_Un Un_commute)
qed (rule sorted_sorted_list_of_set distinct_sorted_list_of_set)+

lemma Build_groups:
  assumes "pool_ok a"
  obtains gs where "ra_Ports (Adaptive_Build ord a) = map group_value gs"
    and "(\<Union>(x, y) \<in> set gs. {x..y}) = ad_Ports a - {max_int64}"
    and "\<And>x y. (x, y) \<in> set gs \<Longrightarrow> minPort \<le> x \<and> x \<le> y \<and> y \<le> maxPort
      \<and> x - 1 \<notin> ad_Ports a \<and> y + 1 \<notin> ad_Ports a"
proof -
  define P where "P = ad_Ports a - {max_int64}"
  have sub: "P \<subseteq> {minPort..maxPort}" and ports: "ad_Ports a = insert max_int64 P"
    using assms by (auto simp: pool_ok_def P_def)
  have fin: "finite P" using sub finite_subset by blast
  have small: "p < max_int64 - 1" if "p \<in> P" for p
    using that sub by (auto simp: max_int64_def maxPort_def)
  have list: "sorted_list_of_set (ad_Ports a) = sorted_list_of_set P @ [max_int64]"
    unfolding ports using fin small by (intro sorted_list_of_set_last) fastforce+
  show ?thesis
  proof (cases "sorted_list_of_set P")
    case Nil
    then have "P = {}" using fin by simp
    with list Nil show ?thesis
      by (intro that [of "[]"]) (simp_all add: Adaptive_Build_def P_def [symmetric])
  next
    case (Cons p ps)
    let ?gs = "build_groups p p (ps @ [max_int64])"
    have set: "set (p # ps) = P" using Cons fin by (metis set_sorted_list_of_set)
    have sd: "sorted (p # ps @ [max_int64])" "distinct (p # ps @ [max_int64])"
      using list Cons by (metis append_Cons sorted_sorted_list_of_set distinct_sorted_list_of_set)+
    have last: "max_int64 - last (p # ps) \<noteq> 1"
      using small [of "last (p # ps)"] set last_in_set [of "p # ps"] by auto
    have cover: "(\<Union>(x, y) \<in> set ?gs. {x..y}) = P"
      using build_groups_cover [OF _ sd last, of p] set by auto
    have all: "{p..p} \<union> set (ps @ [max_int64]) = ad_Ports a" using set ports by auto
    have "p - 1 \<notin> ad_Ports a"
      using sd all small [of p] set by (auto simp: ports)
    then have bounds: "x \<le> y \<and> x - 1 \<notin> ad_Ports a \<and> y + 1 \<notin> ad_Ports a" if "(x, y) \<in> set ?gs" for x y
      using build_groups_bounds [OF that _ sd] all by auto
    have "minPort \<le> x \<and> y \<le> maxPort" if "(x, y) \<in> set ?gs" for x y
    proof -
      have "x \<in> P" "y \<in> P" using cover bounds [OF that] that by auto
      with sub show ?thesis by auto
    qed
    with bounds cover list Cons show ?thesis
      by (intro that [of ?gs]) (auto simp: Adaptive_Build_def P_def)
  qed
qed

subsection \<open>Properties\<close>

text \<open>Storing the pool as JSON and reading it back turns the \<open>int\<close> values into \<open>float64\<close>.\<close>

definition as_json :: "raw_adaptive \<Rightarrow> raw_adaptive" where
  "as_json raw = raw\<lparr>ra_Ports := map (\<lambda>v. case v of PInt p \<Rightarrow> PFloat p | v \<Rightarrow> v) (ra_Ports raw)\<rparr>"

definition no_ports :: adaptive where
  "no_ports = \<lparr>ad_CronRule = '''', ad_Ports = {}, ad_Tags = {}\<rparr>"

lemma value_ports_group:
  assumes "minPort \<le> x" "x \<le> y" "y \<le> maxPort"
  shows "value_ports (group_value (x, y)) = (if x < y then {x..y} else {})"
    and "value_ports (case group_value (x, y) of PInt p \<Rightarrow> PFloat p | v \<Rightarrow> v) = {x..y}"
  using assms value_ports_range [OF assms]
  by (auto simp: group_value_def value_ports_def)

text \<open>
  C39: the pool survives a round trip through JSON. \<open>Build\<close> prints the pool as single ports and as
  ranges of neighbouring ports; reading this configuration back from JSON with \<open>Init\<close> gives
  exactly the same pool of ports and the same tags.
\<close>

theorem adaptive_json_roundtrip:
  assumes "pool_ok a" and "set ord = ad_Tags a"
  shows "ad_Ports (Adaptive_Init (as_json (Adaptive_Build ord a)) no_ports) = ad_Ports a \<and>
    ad_Tags (Adaptive_Init (as_json (Adaptive_Build ord a)) no_ports) = ad_Tags a"
proof
  obtain gs where gs: "ra_Ports (Adaptive_Build ord a) = map group_value gs"
      "(\<Union>(x, y) \<in> set gs. {x..y}) = ad_Ports a - {max_int64}"
      "\<And>x y. (x, y) \<in> set gs \<Longrightarrow> minPort \<le> x \<and> x \<le> y \<and> y \<le> maxPort \<and> x - 1 \<notin> ad_Ports a \<and> y + 1 \<notin> ad_Ports a"
    using Build_groups [OF assms(1), of ord] by metis
  have "(\<Union>g \<in> set gs. value_ports (case group_value g of PInt p \<Rightarrow> PFloat p | v \<Rightarrow> v)) = (\<Union>(x, y) \<in> set gs. {x..y})"
    using gs(3) value_ports_group(2) by (intro SUP_cong) (auto split: prod.splits)
  then show "ad_Ports (Adaptive_Init (as_json (Adaptive_Build ord a)) no_ports) = ad_Ports a"
    using assms(1) by (auto simp: Init_ports as_json_def gs(1,2) no_ports_def pool_ok_def image_image)
  show "ad_Tags (Adaptive_Init (as_json (Adaptive_Build ord a)) no_ports) = ad_Tags a"
    using assms(2) by (auto simp: Init_ports as_json_def no_ports_def Adaptive_Build_def)
qed

text \<open>
  Single ports are lost without JSON. When the configuration keeps the values of \<open>Build\<close> as they
  are, as YAML does with its \<open>int\<close> values, \<open>Init\<close> gets back the sentinel and just the ports that
  have a neighbour in the pool: \<open>AddPort\<close> ignores an \<open>int\<close> without an error.
\<close>

theorem adaptive_single_ports_lost:
  assumes "pool_ok a"
  shows "ad_Ports (Adaptive_Init (Adaptive_Build ord a) no_ports) =
    insert max_int64 {p \<in> ad_Ports a - {max_int64}. p - 1 \<in> ad_Ports a \<or> p + 1 \<in> ad_Ports a}"
proof -
  obtain gs where gs: "ra_Ports (Adaptive_Build ord a) = map group_value gs"
      "(\<Union>(x, y) \<in> set gs. {x..y}) = ad_Ports a - {max_int64}"
      "\<And>x y. (x, y) \<in> set gs \<Longrightarrow> minPort \<le> x \<and> x \<le> y \<and> y \<le> maxPort \<and> x - 1 \<notin> ad_Ports a \<and> y + 1 \<notin> ad_Ports a"
    using Build_groups [OF assms, of ord] by metis
  have "p \<in> value_ports (group_value (x, y)) \<longleftrightarrow> p \<in> {x..y} \<and> (p - 1 \<in> ad_Ports a \<or> p + 1 \<in> ad_Ports a)"
    if "(x, y) \<in> set gs" for x y p
  proof -
    have "q \<in> ad_Ports a" if "q \<in> {x..y}" for q using that \<open>(x, y) \<in> set gs\<close> gs(2) by blast
    moreover have "p - 1 \<in> {x..y} \<or> p + 1 \<in> {x..y}" if "p \<in> {x..y}" "x < y" using that by auto
    moreover have "p - 1 \<notin> ad_Ports a \<and> p + 1 \<notin> ad_Ports a" if "p \<in> {x..y}" "\<not> x < y"
    proof -
      have "p = x" "p = y" using that by auto
      with gs(3) [OF \<open>(x, y) \<in> set gs\<close>] show ?thesis by simp
    qed
    ultimately show ?thesis
      using gs(3) [OF that] value_ports_group(1) [of x y] by (cases "x < y") auto
  qed
  then have "(\<Union>g \<in> set gs. value_ports (group_value g)) =
      {p \<in> \<Union>(x, y) \<in> set gs. {x..y}. p - 1 \<in> ad_Ports a \<or> p + 1 \<in> ad_Ports a}"
    by fastforce
  then show ?thesis
    by (simp add: Init_ports gs(1,2) no_ports_def image_image)
qed

definition demo_pool :: adaptive where
  "demo_pool = \<lparr>ad_CronRule = '''', ad_Ports = {2000, 2001, 3000, max_int64}, ad_Tags = {''t''}\<rparr>"

lemma pool_ok_demo: "pool_ok demo_pool"
  by (auto simp: pool_ok_def demo_pool_def minPort_def maxPort_def max_int64_def)

theorem adaptive_json_roundtrip_witness:
  "ad_Ports (Adaptive_Init (as_json (Adaptive_Build [''t''] demo_pool)) no_ports) = {2000, 2001, 3000, max_int64}"
  using adaptive_json_roundtrip [OF pool_ok_demo, of "[''t'']"] by (simp add: demo_pool_def)

theorem adaptive_single_ports_lost_witness:
  "3000 \<in> ad_Ports demo_pool \<and> 3000 \<notin> ad_Ports (Adaptive_Init (Adaptive_Build [''t''] demo_pool) no_ports)"
  using adaptive_single_ports_lost [OF pool_ok_demo, of "[''t'']"] by (auto simp: demo_pool_def max_int64_def)

lemma nth_port_filter:
  "i \<le> t \<Longrightarrow> nth_port ord i t = (let ps = filter (\<lambda>p. p \<noteq> max_int64) ord in
     if t - i < length ps then ps ! (t - i) else -1)"
proof (induction ord i t rule: nth_port.induct)
  case (2 port ps index targetIndex)
  then show ?case by (auto simp: Let_def nth_Cons' Suc_diff_le)
qed (simp add: Let_def)

text \<open>
  Choosing a random port. When the pool is large enough, each index below the number of real
  ports chooses the port at that place of the iteration, a member of the pool. The index is drawn
  from a range that counts the sentinel too, and its last value yields \<open>-1\<close>, which no inbound can
  be moved to.
\<close>

theorem getRandPort_choice:
  assumes "distinct ord" "set ord = ad_Ports a" "pool_ok a"
    and "card (ad_Ports a) \<noteq> 1" "card (ad_Tags a) * 2 \<le> card (ad_Ports a)" "idx < card (ad_Ports a)"
  shows "if idx < card (ad_Ports a) - 1
    then \<exists>p \<in> {minPort..maxPort} \<inter> ad_Ports a. getRandPort ord idx a = Some p \<and>
      p = filter (\<lambda>p. p \<noteq> max_int64) ord ! idx
    else getRandPort ord idx a = Some (-1)"
proof -
  let ?ps = "filter (\<lambda>p. p \<noteq> max_int64) ord"
  have "set ?ps = ad_Ports a - {max_int64}" using assms(2) by auto
  moreover have "finite (ad_Ports a)" "max_int64 \<in> ad_Ports a"
    using assms(2,3) by (auto simp: pool_ok_def simp flip: assms(2))
  ultimately have len: "length ?ps = card (ad_Ports a) - 1"
    using assms(1) by (metis card_Diff_singleton distinct_card distinct_filter)
  have rand: "getRandPort ord idx a = Some (if idx < length ?ps then ?ps ! idx else -1)"
    using assms(4-6) by (simp add: getRandPort_def nth_port_filter Let_def)
  have "?ps ! idx \<in> {minPort..maxPort} \<inter> ad_Ports a" if "idx < length ?ps"
    using that assms(2,3) nth_mem [OF that] by (auto simp: pool_ok_def)
  with rand len show ?thesis by simp
qed

theorem getRandPort_choice_witness:
  "getRandPort [2000, max_int64, 3000, 2001] 1 demo_pool = Some 3000 \<and>
   getRandPort [2000, max_int64, 3000, 2001] 3 demo_pool = Some (-1)"
proof -
  have "card (ad_Ports demo_pool) = 4" "card (ad_Tags demo_pool) = 1"
    "set [2000, max_int64, 3000, 2001] = ad_Ports demo_pool" "distinct [2000, max_int64, 3000, 2001]"
    by (auto simp: demo_pool_def max_int64_def)
  then show ?thesis
    using getRandPort_choice [of "[2000, max_int64, 3000, 2001]" demo_pool 1]
      getRandPort_choice [of "[2000, max_int64, 3000, 2001]" demo_pool 3] pool_ok_demo
    by (simp add: max_int64_def)
qed

end
