(* ===== verification/Encoding.thy ===== *)
theory Encoding
  imports GoStrings
begin

text \<open>
  The text encodings of the subscription links, on byte strings: \<open>encoding/base64\<close> in its padded
  and raw forms and \<open>url.QueryEscape\<close>. Decoding an ill-formed text is \<open>None\<close>: the callers use the
  error for the log only.
\<close>

abbreviation byte :: "char \<Rightarrow> nat" where "byte c \<equiv> of_char c"

subsection \<open>Base64\<close>

definition b64_common :: "nat \<Rightarrow> nat" where
  "b64_common n = (if n < 26 then 65 + n else if n < 52 then 71 + n else n - 4)"

text \<open>The alphabets of the standard and the URL encoding.\<close>

definition b64_std :: "nat \<Rightarrow> char" where
  "b64_std n = (if n = 62 then CHR ''+'' else if n = 63 then CHR ''/'' else char_of (b64_common n))"

definition b64_url :: "nat \<Rightarrow> char" where
  "b64_url n = (if n = 62 then CHR ''-'' else if n = 63 then CHR ''_'' else char_of (b64_common n))"

definition b64_val :: "char \<Rightarrow> char \<Rightarrow> char \<Rightarrow> nat option" where
  "b64_val c62 c63 c =
     (if c = c62 then Some 62 else if c = c63 then Some 63
      else if 65 \<le> byte c \<and> byte c \<le> 90 then Some (byte c - 65)
      else if 97 \<le> byte c \<and> byte c \<le> 122 then Some (byte c - 71)
      else if 48 \<le> byte c \<and> byte c \<le> 57 then Some (byte c + 4) else None)"

abbreviation b64_std_val :: "char \<Rightarrow> nat option" where "b64_std_val \<equiv> b64_val (CHR ''+'') (CHR ''/'')"
abbreviation b64_url_val :: "char \<Rightarrow> nat option" where "b64_url_val \<equiv> b64_val (CHR ''-'') (CHR ''_'')"

fun b64_enc :: "(nat \<Rightarrow> char) \<Rightarrow> bool \<Rightarrow> string \<Rightarrow> string" where
  "b64_enc al pad [] = []"
| "b64_enc al pad [a] =
     (let n = byte a * 16 in [al (n div 64), al (n mod 64)] @ (if pad then ''=='' else []))"
| "b64_enc al pad [a, b] =
     (let n = (byte a * 256 + byte b) * 4
      in [al (n div 4096), al (n div 64 mod 64), al (n mod 64)] @ (if pad then ''='' else []))"
| "b64_enc al pad (a # b # c # s) =
     (let n = byte a * 65536 + byte b * 256 + byte c
      in [al (n div 262144), al (n div 4096 mod 64), al (n div 64 mod 64), al (n mod 64)] @ b64_enc al pad s)"

definition b64_dec2 :: "(char \<Rightarrow> nat option) \<Rightarrow> char \<Rightarrow> char \<Rightarrow> string option" where
  "b64_dec2 v x y = (case (v x, v y) of
     (Some p, Some q) \<Rightarrow> Some [char_of ((p * 64 + q) div 16)] | _ \<Rightarrow> None)"

definition b64_dec3 :: "(char \<Rightarrow> nat option) \<Rightarrow> char \<Rightarrow> char \<Rightarrow> char \<Rightarrow> string option" where
  "b64_dec3 v x y z = (case (v x, v y, v z) of
     (Some p, Some q, Some r) \<Rightarrow> (let n = (p * 4096 + q * 64 + r) div 4 in Some [char_of (n div 256), char_of (n mod 256)])
   | _ \<Rightarrow> None)"

definition b64_dec4 :: "(char \<Rightarrow> nat option) \<Rightarrow> char \<Rightarrow> char \<Rightarrow> char \<Rightarrow> char \<Rightarrow> string option" where
  "b64_dec4 v x y z w = (case (v x, v y, v z, v w) of
     (Some p, Some q, Some r, Some t) \<Rightarrow> (let n = p * 262144 + q * 4096 + r * 64 + t
        in Some [char_of (n div 65536), char_of (n div 256 mod 256), char_of (n mod 256)])
   | _ \<Rightarrow> None)"

fun b64_quanta :: "(char \<Rightarrow> nat option) \<Rightarrow> bool \<Rightarrow> string \<Rightarrow> string option" where
  "b64_quanta v pad [] = Some []"
| "b64_quanta v pad [x] = None"
| "b64_quanta v pad [x, y] = (if pad then None else b64_dec2 v x y)"
| "b64_quanta v pad [x, y, z] = (if pad then None else b64_dec3 v x y z)"
| "b64_quanta v pad (x # y # z # w # s) =
     (if pad \<and> w = CHR ''='' \<and> s = [] then if z = CHR ''='' then b64_dec2 v x y else b64_dec3 v x y z
      else case b64_dec4 v x y z w of None \<Rightarrow> None
        | Some t \<Rightarrow> (case b64_quanta v pad s of None \<Rightarrow> None | Some r \<Rightarrow> Some (t @ r)))"

text \<open>The decoder skips line ends.\<close>

definition b64_dec :: "(char \<Rightarrow> nat option) \<Rightarrow> bool \<Rightarrow> string \<Rightarrow> string option" where
  "b64_dec v pad s = b64_quanta v pad (filter (\<lambda>c. c \<noteq> CHR 0x0A \<and> c \<noteq> CHR 0x0D) s)"

lemma b64_val_common:
  assumes "n < 62" "c62 \<in> {CHR ''+'', CHR ''-''}" "c63 \<in> {CHR ''/'', CHR ''_''}"
  shows "b64_val c62 c63 (char_of (b64_common n)) = Some n"
proof -
  have "b64_common n < 256" using assms(1) by (auto simp: b64_common_def)
  then have b: "byte (char_of (b64_common n)) = b64_common n" by (simp add: of_char_of)
  have "byte (char_of (b64_common n)) \<noteq> byte c62" "byte (char_of (b64_common n)) \<noteq> byte c63"
    unfolding b using assms by (auto simp: b64_common_def)
  then have "char_of (b64_common n) \<noteq> c62" "char_of (b64_common n) \<noteq> c63" by auto
  then show ?thesis using assms(1) unfolding b64_val_def b by (auto simp: b64_common_def)
qed

definition b64_alphabet :: "(nat \<Rightarrow> char) \<Rightarrow> (char \<Rightarrow> nat option) \<Rightarrow> bool" where
  "b64_alphabet al v \<longleftrightarrow> (\<forall>n < 64. v (al n) = Some n) \<and> v (CHR ''='') = None \<and> v (CHR 0x0A) = None \<and> v (CHR 0x0D) = None"

lemma b64_alphabet_std: "b64_alphabet b64_std b64_std_val"
proof -
  have "n < 64 \<Longrightarrow> b64_std_val (b64_std n) = Some n" for n
    by (cases "n < 62") (auto simp: b64_std_def b64_val_common, auto simp: b64_val_def)
  moreover have "b64_std_val (CHR ''='') = None" "b64_std_val (CHR 0x0A) = None" "b64_std_val (CHR 0x0D) = None"
    by (simp_all add: b64_val_def)
  ultimately show ?thesis by (simp add: b64_alphabet_def)
qed

lemma b64_alphabet_url: "b64_alphabet b64_url b64_url_val"
proof -
  have "n < 64 \<Longrightarrow> b64_url_val (b64_url n) = Some n" for n
    by (cases "n < 62") (auto simp: b64_url_def b64_val_common, auto simp: b64_val_def)
  moreover have "b64_url_val (CHR ''='') = None" "b64_url_val (CHR 0x0A) = None" "b64_url_val (CHR 0x0D) = None"
    by (simp_all add: b64_val_def)
  ultimately show ?thesis by (simp add: b64_alphabet_def)
qed

lemma div64_bounds:
  "n < 256 * 16 \<Longrightarrow> n div 64 < 64" "n < 262144 \<Longrightarrow> n div 4096 < 64" "n < 16777216 \<Longrightarrow> n div 262144 < (64 :: nat)"
  by (simp_all add: less_mult_imp_div_less)

lemma b64_dec2_enc:
  assumes "b64_alphabet al v"
  shows "b64_dec2 v (al (byte a * 16 div 64)) (al (byte a * 16 mod 64)) = Some [a]"
proof -
  let ?n = "byte a * 16"
  have "?n div 64 < 64" using div64_bounds(1) [of ?n] by simp
  with assms have "v (al (?n div 64)) = Some (?n div 64)" "v (al (?n mod 64)) = Some (?n mod 64)"
    by (auto simp: b64_alphabet_def)
  moreover have "?n div 64 * 64 + ?n mod 64 = ?n" by (rule div_mult_mod_eq)
  ultimately show ?thesis by (simp add: b64_dec2_def)
qed

lemma digits64: "n div 4096 * 4096 + n div 64 mod 64 * 64 + n mod 64 = (n :: nat)"
proof -
  have "n div 4096 = n div 64 div 64" by (simp add: div_mult2_eq)
  moreover have "n div 64 div 64 * 64 + n div 64 mod 64 = n div 64" by (rule div_mult_mod_eq)
  ultimately have "n div 4096 * 4096 + n div 64 mod 64 * 64 = n div 64 * 64" by linarith
  then show ?thesis by simp
qed

lemma b64_dec3_enc:
  assumes "b64_alphabet al v" and "n = (byte a * 256 + byte b) * 4"
  shows "b64_dec3 v (al (n div 4096)) (al (n div 64 mod 64)) (al (n mod 64)) = Some [a, b]"
proof -
  have ab: "byte a < 256" "byte b < 256" by simp_all
  then have "byte a * 256 + byte b < 65536" by linarith
  then have "n < 65536 * 4" unfolding assms(2) by (rule mult_strict_right_mono) simp
  then have "n < 262144" by simp
  then have "n div 4096 < 64" by (rule div64_bounds(2))
  with assms(1) have "v (al (n div 4096)) = Some (n div 4096)" "v (al (n div 64 mod 64)) = Some (n div 64 mod 64)"
      "v (al (n mod 64)) = Some (n mod 64)"
    by (auto simp: b64_alphabet_def)
  moreover have "n div 4 = byte a * 256 + byte b" by (simp add: assms(2))
  moreover have "(byte a * 256 + byte b) div 256 = byte a" "(byte a * 256 + byte b) mod 256 = byte b" by simp_all
  ultimately show ?thesis by (simp add: b64_dec3_def digits64 del: char_of_mod_256)
qed

lemma bytes_of_24:
  assumes "b < 256" "c < (256 :: nat)"
  shows "(a * 65536 + b * 256 + c) div 65536 = a" "(a * 65536 + b * 256 + c) div 256 mod 256 = b"
    "(a * 65536 + b * 256 + c) mod 256 = c"
proof -
  have "a * 65536 + b * 256 + c = 256 * (a * 256 + b) + c" by simp
  with assms(2) have low: "(a * 65536 + b * 256 + c) div 256 = a * 256 + b" "(a * 65536 + b * 256 + c) mod 256 = c"
    by (simp, metis mod_less mod_mult_self4)
  have "(a * 65536 + b * 256 + c) div 65536 = (a * 65536 + b * 256 + c) div 256 div 256" by (simp add: div_mult2_eq)
  then show "(a * 65536 + b * 256 + c) div 65536 = a" using assms(1) by (simp only: low)
  show "(a * 65536 + b * 256 + c) div 256 mod 256 = b" using assms(1) by (simp only: low) simp
  show "(a * 65536 + b * 256 + c) mod 256 = c" by (rule low)
qed

lemma b64_dec4_enc:
  assumes "b64_alphabet al v" and "n = byte a * 65536 + byte b * 256 + byte c"
  shows "b64_dec4 v (al (n div 262144)) (al (n div 4096 mod 64)) (al (n div 64 mod 64)) (al (n mod 64)) = Some [a, b, c]"
proof -
  have abc: "byte a < 256" "byte b < 256" "byte c < 256" by simp_all
  then have "n < 16777216" unfolding assms(2) by linarith
  then have "n div 262144 < 64" by (rule div64_bounds(3))
  with assms(1) have v: "v (al (n div 262144)) = Some (n div 262144)" "v (al (n div 4096 mod 64)) = Some (n div 4096 mod 64)"
      "v (al (n div 64 mod 64)) = Some (n div 64 mod 64)" "v (al (n mod 64)) = Some (n mod 64)"
    by (auto simp: b64_alphabet_def)
  have "n div 262144 = n div 4096 div 64" by (simp add: div_mult2_eq)
  moreover have "n div 4096 div 64 * 64 + n div 4096 mod 64 = n div 4096" by (rule div_mult_mod_eq)
  ultimately have "n div 262144 * 262144 + n div 4096 mod 64 * 4096 + n div 64 mod 64 * 64 + n mod 64 = n"
    using digits64 [of n] by linarith
  moreover have "n div 65536 = byte a" "n div 256 mod 256 = byte b" "n mod 256 = byte c"
    using abc unfolding assms(2) by (simp_all only: bytes_of_24)
  moreover have "char_of (n div 256 mod 256) = (char_of (n div 256) :: char)" "char_of (n mod 256) = (char_of n :: char)" by simp_all
  ultimately show ?thesis using v by (simp add: b64_dec4_def Let_def del: char_of_mod_256)
qed

lemma b64_pad_char: "b64_alphabet al v \<Longrightarrow> n < 64 \<Longrightarrow> al n \<noteq> CHR ''=''"
  by (auto simp: b64_alphabet_def)

lemma b64_quanta_enc:
  assumes "b64_alphabet al v"
  shows "b64_quanta v pad (b64_enc al pad s) = Some s"
  using assms
proof (induction al pad s rule: b64_enc.induct)
  case (2 al pad a)
  then show ?case using b64_dec2_enc [OF 2, of a] by (simp add: Let_def)
next
  case (3 al pad a b)
  have "al ((byte a * 256 + byte b) * 4 mod 64) \<noteq> CHR ''=''" by (rule b64_pad_char [OF 3]) simp
  with 3 show ?case by (simp only: b64_enc.simps Let_def) (simp add: b64_dec3_enc)
next
  case (4 al pad a b c s)
  have "al ((byte a * 65536 + byte b * 256 + byte c) mod 64) \<noteq> CHR ''=''" by (rule b64_pad_char [OF 4(2)]) simp
  with 4 show ?case by (simp only: b64_enc.simps Let_def) (simp add: b64_dec4_enc)
qed simp

lemma below_64: "\<exists>n < 64. al (m mod 64) = al (n :: nat)"
  by (rule exI [of _ "m mod 64"]) simp

lemma b64_enc_chars: "c \<in> set (b64_enc al pad s) \<Longrightarrow> (\<exists>n < 64. c = al n) \<or> c = CHR ''=''"
proof (induction al pad s rule: b64_enc.induct)
  case (2 al pad a)
  have "byte a * 16 div 64 < 64" "byte a * 16 mod 64 < 64" using div64_bounds(1) [of "byte a * 16"] by simp_all
  with 2 show ?case by (simp only: b64_enc.simps Let_def set_append list.set) (fastforce simp del: of_char_of split: if_split_asm)
next
  case (3 al pad a b)
  have "byte a < 256" "byte b < 256" by simp_all
  then have "byte a * 256 + byte b < 65536" by linarith
  then have "(byte a * 256 + byte b) * 4 < 65536 * 4" by (rule mult_strict_right_mono) simp
  then have "(byte a * 256 + byte b) * 4 < 262144" by simp
  from div64_bounds(2) [OF this] 3 show ?case
    by (simp only: b64_enc.simps Let_def) (auto simp: below_64 split: if_splits)
next
  case (4 al pad a b c' s)
  have "byte a < 256" "byte b < 256" "byte c' < 256" by simp_all
  then have "byte a * 65536 + byte b * 256 + byte c' < 16777216" by linarith
  from div64_bounds(3) [OF this] 4 show ?case by (simp only: b64_enc.simps Let_def) (auto simp: below_64)
qed simp

text \<open>Decoding what was encoded gives the bytes back.\<close>

lemma b64_dec_enc:
  assumes "b64_alphabet al v"
  shows "b64_dec v pad (b64_enc al pad s) = Some s"
proof -
  have "c \<noteq> CHR 0x0A \<and> c \<noteq> CHR 0x0D" if "c \<in> set (b64_enc al pad s)" for c
    using b64_enc_chars [OF that] assms by (auto simp: b64_alphabet_def)
  then have "filter (\<lambda>c. c \<noteq> CHR 0x0A \<and> c \<noteq> CHR 0x0D) (b64_enc al pad s) = b64_enc al pad s"
    by (simp add: filter_id_conv)
  with b64_quanta_enc [OF assms] show ?thesis by (simp add: b64_dec_def)
qed

subsection \<open>Query escapes\<close>

definition hex_digit :: "nat \<Rightarrow> char" where
  "hex_digit n = (if n < 10 then char_of (48 + n) else char_of (55 + n))"

definition unhex :: "char \<Rightarrow> nat option" where
  "unhex c = (if 48 \<le> byte c \<and> byte c \<le> 57 then Some (byte c - 48)
     else if 97 \<le> byte c \<and> byte c \<le> 102 then Some (byte c - 87)
     else if 65 \<le> byte c \<and> byte c \<le> 70 then Some (byte c - 55) else None)"

definition unreserved :: "char \<Rightarrow> bool" where
  "unreserved c \<longleftrightarrow> 97 \<le> byte c \<and> byte c \<le> 122 \<or> 65 \<le> byte c \<and> byte c \<le> 90 \<or> 48 \<le> byte c \<and> byte c \<le> 57
     \<or> c \<in> {CHR ''-'', CHR ''_'', CHR ''.'', CHR ''~''}"

definition escape_char :: "char \<Rightarrow> string" where
  "escape_char c = (if unreserved c then [c] else if c = CHR '' '' then ''+''
     else [CHR ''%'', hex_digit (byte c div 16), hex_digit (byte c mod 16)])"

definition QueryEscape :: "string \<Rightarrow> string" where
  "QueryEscape s = concat (map escape_char s)"

text \<open>Unescaping a query component (\<open>query\<close>: a plus sign is a space), a fragment or a user name.\<close>

fun unescape :: "bool \<Rightarrow> string \<Rightarrow> string option" where
  "unescape query [] = Some []"
| "unescape query (c # s) =
     (if c = CHR ''%'' then
        (case s of
           x # y # t \<Rightarrow> (case (unhex x, unhex y) of
               (Some h, Some l) \<Rightarrow> map_option (Cons (char_of (h * 16 + l))) (unescape query t)
             | _ \<Rightarrow> None)
         | _ \<Rightarrow> None)
      else map_option (Cons (if query \<and> c = CHR ''+'' then CHR '' '' else c)) (unescape query s))"

lemma unhex_hex_digit: "n < 16 \<Longrightarrow> unhex (hex_digit n) = Some n"
  by (auto simp: hex_digit_def unhex_def)

lemma hex_of_byte:
  "unhex (hex_digit (byte c div 16)) = Some (byte c div 16)" "unhex (hex_digit (byte c mod 16)) = Some (byte c mod 16)"
proof -
  have "byte c < 256" by simp
  then have "byte c div 16 < 16" by linarith
  then show "unhex (hex_digit (byte c div 16)) = Some (byte c div 16)" by (rule unhex_hex_digit)
qed (simp add: unhex_hex_digit)

lemma unescape_escape_char:
  "unescape query (escape_char c @ s) =
     map_option (Cons (if \<not> query \<and> c = CHR '' '' then CHR ''+'' else c)) (unescape query s)"
proof -
  have "byte c div 16 * 16 + byte c mod 16 = byte c" by (rule div_mult_mod_eq)
  moreover have "c \<noteq> CHR ''%'' \<and> c \<noteq> CHR ''+'' \<and> c \<noteq> CHR '' ''" if "unreserved c" using that by (auto simp: unreserved_def)
  ultimately show ?thesis by (auto simp: escape_char_def hex_of_byte)
qed

lemma unescape_QueryEscape:
  "unescape query (QueryEscape s) = Some (map (\<lambda>c. if \<not> query \<and> c = CHR '' '' then CHR ''+'' else c) s)"
  by (induction s) (simp_all add: QueryEscape_def unescape_escape_char del: append_assoc unescape.simps(2))

lemma QueryEscape_chars:
  assumes "c \<in> set (QueryEscape s)"
  shows "unreserved c \<or> c = CHR ''+'' \<or> c = CHR ''%''"
proof -
  have "unreserved (hex_digit n)" if "n < 16" for n using that by (auto simp: unreserved_def hex_digit_def)
  moreover have "byte x div 16 < 16" "byte x mod 16 < 16" for x
  proof -
    have "byte x < 256" by simp
    then show "byte x div 16 < 16" by linarith
  qed simp
  ultimately show ?thesis using assms by (auto simp: QueryEscape_def escape_char_def split: if_splits)
qed

end
