(* ===== verification/JsonText.thy ===== *)
theory JsonText
  imports Config Encoding
begin

text \<open>
  JSON as text: what \<open>json.Marshal\<close> prints for the objects of strings and numbers the program
  builds, and what \<open>json.Unmarshal\<close> reads, over byte strings that are valid UTF-8 (the decoder
  would replace other bytes) without the two separators U+2028 and U+2029 (the encoder would
  escape them). The decoder's limit on the depth of values, 10000, is left out. The recursive
  descent takes as fuel a number of steps; twice the length of the text is enough, as every two steps consume a byte.
\<close>

subsection \<open>Printing\<close>

definition hex_lower :: "nat \<Rightarrow> char" where
  "hex_lower n = (if n < 10 then char_of (48 + n) else char_of (87 + n))"

definition json_char :: "char \<Rightarrow> string" where
  "json_char c =
     (if c = CHR 0x22 then [CHR 0x5C, CHR 0x22] else if c = CHR 0x5C then [CHR 0x5C, CHR 0x5C]
      else if c = CHR 0x0A then [CHR 0x5C, CHR ''n''] else if c = CHR 0x0D then [CHR 0x5C, CHR ''r'']
      else if c = CHR 0x09 then [CHR 0x5C, CHR ''t'']
      else if byte c < 32 \<or> c \<in> {CHR ''<'', CHR ''>'', CHR ''&''}
        then [CHR 0x5C, CHR ''u'', CHR ''0'', CHR ''0'', hex_lower (byte c div 16), hex_lower (byte c mod 16)]
      else [c])"

definition print_str :: "string \<Rightarrow> string" where
  "print_str s = CHR 0x22 # concat (map json_char s) @ [CHR 0x22]"

fun print_json :: "json \<Rightarrow> string" where
  "print_json JNull = ''null''"
| "print_json (JBool b) = (if b then ''true'' else ''false'')"
| "print_json (JNum i) = itoa i"
| "print_json (JFrac s) = s"
| "print_json (JStr s) = print_str s"
| "print_json (JArr js) = ''['' @ str_join '','' (map print_json js) @ '']''"
| "print_json (JObj ms) = ''{'' @ str_join '','' (map (\<lambda>(k, j). print_str k @ '':'' @ print_json j) ms) @ ''}''"

subsection \<open>Parsing\<close>

definition is_ws :: "char \<Rightarrow> bool" where
  "is_ws c \<longleftrightarrow> c \<in> {CHR '' '', CHR 0x09, CHR 0x0A, CHR 0x0D}"

definition skip_ws :: "string \<Rightarrow> string" where
  "skip_ws s = dropWhile is_ws s"

definition hex4 :: "char \<Rightarrow> char \<Rightarrow> char \<Rightarrow> char \<Rightarrow> nat option" where
  "hex4 a b c d = (case (unhex a, unhex b, unhex c, unhex d) of
     (Some p, Some q, Some r, Some t) \<Rightarrow> Some (p * 4096 + q * 256 + r * 16 + t) | _ \<Rightarrow> None)"

definition utf8 :: "nat \<Rightarrow> string" where
  "utf8 n = map char_of
     (if n < 128 then [n]
      else if n < 2048 then [192 + n div 64, 128 + n mod 64]
      else if n < 65536 then [224 + n div 4096, 128 + n div 64 mod 64, 128 + n mod 64]
      else [240 + n div 262144, 128 + n div 4096 mod 64, 128 + n div 64 mod 64, 128 + n mod 64])"

definition simple_escape :: "char \<Rightarrow> char option" where
  "simple_escape c = (if c \<in> {CHR 0x22, CHR 0x5C, CHR ''/''} then Some c else if c = CHR ''b'' then Some (CHR 0x08)
     else if c = CHR ''f'' then Some (CHR 0x0C) else if c = CHR ''n'' then Some (CHR 0x0A)
     else if c = CHR ''r'' then Some (CHR 0x0D) else if c = CHR ''t'' then Some (CHR 0x09) else None)"

text \<open>The text after an opening quote: the string and what follows the closing quote.\<close>

fun parse_str :: "string \<Rightarrow> (string \<times> string) option" where
  "parse_str [] = None"
| "parse_str (c # s) =
     (if c = CHR 0x22 then Some ([], s)
      else if c = CHR 0x5C then
        (case s of
           [] \<Rightarrow> None
         | e # r \<Rightarrow>
             if e = CHR ''u'' then
               (case r of
                  h1 # h2 # h3 # h4 # t \<Rightarrow>
                    (case hex4 h1 h2 h3 h4 of
                       None \<Rightarrow> None
                     | Some n \<Rightarrow>
                         if n < 55296 \<or> 57344 \<le> n then map_option (map_prod ((@) (utf8 n)) id) (parse_str t)
                         else (case t of
                             b # u # g1 # g2 # g3 # g4 # t' \<Rightarrow>
                               (case hex4 g1 g2 g3 g4 of
                                  Some m \<Rightarrow>
                                    if b = CHR 0x5C \<and> u = CHR ''u'' \<and> n < 56320 \<and> 56320 \<le> m \<and> m < 57344
                                    then map_option (map_prod ((@) (utf8 (65536 + (n - 55296) * 1024 + (m - 56320)))) id) (parse_str t')
                                    else map_option (map_prod ((@) (utf8 65533)) id) (parse_str t)
                                | None \<Rightarrow> map_option (map_prod ((@) (utf8 65533)) id) (parse_str t))
                           | _ \<Rightarrow> map_option (map_prod ((@) (utf8 65533)) id) (parse_str t)))
                | _ \<Rightarrow> None)
             else (case simple_escape e of
                 None \<Rightarrow> None
               | Some x \<Rightarrow> map_option (map_prod (Cons x) id) (parse_str r)))
      else if byte c < 32 then None
      else map_option (map_prod (Cons c) id) (parse_str s))"

text \<open>
  A number: an optional sign, digits without a leading zero, and optional fraction and exponent.
  Integers are \<open>JNum\<close>, other literals (and minus zero, which no unsigned field accepts) \<open>JFrac\<close>.
\<close>

definition parse_frac :: "string \<Rightarrow> (string \<times> string) option" where
  "parse_frac s =
     (case s of
        c # r \<Rightarrow> if c = CHR ''.'' then
            (let ds = takeWhile is_digit r in if ds = [] then None else Some (c # ds, dropWhile is_digit r))
          else Some ([], s)
      | [] \<Rightarrow> Some ([], s))"

definition parse_exp :: "string \<Rightarrow> (string \<times> string) option" where
  "parse_exp s =
     (case s of
        c # r \<Rightarrow> if c = CHR ''e'' \<or> c = CHR ''E'' then
            (let sg = takeWhile (\<lambda>x. x = CHR ''+'' \<or> x = CHR ''-'') (take 1 r); r' = drop (length sg) r;
                 ds = takeWhile is_digit r'
             in if ds = [] then None else Some (c # sg @ ds, dropWhile is_digit r'))
          else Some ([], s)
      | [] \<Rightarrow> Some ([], s))"

definition int_part :: "string \<Rightarrow> (string \<times> string) option" where
  "int_part s =
     (case s of
        [] \<Rightarrow> None
      | c # r \<Rightarrow> if c = CHR ''0'' then Some ([c], r)
          else if is_digit c then Some (c # takeWhile is_digit r, dropWhile is_digit r) else None)"

definition parse_num :: "string \<Rightarrow> (json \<times> string) option" where
  "parse_num s =
     (let neg = (s \<noteq> [] \<and> hd s = CHR ''-''); body = (if neg then tl s else s)
      in case int_part body of
           None \<Rightarrow> None
         | Some (ds, r) \<Rightarrow>
             (case parse_frac r of
                None \<Rightarrow> None
              | Some (fr, r') \<Rightarrow>
                  (case parse_exp r' of
                     None \<Rightarrow> None
                   | Some (ex, r'') \<Rightarrow>
                       (let lit = (if neg then ''-'' else []) @ ds @ fr @ ex
                        in Some (if fr = [] \<and> ex = [] \<and> lit \<noteq> ''-0''
                             then JNum ((if neg then - 1 else 1) * int (case digits_val 0 ds of Some n \<Rightarrow> n | None \<Rightarrow> 0))
                             else JFrac lit, r'')))))"

definition eat :: "string \<Rightarrow> json \<Rightarrow> string \<Rightarrow> (json \<times> string) option" where
  "eat lit j s = (if has_prefix lit s then Some (j, drop (length lit) s) else None)"

fun parse_value :: "nat \<Rightarrow> string \<Rightarrow> (json \<times> string) option"
  and parse_elems :: "nat \<Rightarrow> string \<Rightarrow> (json list \<times> string) option"
  and parse_members :: "nat \<Rightarrow> string \<Rightarrow> ((string \<times> json) list \<times> string) option" where
  "parse_value 0 s = None"
| "parse_value (Suc n) s =
     (case skip_ws s of
        [] \<Rightarrow> None
      | c # r \<Rightarrow>
          if c = CHR 0x22 then map_option (map_prod JStr id) (parse_str r)
          else if c = CHR ''{'' then
            (case skip_ws r of
               [] \<Rightarrow> None
             | d # t \<Rightarrow> if d = CHR ''}'' then Some (JObj [], t) else map_option (map_prod JObj id) (parse_members n (d # t)))
          else if c = CHR ''['' then
            (case skip_ws r of
               [] \<Rightarrow> None
             | d # t \<Rightarrow> if d = CHR '']'' then Some (JArr [], t) else map_option (map_prod JArr id) (parse_elems n (d # t)))
          else if c = CHR ''t'' then eat ''true'' (JBool True) (c # r)
          else if c = CHR ''f'' then eat ''false'' (JBool False) (c # r)
          else if c = CHR ''n'' then eat ''null'' JNull (c # r)
          else parse_num (c # r))"
| "parse_elems 0 s = None"
| "parse_elems (Suc n) s =
     (case parse_value n s of
        None \<Rightarrow> None
      | Some (j, r) \<Rightarrow>
          (case skip_ws r of
             [] \<Rightarrow> None
           | c # t \<Rightarrow> if c = CHR '','' then map_option (map_prod (Cons j) id) (parse_elems n t)
               else if c = CHR '']'' then Some ([j], t) else None))"
| "parse_members 0 s = None"
| "parse_members (Suc n) s =
     (case skip_ws s of
        [] \<Rightarrow> None
      | q # s' \<Rightarrow>
          if q \<noteq> CHR 0x22 then None
          else (case parse_str s' of
              None \<Rightarrow> None
            | Some (k, r) \<Rightarrow>
                (case skip_ws r of
                   [] \<Rightarrow> None
                 | col # r' \<Rightarrow>
                     if col \<noteq> CHR '':'' then None
                     else (case parse_value n r' of
                         None \<Rightarrow> None
                       | Some (j, r'') \<Rightarrow>
                           (case skip_ws r'' of
                              [] \<Rightarrow> None
                            | c # t \<Rightarrow> if c = CHR '','' then map_option (map_prod (Cons (k, j)) id) (parse_members n t)
                                else if c = CHR ''}'' then Some ([(k, j)], t) else None)))))"

definition parse_json :: "string \<Rightarrow> json option" where
  "parse_json s =
     (case parse_value (Suc (2 * length s)) s of
        Some (j, r) \<Rightarrow> if skip_ws r = [] then Some j else None
      | None \<Rightarrow> None)"


subsection \<open>Reading back what was printed\<close>

lemma unhex_hex_lower: "n < 16 \<Longrightarrow> unhex (hex_lower n) = Some n"
  by (auto simp: hex_lower_def unhex_def)

lemma parse_str_rules:
  "parse_str (CHR 0x22 # t) = Some ([], t)"
  "hex4 h1 h2 h3 h4 = Some n \<Longrightarrow> n < 55296
   \<Longrightarrow> parse_str (CHR 0x5C # CHR ''u'' # h1 # h2 # h3 # h4 # t) = map_option (map_prod ((@) (utf8 n)) id) (parse_str t)"
  "simple_escape e = Some x \<Longrightarrow> parse_str (CHR 0x5C # e # t) = map_option (map_prod (Cons x) id) (parse_str t)"
  "c \<noteq> CHR 0x22 \<Longrightarrow> c \<noteq> CHR 0x5C \<Longrightarrow> 32 \<le> byte c \<Longrightarrow> parse_str (c # t) = map_option (map_prod (Cons c) id) (parse_str t)"
proof -
  assume "simple_escape e = Some x"
  moreover from this have "e \<noteq> CHR ''u''" by (auto simp: simple_escape_def)
  ultimately show "parse_str (CHR 0x5C # e # t) = map_option (map_prod (Cons x) id) (parse_str t)" by simp
qed simp_all

declare parse_str.simps(2) [simp del]

lemma parse_str_hex:
  assumes "byte c < 128"
  shows "parse_str (CHR 0x5C # CHR ''u'' # CHR ''0'' # CHR ''0'' # hex_lower (byte c div 16) # hex_lower (byte c mod 16) # t)
    = map_option (map_prod (Cons c) id) (parse_str t)"
proof -
  have "byte c div 16 < 16" using assms by linarith
  then have "hex4 (CHR ''0'') (CHR ''0'') (hex_lower (byte c div 16)) (hex_lower (byte c mod 16)) = Some (byte c)"
    by (simp add: hex4_def unhex_hex_lower) (simp add: unhex_def)
  moreover have "utf8 (byte c) = [c]" using assms by (simp add: utf8_def)
  moreover have "(@) [c] = Cons c" by (simp add: fun_eq_iff)
  ultimately show ?thesis using assms parse_str_rules(2) [of _ _ _ _ "byte c"] by simp
qed

lemma parse_str_json_char:
  "parse_str (json_char c @ t) = map_option (map_prod (Cons c) id) (parse_str t)"
proof -
  have esc: "simple_escape (CHR 0x22) = Some (CHR 0x22)" "simple_escape (CHR 0x5C) = Some (CHR 0x5C)"
    "simple_escape (CHR ''n'') = Some (CHR 0x0A)" "simple_escape (CHR ''r'') = Some (CHR 0x0D)"
    "simple_escape (CHR ''t'') = Some (CHR 0x09)"
    by (simp_all add: simple_escape_def)
  consider "c \<in> {CHR 0x22, CHR 0x5C, CHR 0x0A, CHR 0x0D, CHR 0x09}"
    | "c \<notin> {CHR 0x22, CHR 0x5C, CHR 0x0A, CHR 0x0D, CHR 0x09}" "byte c < 32 \<or> c \<in> {CHR ''<'', CHR ''>'', CHR ''&''}"
    | "c \<notin> {CHR 0x22, CHR 0x5C, CHR 0x0A, CHR 0x0D, CHR 0x09}" "\<not> (byte c < 32 \<or> c \<in> {CHR ''<'', CHR ''>'', CHR ''&''})"
    by blast
  then show ?thesis
  proof cases
    case 1
    then have "\<exists>e. json_char c = [CHR 0x5C, e] \<and> simple_escape e = Some c"
      by (elim insertE emptyE; hypsubst) (simp_all add: json_char_def esc)
    then obtain e where "json_char c = [CHR 0x5C, e]" "simple_escape e = Some c" by blast
    from this(1) parse_str_rules(3) [OF this(2)] show ?thesis by simp
  next
    case 2
    from 2(2) have "byte c < 128" by (elim disjE insertE) simp_all
    from parse_str_hex [OF this] 2 show ?thesis by (simp add: json_char_def)
  next
    case 3
    then show ?thesis by (simp add: json_char_def parse_str_rules(4))
  qed
qed

lemma parse_print_str: "parse_str (concat (map json_char s) @ CHR 0x22 # t) = Some (s, t)"
  by (induction s) (simp_all add: parse_str_json_char parse_str_rules(1))

lemma hd_nat_digits: "hd (nat_digits n) = CHR ''0'' \<Longrightarrow> n = 0"
proof (induction n rule: nat_digits.induct)
  case (1 n)
  show ?case
  proof (cases "n < 10")
    case True
    with 1(2) have "byte (digit_char n) = 48" by (simp add: nat_digits.simps [of n])
    with True show ?thesis by (simp add: digit_char_simps)
  next
    case False
    with 1 have "n div 10 = 0" by (simp add: nat_digits.simps [of n])
    with False show ?thesis by simp
  qed
qed

definition ends_number :: "string \<Rightarrow> bool" where
  "ends_number r \<longleftrightarrow> (case r of [] \<Rightarrow> True | c # _ \<Rightarrow> \<not> is_digit c \<and> c \<notin> {CHR ''.'', CHR ''e'', CHR ''E''})"

lemma int_part_digits:
  assumes "ends_number r"
  shows "int_part (nat_digits n @ r) = Some (nat_digits n, r)"
proof -
  obtain c cs where c: "nat_digits n = c # cs" by (cases "nat_digits n") auto
  have digits: "is_digit c" "\<forall>x \<in> set cs. is_digit x" using nat_digits_are_digits [of _ n] c by auto
  show ?thesis
  proof (cases "c = CHR ''0''")
    case True
    then have "n = 0" using hd_nat_digits [of n] c by simp
    then have "cs = []" using c by (simp add: nat_digits.simps [of 0])
    with c True show ?thesis by (simp add: int_part_def)
  next
    case False
    have "takeWhile is_digit (cs @ r) = cs" "dropWhile is_digit (cs @ r) = r"
      using digits(2) assms by (auto simp: ends_number_def takeWhile_append dropWhile_append split: list.splits)
    with False c digits(1) show ?thesis by (simp add: int_part_def)
  qed
qed

lemma parse_num_print:
  assumes "ends_number r"
  shows "parse_num (itoa (int n) @ r) = Some (JNum (int n), r)"
proof -
  obtain c cs where c: "nat_digits n = c # cs" by (cases "nat_digits n") auto
  then have "is_digit c" using nat_digits_are_digits [of c n] by auto
  then have sgn: "c \<noteq> CHR ''-''" by auto
  have "parse_frac r = Some ([], r)" "parse_exp r = Some ([], r)"
    using assms by (auto simp: ends_number_def parse_frac_def parse_exp_def split: list.splits)
  with int_part_digits [OF assms, of n] sgn c digits_val_nat_digits [of n] show ?thesis
    by (auto simp: parse_num_def itoa_def Let_def)
qed

text \<open>Objects of strings and natural numbers, as the program prints them.\<close>

definition flat_value :: "json \<Rightarrow> bool" where
  "flat_value j \<longleftrightarrow> (\<exists>s. j = JStr s) \<or> (\<exists>n. j = JNum (int n))"

lemma parse_flat_value:
  assumes "flat_value j" and "ends_number r"
  shows "parse_value (Suc n) (print_json j @ r) = Some (j, r)"
  using assms(1) unfolding flat_value_def
proof (elim disjE exE)
  fix s assume j: "j = JStr s"
  have "skip_ws (CHR 0x22 # concat (map json_char s) @ CHR 0x22 # r) = CHR 0x22 # concat (map json_char s) @ CHR 0x22 # r"
    by (simp add: skip_ws_def is_ws_def)
  then show ?thesis by (simp add: j print_str_def parse_print_str)
next
  fix m assume j: "j = JNum (int m)"
  obtain c cs where c: "nat_digits m = c # cs" by (cases "nat_digits m") auto
  then have "is_digit c" using nat_digits_are_digits [of c m] by auto
  then have b: "48 \<le> byte c" "byte c \<le> 57" by (simp_all add: is_digit_def)
  then have "c \<notin> {CHR 0x22, CHR ''{'', CHR ''['', CHR ''t'', CHR ''f'', CHR ''n''}" "\<not> is_ws c"
    by (auto simp: is_ws_def)
  moreover from this(2) c have "skip_ws (itoa (int m) @ r) = c # cs @ r" by (simp add: itoa_def skip_ws_def)
  ultimately show ?thesis using parse_num_print [OF assms(2), of m] c by (simp add: j itoa_def)
qed

lemma parse_flat_members:
  assumes "ms \<noteq> []" and "\<forall>(k, j) \<in> set ms. flat_value j" and "length ms < n"
  shows "parse_members n (str_join '','' (map (\<lambda>(k, j). print_str k @ '':'' @ print_json j) ms) @ CHR ''}'' # r) = Some (ms, r)"
  using assms
proof (induction ms arbitrary: n)
  case (Cons m ms)
  obtain k j where m: "m = (k, j)" by (cases m)
  obtain n' where n: "n = Suc (Suc n')" using Cons.prems(3) by (cases n; cases "n - 1") auto
  have j: "flat_value j" using Cons.prems(2) m by auto
  have ws: "skip_ws (c # t) = c # t" if "\<not> is_ws c" for c t using that by (simp add: skip_ws_def)
  have quote: "\<not> is_ws (CHR 0x22)" "\<not> is_ws (CHR '':'')" "\<not> is_ws (CHR '','')" "\<not> is_ws (CHR ''}'')"
    by (simp_all add: is_ws_def)
  have ends: "ends_number (CHR '','' # t)" "ends_number (CHR ''}'' # t)" for t by (simp_all add: ends_number_def is_digit_def)
  let ?pm = "\<lambda>(k, j). print_str k @ '':'' @ print_json j"
  show ?case
  proof (cases ms)
    case Nil
    then show ?thesis
      using parse_flat_value [OF j ends(2) [of r], of n']
      by (simp add: m n print_str_def parse_print_str ws quote del: parse_value.simps)
  next
    case (Cons m2 ms2)
    have rest: "parse_members (Suc n') (str_join '','' (map ?pm ms) @ CHR ''}'' # r) = Some (ms, r)"
      using Cons.IH [of "Suc n'"] Cons.prems Cons n by auto
    have "str_join '','' (map ?pm (m # ms)) = ?pm m @ CHR '','' # str_join '','' (map ?pm ms)"
      by (simp add: Cons)
    then show ?thesis
      using parse_flat_value [OF j ends(1), of n'] rest
      by (simp add: m n print_str_def parse_print_str ws quote del: parse_value.simps str_join.simps)
  qed
qed simp

lemma parse_print_flat:
  assumes "ms \<noteq> []" and "\<forall>(k, j) \<in> set ms. flat_value j"
  shows "parse_json (print_json (JObj ms)) = Some (JObj ms)"
proof -
  let ?ps = "map (\<lambda>(k, j). print_str k @ '':'' @ print_json j) ms"
  have "length xs \<le> length (str_join '','' xs) + 1" for xs :: "string list"
    by (induction "'',''" xs rule: str_join.induct) auto
  from this [of ?ps] have len: "length ms \<le> length (str_join '','' ?ps) + 1" by simp
  obtain t where t: "str_join '','' ?ps @ ''}'' = CHR 0x22 # t"
    using assms(1) by (cases ms; cases "tl ms") (auto simp: print_str_def)
  then have printed: "print_json (JObj ms) = CHR ''{'' # CHR 0x22 # t" by simp
  have ws: "skip_ws (CHR ''{'' # s) = CHR ''{'' # s" "skip_ws (CHR 0x22 # s) = CHR 0x22 # s" "skip_ws [] = []" for s
    by (simp_all add: skip_ws_def is_ws_def)
  have "parse_members (2 * length (print_json (JObj ms))) (str_join '','' ?ps @ CHR ''}'' # []) = Some (ms, [])"
    using len by (intro parse_flat_members [OF assms]) simp
  then have members: "parse_members (2 * length (print_json (JObj ms))) (CHR 0x22 # t) = Some (ms, [])"
    by (simp only: t)
  have "parse_value (Suc (2 * length (print_json (JObj ms)))) (print_json (JObj ms)) = Some (JObj ms, [])"
    unfolding parse_value.simps using members
    by (simp only: printed ws list.case) (simp del: parse_members.simps)
  then show ?thesis by (simp only: parse_json_def option.case prod.case ws if_True simp_thms)
qed

end
