(* ===== verification/ConfigFile.thy ===== *)
theory ConfigFile
  imports JsonText
begin

text \<open>
  The configuration file of the proxy: the structs \<open>V2rayConfig\<close> and \<open>InboundDetourConfig\<close>
  (\<open>proxy/config/v2ray_xray.go\<close>) as the JSON text that \<open>json.MarshalIndent\<close> writes and
  \<open>json.Unmarshal\<close> reads, with the keys of the struct tags. The structs of xray-core's package
  \<open>conf\<close> are written and read by that package (the record \<open>conf_codec\<close>); the sections of the
  document beside the inbounds are one value, of which the program names four parts. A key that
  occurs twice in an object is read twice, the second value in place of the first.
\<close>

subsection \<open>Indented text\<close>

definition new_line :: "nat \<Rightarrow> string" where
  "new_line d = CHR 0x0A # replicate (4 * d) (CHR '' '')"

text \<open>\<open>json.MarshalIndent\<close> without a prefix, with four spaces for each of the \<open>d\<close> levels around the value.\<close>

fun print_indent :: "nat \<Rightarrow> json \<Rightarrow> string" where
  "print_indent d (JArr js) =
     (if js = [] then ''[]''
      else ''['' @ new_line (Suc d) @ str_join ('','' @ new_line (Suc d)) (map (print_indent (Suc d)) js) @ new_line d @ '']'')"
| "print_indent d (JObj ms) =
     (if ms = [] then ''{}''
      else ''{'' @ new_line (Suc d) @
        str_join ('','' @ new_line (Suc d)) (map (\<lambda>(k, j). print_str k @ '': '' @ print_indent (Suc d) j) ms) @ new_line d @ ''}'')"
| "print_indent d j = print_json j"

subsection \<open>The structs\<close>

text \<open>The sections beside the inbounds; \<open>ac_rest\<close> stands for those the program does not look into.\<close>

record api_cfg =
  ac_Stats :: bool
  ac_Api :: "(string \<times> string list) option"
  ac_Rules :: "json list option"
  ac_Policy :: bool
  ac_rest :: json

text \<open>
  How the package \<open>conf\<close> writes and reads its structs. The sections are written in two groups,
  those before and those after the inbounds.
\<close>

record conf_codec =
  fc_stream_enc :: "stream_cfg \<Rightarrow> json"
  fc_stream_dec :: "json \<Rightarrow> stream_cfg result"
  fc_allocate_dec :: "json \<Rightarrow> json result"
  fc_override_dec :: "json \<Rightarrow> json result"
  fc_sniffing_dec :: "json \<Rightarrow> json result"
  fc_sections_enc :: "api_cfg \<Rightarrow> (string \<times> json) list \<times> (string \<times> json) list"
  fc_sections_dec :: "(string \<times> json) list \<Rightarrow> api_cfg result"

definition json_ptr :: "('a \<Rightarrow> json) \<Rightarrow> 'a option \<Rightarrow> json" where
  "json_ptr enc p = (case p of None \<Rightarrow> JNull | Some v \<Rightarrow> enc v)"

definition encode_inbound :: "conf_codec \<Rightarrow> inbound_cfg \<Rightarrow> json" where
  "encode_inbound fc c =
     JObj [(''protocol'', JStr (ic_Protocol c)), (''port'', JNum (uint (ic_PortRange c))), (''listen'', JStr (ic_ListenOn c)),
       (''settings'', json_ptr id (ic_Settings c)), (''tag'', JStr (ic_Tag c)), (''allocate'', json_ptr id (ic_Allocation c)),
       (''streamSettings'', json_ptr (fc_stream_enc fc) (ic_StreamSetting c)), (''domainOverride'', json_ptr id (ic_DomainOverride c)),
       (''sniffing'', json_ptr id (ic_SniffingConfig c))]"

definition encode_config :: "conf_codec \<Rightarrow> api_cfg \<Rightarrow> inbound_cfg list \<Rightarrow> json" where
  "encode_config fc api cfgs =
     (case fc_sections_enc fc api of
        (before, after) \<Rightarrow> JObj (before @ [(''inbounds'', JArr (map (encode_inbound fc) cfgs))] @ after))"

text \<open>A pointer field: \<open>null\<close> is the nil pointer.\<close>

definition decode_ptr :: "(json \<Rightarrow> 'a result) \<Rightarrow> json \<Rightarrow> 'a option result" where
  "decode_ptr dec j = (if j = JNull then Inr None else case dec j of Inl e \<Rightarrow> Inl e | Inr v \<Rightarrow> Inr (Some v))"

definition no_inbound :: inbound_cfg where
  "no_inbound = NewInboundDetourConfig '''' '''' '''' 0"

definition decode_inbound_member :: "conf_codec \<Rightarrow> string \<times> json \<Rightarrow> inbound_cfg \<Rightarrow> inbound_cfg result" where
  "decode_inbound_member fc m c =
     (let k = to_lower (fst m); j = snd m
      in if k = ''protocol'' then map_sum id (\<lambda>s. c\<lparr>ic_Protocol := s\<rparr>) (decode_string j (ic_Protocol c))
         else if k = ''port'' then map_sum id (\<lambda>n. c\<lparr>ic_PortRange := n\<rparr>) (decode_uint32 j (ic_PortRange c))
         else if k = ''listen'' then map_sum id (\<lambda>s. c\<lparr>ic_ListenOn := s\<rparr>) (decode_string j (ic_ListenOn c))
         else if k = ''settings'' then map_sum id (\<lambda>v. c\<lparr>ic_Settings := v\<rparr>) (decode_ptr Inr j)
         else if k = ''tag'' then map_sum id (\<lambda>s. c\<lparr>ic_Tag := s\<rparr>) (decode_string j (ic_Tag c))
         else if k = ''allocate'' then map_sum id (\<lambda>v. c\<lparr>ic_Allocation := v\<rparr>) (decode_ptr (fc_allocate_dec fc) j)
         else if k = ''streamsettings'' then map_sum id (\<lambda>v. c\<lparr>ic_StreamSetting := v\<rparr>) (decode_ptr (fc_stream_dec fc) j)
         else if k = ''domainoverride'' then map_sum id (\<lambda>v. c\<lparr>ic_DomainOverride := v\<rparr>) (decode_ptr (fc_override_dec fc) j)
         else if k = ''sniffing'' then map_sum id (\<lambda>v. c\<lparr>ic_SniffingConfig := v\<rparr>) (decode_ptr (fc_sniffing_dec fc) j)
         else Inr c)"

text \<open>On an error the value as far as it was filled is not looked at, so the first error is the result.\<close>

fun decode_inbound_members :: "conf_codec \<Rightarrow> (string \<times> json) list \<Rightarrow> inbound_cfg \<Rightarrow> inbound_cfg result" where
  "decode_inbound_members fc [] c = Inr c"
| "decode_inbound_members fc (m # ms) c =
     (case decode_inbound_member fc m c of Inl e \<Rightarrow> Inl e | Inr c' \<Rightarrow> decode_inbound_members fc ms c')"

definition decode_inbound :: "conf_codec \<Rightarrow> json \<Rightarrow> inbound_cfg result" where
  "decode_inbound fc j =
     (case j of JObj ms \<Rightarrow> decode_inbound_members fc ms no_inbound | JNull \<Rightarrow> Inr no_inbound | _ \<Rightarrow> Inl type_error)"

fun decode_inbounds :: "conf_codec \<Rightarrow> json list \<Rightarrow> inbound_cfg list result" where
  "decode_inbounds fc [] = Inr []"
| "decode_inbounds fc (j # js) =
     (case decode_inbound fc j of
        Inl e \<Rightarrow> Inl e
      | Inr c \<Rightarrow> (case decode_inbounds fc js of Inl e \<Rightarrow> Inl e | Inr cs \<Rightarrow> Inr (c # cs)))"

definition is_inbounds :: "string \<times> json \<Rightarrow> bool" where
  "is_inbounds m \<longleftrightarrow> to_lower (fst m) = ''inbounds''"

definition decode_config :: "conf_codec \<Rightarrow> json \<Rightarrow> (api_cfg \<times> inbound_cfg list) result" where
  "decode_config fc j =
     (let members = (case j of JObj ms \<Rightarrow> Inr ms | JNull \<Rightarrow> Inr [] | _ \<Rightarrow> Inl type_error)
      in case members of
           Inl e \<Rightarrow> Inl e
         | Inr ms \<Rightarrow>
             (case fc_sections_dec fc (filter (\<lambda>m. \<not> is_inbounds m) ms) of
                Inl e \<Rightarrow> Inl e
              | Inr api \<Rightarrow>
                  map_sum id (Pair api)
                    (case find is_inbounds (rev ms) of
                       None \<Rightarrow> Inr []
                     | Some m \<Rightarrow> (case snd m of JArr js \<Rightarrow> decode_inbounds fc js | JNull \<Rightarrow> Inr [] | _ \<Rightarrow> Inl type_error))))"

text \<open>The text of the file and back.\<close>

definition marshal_config :: "conf_codec \<Rightarrow> api_cfg \<Rightarrow> inbound_cfg list \<Rightarrow> string" where
  "marshal_config fc api cfgs = print_indent 0 (encode_config fc api cfgs)"

definition unmarshal_config :: "conf_codec \<Rightarrow> string \<Rightarrow> (api_cfg \<times> inbound_cfg list) result" where
  "unmarshal_config fc content =
     (case parse_json content of None \<Rightarrow> Inl ''invalid character'' | Some j \<Rightarrow> decode_config fc j)"

subsection \<open>Reading the structs back\<close>

text \<open>
  What the library reads again as it was: settings that are a value, and stream and other settings
  that the package \<open>conf\<close> reads as it wrote them, as it does with those it read before.
\<close>

definition rereads :: "conf_codec \<Rightarrow> inbound_cfg \<Rightarrow> bool" where
  "rereads fc c \<longleftrightarrow> decode_ptr Inr (json_ptr id (ic_Settings c)) = Inr (ic_Settings c) \<and>
     decode_ptr (fc_allocate_dec fc) (json_ptr id (ic_Allocation c)) = Inr (ic_Allocation c) \<and>
     decode_ptr (fc_stream_dec fc) (json_ptr (fc_stream_enc fc) (ic_StreamSetting c)) = Inr (ic_StreamSetting c) \<and>
     decode_ptr (fc_override_dec fc) (json_ptr id (ic_DomainOverride c)) = Inr (ic_DomainOverride c) \<and>
     decode_ptr (fc_sniffing_dec fc) (json_ptr id (ic_SniffingConfig c)) = Inr (ic_SniffingConfig c)"

definition sections_reread :: "conf_codec \<Rightarrow> api_cfg \<Rightarrow> bool" where
  "sections_reread fc api \<longleftrightarrow>
     (case fc_sections_enc fc api of
        (before, after) \<Rightarrow> fc_sections_dec fc (before @ after) = Inr api \<and> (\<forall>m \<in> set (before @ after). \<not> is_inbounds m))"

lemma inbound_keys:
  "to_lower ''protocol'' = ''protocol''" "to_lower ''port'' = ''port''" "to_lower ''listen'' = ''listen''"
  "to_lower ''settings'' = ''settings''" "to_lower ''tag'' = ''tag''" "to_lower ''allocate'' = ''allocate''"
  "to_lower ''streamSettings'' = ''streamsettings''" "to_lower ''domainOverride'' = ''domainoverride''"
  "to_lower ''sniffing'' = ''sniffing''" "to_lower ''inbounds'' = ''inbounds''"
  by code_simp+

lemma decode_encode_inbound: "rereads fc c \<Longrightarrow> decode_inbound fc (encode_inbound fc c) = Inr c"
  by (cases c)
    (simp add: rereads_def decode_inbound_def encode_inbound_def decode_inbound_member_def Let_def inbound_keys
      decode_string_def decode_uint32_uint no_inbound_def NewInboundDetourConfig_def)

lemma decode_encode_inbounds:
  "\<forall>c \<in> set cfgs. rereads fc c \<Longrightarrow> decode_inbounds fc (map (encode_inbound fc) cfgs) = Inr cfgs"
  by (induction cfgs) (simp_all add: decode_encode_inbound)

lemma find_app_None: "\<forall>x \<in> set xs. \<not> P x \<Longrightarrow> find P (xs @ ys) = find P ys"
  by (induction xs) auto

lemma decode_encode_config:
  assumes "sections_reread fc api" and "\<forall>c \<in> set cfgs. rereads fc c"
  shows "decode_config fc (encode_config fc api cfgs) = Inr (api, cfgs)"
proof -
  obtain before after where enc: "fc_sections_enc fc api = (before, after)" by fastforce
  let ?m = "(''inbounds'', JArr (map (encode_inbound fc) cfgs))"
  have here: "is_inbounds ?m" by (simp add: is_inbounds_def inbound_keys)
  have others: "\<forall>m \<in> set (before @ after). \<not> is_inbounds m" and dec: "fc_sections_dec fc (before @ after) = Inr api"
    using assms(1) by (simp_all add: sections_reread_def enc)
  have "find is_inbounds (rev after @ ?m # rev before) = Some ?m"
    using others here by (simp add: find_app_None)
  moreover have "filter (\<lambda>m. \<not> is_inbounds m) (before @ ?m # after) = before @ after"
    using others here by (simp add: filter_id_conv)
  ultimately show ?thesis
    using decode_encode_inbounds [OF assms(2)] dec by (simp add: decode_config_def encode_config_def enc Let_def)
qed

subsection \<open>Reading the text back\<close>

text \<open>The literals of numbers are of JSON's grammar, as the decoder has checked.\<close>

fun json_ok :: "json \<Rightarrow> bool" where
  "json_ok (JFrac s) = (parse_num s = Some (JFrac s, []))"
| "json_ok (JArr js) = (\<forall>j \<in> set js. json_ok j)"
| "json_ok (JObj ms) = (\<forall>m \<in> set ms. json_ok (snd m))"
| "json_ok _ = True"

text \<open>Steps that the parser needs for a value.\<close>

fun json_fuel :: "json \<Rightarrow> nat" where
  "json_fuel (JArr js) = Suc (sum_list (map (\<lambda>j. Suc (json_fuel j)) js))"
| "json_fuel (JObj ms) = Suc (sum_list (map (\<lambda>m. Suc (json_fuel (snd m))) ms))"
| "json_fuel (JFrac s) = Suc (length s)"
| "json_fuel _ = 1"

definition blank :: "string \<Rightarrow> bool" where
  "blank w \<longleftrightarrow> (\<forall>c \<in> set w. is_ws c)"

lemma blank_lines: "blank []" "blank (new_line d)" "blank '' ''"
  by (auto simp: blank_def new_line_def is_ws_def)

lemma skip_blank: "blank w \<Longrightarrow> \<not> is_ws c \<Longrightarrow> skip_ws (w @ c # t) = c # t"
  by (simp add: blank_def skip_ws_def dropWhile_append1 dropWhile_append2)

lemma skip_solid: "\<not> is_ws c \<Longrightarrow> skip_ws (c # t) = c # t"
  by (simp add: skip_ws_def)

lemma solid:
  "\<not> is_ws (CHR 0x22)" "\<not> is_ws (CHR '':'')" "\<not> is_ws (CHR '','')" "\<not> is_ws (CHR ''}'')" "\<not> is_ws (CHR '']'')"
  "\<not> is_ws (CHR ''{'')" "\<not> is_ws (CHR ''['')" "\<not> is_ws (CHR ''t'')" "\<not> is_ws (CHR ''f'')" "\<not> is_ws (CHR ''n'')"
  by (simp_all add: is_ws_def)

lemma ends_number_closing:
  "ends_number (CHR '','' # t)" "ends_number (new_line d @ t)"
  by (simp_all add: ends_number_def is_digit_def new_line_def)

lemma parse_num_neg:
  assumes "ends_number r" and "0 < n"
  shows "parse_num (itoa (- int n) @ r) = Some (JNum (- int n), r)"
proof -
  obtain c cs where c: "nat_digits n = c # cs" by (cases "nat_digits n") auto
  have nz: "c \<noteq> CHR ''0''" using hd_nat_digits [of n] c assms(2) by auto
  have "parse_frac r = Some ([], r)" "parse_exp r = Some ([], r)"
    using assms by (auto simp: ends_number_def parse_frac_def parse_exp_def split: list.splits)
  with int_part_digits [OF assms(1), of n] c nz digits_val_nat_digits [of n] assms(2) show ?thesis
    by (simp add: parse_num_def itoa_def Let_def)
qed

lemma parse_num_itoa: "ends_number r \<Longrightarrow> parse_num (itoa i @ r) = Some (JNum i, r)"
  using parse_num_print [of r "nat i"] parse_num_neg [of r "nat (- i)"] by (cases "0 \<le> i") auto

text \<open>The first byte of a number is none that starts another kind of value.\<close>

lemma itoa_head: "\<exists>c cs. itoa i = c # cs \<and> \<not> is_ws c \<and> c \<notin> {CHR 0x22, CHR ''{'', CHR ''['', CHR ''t'', CHR ''f'', CHR ''n''}"
proof (cases "i < 0")
  case True
  then show ?thesis by (simp add: itoa_def is_ws_def)
next
  case False
  obtain c cs where c: "nat_digits (nat i) = c # cs" by (cases "nat_digits (nat i)") auto
  then have "is_digit c" using nat_digits_are_digits [of c "nat i"] by auto
  then have "48 \<le> byte c" "byte c \<le> 57" by (simp_all add: is_digit_def)
  with False c show ?thesis by (auto simp: itoa_def is_ws_def)
qed

lemma parse_value_num: "blank w \<Longrightarrow> ends_number r \<Longrightarrow> parse_value (Suc n) (w @ itoa i @ r) = Some (JNum i, r)"
proof -
  assume w: "blank w" and r: "ends_number r"
  obtain c cs where c: "itoa i = c # cs" "\<not> is_ws c" "c \<notin> {CHR 0x22, CHR ''{'', CHR ''['', CHR ''t'', CHR ''f'', CHR ''n''}"
    using itoa_head by blast
  then have "skip_ws (w @ itoa i @ r) = c # cs @ r" using skip_blank [OF w c(2), of "cs @ r"] by simp
  moreover have "parse_num (c # cs @ r) = Some (JNum i, r)" using parse_num_itoa [OF r, of i] c(1) by simp
  ultimately show ?thesis using c(3) by simp
qed

lemma digits_before:
  assumes "ends_number r"
  shows "takeWhile is_digit (x @ r) = takeWhile is_digit x" "dropWhile is_digit (x @ r) = dropWhile is_digit x @ r"
  using assms by (induction x) (auto simp: ends_number_def split: list.splits)

lemma number_parts_before:
  assumes "ends_number r"
  shows "int_part s = Some (ds, t) \<Longrightarrow> int_part (s @ r) = Some (ds, t @ r)"
    and "parse_frac s = Some (ds, t) \<Longrightarrow> parse_frac (s @ r) = Some (ds, t @ r)"
    and "parse_exp s = Some (ds, t) \<Longrightarrow> parse_exp (s @ r) = Some (ds, t @ r)"
proof -
  show "int_part s = Some (ds, t) \<Longrightarrow> int_part (s @ r) = Some (ds, t @ r)"
    by (auto simp: int_part_def digits_before [OF assms] split: list.splits if_splits)
  have nil: "parse_frac r = Some ([], r)" "parse_exp r = Some ([], r)"
    using assms by (auto simp: ends_number_def parse_frac_def parse_exp_def split: list.splits)
  show "parse_frac s = Some (ds, t) \<Longrightarrow> parse_frac (s @ r) = Some (ds, t @ r)"
    using nil(1) by (cases s) (auto simp: parse_frac_def Let_def digits_before [OF assms] split: if_splits)
  show "parse_exp (s @ r) = Some (ds, t @ r)" if e: "parse_exp s = Some (ds, t)"
  proof (cases s)
    case Nil
    then show ?thesis using e nil(2) by (simp add: parse_exp_def)
  next
    case (Cons c q)
    then show ?thesis using e
      by (cases q) (auto simp: parse_exp_def Let_def digits_before [OF assms] split: if_splits)
  qed
qed

lemma parse_num_frac:
  assumes "parse_num s = Some (JFrac l, [])" and "ends_number r"
  shows "parse_num (s @ r) = Some (JFrac l, r)"
proof -
  have ne: "s \<noteq> []" using assms(1) by (auto simp: parse_num_def int_part_def)
  then have body: "(if hd s = CHR ''-'' then tl (s @ r) else s @ r) = (if hd s = CHR ''-'' then tl s else s) @ r" by (cases s) auto
  let ?b = "if hd s = CHR ''-'' then tl s else s"
  obtain ds t where i: "int_part ?b = Some (ds, t)" using assms(1) ne by (auto simp: parse_num_def Let_def split: option.splits)
  then obtain fr t' where f: "parse_frac t = Some (fr, t')" using assms(1) ne by (auto simp: parse_num_def Let_def split: option.splits)
  then obtain ex t'' where e: "parse_exp t' = Some (ex, t'')" using assms(1) ne i by (auto simp: parse_num_def Let_def split: option.splits)
  have "t'' = []" using assms(1) ne i f e by (auto simp: parse_num_def Let_def split: if_splits)
  then show ?thesis
    using assms(1) ne i f e number_parts_before(1) [OF assms(2) i] number_parts_before(2) [OF assms(2) f] number_parts_before(3) [OF assms(2) e]
    by (simp add: parse_num_def Let_def body)
qed

lemma frac_head:
  assumes "parse_num s = Some (JFrac l, [])"
  shows "\<exists>c cs. s = c # cs \<and> (c = CHR ''-'' \<or> is_digit c)"
  using assms by (cases s) (auto simp: parse_num_def Let_def int_part_def is_digit_def split: option.splits if_splits list.splits)

lemma number_head: "c = CHR ''-'' \<or> is_digit c \<Longrightarrow>
    \<not> is_ws c \<and> c \<notin> {CHR 0x22, CHR ''{'', CHR ''['', CHR ''t'', CHR ''f'', CHR ''n'', CHR '']'', CHR ''}''}"
  by (auto simp: is_ws_def is_digit_def)

lemma parse_value_frac:
  assumes "blank w" and "ends_number r" and "parse_num s = Some (JFrac s, [])"
  shows "parse_value (Suc n) (w @ s @ r) = Some (JFrac s, r)"
proof -
  obtain c cs where c: "s = c # cs" "c = CHR ''-'' \<or> is_digit c" using frac_head [OF assms(3)] by blast
  then have "skip_ws (w @ s @ r) = c # cs @ r" using skip_blank [OF assms(1), of c "cs @ r"] number_head by simp
  moreover have "parse_num (c # cs @ r) = Some (JFrac s, r)" using parse_num_frac [OF assms(3,2)] c(1) by simp
  ultimately show ?thesis using number_head [OF c(2)] by simp
qed

text \<open>What \<open>parse_value\<close> does with a printed value in front of any text that ends a number.\<close>

definition parses :: "json \<Rightarrow> bool" where
  "parses j \<longleftrightarrow> (\<forall>d n w r. json_fuel j \<le> n \<longrightarrow> blank w \<longrightarrow> ends_number r \<longrightarrow> parse_value n (w @ print_indent d j @ r) = Some (j, r))"

lemma parsesD: "parses j \<Longrightarrow> json_fuel j \<le> n \<Longrightarrow> blank w \<Longrightarrow> ends_number r \<Longrightarrow> parse_value n (w @ print_indent d j @ r) = Some (j, r)"
  by (auto simp: parses_def)

lemma parse_elems_indent:
  assumes "js \<noteq> []" and "\<forall>j \<in> set js. parses j" and "sum_list (map (\<lambda>j. Suc (json_fuel j)) js) \<le> n" and "blank w"
  shows "parse_elems n (w @ str_join (CHR '','' # new_line e) (map (print_indent e) js) @ new_line d @ CHR '']'' # r) = Some (js, r)"
  using assms
proof (induction js arbitrary: n w)
  case (Cons j js)
  obtain n' where n: "n = Suc n'" using Cons.prems(3) by (cases n) auto
  have fuel: "json_fuel j \<le> n'" "sum_list (map (\<lambda>j. Suc (json_fuel j)) js) \<le> n'" using Cons.prems(3) n by simp_all
  show ?case
  proof (cases js)
    case Nil
    then show ?thesis
      using parsesD [OF _ fuel(1) Cons.prems(4) ends_number_closing(2) [of d "CHR '']'' # r"]] Cons.prems(2)
      by (simp add: n skip_blank [OF blank_lines(2) solid(5)])
  next
    case (Cons j2 js2)
    have rest: "parse_elems n' (new_line e @ str_join (CHR '','' # new_line e) (map (print_indent e) js) @ new_line d @ CHR '']'' # r) = Some (js, r)"
      using Cons.IH [OF _ _ fuel(2) blank_lines(2)] Cons.prems(2) Cons by auto
    have join: "str_join (CHR '','' # new_line e) (map (print_indent e) (j # js)) =
        print_indent e j @ CHR '','' # new_line e @ str_join (CHR '','' # new_line e) (map (print_indent e) js)"
      by (simp add: Cons)
    from parsesD [OF _ fuel(1) Cons.prems(4) ends_number_closing(1)] Cons.prems(2) rest show ?thesis
      by (simp add: join n skip_solid [OF solid(3)] del: str_join.simps list.map)
  qed
qed simp

lemma parse_members_indent:
  assumes "ms \<noteq> []" and "\<forall>m \<in> set ms. parses (snd m)" and "sum_list (map (\<lambda>m. Suc (json_fuel (snd m))) ms) \<le> n" and "blank w"
  shows "parse_members n (w @ str_join (CHR '','' # new_line e) (map (\<lambda>(k, j). print_str k @ CHR '':'' # CHR '' '' # print_indent e j) ms)
      @ new_line d @ CHR ''}'' # r) = Some (ms, r)"
  using assms
proof (induction ms arbitrary: n w)
  case (Cons m ms)
  let ?pm = "\<lambda>(k, j). print_str k @ CHR '':'' # CHR '' '' # print_indent e j"
  obtain k j where m: "m = (k, j)" by (cases m)
  obtain n' where n: "n = Suc n'" using Cons.prems(3) by (cases n) auto
  have fuel: "json_fuel j \<le> n'" "sum_list (map (\<lambda>m. Suc (json_fuel (snd m))) ms) \<le> n'" using Cons.prems(3) n m by simp_all
  have key: "skip_ws (w @ print_str k @ t) = CHR 0x22 # concat (map json_char k) @ CHR 0x22 # t" for t
    using skip_blank [OF Cons.prems(4) solid(1)] by (simp add: print_str_def)
  have val: "parse_value n' (CHR '' '' # print_indent e j @ t) = Some (j, t)" if "ends_number t" for t
    using parsesD [OF _ fuel(1) blank_lines(3) that, of e] Cons.prems(2) m by simp
  show ?case
  proof (cases ms)
    case Nil
    then show ?thesis
      using val [OF ends_number_closing(2) [of d "CHR ''}'' # r"]]
      by (simp add: m n key parse_print_str skip_solid [OF solid(2)] skip_blank [OF blank_lines(2) solid(4)])
  next
    case (Cons m2 ms2)
    have rest: "parse_members n' (new_line e @ str_join (CHR '','' # new_line e) (map ?pm ms) @ new_line d @ CHR ''}'' # r) = Some (ms, r)"
      using Cons.IH [OF _ _ fuel(2) blank_lines(2)] Cons.prems(2) Cons by auto
    have join: "str_join (CHR '','' # new_line e) (map ?pm ((k, j) # ms)) =
        print_str k @ CHR '':'' # CHR '' '' # print_indent e j @ CHR '','' # new_line e @ str_join (CHR '','' # new_line e) (map ?pm ms)"
      by (simp add: Cons m)
    from val [OF ends_number_closing(1)] rest show ?thesis
      by (simp add: join m n key parse_print_str skip_solid [OF solid(2)] skip_solid [OF solid(3)] del: str_join.simps list.map)
  qed
qed simp

lemma itoa_sign: "\<exists>c cs. itoa i = c # cs \<and> (c = CHR ''-'' \<or> is_digit c)"
proof (cases "i < 0")
  case False
  obtain c cs where c: "nat_digits (nat i) = c # cs" by (cases "nat_digits (nat i)") auto
  then have "is_digit c" using nat_digits_are_digits [of c "nat i"] by auto
  with False c show ?thesis by (simp add: itoa_def)
qed (simp add: itoa_def)

lemma print_indent_head:
  assumes "json_ok j"
  shows "\<exists>c cs. print_indent d j = c # cs \<and> \<not> is_ws c \<and> c \<noteq> CHR '']'' \<and> c \<noteq> CHR ''}''"
proof -
  have number: ?thesis if "print_indent d j = c # cs" "c = CHR ''-'' \<or> is_digit c" for c cs
    using number_head [OF that(2)] that(1) by simp
  show ?thesis
  proof (cases j)
    case (JNum i)
    obtain c cs where "itoa i = c # cs" "c = CHR ''-'' \<or> is_digit c" using itoa_sign by blast
    then show ?thesis by (intro number) (simp_all add: JNum)
  next
    case (JFrac s)
    then obtain c cs where "s = c # cs" "c = CHR ''-'' \<or> is_digit c" using assms frac_head [of s s] by auto
    then show ?thesis by (intro number) (simp_all add: JFrac)
  qed (auto simp: solid print_str_def)
qed

lemma join_indent_head:
  assumes "ms \<noteq> []"
  shows "\<exists>t. str_join sep (map (\<lambda>(k, j). print_str k @ CHR '':'' # CHR '' '' # print_indent e j) ms) = CHR 0x22 # t"
  using assms by (cases ms; cases "tl ms") (auto simp: print_str_def)

lemma parses_array:
  assumes "\<forall>j \<in> set js. parses j" and "\<forall>j \<in> set js. json_ok j"
  shows "parses (JArr js)"
  unfolding parses_def
proof (intro allI impI)
  fix d n w r assume f: "json_fuel (JArr js) \<le> n" and w: "blank w" and r: "ends_number r"
  from f obtain n' where n: "n = Suc n'" "sum_list (map (\<lambda>j. Suc (json_fuel j)) js) \<le> n'" by (cases n) auto
  show "parse_value n (w @ print_indent d (JArr js) @ r) = Some (JArr js, r)"
  proof (cases "js = []")
    case False
    let ?b = "str_join (CHR '','' # new_line (Suc d)) (map (print_indent (Suc d)) js) @ new_line d @ CHR '']'' # r"
    have elems: "parse_elems n' ([] @ ?b) = Some (js, r)"
      using assms(1) False n(2) by (intro parse_elems_indent blank_lines) auto
    obtain j js' where js: "js = j # js'" using False by (cases js) auto
    then obtain c cs where c: "print_indent (Suc d) j = c # cs" "\<not> is_ws c" "c \<noteq> CHR '']''"
      using print_indent_head [of j "Suc d"] assms(2) by auto
    then obtain cs' where b: "?b = c # cs'" by (cases js') (auto simp: js)
    have "skip_ws (w @ print_indent d (JArr js) @ r) = CHR ''['' # new_line (Suc d) @ ?b"
      using skip_blank [OF w solid(7)] False by simp
    moreover have "skip_ws (new_line (Suc d) @ ?b) = c # cs'" unfolding b by (rule skip_blank [OF blank_lines(2) c(2)])
    ultimately show ?thesis using elems c(3) by (simp add: n(1) b del: parse_elems.simps)
  qed (simp add: n(1) skip_blank [OF w solid(7)] skip_solid [OF solid(5)])
qed

lemma parses_object:
  assumes "\<forall>m \<in> set ms. parses (snd m)"
  shows "parses (JObj ms)"
  unfolding parses_def
proof (intro allI impI)
  fix d n w r assume f: "json_fuel (JObj ms) \<le> n" and w: "blank w" and r: "ends_number r"
  from f obtain n' where n: "n = Suc n'" "sum_list (map (\<lambda>m. Suc (json_fuel (snd m))) ms) \<le> n'" by (cases n) auto
  show "parse_value n (w @ print_indent d (JObj ms) @ r) = Some (JObj ms, r)"
  proof (cases "ms = []")
    case False
    let ?b = "str_join (CHR '','' # new_line (Suc d)) (map (\<lambda>(k, j). print_str k @ CHR '':'' # CHR '' '' # print_indent (Suc d) j) ms) @ new_line d @ CHR ''}'' # r"
    have members: "parse_members n' ([] @ ?b) = Some (ms, r)"
      using assms False n(2) by (intro parse_members_indent blank_lines) auto
    obtain t where b: "?b = CHR 0x22 # t" using join_indent_head [OF False, of "CHR '','' # new_line (Suc d)" "Suc d"] by auto
    have "skip_ws (w @ print_indent d (JObj ms) @ r) = CHR ''{'' # new_line (Suc d) @ ?b"
      using skip_blank [OF w solid(6)] False by simp
    moreover have "skip_ws (new_line (Suc d) @ ?b) = CHR 0x22 # t" unfolding b by (rule skip_blank [OF blank_lines(2) solid(1)])
    ultimately show ?thesis using members by (simp add: n(1) b del: parse_members.simps)
  qed (simp add: n(1) skip_blank [OF w solid(6)] skip_solid [OF solid(4)])
qed

lemma parse_print_indent: "json_ok j \<Longrightarrow> parses j"
proof (induction j)
  case (JArr js)
  then show ?case by (intro parses_array) auto
next
  case (JObj ms)
  then have "\<forall>m \<in> set ms. parses (snd m)" by (force intro: snds.intros)
  then show ?case by (rule parses_object)
next
  case (JNum i)
  then show ?case by (auto simp: parses_def parse_value_num simp del: parse_value.simps dest!: Suc_le_D)
next
  case (JStr s)
  then show ?case by (auto simp: parses_def print_str_def skip_blank [OF _ solid(1)] parse_print_str dest!: Suc_le_D)
next
  case (JBool b)
  then show ?case by (auto simp: parses_def skip_blank [OF _ solid(8)] skip_blank [OF _ solid(9)] eat_def dest!: Suc_le_D)
next
  case JNull
  then show ?case by (auto simp: parses_def skip_blank [OF _ solid(10)] eat_def dest!: Suc_le_D)
next
  case (JFrac s)
  then show ?case by (auto simp: parses_def parse_value_frac simp del: parse_value.simps dest!: Suc_le_D)
qed

text \<open>The parser's own bound on its steps is enough for a printed text.\<close>

lemma joined_length:
  "sum_list (map length xs) + length xs \<le> length (str_join (CHR '','' # sep) xs) + 1"
  by (induction "CHR '','' # sep" xs rule: str_join.induct) auto

lemma fuel_le_length: "json_ok j \<Longrightarrow> json_fuel j \<le> 2 * length (print_indent d j)"
proof (induction j arbitrary: d)
  case (JArr js)
  have "sum_list (map (\<lambda>j. Suc (json_fuel j)) js) \<le> sum_list (map (\<lambda>j. 2 * length (print_indent (Suc d) j) + 1) js)"
    using JArr by (intro sum_list_mono) (auto intro: le_SucI)
  also have "\<dots> = 2 * sum_list (map length (map (print_indent (Suc d)) js)) + length js"
    by (induction js) auto
  finally show ?case
    using joined_length [of "map (print_indent (Suc d)) js" "new_line (Suc d)"] by auto
next
  case (JObj ms)
  let ?pm = "\<lambda>(k, j). print_str k @ '': '' @ print_indent (Suc d) j"
  have "json_fuel (snd m) \<le> 2 * length (print_indent (Suc d) (snd m))" if "m \<in> set ms" for m
    using JObj(1) [of m "snd m"] JObj(2) that by (auto intro: snds.intros)
  then have "sum_list (map (\<lambda>m. Suc (json_fuel (snd m))) ms) \<le> sum_list (map (\<lambda>m. 2 * length (?pm m) + 1) ms)"
    by (intro sum_list_mono) (fastforce split: prod.split)
  also have "\<dots> = 2 * sum_list (map length (map ?pm ms)) + length ms"
    by (induction ms) auto
  finally show ?case
    using joined_length [of "map ?pm ms" "new_line (Suc d)"] by auto
next
  case (JNum i)
  then show ?case using itoa_head [of i] by auto
next
  case (JFrac s)
  then show ?case using frac_head [of s s] by auto
qed (auto simp: print_str_def)

lemma parse_indented: "json_ok j \<Longrightarrow> parse_json (print_indent d j) = Some j"
proof -
  assume "json_ok j"
  then have "parse_value (Suc (2 * length (print_indent d j))) ([] @ print_indent d j @ []) = Some (j, [])"
    using fuel_le_length [of j d] by (intro parsesD parse_print_indent blank_lines) (auto simp: ends_number_def intro: le_SucI)
  then show ?thesis by (simp add: parse_json_def skip_ws_def del: parse_value.simps)
qed

lemma config_file_roundtrip:
  assumes "sections_reread fc api" and "\<forall>c \<in> set cfgs. rereads fc c" and "json_ok (encode_config fc api cfgs)"
  shows "unmarshal_config fc (marshal_config fc api cfgs) = Inr (api, cfgs)"
  using decode_encode_config [OF assms(1,2)] parse_indented [OF assms(3)]
  by (simp add: unmarshal_config_def marshal_config_def)

end
