(* ===== verification/ProxyManager.thy ===== *)
theory ProxyManager
  imports ProtocolUsers AdaptivePorts ConfigFile
begin

text \<open>
  \<open>proxy/manager/proxy_manager.go\<close>: the inbounds as the manager keeps them, as the configuration
  last flushed or loaded lists them, and as the running proxy knows them. The proxy (xray-core,
  reached over its gRPC API) is the record \<open>xray\<close> of its calls, over a state \<open>'rt\<close> of its own.
  The configuration file is the text that \<open>ConfigFile\<close> writes and reads; the results of
  reading files and the errors of writing them are arguments.
\<close>

definition apiTag :: string where "apiTag = ''api''"

definition supportInboundProtocol :: string where
  "supportInboundProtocol = ''vmess|vless|trojan|shadowsocks''"

definition defaultApiPort :: "32 word" where "defaultApiPort = 10085"

subsection \<open>The running proxy\<close>

text \<open>What the API's own decoding of an inbound yields, as far as the program looks at it.\<close>

record detour =
  dt_Tag :: string
  dt_Ports :: "(nat \<times> nat) list"
  dt_rest :: json

record ('rt, 'h) xray =
  x_dial :: "'rt \<Rightarrow> gerror option"
  x_marshal :: "inbound_cfg \<Rightarrow> json result"
  x_unmarshal :: "json \<Rightarrow> detour result"
  x_build :: "detour \<Rightarrow> 'h result"
  x_AddInbound :: "'h \<Rightarrow> 'rt \<Rightarrow> 'rt \<times> gerror option"
  x_RemoveInbound :: "string \<Rightarrow> 'rt \<Rightarrow> 'rt \<times> gerror option"
  x_AddUser :: "puser \<Rightarrow> 'rt \<Rightarrow> 'rt \<times> gerror option"
  x_RemoveUser :: "puser \<Rightarrow> 'rt \<Rightarrow> 'rt \<times> gerror option"

text \<open>\<open>None\<close> is the panic of \<open>ports[0]\<close> on an empty list of port ranges.\<close>

definition NewInboundHandlerConfig :: "('rt, 'h) xray \<Rightarrow> json \<Rightarrow> 'h result option" where
  "NewInboundHandlerConfig x rawConfig =
     (case x_unmarshal x rawConfig of
        Inl e \<Rightarrow> Some (Inl e)
      | Inr d \<Rightarrow>
          if dt_Tag d = '''' then Some (Inl ''tag can not be empty'')
          else (case dt_Ports d of
                  [] \<Rightarrow> None
                | (p, q) # rest \<Rightarrow>
                    if rest \<noteq> [] \<or> p \<noteq> q then Some (Inl ''unsupport port range'')
                    else Some (x_build x d)))"

definition AddInboundToRuntime :: "('rt, 'h) xray \<Rightarrow> json \<Rightarrow> 'rt \<Rightarrow> ('rt, gerror option) outcome" where
  "AddInboundToRuntime x inboundConfig rt =
     (case x_dial x rt of
        Some e \<Rightarrow> Done rt (Some e)
      | None \<Rightarrow>
          (case NewInboundHandlerConfig x inboundConfig of
             None \<Rightarrow> Panicked rt
           | Some (Inl e) \<Rightarrow> Done rt (Some e)
           | Some (Inr h) \<Rightarrow> (case x_AddInbound x h rt of (rt', e) \<Rightarrow> Done rt' e)))"

definition RemoveInboundFromRuntime :: "('rt, 'h) xray \<Rightarrow> string \<Rightarrow> 'rt \<Rightarrow> 'rt \<times> gerror option" where
  "RemoveInboundFromRuntime x tag rt =
     (case x_dial x rt of Some e \<Rightarrow> (rt, Some e) | None \<Rightarrow> x_RemoveInbound x tag rt)"

definition addUserToRuntime :: "('rt, 'h) xray \<Rightarrow> puser \<Rightarrow> 'rt \<Rightarrow> 'rt \<times> gerror option" where
  "addUserToRuntime x user rt =
     (case x_dial x rt of Some e \<Rightarrow> (rt, Some e) | None \<Rightarrow> x_AddUser x user rt)"

definition removeUserFromRuntime :: "('rt, 'h) xray \<Rightarrow> puser \<Rightarrow> 'rt \<Rightarrow> 'rt \<times> gerror option" where
  "removeUserFromRuntime x user rt =
     (case x_dial x rt of Some e \<Rightarrow> (rt, Some e) | None \<Rightarrow> x_RemoveUser x user rt)"

subsection \<open>State\<close>

record 'rt proxy_manager =
  pm_InboundManager :: inbound_manager
  pm_InboundConfigs :: "inbound_cfg list"
  pm_api :: api_cfg
  pm_needFlush :: bool
  pm_Host :: string
  pm_Port :: int
  pm_adaptive :: adaptive
  pm_file :: string
  pm_rt :: 'rt

definition GetInbound :: "'rt proxy_manager \<Rightarrow> string \<Rightarrow> inbound option" where
  "GetInbound pm tag = InboundManager_Get (pm_InboundManager pm) tag"

subsection \<open>Inbounds\<close>

definition invalid_port :: gerror where
  "invalid_port = ''invalid port, port should be in range 100-65535''"

definition AddInbound :: "('rt, 'h) xray \<Rightarrow> inbound \<Rightarrow> 'rt proxy_manager \<Rightarrow> ('rt proxy_manager, gerror option) outcome" where
  "AddInbound x i pm =
     (if ib_Tag i = apiTag then Done pm (Some ''api inbound can not add'')
      else if uint (ib_Port i) < minPort \<or> uint (ib_Port i) > maxPort then Done pm (Some invalid_port)
      else case x_marshal x (ib_Config i) of
        Inl e \<Rightarrow> Done pm (Some e)
      | Inr bytes \<Rightarrow>
          (case InboundManager_Add i (pm_InboundManager pm) of
             (im, Some e) \<Rightarrow> Done (pm\<lparr>pm_InboundManager := im\<rparr>) (Some e)
           | (im, None) \<Rightarrow>
               (case AddInboundToRuntime x bytes (pm_rt pm) of
                  Panicked rt \<Rightarrow> Panicked (pm\<lparr>pm_InboundManager := im, pm_rt := rt\<rparr>)
                | Blocked rt \<Rightarrow> Blocked (pm\<lparr>pm_InboundManager := im, pm_rt := rt\<rparr>)
                | Done rt (Some e) \<Rightarrow>
                    Done (pm\<lparr>pm_InboundManager := fst (InboundManager_Delete (ib_Tag i) im), pm_rt := rt\<rparr>) (Some e)
                | Done rt None \<Rightarrow>
                    Done (pm\<lparr>pm_InboundManager := im, pm_rt := rt, pm_needFlush := True\<rparr>) None)))"

definition DeleteInbound :: "('rt, 'h) xray \<Rightarrow> string \<Rightarrow> 'rt proxy_manager \<Rightarrow> 'rt proxy_manager \<times> gerror option" where
  "DeleteInbound x tag pm =
     (if tag = apiTag then (pm, Some ''api inbound can not delete'')
      else case RemoveInboundFromRuntime x tag (pm_rt pm) of
        (rt, Some e) \<Rightarrow> (pm\<lparr>pm_rt := rt\<rparr>, Some e)
      | (rt, None) \<Rightarrow>
          (case InboundManager_Delete tag (pm_InboundManager pm) of
             (im, Some e) \<Rightarrow> (pm\<lparr>pm_rt := rt, pm_InboundManager := im\<rparr>, Some e)
           | (im, None) \<Rightarrow> (pm\<lparr>pm_rt := rt, pm_InboundManager := im, pm_needFlush := True\<rparr>, None)))"

text \<open>The roll-back of a failed transfer: the inbound goes back to its old port.\<close>

definition transfer_rollback ::
    "('rt, 'h) xray \<Rightarrow> string \<Rightarrow> inbound \<Rightarrow> gerror \<Rightarrow> 'rt proxy_manager \<Rightarrow> ('rt proxy_manager, gerror option) outcome" where
  "transfer_rollback x tag i e pm =
     bind_o (AddInbound x i (fst (DeleteInbound x tag pm))) (\<lambda>pm' l. case l of
       None \<Rightarrow> Done pm' (Some e)
     | Some le \<Rightarrow> Done pm' (Some (e @ '' > rollback err '' @ le)))"

definition TransferInbound ::
    "('rt, 'h) xray \<Rightarrow> string \<Rightarrow> 32 word \<Rightarrow> 'rt proxy_manager \<Rightarrow> ('rt proxy_manager, gerror option) outcome" where
  "TransferInbound x tag newPort pm =
     (if tag = apiTag then Done pm (Some ''api inbound can not transfer'')
      else if uint newPort < minPort \<or> uint newPort > maxPort then Done pm (Some invalid_port)
      else case GetInbound pm tag of
        None \<Rightarrow> Done pm (Some (''Not found inbound with tag('' @ tag @ '')''))
      | Some i \<Rightarrow>
          (case DeleteInbound x tag pm of
             (pm1, Some e) \<Rightarrow> Done pm1 (Some e)
           | (pm1, None) \<Rightarrow>
               (let oldPort = ib_Port i in
                if oldPort = newPort
                then Done pm1 (Some (''new port('' @ itoa (uint newPort) @ '') is same with old port''))
                else bind_o (AddInbound x (i\<lparr>ib_Config := (ib_Config i)\<lparr>ic_PortRange := newPort\<rparr>\<rparr>) pm1)
                  (\<lambda>pm2 r. case r of
                     None \<Rightarrow> Done pm2 None
                   | Some e \<Rightarrow> transfer_rollback x tag i e pm2))))"

definition CopyInbound ::
    "codecs \<Rightarrow> ('rt, 'h) xray \<Rightarrow> string \<Rightarrow> string \<Rightarrow> string \<Rightarrow> int \<Rightarrow> 'rt proxy_manager
     \<Rightarrow> ('rt proxy_manager, gerror option) outcome" where
  "CopyInbound cc x srcTag newTag newProtocol newPort pm =
     (if srcTag = apiTag then Done pm (Some ''api inbound can not copy'')
      else if newPort < minPort \<or> newPort > maxPort then Done pm (Some invalid_port)
      else if srcTag = newTag then Done pm (Some ''src tag is same with new tag'')
      else case GetInbound pm srcTag of
        None \<Rightarrow> Done pm (Some (''Not found inbound with tag('' @ srcTag @ '')''))
      | Some i \<Rightarrow>
          if GetInbound pm newTag \<noteq> None
          then Done pm (Some (''Inbound with tag('' @ newTag @ '') already exist''))
          else AddInbound x (CopyNewInbound cc i newProtocol newTag newPort) pm)"

subsection \<open>Users\<close>

text \<open>The inbound is shared with the table, so its new configuration stands there.\<close>

definition put_config :: "string \<Rightarrow> inbound \<Rightarrow> inbound_cfg \<Rightarrow> 'rt proxy_manager \<Rightarrow> 'rt proxy_manager" where
  "put_config tag i cfg pm = pm\<lparr>pm_InboundManager := (pm_InboundManager pm)\<lparr>im_inbounds :=
     (im_inbounds (pm_InboundManager pm))(tag \<mapsto> i\<lparr>ib_Config := cfg\<rparr>)\<rparr>\<rparr>"

definition user_file_op ::
    "(inbound_cfg \<Rightarrow> (inbound_cfg, gerror option) outcome) \<Rightarrow> string \<Rightarrow> inbound \<Rightarrow> 'rt proxy_manager
     \<Rightarrow> ('rt proxy_manager, gerror option) outcome" where
  "user_file_op f tag i pm =
     (case f (ib_Config i) of
        Panicked cfg \<Rightarrow> Panicked (put_config tag i cfg pm)
      | Blocked cfg \<Rightarrow> Blocked (put_config tag i cfg pm)
      | Done cfg (Some e) \<Rightarrow> Done (put_config tag i cfg pm) (Some e)
      | Done cfg None \<Rightarrow> Done ((put_config tag i cfg pm)\<lparr>pm_needFlush := True\<rparr>) None)"

definition addUserToFile :: "codecs \<Rightarrow> puser \<Rightarrow> 'rt proxy_manager \<Rightarrow> ('rt proxy_manager, gerror option) outcome" where
  "addUserToFile cc user pm =
     (case GetInbound pm (pu_Tag user) of
        None \<Rightarrow> Done pm (Some (''inbound with tag('' @ pu_Tag user @ '') is not exist''))
      | Some i \<Rightarrow> user_file_op (add_by_protocol cc user) (pu_Tag user) i pm)"

definition removeUserFromFile :: "codecs \<Rightarrow> puser \<Rightarrow> 'rt proxy_manager \<Rightarrow> ('rt proxy_manager, gerror option) outcome" where
  "removeUserFromFile cc user pm =
     (case GetInbound pm (pu_Tag user) of
        None \<Rightarrow> Done pm (Some (''inbound with tag('' @ pu_Tag user @ '') is not exist''))
      | Some i \<Rightarrow> user_file_op (remove_by_protocol cc user) (pu_Tag user) i pm)"

text \<open>The user object is changed on the way; it is returned with the error.\<close>

definition AddUser ::
    "codecs \<Rightarrow> ('rt, 'h) xray \<Rightarrow> puser \<Rightarrow> 'rt proxy_manager \<Rightarrow> ('rt proxy_manager, puser \<times> gerror option) outcome" where
  "AddUser cc x user pm =
     (case CompleteUserInformation user (GetInbound pm (pu_Tag user)) of
        None \<Rightarrow> Panicked pm
      | Some (u, Some e) \<Rightarrow> Done pm (u, Some e)
      | Some (u, None) \<Rightarrow>
          (case addUserToRuntime x u (pm_rt pm) of
             (rt, Some e) \<Rightarrow> Done (pm\<lparr>pm_rt := rt\<rparr>) (u, Some e)
           | (rt, None) \<Rightarrow> bind_o (addUserToFile cc u (pm\<lparr>pm_rt := rt\<rparr>)) (\<lambda>pm r. Done pm (u, r))))"

definition RemoveUser ::
    "codecs \<Rightarrow> ('rt, 'h) xray \<Rightarrow> puser \<Rightarrow> 'rt proxy_manager \<Rightarrow> ('rt proxy_manager, puser \<times> gerror option) outcome" where
  "RemoveUser cc x user pm =
     (case CompleteUserInformation user (GetInbound pm (pu_Tag user)) of
        None \<Rightarrow> Panicked pm
      | Some (u, Some e) \<Rightarrow> Done pm (u, Some e)
      | Some (u, None) \<Rightarrow>
          (case removeUserFromRuntime x u (pm_rt pm) of
             (rt, Some e) \<Rightarrow> Done (pm\<lparr>pm_rt := rt\<rparr>) (u, Some e)
           | (rt, None) \<Rightarrow> bind_o (removeUserFromFile cc u (pm\<lparr>pm_rt := rt\<rparr>)) (\<lambda>pm r. Done pm (u, r))))"

definition PM_ResetUser ::
    "codecs \<Rightarrow> ('rt, 'h) xray \<Rightarrow> puser \<Rightarrow> 'rt proxy_manager \<Rightarrow> ('rt proxy_manager, puser \<times> gerror option) outcome" where
  "PM_ResetUser cc x user pm =
     bind_o (RemoveUser cc x user pm) (\<lambda>pm (u, r). case r of
       Some e \<Rightarrow> Done pm (u, Some e)
     | None \<Rightarrow> AddUser cc x u pm)"

subsection \<open>Loading and flushing\<close>

text \<open>\<open>ord\<close> is the order of the loop over the table, the two errors are those of encoding and writing.\<close>

definition PM_Flush ::
    "conf_codec \<Rightarrow> string list \<Rightarrow> gerror option \<Rightarrow> gerror option \<Rightarrow> 'rt proxy_manager \<Rightarrow> 'rt proxy_manager \<times> gerror option" where
  "PM_Flush fc ord marshalErr writeErr pm =
     (let cfgs = map ib_Config (vals_in_order (im_inbounds (pm_InboundManager pm)) ord);
          pm1 = pm\<lparr>pm_InboundConfigs := cfgs\<rparr>
      in case marshalErr of
           Some e \<Rightarrow> (pm1, Some e)
         | None \<Rightarrow>
             (case writeErr of
                Some e \<Rightarrow> (pm1, Some e)
              | None \<Rightarrow> (pm1\<lparr>pm_file := marshal_config fc (pm_api pm1) cfgs, pm_needFlush := False\<rparr>, None)))"

text \<open>One tick of \<open>AutoFlush\<close>.\<close>

definition AutoFlush_tick ::
    "conf_codec \<Rightarrow> string list \<Rightarrow> gerror option \<Rightarrow> gerror option \<Rightarrow> 'rt proxy_manager \<Rightarrow> 'rt proxy_manager" where
  "AutoFlush_tick fc ord marshalErr writeErr pm =
     (if pm_needFlush pm then fst (PM_Flush fc ord marshalErr writeErr pm) else pm)"

definition loaded :: "inbound_cfg \<Rightarrow> inbound" where
  "loaded c = (let i = \<lparr>ib_Config = c, ib_Tag = ic_Tag c\<rparr>
     in if ic_Tag c \<noteq> apiTag then CompleteInboundConfigInformation i else i)"

fun load_inbounds :: "inbound_cfg list \<Rightarrow> inbound_manager \<Rightarrow> inbound_manager \<times> gerror option" where
  "load_inbounds [] im = (im, None)"
| "load_inbounds (c # cs) im =
     (case InboundManager_Add (loaded c) im of
        (im', Some e) \<Rightarrow> (im', Some e)
      | (im', None) \<Rightarrow> load_inbounds cs im')"

text \<open>
  \<open>content\<close> is the result of reading the file; loading the hysteria configuration
  comes last and has only an error here. The stream settings are shared with the list of
  configurations, which sees the completed headers. The function is called once, on an empty configuration.
\<close>

definition LoadConfig ::
    "conf_codec \<Rightarrow> string result \<Rightarrow> gerror option \<Rightarrow> 'rt proxy_manager \<Rightarrow> 'rt proxy_manager \<times> gerror option" where
  "LoadConfig fc content hysteriaErr pm =
     (case content of
        Inl e \<Rightarrow> (pm, Some e)
      | Inr data \<Rightarrow>
          (case unmarshal_config fc data of
             Inl e \<Rightarrow> (pm, Some (''unmarshal xray/v2ray config fail > err: '' @ e))
           | Inr (api, cfgs) \<Rightarrow>
               (let pm1 = pm\<lparr>pm_InboundConfigs := map (\<lambda>c. ib_Config (loaded c)) cfgs, pm_api := api\<rparr>
                in case load_inbounds cfgs (pm_InboundManager pm) of
                     (im, Some e) \<Rightarrow> (pm1\<lparr>pm_InboundManager := im\<rparr>, Some e)
                   | (im, None) \<Rightarrow> (pm1\<lparr>pm_InboundManager := im\<rparr>, hysteriaErr))))"

definition configApi :: "api_cfg \<Rightarrow> api_cfg" where
  "configApi c = c\<lparr>ac_Api := Some (apiTag, [''HandlerService'', ''LoggerService'', ''StatsService''])\<rparr>"

definition api_rule :: json where
  "api_rule = JObj [(''inboundTag'', JArr [JStr ''api'']), (''outboundTag'', JStr ''api''), (''type'', JStr ''field'')]"

text \<open>\<open>None\<close> is the panic on a configuration without routing.\<close>

definition configRoute :: "api_cfg \<Rightarrow> api_cfg option" where
  "configRoute c = (case ac_Rules c of None \<Rightarrow> None | Some rs \<Rightarrow> Some (c\<lparr>ac_Rules := Some (rs @ [api_rule])\<rparr>))"

definition configPolicy :: "api_cfg \<Rightarrow> api_cfg" where
  "configPolicy c = c\<lparr>ac_Policy := True\<rparr>"

definition configAllApiInfo :: "api_cfg \<Rightarrow> api_cfg option" where
  "configAllApiInfo c = map_option configPolicy (configRoute (configApi (c\<lparr>ac_Stats := True\<rparr>)))"

definition api_inbound :: inbound where
  "api_inbound = \<lparr>ib_Config = \<lparr>ic_Protocol = ''dokodemo-door'', ic_PortRange = defaultApiPort,
     ic_ListenOn = ''127.0.0.1'', ic_Settings = Some (JObj [(''address'', JStr ''127.0.0.1'')]),
     ic_Tag = apiTag, ic_Allocation = None, ic_StreamSetting = None, ic_DomainOverride = None, ic_SniffingConfig = None\<rparr>, ib_Tag = apiTag\<rparr>"

text \<open>The error of adding the inbound is dropped.\<close>

definition initApiConfig :: "'rt proxy_manager \<Rightarrow> ('rt proxy_manager, inbound) outcome" where
  "initApiConfig pm =
     (let pm1 = pm\<lparr>pm_InboundManager := fst (InboundManager_Add api_inbound (pm_InboundManager pm))\<rparr>
      in case configAllApiInfo (pm_api pm1) of
           None \<Rightarrow> Panicked pm1
         | Some c \<Rightarrow> Done (pm1\<lparr>pm_api := c\<rparr>) api_inbound)"

definition InitRuntimeConfig ::
    "conf_codec \<Rightarrow> string list \<Rightarrow> gerror option \<Rightarrow> gerror option \<Rightarrow> bool \<Rightarrow> 'rt proxy_manager \<Rightarrow> ('rt proxy_manager, gerror option) outcome" where
  "InitRuntimeConfig fc ord marshalErr writeErr isManageExec pm =
     (let set_runtime = (\<lambda>pm i. Done (pm\<lparr>pm_Host := ''127.0.0.1'', pm_Port := uint (ib_Port i)\<rparr>) None)
      in case GetInbound pm apiTag of
           Some i \<Rightarrow> set_runtime pm i
         | None \<Rightarrow>
             if \<not> isManageExec then Done pm (Some ''can't not found api inbound'')
             else bind_o (initApiConfig pm) (\<lambda>pm i. set_runtime (fst (PM_Flush fc ord marshalErr writeErr pm)) i))"

subsection \<open>Queries over the configuration\<close>

text \<open>These read \<open>Config.InboundConfigs\<close>, which only loading and flushing set.\<close>

definition add_user_tag :: "string \<Rightarrow> string \<Rightarrow> (string \<rightharpoonup> string list) \<Rightarrow> (string \<rightharpoonup> string list)" where
  "add_user_tag tag user m =
     (case m user of Some tags \<Rightarrow> m(user \<mapsto> tags @ [tag]) | None \<Rightarrow> m(user \<mapsto> [tag]))"

fun users_tag_loop :: "codecs \<Rightarrow> inbound_cfg list \<Rightarrow> (string \<rightharpoonup> string list) \<Rightarrow> (string \<rightharpoonup> string list) option" where
  "users_tag_loop cc [] m = Some m"
| "users_tag_loop cc (c # cs) m =
     (case GetInboundUsers cc c of
        Done _ users \<Rightarrow> users_tag_loop cc cs (fold (add_user_tag (ic_Tag c)) users m)
      | _ \<Rightarrow> None)"

definition GetUsersTag :: "codecs \<Rightarrow> 'rt proxy_manager \<Rightarrow> (string \<rightharpoonup> string list) option" where
  "GetUsersTag cc pm = users_tag_loop cc (pm_InboundConfigs pm) Map.empty"

definition PM_GetTags :: "'rt proxy_manager \<Rightarrow> string list" where
  "PM_GetTags pm = map ic_Tag (filter (\<lambda>c. ic_Tag c \<noteq> apiTag \<and> str_contains supportInboundProtocol (ic_Protocol c))
     (pm_InboundConfigs pm))"

text \<open>The destination of a fallback as text: a number, or a string whose part after a colon counts.\<close>

definition fallback_port :: "inbound_fallback \<Rightarrow> string" where
  "fallback_port fb =
     (let s = (case fb_Dest fb of
          None \<Rightarrow> ''''
        | Some j \<Rightarrow> (case j of
            JNum i \<Rightarrow> if 0 \<le> i \<and> i < 65536 then itoa i else ''''
          | JNull \<Rightarrow> itoa 0
          | JStr s \<Rightarrow> s
          | _ \<Rightarrow> ''''))
      in if str_contains s '':'' then split_on (CHR '':'') s ! 1 else s)"

text \<open>\<open>None\<close> is a panic: after an error the missing configuration is used all the same.\<close>

definition isUpstreamInbound :: "codecs \<Rightarrow> string \<Rightarrow> inbound_cfg \<Rightarrow> bool option" where
  "isUpstreamInbound cc port c =
     (let p = to_lower (ic_Protocol c)
      in if p = VlessProtocolName then
           (case NewVlessInboundConfig cc c of
              Done _ (Inr v) \<Rightarrow> Some (\<exists>fb \<in> set (vl_Fallbacks v). fallback_port fb = port)
            | _ \<Rightarrow> None)
         else if p = TrojanProtocolName then
           (case NewTrojanInboundConfig cc c of
              Done _ (Inr t) \<Rightarrow> Some (\<exists>fb \<in> set (tj_Fallbacks t). fallback_port fb = port)
            | _ \<Rightarrow> None)
         else Some False)"

fun find_upstream :: "codecs \<Rightarrow> string \<Rightarrow> inbound_cfg list \<Rightarrow> inbound_cfg result option" where
  "find_upstream cc port [] = Some (Inl (''no upstream inbound of inbound with port('' @ port @ '')''))"
| "find_upstream cc port (c # cs) =
     (case isUpstreamInbound cc port c of
        None \<Rightarrow> None
      | Some True \<Rightarrow> Some (Inr c)
      | Some False \<Rightarrow> find_upstream cc port cs)"

definition GetUpstreamInbound :: "codecs \<Rightarrow> string \<Rightarrow> 'rt proxy_manager \<Rightarrow> inbound_cfg result option" where
  "GetUpstreamInbound cc port pm = find_upstream cc port (pm_InboundConfigs pm)"

subsection \<open>Adaptive ports\<close>

definition InitAdaptive :: "raw_adaptive \<Rightarrow> 'rt proxy_manager \<Rightarrow> 'rt proxy_manager" where
  "InitAdaptive raw pm =
     (let a = Adaptive_Init raw (pm_adaptive pm)
      in pm\<lparr>pm_adaptive := a\<lparr>ad_Tags := {t \<in> ad_Tags a. GetInbound pm t \<noteq> None}\<rparr>\<rparr>)"

definition AddAdaptivePort :: "port_value \<Rightarrow> 'rt proxy_manager \<Rightarrow> 'rt proxy_manager \<times> gerror option" where
  "AddAdaptivePort port pm =
     (case Adaptive_AddPort port (pm_adaptive pm) of (a, e) \<Rightarrow> (pm\<lparr>pm_adaptive := a\<rparr>, e))"

definition DeleteAdaptivePort :: "int \<Rightarrow> 'rt proxy_manager \<Rightarrow> 'rt proxy_manager" where
  "DeleteAdaptivePort port pm = pm\<lparr>pm_adaptive := Adaptive_DeletePort port (pm_adaptive pm)\<rparr>"

definition AddAdaptiveTag :: "string \<Rightarrow> 'rt proxy_manager \<Rightarrow> 'rt proxy_manager \<times> gerror option" where
  "AddAdaptiveTag tag pm =
     (case GetInbound pm tag of
        None \<Rightarrow> (pm, Some (''inbound with tag('' @ tag @ '') not found''))
      | Some i \<Rightarrow> (pm\<lparr>pm_adaptive := Adaptive_AddTag tag (pm_adaptive pm)\<rparr>, None))"

definition DeleteAdaptiveTag :: "string \<Rightarrow> 'rt proxy_manager \<Rightarrow> 'rt proxy_manager" where
  "DeleteAdaptiveTag tag pm = pm\<lparr>pm_adaptive := Adaptive_DeleteTag tag (pm_adaptive pm)\<rparr>"

text \<open>
  \<open>pick\<close> is the order of the loop over the pool and the random index. The inbound is read again
  through the same pointer after the transfer, so \<open>AddPort\<close> gets the new port, as an \<open>uint32\<close>.
\<close>

definition AdaptiveOneInbound ::
    "('rt, 'h) xray \<Rightarrow> int list \<times> nat \<Rightarrow> string \<Rightarrow> 'rt proxy_manager
     \<Rightarrow> ('rt proxy_manager, int \<times> int \<times> gerror option) outcome" where
  "AdaptiveOneInbound x pick tag pm =
     (case getRandPort (fst pick) (snd pick) (pm_adaptive pm) of
        None \<Rightarrow> Panicked pm
      | Some newPort \<Rightarrow>
          (case GetInbound pm tag of
             None \<Rightarrow> Done pm (0, 0, Some (''not found inbound with tag('' @ tag @ '')''))
           | Some i \<Rightarrow>
               (let oldPort = uint (ib_Port i)
                in bind_o (TransferInbound x tag (word_of_int newPort) pm) (\<lambda>pm r. case r of
                     Some e \<Rightarrow> Done pm (oldPort, newPort, Some e)
                   | None \<Rightarrow>
                       (let a = Adaptive_DeletePort newPort (pm_adaptive pm);
                            a' = fst (Adaptive_AddPort (PUint32 (word_of_int newPort)) a)
                        in Done (pm\<lparr>pm_adaptive := a'\<rparr>) (oldPort, newPort, None))))))"

text \<open>The function that the cron job of \<open>CycleAdaptive\<close> runs, with the picks of its rounds.\<close>

definition CycleAdaptive_cycle ::
    "('rt, 'h) xray \<Rightarrow> (string \<times> int list \<times> nat) list \<Rightarrow> 'rt proxy_manager \<Rightarrow> ('rt proxy_manager, unit) outcome" where
  "CycleAdaptive_cycle x rounds pm =
     loop_o (\<lambda>(tag, pick) pm _. bind_o (AdaptiveOneInbound x pick tag pm) (\<lambda>pm _. Done pm ())) rounds pm ()"


definition defalutCron :: string where "defalutCron = ''0 5 * * *''"

text \<open>A rule that cron does not accept is replaced by the default one.\<close>

definition CycleAdaptive :: "(string \<Rightarrow> bool) \<Rightarrow> 'rt proxy_manager \<Rightarrow> 'rt proxy_manager" where
  "CycleAdaptive cron_ok pm =
     (if cron_ok (ad_CronRule (pm_adaptive pm)) then pm
      else pm\<lparr>pm_adaptive := (pm_adaptive pm)\<lparr>ad_CronRule := defalutCron\<rparr>\<rparr>)"

end
