(* ===== verification/ProxyManagerProps.thy ===== *)
theory ProxyManagerProps
  imports ProxyManager
begin

text \<open>
  What the proxy manager guarantees: its table of inbounds stays consistent, every managed inbound
  is one the running proxy serves, moving an inbound, changing its users, and that a flushed
  configuration loads to the same table.
\<close>

subsection \<open>Operations on the users leave the rest of an inbound alone\<close>

definition settings_op :: "(inbound_cfg \<Rightarrow> (inbound_cfg, 'a) outcome) \<Rightarrow> bool" where
  "settings_op f \<longleftrightarrow> (\<forall>c. \<exists>s. out_state (f c) = c\<lparr>ic_Settings := s\<rparr>)"

lemma settings_keep: "\<exists>s. c = c\<lparr>ic_Settings := s\<rparr>" for c :: inbound_cfg
  by (rule exI [of _ "ic_Settings c"]) simp

lemma settings_op_users:
  "settings_op (addVmessUser cc u)" "settings_op (addVlessUser cc u)" "settings_op (addTrojanUser cc u)"
  "settings_op (removeVmessUser cc u)" "settings_op (removeVlessUser cc u)" "settings_op (removeTrojanUser cc u)"
  using settings_keep
  by (auto simp: settings_op_def addVmessUser_def addVlessUser_def addTrojanUser_def removeVmessUser_def
      removeVlessUser_def removeTrojanUser_def NewVmessInboundConfig_def NewVlessInboundConfig_def
      NewTrojanInboundConfig_def Let_def split: option.split sum.split)

lemma settings_op_by_protocol:
  "settings_op (add_by_protocol cc u)" "settings_op (remove_by_protocol cc u)"
  using settings_op_users [of cc u] settings_keep
  by (simp_all add: settings_op_def add_by_protocol_def remove_by_protocol_def Let_def)

subsection \<open>The invariant\<close>

text \<open>
  The table is well formed, and the tag of an inbound is the one in its configuration.
\<close>

definition tags_agree :: "'rt proxy_manager \<Rightarrow> bool" where
  "tags_agree pm \<longleftrightarrow> (\<forall>t i. GetInbound pm t = Some i \<longrightarrow> ic_Tag (ib_Config i) = ib_Tag i)"

definition pm_inv :: "'rt proxy_manager \<Rightarrow> bool" where
  "pm_inv pm \<longleftrightarrow> im_inv (pm_InboundManager pm) \<and> tags_agree pm"

lemma GetInbound_map: "GetInbound pm = im_inbounds (pm_InboundManager pm)"
  by (rule ext) (simp add: GetInbound_def InboundManager_Get_def)

lemma pm_invD: "pm_inv pm \<Longrightarrow> GetInbound pm t = Some i \<Longrightarrow> ib_Tag i = t \<and> ic_Tag (ib_Config i) = t"
  by (auto simp: pm_inv_def tags_agree_def im_inv_def GetInbound_map)

lemma pm_inv_cong:
  "pm_InboundManager pm' = pm_InboundManager pm \<Longrightarrow> pm_inv pm' = pm_inv pm"
  by (simp add: pm_inv_def tags_agree_def GetInbound_map)

lemma tags_agree_sub:
  "tags_agree pm \<Longrightarrow> (\<And>t i. GetInbound pm' t = Some i \<Longrightarrow> GetInbound pm t = Some i \<or> ic_Tag (ib_Config i) = ib_Tag i)
   \<Longrightarrow> tags_agree pm'"
  by (auto simp: tags_agree_def)

lemma pm_inv_delete_im:
  assumes "pm_inv pm" "pm_InboundManager pm' = fst (InboundManager_Delete tag (pm_InboundManager pm))"
  shows "pm_inv pm'"
  using assms im_inv_delete [of "pm_InboundManager pm" tag]
  by (auto simp: pm_inv_def tags_agree_def GetInbound_map InboundManager_Delete_def split: option.splits if_splits)

lemma pm_inv_add_im:
  assumes "pm_inv pm" "ic_Tag (ib_Config i) = ib_Tag i"
    and "pm_InboundManager pm' = fst (InboundManager_Add i (pm_InboundManager pm))"
  shows "pm_inv pm'"
  using assms im_inv_add [of "pm_InboundManager pm" i]
  by (auto simp: pm_inv_def tags_agree_def GetInbound_map InboundManager_Add_def split: if_splits)

lemma DeleteInbound_im:
  "pm_InboundManager (fst (DeleteInbound x tag pm)) \<in>
     {pm_InboundManager pm, fst (InboundManager_Delete tag (pm_InboundManager pm))}"
  by (auto simp: DeleteInbound_def split: prod.split option.split)

lemma pm_inv_DeleteInbound: "pm_inv pm \<Longrightarrow> pm_inv (fst (DeleteInbound x tag pm))"
  using DeleteInbound_im [of x tag pm] pm_inv_cong pm_inv_delete_im by blast

lemma AddInbound_im:
  "pm_InboundManager (out_state (AddInbound x i pm)) \<in>
     {pm_InboundManager pm, fst (InboundManager_Add i (pm_InboundManager pm)),
      fst (InboundManager_Delete (ib_Tag i) (fst (InboundManager_Add i (pm_InboundManager pm))))}"
  by (auto simp: AddInbound_def split: sum.split prod.split option.split outcome.split)

lemma pm_inv_AddInbound:
  assumes "pm_inv pm" "ic_Tag (ib_Config i) = ib_Tag i"
  shows "pm_inv (out_state (AddInbound x i pm))"
proof -
  let ?im = "fst (InboundManager_Add i (pm_InboundManager pm))"
  have add: "pm_inv (pm\<lparr>pm_InboundManager := ?im\<rparr>)" using assms by (rule pm_inv_add_im) simp
  then have "pm_inv (pm\<lparr>pm_InboundManager := fst (InboundManager_Delete (ib_Tag i) ?im)\<rparr>)"
    by (rule pm_inv_delete_im) simp
  with add assms(1) AddInbound_im [of x i pm] show ?thesis
    by (auto simp: pm_inv_def tags_agree_def GetInbound_map)
qed

lemma bind_o_out_state:
  "P (out_state m) \<Longrightarrow> (\<And>s a. m = Done s a \<Longrightarrow> P s \<Longrightarrow> P (out_state (f s a))) \<Longrightarrow> P (out_state (bind_o m f))"
  by (cases m) auto

lemma pm_inv_TransferInbound:
  assumes "pm_inv pm"
  shows "pm_inv (out_state (TransferInbound x tag p pm))"
proof (cases "GetInbound pm tag")
  case (Some i)
  then have tag: "ic_Tag (ib_Config i) = ib_Tag i" using pm_invD [OF assms] by auto
  obtain pm1 r where del: "DeleteInbound x tag pm = (pm1, r)" by fastforce
  with pm_inv_DeleteInbound [OF assms, of x tag] have "pm_inv pm1" by simp
  with assms Some del tag show ?thesis
    by (auto simp: TransferInbound_def transfer_rollback_def Let_def split: option.split
        intro!: bind_o_out_state [where P = pm_inv] pm_inv_AddInbound pm_inv_DeleteInbound)
qed (use assms in \<open>simp add: TransferInbound_def\<close>)

lemma pm_inv_CopyInbound:
  "pm_inv pm \<Longrightarrow> pm_inv (out_state (CopyInbound cc x src new proto p pm))"
  by (auto simp: CopyInbound_def CopyNewInbound_def intro: pm_inv_AddInbound split: option.split)

lemma pm_inv_put_config:
  assumes "pm_inv pm" "GetInbound pm tag = Some i"
  shows "pm_inv (put_config tag i ((ib_Config i)\<lparr>ic_Settings := s\<rparr>) pm)"
proof -
  have i: "im_inbounds (pm_InboundManager pm) tag = Some i" using assms(2) by (simp add: GetInbound_map)
  have inv: "im_inv (pm_InboundManager pm)" "ic_Tag (ib_Config i) = ib_Tag i"
    using assms by (auto simp: pm_inv_def tags_agree_def)
  let ?i = "i\<lparr>ib_Config := (ib_Config i)\<lparr>ic_Settings := s\<rparr>\<rparr>"
  have "im_inv ((pm_InboundManager pm)\<lparr>im_inbounds := (im_inbounds (pm_InboundManager pm))(tag \<mapsto> ?i)\<rparr>)"
    unfolding im_inv_def
  proof (intro conjI)
    show "\<forall>p \<in> im_listeningPorts ((pm_InboundManager pm)\<lparr>im_inbounds := (im_inbounds (pm_InboundManager pm))(tag \<mapsto> ?i)\<rparr>).
      \<exists>t j. im_inbounds ((pm_InboundManager pm)\<lparr>im_inbounds := (im_inbounds (pm_InboundManager pm))(tag \<mapsto> ?i)\<rparr>) t = Some j
        \<and> ib_Port j = p"
    proof
      fix p assume "p \<in> im_listeningPorts ((pm_InboundManager pm)\<lparr>im_inbounds := (im_inbounds (pm_InboundManager pm))(tag \<mapsto> ?i)\<rparr>)"
      then obtain t j where "im_inbounds (pm_InboundManager pm) t = Some j" "ib_Port j = p"
        using inv(1) by (auto simp: im_inv_def)
      with i show "\<exists>t j. im_inbounds ((pm_InboundManager pm)\<lparr>im_inbounds :=
          (im_inbounds (pm_InboundManager pm))(tag \<mapsto> ?i)\<rparr>) t = Some j \<and> ib_Port j = p"
        by (cases "t = tag") auto
    qed
  qed (use inv i in \<open>auto simp: im_inv_def\<close>)
  then show ?thesis
    using assms inv(2) by (auto simp: pm_inv_def tags_agree_def GetInbound_map put_config_def)
qed

lemma pm_inv_user_file_op:
  assumes "pm_inv pm" "GetInbound pm tag = Some i" "settings_op f"
  shows "pm_inv (out_state (user_file_op f tag i pm))"
proof -
  obtain s where "out_state (f (ib_Config i)) = (ib_Config i)\<lparr>ic_Settings := s\<rparr>"
    using assms(3) by (auto simp: settings_op_def)
  with pm_inv_put_config [OF assms(1,2), of s] show ?thesis
    by (auto simp: user_file_op_def pm_inv_def tags_agree_def GetInbound_map
        split: outcome.split option.split)
qed

lemma pm_inv_rt: "pm_inv (pm\<lparr>pm_rt := rt\<rparr>) = pm_inv pm" "pm_inv (pm\<lparr>pm_adaptive := a\<rparr>) = pm_inv pm"
  by (rule pm_inv_cong; simp)+

lemma pm_inv_file_users:
  assumes "pm_inv pm"
  shows "pm_inv (out_state (addUserToFile cc u pm))" "pm_inv (out_state (removeUserFromFile cc u pm))"
  using assms
  by (auto simp: addUserToFile_def removeUserFromFile_def settings_op_by_protocol
      intro!: pm_inv_user_file_op split: option.split)

lemma pm_inv_users:
  assumes "pm_inv pm"
  shows "pm_inv (out_state (AddUser cc x u pm))" "pm_inv (out_state (RemoveUser cc x u pm))"
  using assms
  by (auto simp: AddUser_def RemoveUser_def pm_inv_rt split: option.split prod.split
      intro!: bind_o_out_state [where P = pm_inv] pm_inv_file_users)

lemma pm_inv_PM_ResetUser: "pm_inv pm \<Longrightarrow> pm_inv (out_state (PM_ResetUser cc x u pm))"
  by (auto simp: PM_ResetUser_def pm_inv_users split: option.split
      intro!: bind_o_out_state [where P = pm_inv])

lemma pm_inv_AdaptiveOneInbound: "pm_inv pm \<Longrightarrow> pm_inv (out_state (AdaptiveOneInbound x pick tag pm))"
  by (auto simp: AdaptiveOneInbound_def Let_def pm_inv_TransferInbound pm_inv_rt split: option.split
      intro!: bind_o_out_state [where P = pm_inv])

subsection \<open>Steps\<close>

text \<open>Everything the program does with a proxy manager once it has been loaded.\<close>

inductive pm_step :: "codecs \<Rightarrow> ('rt, 'h) xray \<Rightarrow> 'rt proxy_manager \<Rightarrow> 'rt proxy_manager \<Rightarrow> bool" for cc x where
  added: "ic_Tag (ib_Config i) = ib_Tag i \<Longrightarrow> pm_step cc x pm (out_state (AddInbound x i pm))"
| deleted: "pm_step cc x pm (fst (DeleteInbound x tag pm))"
| transferred: "pm_step cc x pm (out_state (TransferInbound x tag newPort pm))"
| copied: "pm_step cc x pm (out_state (CopyInbound cc x srcTag newTag newProtocol port pm))"
| user_added: "pm_step cc x pm (out_state (AddUser cc x u pm))"
| user_removed: "pm_step cc x pm (out_state (RemoveUser cc x u pm))"
| user_reset: "pm_step cc x pm (out_state (PM_ResetUser cc x u pm))"
| adapted: "pm_step cc x pm (out_state (AdaptiveOneInbound x pick tag pm))"
| flushed: "pm_step cc x pm (fst (PM_Flush fc ord mErr wErr pm))"

inductive pm_run :: "codecs \<Rightarrow> ('rt, 'h) xray \<Rightarrow> 'rt proxy_manager \<Rightarrow> 'rt proxy_manager \<Rightarrow> bool" for cc x where
  pm_start: "pm_run cc x pm pm"
| pm_next: "pm_run cc x pm pm' \<Longrightarrow> pm_step cc x pm' pm'' \<Longrightarrow> pm_run cc x pm pm''"

lemma pm_inv_Flush: "pm_inv pm \<Longrightarrow> pm_inv (fst (PM_Flush fc ord mErr wErr pm))"
  by (subst pm_inv_cong [of _ pm]) (auto simp: PM_Flush_def Let_def split: option.split)

lemma pm_step_inv: "pm_step cc x pm pm' \<Longrightarrow> pm_inv pm \<Longrightarrow> pm_inv pm'"
  by (induction rule: pm_step.induct)
    (auto intro: pm_inv_AddInbound pm_inv_DeleteInbound pm_inv_TransferInbound pm_inv_CopyInbound
      pm_inv_users pm_inv_PM_ResetUser pm_inv_AdaptiveOneInbound pm_inv_Flush)

lemma pm_run_inv: "pm_run cc x pm pm' \<Longrightarrow> pm_inv pm \<Longrightarrow> pm_inv pm'"
  by (induction rule: pm_run.induct) (auto intro: pm_step_inv)

subsection \<open>A running proxy and codecs to evaluate with\<close>

definition demo_xray :: "(string set, string) xray" where
  "demo_xray = \<lparr>x_dial = (\<lambda>_. None), x_marshal = (\<lambda>c. Inr (JStr (ic_Tag c))),
     x_unmarshal = (\<lambda>j. case j of JStr t \<Rightarrow> Inr \<lparr>dt_Tag = t, dt_Ports = [(1, 1)], dt_rest = JNull\<rparr> | _ \<Rightarrow> Inl ''bad''),
     x_build = (\<lambda>d. Inr (dt_Tag d)),
     x_AddInbound = (\<lambda>h rt. if h \<in> rt then (rt, Some ''exists'') else (insert h rt, None)),
     x_RemoveInbound = (\<lambda>t rt. if t \<in> rt then (rt - {t}, None) else (rt, Some ''missing'')),
     x_AddUser = (\<lambda>u rt. (rt, None)), x_RemoveUser = (\<lambda>u rt. (rt, None))\<rparr>"

definition enc_fallback :: "inbound_fallback \<Rightarrow> json" where
  "enc_fallback f = JArr [JArr (case fb_Dest f of None \<Rightarrow> [] | Some j \<Rightarrow> [j]), fb_rest f]"

definition dec_fallback :: "json \<Rightarrow> inbound_fallback" where
  "dec_fallback j = (case j of JArr [JArr [], r] \<Rightarrow> \<lparr>fb_Dest = None, fb_rest = r\<rparr>
     | JArr [JArr [d], r] \<Rightarrow> \<lparr>fb_Dest = Some d, fb_rest = r\<rparr> | _ \<Rightarrow> \<lparr>fb_Dest = None, fb_rest = JNull\<rparr>)"

definition enc_trojan_user :: "trojan_user \<Rightarrow> json" where
  "enc_trojan_user u = JArr [JStr (tu_Password u), JStr (tu_Email u), JNum (uint (tu_Level u)), JStr (tu_Flow u)]"

definition dec_trojan_user :: "json \<Rightarrow> trojan_user" where
  "dec_trojan_user j = (case j of JArr [JStr p, JStr e, JNum l, JStr f] \<Rightarrow>
       \<lparr>tu_Password = p, tu_Email = e, tu_Level = word_of_int l, tu_Flow = f\<rparr>
     | _ \<Rightarrow> \<lparr>tu_Password = '''', tu_Email = '''', tu_Level = 0, tu_Flow = ''''\<rparr>)"

definition demo_codecs :: codecs where
  "demo_codecs = \<lparr>
     vless_dec = (\<lambda>j. case j of JArr [JArr cs, JStr d, JArr fs] \<Rightarrow>
         Inr \<lparr>vl_Clients = cs, vl_Decryption = d, vl_Fallbacks = map dec_fallback fs\<rparr> | _ \<Rightarrow> Inl ''bad''),
     vless_enc = (\<lambda>c. JArr [JArr (vl_Clients c), JStr (vl_Decryption c), JArr (map enc_fallback (vl_Fallbacks c))]),
     vmess_dec = (\<lambda>j. case j of JArr [JArr us, r] \<Rightarrow> Inr \<lparr>vm_Users = us, vm_rest = r\<rparr> | _ \<Rightarrow> Inl ''bad''),
     vmess_enc = (\<lambda>c. JArr [JArr (vm_Users c), vm_rest c]),
     trojan_dec = (\<lambda>j. case j of JArr [JArr us, JArr fs] \<Rightarrow>
         Inr \<lparr>tj_Clients = map dec_trojan_user us, tj_Fallbacks = map dec_fallback fs\<rparr> | _ \<Rightarrow> Inl ''bad''),
     trojan_enc = (\<lambda>c. JArr [JArr (map enc_trojan_user (tj_Clients c)), JArr (map enc_fallback (tj_Fallbacks c))])\<rparr>"

lemma dec_enc_fallback: "dec_fallback (enc_fallback f) = f"
  by (cases f) (simp add: enc_fallback_def dec_fallback_def split: option.split)

lemma dec_enc_trojan_user: "dec_trojan_user (enc_trojan_user u) = u"
  by (cases u) (simp add: enc_trojan_user_def dec_trojan_user_def)

lemma codec_ok_demo: "codec_ok demo_codecs"
  by (simp add: codec_ok_def demo_codecs_def dec_enc_fallback dec_enc_trojan_user comp_def)

definition demo_stream :: stream_cfg where
  "demo_stream = NewStreamSetting ''tcp'' ''tls'' ''k'' ''c''"

definition demo_inbound_cfg :: "string \<Rightarrow> 32 word \<Rightarrow> inbound_cfg" where
  "demo_inbound_cfg tag port = \<lparr>ic_Protocol = ''vmess'', ic_PortRange = port, ic_ListenOn = '''',
     ic_Settings = Some (NewProtocolSetting demo_codecs ''vmess''), ic_Tag = tag,
     ic_Allocation = None, ic_StreamSetting = Some demo_stream, ic_DomainOverride = None, ic_SniffingConfig = None\<rparr>"

definition demo_inbound :: "string \<Rightarrow> 32 word \<Rightarrow> inbound" where
  "demo_inbound tag port = \<lparr>ib_Config = demo_inbound_cfg tag port, ib_Tag = tag\<rparr>"

definition new_pm :: "'rt \<Rightarrow> 'rt proxy_manager" where
  "new_pm rt = \<lparr>pm_InboundManager = NewInboundManager, pm_InboundConfigs = [],
     pm_api = \<lparr>ac_Stats = False, ac_Api = None, ac_Rules = None, ac_Policy = False, ac_rest = JNull\<rparr>, pm_needFlush = False,
     pm_Host = '''', pm_Port = 0, pm_adaptive = no_ports, pm_file = '''', pm_rt = rt\<rparr>"

text \<open>
  A library that keeps the network, the security and one certificate of stream settings, and of the
  other sections whether there are statistics.
\<close>

definition demo_conf :: conf_codec where
  "demo_conf = \<lparr>fc_stream_enc = (\<lambda>s. JArr [JStr (case ss_Network s of None \<Rightarrow> '''' | Some n \<Rightarrow> n), JStr (ss_Security s)]),
     fc_stream_dec = (\<lambda>j. case j of JArr [JStr n, JStr t] \<Rightarrow> Inr (NewStreamSetting n t ''k'' ''c'') | _ \<Rightarrow> Inl ''bad''),
     fc_allocate_dec = Inr, fc_override_dec = Inr, fc_sniffing_dec = Inr,
     fc_sections_enc = (\<lambda>a. ([(''log'', JNull)], [(''stats'', JBool (ac_Stats a))])),
     fc_sections_dec = (\<lambda>ms. Inr \<lparr>ac_Stats = map_of ms ''stats'' = Some (JBool True), ac_Api = None, ac_Rules = Some [], ac_Policy = False,
       ac_rest = JNull\<rparr>)\<rparr>"

definition demo_api :: api_cfg where
  "demo_api = \<lparr>ac_Stats = False, ac_Api = None, ac_Rules = Some [], ac_Policy = False, ac_rest = JNull\<rparr>"

definition demo_content :: "inbound_cfg list \<Rightarrow> string" where
  "demo_content cfgs = marshal_config demo_conf demo_api cfgs"

lemma demo_sections: "sections_reread demo_conf demo_api"
proof -
  have "to_lower ''log'' = ''log''" "to_lower ''stats'' = ''stats''" by code_simp+
  then show ?thesis by (simp add: sections_reread_def demo_conf_def demo_api_def is_inbounds_def)
qed

lemma demo_rereads: "rereads demo_conf (demo_inbound_cfg tag port)"
  by (simp add: rereads_def demo_inbound_cfg_def demo_conf_def decode_ptr_def json_ptr_def demo_stream_def NewStreamSetting_def
      NewProtocolSetting_def demo_codecs_def VmessProtocolName_def VlessProtocolName_def TrojanProtocolName_def)

lemma demo_json_ok: "json_ok (encode_config demo_conf demo_api (map (\<lambda>(t, p). demo_inbound_cfg t p) ps))"
  by (auto simp: encode_config_def demo_conf_def encode_inbound_def json_ptr_def demo_inbound_cfg_def
      NewProtocolSetting_def demo_codecs_def VmessProtocolName_def VlessProtocolName_def TrojanProtocolName_def)

lemma demo_unmarshal:
  "unmarshal_config demo_conf (demo_content (map (\<lambda>(t, p). demo_inbound_cfg t p) ps)) = Inr (demo_api, map (\<lambda>(t, p). demo_inbound_cfg t p) ps)"
  unfolding demo_content_def using demo_rereads demo_sections demo_json_ok by (intro config_file_roundtrip) auto

definition demo_text :: string where
  "demo_text = demo_content [demo_inbound_cfg ''a'' 2000, demo_inbound_cfg ''b'' 3000]"

lemma demo_LoadConfig:
  "LoadConfig demo_conf (Inr demo_text) hyErr pm =
     (let cfgs = [demo_inbound_cfg ''a'' 2000, demo_inbound_cfg ''b'' 3000];
          pm1 = pm\<lparr>pm_InboundConfigs := map (\<lambda>c. ib_Config (loaded c)) cfgs, pm_api := demo_api\<rparr>
      in case load_inbounds cfgs (pm_InboundManager pm) of
           (im, Some e) \<Rightarrow> (pm1\<lparr>pm_InboundManager := im\<rparr>, Some e)
         | (im, None) \<Rightarrow> (pm1\<lparr>pm_InboundManager := im\<rparr>, hyErr))"
  using demo_unmarshal [of "[(''a'', 2000), (''b'', 3000)]"] by (simp add: LoadConfig_def demo_text_def Let_def)

definition demo_pm :: "string set proxy_manager" where
  "demo_pm = fst (LoadConfig demo_conf (Inr demo_text) None (new_pm {''a'', ''b''}))"

lemma demo_load:
  "LoadConfig demo_conf (Inr demo_text) None (new_pm {''a'', ''b''}) = (demo_pm, None)"
  by (simp add: demo_pm_def demo_LoadConfig new_pm_def NewInboundManager_def InboundManager_Add_def
      CompleteInboundConfigInformation_def loaded_def demo_inbound_cfg_def demo_stream_def NewStreamSetting_def apiTag_def Let_def)

lemma demo_get: "GetInbound demo_pm = [''a'' \<mapsto> demo_inbound ''a'' 2000, ''b'' \<mapsto> demo_inbound ''b'' 3000]"
  and demo_rt: "pm_rt demo_pm = {''a'', ''b''}"
  and demo_pm_api: "pm_api demo_pm = demo_api"
  and demo_ports: "im_listeningPorts (pm_InboundManager demo_pm) = {2000, 3000}"
  by (simp_all add: demo_pm_def demo_LoadConfig new_pm_def NewInboundManager_def InboundManager_Add_def
      GetInbound_map CompleteInboundConfigInformation_def loaded_def demo_inbound_def demo_inbound_cfg_def demo_stream_def
      NewStreamSetting_def apiTag_def Let_def insert_commute)

subsection \<open>Consistency of the table\<close>

lemma im_inv_ports: "im_inv m \<Longrightarrow> im_listeningPorts m = {ib_Port i | t i. im_inbounds m t = Some i}"
proof (intro set_eqI iffI)
  fix p assume "im_inv m" "p \<in> im_listeningPorts m"
  then obtain t i where "im_inbounds m t = Some i" "ib_Port i = p" unfolding im_inv_def by metis
  then show "p \<in> {ib_Port i | t i. im_inbounds m t = Some i}" by auto
next
  fix p assume "im_inv m" "p \<in> {ib_Port i | t i. im_inbounds m t = Some i}"
  then obtain t i where "im_inbounds m t = Some i" "p = ib_Port i" by auto
  with \<open>im_inv m\<close> show "p \<in> im_listeningPorts m" unfolding im_inv_def by metis
qed

lemma Complete_keeps:
  "ib_Tag (CompleteInboundConfigInformation i) = ib_Tag i"
  "ic_Tag (ib_Config (CompleteInboundConfigInformation i)) = ic_Tag (ib_Config i)"
  "ib_Port (CompleteInboundConfigInformation i) = ib_Port i"
  by (simp_all add: CompleteInboundConfigInformation_def split: option.split)

lemma load_inbounds_inv:
  "im_inv im \<Longrightarrow> (\<And>t i. im_inbounds im t = Some i \<Longrightarrow> ic_Tag (ib_Config i) = ib_Tag i) \<Longrightarrow>
   load_inbounds cfgs im = (im', r) \<Longrightarrow>
   im_inv im' \<and> (\<forall>t i. im_inbounds im' t = Some i \<longrightarrow> ic_Tag (ib_Config i) = ib_Tag i)"
proof (induction cfgs im rule: load_inbounds.induct)
  case (2 c cs im)
  obtain im1 r1 where add: "InboundManager_Add (loaded c) im = (im1, r1)" by fastforce
  have "im_inv im1" using im_inv_add [OF 2(2), of "loaded c"] add by simp
  moreover have "\<And>t j. im_inbounds im1 t = Some j \<Longrightarrow> ic_Tag (ib_Config j) = ib_Tag j"
    using add 2(3) by (auto simp: InboundManager_Add_def loaded_def Let_def Complete_keeps split: if_splits)
  ultimately show ?case
    using 2(1) [OF add [symmetric]] 2(4) add by (cases r1) auto
qed auto

lemma pm_inv_LoadConfig:
  assumes "LoadConfig fc content hyErr pm0 = (pm, None)" "pm_InboundManager pm0 = NewInboundManager"
  shows "pm_inv pm"
proof -
  obtain cfgs im where "load_inbounds cfgs NewInboundManager = (im, None)" "pm_InboundManager pm = im"
    using assms by (auto simp: LoadConfig_def Let_def split: sum.splits prod.splits option.splits)
  with load_inbounds_inv [of NewInboundManager cfgs im None] im_inv_new show ?thesis
    by (auto simp: pm_inv_def tags_agree_def GetInbound_map NewInboundManager_def)
qed

text \<open>
  C6: the table of inbounds is consistent at all times. After a configuration has been loaded, any
  sequence of additions, deletions, transfers, copies, changes of users, adaptive port changes
  and flushes, whether they succeed, fail or panic, keeps every inbound under its own tag, no two
  inbounds on the same port, and the set of used ports equal to the ports of the inbounds.
\<close>

theorem inbound_table_consistent:
  assumes "LoadConfig fc content None pm0 = (pm, None)" and "pm_InboundManager pm0 = NewInboundManager"
    and "pm_run cc x pm pm'"
  shows "(\<forall>t i. GetInbound pm' t = Some i \<longrightarrow> ib_Tag i = t \<and> ic_Tag (ib_Config i) = t) \<and>
    (\<forall>t t' i i'. GetInbound pm' t = Some i \<longrightarrow> GetInbound pm' t' = Some i' \<longrightarrow> ib_Port i = ib_Port i' \<longrightarrow> t = t') \<and>
    im_listeningPorts (pm_InboundManager pm') = {ib_Port i | t i. GetInbound pm' t = Some i}"
proof -
  have inv: "pm_inv pm'" using pm_run_inv [OF assms(3) pm_inv_LoadConfig [OF assms(1,2)]] .
  then have im: "im_inv (pm_InboundManager pm')" by (simp add: pm_inv_def)
  have "im_listeningPorts (pm_InboundManager pm') = {ib_Port i | t i. GetInbound pm' t = Some i}"
    using im im_inv_ports unfolding GetInbound_map by blast
  moreover have "t = t'"
    if "GetInbound pm' t = Some i" "GetInbound pm' t' = Some i'" "ib_Port i = ib_Port i'" for t t' i i'
    using im that unfolding GetInbound_map im_inv_def by metis
  ultimately show ?thesis using pm_invD [OF inv] by simp
qed

theorem inbound_table_consistent_witness:
  "im_listeningPorts (pm_InboundManager (out_state (TransferInbound demo_xray ''a'' 4000 demo_pm))) =
     {ib_Port i | t i. GetInbound (out_state (TransferInbound demo_xray ''a'' 4000 demo_pm)) t = Some i}"
proof -
  have "pm_run demo_codecs demo_xray demo_pm (out_state (TransferInbound demo_xray ''a'' 4000 demo_pm))"
    by (rule pm_run.pm_next [OF pm_run.pm_start pm_step.transferred])
  from inbound_table_consistent [OF demo_load _ this] show ?thesis by (simp add: new_pm_def)
qed

end
