(* ===== verification/ProxyRuntime.thy ===== *)
theory ProxyRuntime
  imports ProxyManagerProps
begin

text \<open>
  The manager and the running proxy: every managed inbound is one the proxy serves; moving an
  inbound; the users of an inbound; flushing and loading.
\<close>

subsection \<open>What the program relies on of the proxy's API\<close>

text \<open>
  \<open>tags rt\<close> are the inbounds a proxy in state \<open>rt\<close> serves. An inbound that was added without an
  error is served, a failed call loses no inbound (it may leave one half added, as the source
  notes), a removal concerns its tag only, users do not matter; and the encoding of an inbound
  decodes to the same tag and at least one port.
\<close>

definition runtime_laws :: "('rt, 'h) xray \<Rightarrow> ('rt \<Rightarrow> string set) \<Rightarrow> ('h \<Rightarrow> string) \<Rightarrow> bool" where
  "runtime_laws x tags htag \<longleftrightarrow>
     (\<forall>h rt rt' e. x_AddInbound x h rt = (rt', e) \<longrightarrow> tags rt \<subseteq> tags rt' \<and> (e = None \<longrightarrow> htag h \<in> tags rt')) \<and>
     (\<forall>t rt rt' e. x_RemoveInbound x t rt = (rt', e) \<longrightarrow> tags rt - {t} \<subseteq> tags rt' \<and> (e \<noteq> None \<longrightarrow> tags rt \<subseteq> tags rt')) \<and>
     (\<forall>u rt rt' e. x_AddUser x u rt = (rt', e) \<longrightarrow> tags rt \<subseteq> tags rt') \<and>
     (\<forall>u rt rt' e. x_RemoveUser x u rt = (rt', e) \<longrightarrow> tags rt \<subseteq> tags rt') \<and>
     (\<forall>c j d. x_marshal x c = Inr j \<longrightarrow> x_unmarshal x j = Inr d \<longrightarrow> dt_Ports d \<noteq> [] \<and>
        (\<forall>h. x_build x d = Inr h \<longrightarrow> htag h = ic_Tag c))"

lemma runtime_laws_demo: "runtime_laws demo_xray (\<lambda>rt. rt) (\<lambda>h. h)"
  by (auto simp: runtime_laws_def demo_xray_def split: if_splits)

definition served :: "('rt \<Rightarrow> string set) \<Rightarrow> 'rt proxy_manager \<Rightarrow> bool" where
  "served tags pm \<longleftrightarrow> (\<forall>t. GetInbound pm t \<noteq> None \<longrightarrow> t \<noteq> apiTag \<longrightarrow> t \<in> tags (pm_rt pm))"

lemma served_mono:
  "served tags pm \<Longrightarrow> (\<And>t. GetInbound pm' t \<noteq> None \<Longrightarrow> GetInbound pm t \<noteq> None \<or> t \<in> tags (pm_rt pm')) \<Longrightarrow>
   tags (pm_rt pm) \<subseteq> tags (pm_rt pm') \<Longrightarrow> served tags pm'"
  unfolding served_def by blast

lemma laws_add:
  assumes "runtime_laws x tags htag" "x_AddInbound x h rt = (rt', e)"
  shows "tags rt \<subseteq> tags rt' \<and> (e = None \<longrightarrow> htag h \<in> tags rt')"
proof -
  have "\<forall>h rt rt' e. x_AddInbound x h rt = (rt', e) \<longrightarrow> tags rt \<subseteq> tags rt' \<and> (e = None \<longrightarrow> htag h \<in> tags rt')"
    using assms(1) unfolding runtime_laws_def by (rule conjunct1)
  with assms(2) show ?thesis by simp
qed

lemma laws_remove:
  "runtime_laws x tags htag \<Longrightarrow> x_RemoveInbound x t rt = (rt', e) \<Longrightarrow>
   tags rt - {t} \<subseteq> tags rt' \<and> (e \<noteq> None \<longrightarrow> tags rt \<subseteq> tags rt')"
  unfolding runtime_laws_def by blast

lemma laws_users:
  "runtime_laws x tags htag \<Longrightarrow> x_AddUser x u rt = (rt', e) \<Longrightarrow> tags rt \<subseteq> tags rt'"
  "runtime_laws x tags htag \<Longrightarrow> x_RemoveUser x u rt = (rt', e) \<Longrightarrow> tags rt \<subseteq> tags rt'"
  unfolding runtime_laws_def by blast+

lemma laws_codec:
  "runtime_laws x tags htag \<Longrightarrow> x_marshal x c = Inr j \<Longrightarrow> x_unmarshal x j = Inr d \<Longrightarrow> dt_Ports d \<noteq> []"
  "runtime_laws x tags htag \<Longrightarrow> x_marshal x c = Inr j \<Longrightarrow> x_unmarshal x j = Inr d \<Longrightarrow> x_build x d = Inr h \<Longrightarrow>
   htag h = ic_Tag c"
  unfolding runtime_laws_def by blast+

lemma AddInboundToRuntime_laws:
  assumes "runtime_laws x tags htag" "x_marshal x c = Inr j"
  shows "\<exists>rt' e. AddInboundToRuntime x j rt = Done rt' e \<and> tags rt \<subseteq> tags rt' \<and> (e = None \<longrightarrow> ic_Tag c \<in> tags rt')"
proof (cases "x_dial x rt")
  case None
  have new: "NewInboundHandlerConfig x j \<noteq> None"
    and tag: "\<And>h. NewInboundHandlerConfig x j = Some (Inr h) \<Longrightarrow> htag h = ic_Tag c"
    using laws_codec [OF assms]
    by (auto simp: NewInboundHandlerConfig_def split: sum.splits list.splits if_splits)
  show ?thesis
  proof (cases "NewInboundHandlerConfig x j")
    case (Some r)
    show ?thesis
    proof (cases r)
      case (Inr h)
      obtain rt' e where "x_AddInbound x h rt = (rt', e)" by fastforce
      with laws_add [OF assms(1) this] tag Some Inr None show ?thesis
        by (simp add: AddInboundToRuntime_def)
    qed (use None Some in \<open>simp add: AddInboundToRuntime_def\<close>)
  qed (use new in simp)
qed (simp add: AddInboundToRuntime_def)

lemma served_AddInbound:
  assumes laws: "runtime_laws x tags htag" and "served tags pm" "ic_Tag (ib_Config i) = ib_Tag i"
  shows "served tags (out_state (AddInbound x i pm))"
proof (cases "x_marshal x (ib_Config i)")
  case (Inr j)
  obtain rt' e where rt: "AddInboundToRuntime x j (pm_rt pm) = Done rt' e" "tags (pm_rt pm) \<subseteq> tags rt'"
      "e = None \<longrightarrow> ib_Tag i \<in> tags rt'"
    using AddInboundToRuntime_laws [OF laws Inr] assms(3) by metis
  obtain im r where add: "InboundManager_Add i (pm_InboundManager pm) = (im, r)" by fastforce
  have get: "GetInbound (pm\<lparr>pm_InboundManager := im'\<rparr>) = im_inbounds im'" for im' by (simp add: GetInbound_map)
  show ?thesis
  proof (cases r)
    case None
    with inbounds.add_ok [of i _ im] add
    have ok: "im_inbounds im = (GetInbound pm)(ib_Tag i \<mapsto> i)" by (auto simp: GetInbound_map InboundManager_Get_map)
    obtain im2 where del: "InboundManager_Delete (ib_Tag i) im = (im2, None)" "im_inbounds im2 = GetInbound pm"
      using inbounds.add_then_del [of i _ im] add None by (auto simp: GetInbound_map InboundManager_Get_map)
    have "served tags (pm\<lparr>pm_InboundManager := im, pm_rt := rt', pm_needFlush := True\<rparr>)" if "e = None"
      using rt(2,3) ok that by (intro served_mono [OF assms(2)]) (auto simp: GetInbound_map split: if_splits)
    moreover have "served tags (pm\<lparr>pm_InboundManager := im2, pm_rt := rt'\<rparr>)"
      using rt(2) del(2) by (intro served_mono [OF assms(2)]) (auto simp: GetInbound_map)
    ultimately show ?thesis
      using rt(1) add None Inr del(1) assms(2) by (simp add: AddInbound_def split: option.split)
  next
    case (Some x1)
    with inbounds.add_err [of i _ im] add have "im = pm_InboundManager pm" by auto
    with Some add Inr assms(2) show ?thesis by (simp add: AddInbound_def)
  qed
qed (use assms in \<open>simp add: AddInbound_def\<close>)

lemma served_DeleteInbound:
  assumes laws: "runtime_laws x tags htag" and "served tags pm"
  shows "served tags (fst (DeleteInbound x tag pm))"
proof -
  obtain rt e where rem: "RemoveInboundFromRuntime x tag (pm_rt pm) = (rt, e)" by fastforce
  then have rt: "tags (pm_rt pm) - {tag} \<subseteq> tags rt" "e \<noteq> None \<longrightarrow> tags (pm_rt pm) \<subseteq> tags rt"
    using laws_remove [OF laws] by (auto simp: RemoveInboundFromRuntime_def split: option.splits)
  obtain im r where del: "InboundManager_Delete tag (pm_InboundManager pm) = (im, r)" by fastforce
  have gone: "im_inbounds im tag = None" "im_inbounds im t \<noteq> None \<Longrightarrow> GetInbound pm t \<noteq> None" for t
    using del by (auto simp: InboundManager_Delete_def GetInbound_map split: option.splits if_splits)
  show ?thesis
    using rem rt del gone assms(2)
    by (auto simp: DeleteInbound_def served_def GetInbound_map split: option.split)
qed

lemma served_TransferInbound:
  assumes laws: "runtime_laws x tags htag" and "served tags pm" "pm_inv pm"
  shows "served tags (out_state (TransferInbound x tag p pm))"
proof (cases "GetInbound pm tag")
  case (Some i)
  then have tag: "ic_Tag (ib_Config i) = ib_Tag i" using pm_invD [OF assms(3)] by auto
  obtain pm1 r where del: "DeleteInbound x tag pm = (pm1, r)" by fastforce
  with served_DeleteInbound [OF laws assms(2), of tag] have "served tags pm1" by simp
  with assms(2) Some del tag show ?thesis
    by (auto simp: TransferInbound_def transfer_rollback_def Let_def split: option.split
        intro!: bind_o_out_state [where P = "served tags"] served_AddInbound [OF laws] served_DeleteInbound [OF laws])
qed (use assms in \<open>simp add: TransferInbound_def\<close>)

lemma served_simps:
  "served tags (pm\<lparr>pm_adaptive := a\<rparr>) = served tags pm" "served tags (pm\<lparr>pm_needFlush := b\<rparr>) = served tags pm"
  by (simp_all add: served_def GetInbound_map)

lemma served_put_config: "served tags pm \<Longrightarrow> GetInbound pm tag = Some i \<Longrightarrow> served tags (put_config tag i cfg pm)"
  by (auto simp: served_def GetInbound_map put_config_def)

lemma served_user_file_op:
  assumes "served tags pm" "GetInbound pm tag = Some i"
  shows "served tags (out_state (user_file_op f tag i pm))"
  using served_put_config [OF assms]
  by (simp add: user_file_op_def served_simps split: outcome.split option.split)

lemma served_file_users:
  assumes "served tags pm"
  shows "served tags (out_state (addUserToFile cc u pm))" "served tags (out_state (removeUserFromFile cc u pm))"
  using assms served_user_file_op [OF assms]
  by (simp_all add: addUserToFile_def removeUserFromFile_def Let_def split: option.split)

lemma served_rt: "served tags pm \<Longrightarrow> tags (pm_rt pm) \<subseteq> tags rt \<Longrightarrow> served tags (pm\<lparr>pm_rt := rt\<rparr>)"
  by (auto simp: served_def GetInbound_map)

lemma served_users:
  assumes laws: "runtime_laws x tags htag" and "served tags pm"
  shows "served tags (out_state (AddUser cc x u pm))" "served tags (out_state (RemoveUser cc x u pm))"
proof -
  have "served tags (pm\<lparr>pm_rt := rt\<rparr>)"
    if "addUserToRuntime x u' (pm_rt pm) = (rt, e) \<or> removeUserFromRuntime x u' (pm_rt pm) = (rt, e)" for u' rt e
  proof (rule served_rt [OF assms(2)])
    show "tags (pm_rt pm) \<subseteq> tags rt"
      using that laws_users [OF laws, of u' "pm_rt pm" rt e]
      by (auto simp: addUserToRuntime_def removeUserFromRuntime_def split: option.splits)
  qed
  then show "served tags (out_state (AddUser cc x u pm))" "served tags (out_state (RemoveUser cc x u pm))"
    using assms(2)
    by (auto simp: AddUser_def RemoveUser_def split: option.split prod.split
        intro!: bind_o_out_state [where P = "served tags"] served_file_users)
qed

lemma served_step:
  assumes laws: "runtime_laws x tags htag"
  shows "pm_step cc x pm pm' \<Longrightarrow> served tags pm \<Longrightarrow> pm_inv pm \<Longrightarrow> served tags pm'"
proof (induction rule: pm_step.induct)
  case (copied pm srcTag newTag newProtocol port)
  then show ?case
    by (auto simp: CopyInbound_def CopyNewInbound_def intro: served_AddInbound [OF laws] split: option.split)
next
  case (user_reset pm u)
  then show ?case
    by (auto simp: PM_ResetUser_def served_users [OF laws] split: option.split
        intro!: bind_o_out_state [where P = "served tags"])
next
  case (adapted pm pick tag)
  then show ?case
    by (auto simp: AdaptiveOneInbound_def Let_def served_TransferInbound [OF laws] served_simps split: option.split
        intro!: bind_o_out_state [where P = "served tags"])
next
  case (flushed pm ord mErr wErr)
  then show ?case
    by (auto simp: PM_Flush_def Let_def served_def GetInbound_map split: option.split)
qed (auto intro: served_AddInbound [OF laws] served_DeleteInbound [OF laws] served_TransferInbound [OF laws]
      served_users [OF laws])

lemma served_run:
  assumes "runtime_laws x tags htag" "pm_run cc x pm pm'" "served tags pm" "pm_inv pm"
  shows "served tags pm'"
  using assms(2-)
  by (induction rule: pm_run.induct) (auto intro: served_step [OF assms(1)] dest: pm_run_inv)

text \<open>
  C7: managed inbounds are served. When the proxy starts with the inbounds of the loaded
  configuration, then after any sequence of operations on inbounds and users every inbound of the
  table but the API's own is one the running proxy serves, also when calls to the proxy fail.
\<close>

theorem managed_inbounds_are_served:
  assumes "runtime_laws x tags htag"
    and "LoadConfig fc content None pm0 = (pm, None)" and "pm_InboundManager pm0 = NewInboundManager"
    and "\<And>t. GetInbound pm t \<noteq> None \<Longrightarrow> t \<in> tags (pm_rt pm)"
    and "pm_run cc x pm pm'" and "GetInbound pm' t = Some i" and "t \<noteq> apiTag"
  shows "t \<in> tags (pm_rt pm')"
proof -
  have "pm_inv pm" using pm_inv_LoadConfig [OF assms(2,3)] .
  moreover have "served tags pm" using assms(4) by (auto simp: served_def)
  ultimately have "served tags pm'" using served_run [OF assms(1,5)] by blast
  with assms(6,7) show ?thesis by (auto simp: served_def)
qed

lemma demo_moved:
  "GetInbound (out_state (TransferInbound demo_xray ''a'' 4000 demo_pm)) ''a'' = Some (demo_inbound ''a'' 4000)"
proof -
  have im: "im_inbounds (pm_InboundManager demo_pm) = [''a'' \<mapsto> demo_inbound ''a'' 2000, ''b'' \<mapsto> demo_inbound ''b'' 3000]"
    using demo_get by (simp add: GetInbound_map)
  show ?thesis
    by (simp add: TransferInbound_def DeleteInbound_def RemoveInboundFromRuntime_def AddInbound_def
        AddInboundToRuntime_def NewInboundHandlerConfig_def InboundManager_Delete_def InboundManager_Add_def
        demo_get demo_rt demo_ports im apiTag_def minPort_def maxPort_def demo_xray_def demo_inbound_def
        demo_inbound_cfg_def GetInbound_map Let_def)
qed

theorem managed_inbounds_are_served_witness:
  "''a'' \<in> pm_rt (out_state (TransferInbound demo_xray ''a'' 4000 demo_pm))"
proof -
  have "pm_run demo_codecs demo_xray demo_pm (out_state (TransferInbound demo_xray ''a'' 4000 demo_pm))"
    by (rule pm_run.pm_next [OF pm_run.pm_start pm_step.transferred])
  moreover have "t \<in> pm_rt demo_pm" if "GetInbound demo_pm t \<noteq> None" for t
    using that by (auto simp: demo_get demo_rt split: if_splits)
  ultimately show ?thesis
    using managed_inbounds_are_served [OF runtime_laws_demo demo_load _ _ _ demo_moved, of demo_codecs]
    by (simp add: new_pm_def apiTag_def)
qed

end
