(* ===== verification/ProxyOps.thy ===== *)
theory ProxyOps
  imports ProxyRuntime
begin

text \<open>
  The results of the operations of the proxy manager: moving inbounds by hand and from the
  adaptive pool, changing the users of an inbound, flushing and loading the configuration.
\<close>

subsection \<open>Moving an inbound\<close>

lemma AddInbound_get:
  assumes "AddInbound x i pm = Done pm' r"
  shows "case r of None \<Rightarrow> GetInbound pm (ib_Tag i) = None \<and> GetInbound pm' = (GetInbound pm)(ib_Tag i \<mapsto> i)
         | Some e \<Rightarrow> GetInbound pm' = GetInbound pm"
proof -
  obtain im a where add: "InboundManager_Add i (pm_InboundManager pm) = (im, a)" by fastforce
  show ?thesis
  proof (cases a)
    case None
    obtain im2 where "InboundManager_Delete (ib_Tag i) im = (im2, None)" "im_inbounds im2 = im_inbounds (pm_InboundManager pm)"
      using inbounds.add_then_del [of i _ im] add None by (auto simp: InboundManager_Get_map)
    with assms add None inbounds.add_ok [of i "pm_InboundManager pm" im] show ?thesis
      by (auto simp: AddInbound_def GetInbound_map InboundManager_Get_map
          split: if_splits sum.splits outcome.splits option.splits)
  next
    case (Some e)
    with add inbounds.add_err have "im = pm_InboundManager pm" by blast
    with assms add Some show ?thesis
      by (auto simp: AddInbound_def GetInbound_map split: if_splits sum.splits)
  qed
qed

lemma DeleteInbound_get:
  assumes "DeleteInbound x tag pm = (pm', r)"
  shows "case r of None \<Rightarrow> GetInbound pm tag \<noteq> None \<and> GetInbound pm' = (GetInbound pm)(tag := None)
         | Some e \<Rightarrow> GetInbound pm' = GetInbound pm"
proof -
  obtain im a where del: "InboundManager_Delete tag (pm_InboundManager pm) = (im, a)" by fastforce
  with inbounds.del_ok [of tag "pm_InboundManager pm" im] inbounds.del_err [of tag "pm_InboundManager pm" im] assms show ?thesis
    by (auto simp: DeleteInbound_def GetInbound_map InboundManager_Get_map split: if_splits prod.splits option.splits)
qed

text \<open>
  C35: moving an inbound to another port. A transfer that reports success has moved exactly this
  inbound, with everything but the port unchanged. A transfer that reports an error has either
  left the table as it was (the roll-back included) or removed the inbound from it.
\<close>

theorem transfer_inbound_result:
  assumes "pm_inv pm" and "TransferInbound x tag newPort pm = Done pm' r"
  shows "case r of
      None \<Rightarrow> \<exists>i. GetInbound pm tag = Some i \<and> ib_Port i \<noteq> newPort \<and>
        GetInbound pm' = (GetInbound pm)(tag \<mapsto> i\<lparr>ib_Config := (ib_Config i)\<lparr>ic_PortRange := newPort\<rparr>\<rparr>)
    | Some e \<Rightarrow> GetInbound pm' = GetInbound pm \<or> GetInbound pm' = (GetInbound pm)(tag := None)"
proof (cases "GetInbound pm tag")
  case (Some i)
  then have tag: "ib_Tag i = tag" using pm_invD [OF assms(1)] by auto
  obtain pm1 d where del: "DeleteInbound x tag pm = (pm1, d)" by fastforce
  let ?i = "i\<lparr>ib_Config := (ib_Config i)\<lparr>ic_PortRange := newPort\<rparr>\<rparr>"
  show ?thesis
  proof (cases d)
    case None
    note get1 = DeleteInbound_get [OF del, unfolded None option.case]
    show ?thesis
    proof (cases "ib_Port i = newPort \<or> tag = apiTag \<or> uint newPort < minPort \<or> uint newPort > maxPort")
      case False
      then obtain pm2 r2 where add: "AddInbound x ?i pm1 = Done pm2 r2"
        and rest: "(case r2 of None \<Rightarrow> Done pm2 None | Some e \<Rightarrow> transfer_rollback x tag i e pm2) = Done pm' r"
        using assms(2) Some del None by (auto simp: TransferInbound_def Let_def bind_o_Done_iff)
      show ?thesis
      proof (cases r2)
        case None
        with rest AddInbound_get [OF add] get1 tag False Some show ?thesis by auto
      next
        case e: (Some e)
        obtain pm2' d2 where del2: "DeleteInbound x tag pm2 = (pm2', d2)" by fastforce
        have get2: "GetInbound pm2' = (GetInbound pm)(tag := None)"
          using AddInbound_get [OF add] DeleteInbound_get [OF del2] get1 e by (auto split: option.splits)
        from rest e del2 obtain r3 where again: "AddInbound x i pm2' = Done pm' r3" and r: "r \<noteq> None"
          by (auto simp: transfer_rollback_def bind_o_Done_iff split: option.splits)
        from AddInbound_get [OF again] get2 tag Some r show ?thesis by (auto split: option.splits)
      qed
    qed (use assms(2) Some del None get1 in \<open>auto simp: TransferInbound_def Let_def split: if_splits\<close>)
  next
    case (Some e)
    with assms(2) del DeleteInbound_get [OF del] \<open>GetInbound pm tag = Some i\<close> show ?thesis
      by (auto simp: TransferInbound_def split: if_splits)
  qed
qed (use assms(2) in \<open>auto simp: TransferInbound_def split: if_splits\<close>)

lemma pm_inv_demo: "pm_inv demo_pm"
  using pm_inv_LoadConfig [OF demo_load] by (simp add: new_pm_def)

lemma demo_transfer_done: "\<exists>pm'. TransferInbound demo_xray ''a'' 4000 demo_pm = Done pm' None"
proof -
  have im: "im_inbounds (pm_InboundManager demo_pm) = [''a'' \<mapsto> demo_inbound ''a'' 2000, ''b'' \<mapsto> demo_inbound ''b'' 3000]"
    using demo_get by (simp add: GetInbound_map)
  show ?thesis
    by (simp add: TransferInbound_def DeleteInbound_def RemoveInboundFromRuntime_def AddInbound_def
        AddInboundToRuntime_def NewInboundHandlerConfig_def InboundManager_Delete_def InboundManager_Add_def
        demo_get demo_rt demo_ports im apiTag_def minPort_def maxPort_def demo_xray_def demo_inbound_def
        demo_inbound_cfg_def Let_def)
qed

theorem transfer_inbound_result_witness:
  "\<exists>pm'. TransferInbound demo_xray ''a'' 4000 demo_pm = Done pm' None \<and>
     GetInbound pm' ''b'' = Some (demo_inbound ''b'' 3000)"
  using demo_transfer_done transfer_inbound_result [OF pm_inv_demo, of demo_xray "''a''" 4000 _ None]
  by (fastforce simp: demo_get)

text \<open>
  A transfer to the port the inbound already has loses the inbound. The manager deletes the
  inbound, in the table and in the proxy, before it compares the ports; it reports the error and
  does not add the inbound again.
\<close>

theorem transfer_to_same_port_loses_inbound:
  assumes "GetInbound pm tag = Some i" and "tag \<noteq> apiTag"
    and "minPort \<le> uint (ib_Port i)" "uint (ib_Port i) \<le> maxPort"
    and "DeleteInbound x tag pm = (pm1, None)"
  shows "\<exists>e. TransferInbound x tag (ib_Port i) pm = Done pm1 (Some e) \<and> GetInbound pm1 tag = None"
  using assms DeleteInbound_get [OF assms(5)] by (auto simp: TransferInbound_def Let_def)

theorem transfer_to_same_port_loses_inbound_witness:
  "\<exists>pm1 e. TransferInbound demo_xray ''a'' 2000 demo_pm = Done pm1 (Some e) \<and> GetInbound pm1 ''a'' = None"
proof -
  have "GetInbound demo_pm ''a'' = Some (demo_inbound ''a'' 2000)" by (simp add: demo_get)
  moreover have "\<exists>pm1. DeleteInbound demo_xray ''a'' demo_pm = (pm1, None)"
    using demo_get demo_rt
    by (simp add: DeleteInbound_def RemoveInboundFromRuntime_def InboundManager_Delete_def demo_xray_def
        apiTag_def GetInbound_map)
  then obtain pm1 where "DeleteInbound demo_xray ''a'' demo_pm = (pm1, None)" by blast
  moreover have "ib_Port (demo_inbound ''a'' 2000) = 2000" by (simp add: demo_inbound_def demo_inbound_cfg_def)
  ultimately show ?thesis
    using transfer_to_same_port_loses_inbound [of demo_pm "''a''" "demo_inbound ''a'' 2000" demo_xray pm1]
    by (auto simp: apiTag_def minPort_def maxPort_def)
qed

subsection \<open>Adaptive ports\<close>

lemma transfer_adaptive: "TransferInbound x tag p pm = Done pm' r \<Longrightarrow> pm_adaptive pm' = pm_adaptive pm"
proof -
  have add: "pm_adaptive pm' = pm_adaptive pm" if "AddInbound x i pm = Done pm' r" for i pm pm' r
    using that by (auto simp: AddInbound_def split: if_splits sum.splits prod.splits option.splits outcome.splits)
  have del: "pm_adaptive pm' = pm_adaptive pm" if "DeleteInbound x tag pm = (pm', r)" for pm pm' r
    using that by (auto simp: DeleteInbound_def split: if_splits prod.splits option.splits)
  have del': "pm_adaptive (fst (DeleteInbound x tag pm)) = pm_adaptive pm" for pm
    using del by (cases "DeleteInbound x tag pm") auto
  show "TransferInbound x tag p pm = Done pm' r \<Longrightarrow> pm_adaptive pm' = pm_adaptive pm"
    by (auto simp: TransferInbound_def transfer_rollback_def Let_def bind_o_Done_iff del'
        split: if_splits option.splits prod.splits dest!: add del)
qed

text \<open>
  An adaptive port change uses up a port. After a successful change the pool has lost the new
  port and gained nothing: the port the inbound had before is not put back, although it is meant
  to be, because the inbound is read again after the move and its \<open>uint32\<close> port is a type that
  \<open>AddPort\<close> does not know. So no number of changes ever makes the pool larger.
\<close>

theorem adaptive_change_shrinks_pool:
  assumes "AdaptiveOneInbound x pick tag pm = Done pm' (oldPort, newPort, None)"
  shows "ad_Ports (pm_adaptive pm') = ad_Ports (pm_adaptive pm) - {newPort} \<and>
    getRandPort (fst pick) (snd pick) (pm_adaptive pm) = Some newPort \<and>
    ad_Tags (pm_adaptive pm') = ad_Tags (pm_adaptive pm)"
  using assms
  by (auto simp: AdaptiveOneInbound_def Let_def bind_o_Done_iff Adaptive_DeletePort_def Adaptive_AddPort_def
      split: option.splits dest!: transfer_adaptive)

definition demo_adaptive_pm :: "string set proxy_manager" where
  "demo_adaptive_pm = demo_pm\<lparr>pm_adaptive := \<lparr>ad_CronRule = '''', ad_Ports = {4000, 5000, max_int64}, ad_Tags = {''a''}\<rparr>\<rparr>"

lemma demo_adaptive_done:
  "\<exists>pm'. AdaptiveOneInbound demo_xray ([5000, 4000, max_int64], 1) ''a'' demo_adaptive_pm = Done pm' (2000, 4000, None)"
proof -
  have im: "im_inbounds (pm_InboundManager demo_adaptive_pm) = [''a'' \<mapsto> demo_inbound ''a'' 2000, ''b'' \<mapsto> demo_inbound ''b'' 3000]"
    "im_listeningPorts (pm_InboundManager demo_adaptive_pm) = {2000, 3000}" "pm_rt demo_adaptive_pm = {''a'', ''b''}"
    using demo_get demo_rt demo_ports by (simp_all add: GetInbound_map demo_adaptive_pm_def)
  have pick: "getRandPort [5000, 4000, max_int64] 1 (pm_adaptive demo_adaptive_pm) = Some 4000"
    by (simp add: getRandPort_def demo_adaptive_pm_def max_int64_def)
  show ?thesis
    by (simp add: AdaptiveOneInbound_def pick [unfolded One_nat_def] TransferInbound_def DeleteInbound_def RemoveInboundFromRuntime_def
        AddInbound_def AddInboundToRuntime_def NewInboundHandlerConfig_def InboundManager_Delete_def
        InboundManager_Add_def im GetInbound_map apiTag_def minPort_def maxPort_def demo_xray_def demo_inbound_def
        demo_inbound_cfg_def Let_def)
qed

theorem adaptive_change_shrinks_pool_witness:
  "\<exists>pm'. AdaptiveOneInbound demo_xray ([5000, 4000, max_int64], 1) ''a'' demo_adaptive_pm = Done pm' (2000, 4000, None)
     \<and> ad_Ports (pm_adaptive pm') = {5000, max_int64}"
  using demo_adaptive_done adaptive_change_shrinks_pool [of demo_xray "([5000, 4000, max_int64], 1)" "''a''" demo_adaptive_pm]
  by (fastforce simp: demo_adaptive_pm_def max_int64_def)

subsection \<open>Users of an inbound\<close>

lemma user_file_op_get:
  assumes "f (ib_Config i) = Done cfg r"
  shows "user_file_op f tag i pm = Done (if r = None then (put_config tag i cfg pm)\<lparr>pm_needFlush := True\<rparr>
    else put_config tag i cfg pm) r"
  using assms by (cases r) (simp_all add: user_file_op_def)

lemma GetInbound_put_config [simp]: "GetInbound (put_config tag i cfg pm) = (GetInbound pm)(tag \<mapsto> i\<lparr>ib_Config := cfg\<rparr>)"
  by (simp add: put_config_def GetInbound_map)

lemma SetUserAccount_keeps:
  "SetUserAccount u = (u', e) \<Longrightarrow> e = None \<and> pu_Email u' = pu_Email u \<and> pu_Tag u' = pu_Tag u"
  by (auto simp: SetUserAccount_def Let_def split: if_splits)

lemma CompleteUserInformation_Some:
  assumes "ic_StreamSetting (ib_Config i) \<noteq> None"
  shows "\<exists>u'. CompleteUserInformation u (Some i) = Some (u', None) \<and> pu_Email u' = pu_Email u \<and> pu_Tag u' = pu_Tag u"
proof -
  obtain ss where ss: "ic_StreamSetting (ib_Config i) = Some ss" using assms by auto
  obtain u' e where set: "SetUserAccount (u\<lparr>pu_Protocol := ic_Protocol (ib_Config i), pu_IsXtls := (ss_Security ss = XTLSName)\<rparr>) = (u', e)"
    by fastforce
  from SetUserAccount_keeps [OF this] ss set show ?thesis by (auto simp: CompleteUserInformation_def)
qed

text \<open>
  C12: adding a user. On an inbound with readable settings \<open>AddUser\<close> panics exactly when the
  inbound has no stream settings, which it reads without a check. With stream settings it asks the
  proxy to add this user to this inbound. If it reports no error, the proxy has accepted the user and
  the inbound lists its old users followed by the new one, with nothing else of it changed; if the
  proxy refuses, the table of inbounds is unchanged.
\<close>

theorem add_user_result:
  assumes "codec_ok cc" and "GetInbound pm (pu_Tag u) = Some i" and "readable cc (ib_Config i)"
    and "GetInboundUsers cc (ib_Config i) = Done (ib_Config i) us"
  shows "if ic_StreamSetting (ib_Config i) = None then AddUser cc x u pm = Panicked pm
    else \<exists>u' rt r pm'. pu_Email u' = pu_Email u \<and> pu_Tag u' = pu_Tag u \<and>
      addUserToRuntime x u' (pm_rt pm) = (rt, r) \<and> AddUser cc x u pm = Done pm' (u', r) \<and> pm_rt pm' = rt \<and>
      (if r = None
       then \<exists>cfg. GetInbound pm' = (GetInbound pm)(pu_Tag u \<mapsto> i\<lparr>ib_Config := cfg\<rparr>) \<and> same_but_settings (ib_Config i) cfg
         \<and> GetInboundUsers cc cfg = Done cfg (us @ [pu_Email u]) \<and> readable cc cfg \<and> pm_needFlush pm'
       else GetInbound pm' = GetInbound pm)"
proof (cases "ic_StreamSetting (ib_Config i) = None")
  case True
  then show ?thesis using assms(2) by (simp add: AddUser_def CompleteUserInformation_def)
next
  case False
  obtain u' where u': "CompleteUserInformation u (Some i) = Some (u', None)" "pu_Email u' = pu_Email u" "pu_Tag u' = pu_Tag u"
    using CompleteUserInformation_Some [OF False] by blast
  obtain rt r where rt: "addUserToRuntime x u' (pm_rt pm) = (rt, r)" by fastforce
  obtain cfg where cfg: "add_by_protocol cc u' (ib_Config i) = Done cfg None" "readable cc cfg"
      "same_but_settings (ib_Config i) cfg" "GetInboundUsers cc cfg = Done cfg (us @ [pu_Email u])"
    using file_users.add_law [OF assms(1,3,4), of u'] u'(2) by auto
  have get: "GetInbound (pm\<lparr>pm_rt := rt\<rparr>) = GetInbound pm" by (simp add: GetInbound_map)
  show ?thesis
  proof (cases r)
    case None
    let ?pm = "(put_config (pu_Tag u) i cfg (pm\<lparr>pm_rt := rt\<rparr>))\<lparr>pm_needFlush := True\<rparr>"
    have "addUserToFile cc u' (pm\<lparr>pm_rt := rt\<rparr>) = Done ?pm None"
      using user_file_op_get [of "add_by_protocol cc u'" i cfg None] cfg(1) assms(2) u' get by (simp add: addUserToFile_def)
    then have "AddUser cc x u pm = Done ?pm (u', None)"
      using u' assms(2) rt None by (simp add: AddUser_def)
    moreover have "GetInbound ?pm = (GetInbound pm)(pu_Tag u \<mapsto> i\<lparr>ib_Config := cfg\<rparr>)" "pm_rt ?pm = rt" "pm_needFlush ?pm"
      by (simp_all add: GetInbound_map put_config_def)
    ultimately show ?thesis using False rt None cfg u'(2,3) by fastforce
  next
    case (Some e)
    then have "AddUser cc x u pm = Done (pm\<lparr>pm_rt := rt\<rparr>) (u', Some e)"
      using u' assms(2) rt by (simp add: AddUser_def)
    with False rt Some get u'(2,3) show ?thesis by fastforce
  qed
qed

definition demo_user :: puser where
  "demo_user = projr (NewUser ''id'' ''bob'' ''a'' [])"

lemma demo_user_simps: "pu_Email demo_user = ''bob''" "pu_Tag demo_user = ''a''"
  by (simp_all add: demo_user_def NewUser_def)

lemma demo_users: "readable demo_codecs (demo_inbound_cfg t p)"
    "GetInboundUsers demo_codecs (demo_inbound_cfg t p) = Done (demo_inbound_cfg t p) []"
proof -
  have low: "to_lower ''vmess'' = ''vmess''" by code_simp
  show "readable demo_codecs (demo_inbound_cfg t p)"
    by (simp add: readable_def vmess_valid_def demo_inbound_cfg_def NewProtocolSetting_def demo_codecs_def protocol_names low)
  show "GetInboundUsers demo_codecs (demo_inbound_cfg t p) = Done (demo_inbound_cfg t p) []"
    by (simp add: GetInboundUsers_def getVmessUsers_def NewVmessInboundConfig_def demo_inbound_cfg_def
        NewProtocolSetting_def demo_codecs_def protocol_names low raw_emails_def)
qed

theorem add_user_result_witness:
  "\<exists>u' pm'. AddUser demo_codecs demo_xray demo_user demo_pm = Done pm' (u', None) \<and>
     (\<exists>cfg. GetInboundUsers demo_codecs cfg = Done cfg [''bob''] \<and>
        GetInbound pm' ''a'' = Some ((demo_inbound ''a'' 2000)\<lparr>ib_Config := cfg\<rparr>))"
proof -
  have i: "GetInbound demo_pm (pu_Tag demo_user) = Some (demo_inbound ''a'' 2000)"
    by (simp add: demo_get demo_user_simps)
  have "ib_Config (demo_inbound ''a'' 2000) = demo_inbound_cfg ''a'' 2000" by (simp add: demo_inbound_def)
  moreover have "ic_StreamSetting (demo_inbound_cfg ''a'' 2000) \<noteq> None" by (simp add: demo_inbound_cfg_def)
  moreover have "addUserToRuntime demo_xray u rt = (rt', r) \<Longrightarrow> r = None" for u rt rt' r
    by (simp add: addUserToRuntime_def demo_xray_def)
  ultimately show ?thesis
    using add_user_result [OF codec_ok_demo i, of "[]" demo_xray] demo_users [of "''a''" 2000]
    by (force simp: demo_user_simps)
qed

text \<open>
  C9: adding and removing a user are inverse. In an inbound with readable settings that does not
  list the user yet, adding the user to the configuration and removing it again both succeed, for
  every protocol, and the users are those of before, in the same order.
\<close>

theorem user_add_remove_roundtrip:
  assumes "codec_ok cc" and "readable cc cfg" and "GetInboundUsers cc cfg = Done cfg us" and "pu_Email u \<notin> set us"
  shows "\<exists>cfg' cfg''. add_by_protocol cc u cfg = Done cfg' None \<and> remove_by_protocol cc u cfg' = Done cfg'' None \<and>
    GetInboundUsers cc cfg'' = Done cfg'' us"
  using file_users.add_remove [OF assms] by blast

theorem user_add_remove_roundtrip_witness:
  "\<exists>cfg' cfg''. add_by_protocol demo_codecs demo_user (demo_inbound_cfg ''a'' 2000) = Done cfg' None \<and>
     remove_by_protocol demo_codecs demo_user cfg' = Done cfg'' None \<and>
     GetInboundUsers demo_codecs cfg'' = Done cfg'' []"
  using user_add_remove_roundtrip [OF codec_ok_demo demo_users, of demo_user] by simp

subsection \<open>Flushing and loading\<close>

lemma loaded_keeps: "ib_Tag (loaded c) = ic_Tag c" "ib_Port (loaded c) = ic_PortRange c"
  by (simp_all add: loaded_def Let_def Complete_keeps)

lemma load_inbounds_all:
  assumes "distinct (map ic_Tag cs)" "distinct (map ic_PortRange cs)" "'''' \<notin> set (map ic_Tag cs)"
    and "set (map ic_Tag cs) \<inter> dom (im_inbounds im) = {}"
    and "set (map ic_PortRange cs) \<inter> im_listeningPorts im = {}"
  shows "\<exists>im'. load_inbounds cs im = (im', None) \<and>
    (\<forall>t. im_inbounds im' t = (case map_of (map (\<lambda>c. (ic_Tag c, loaded c)) cs) t of
       None \<Rightarrow> im_inbounds im t | Some i \<Rightarrow> Some i)) \<and>
    im_listeningPorts im' = im_listeningPorts im \<union> set (map ic_PortRange cs)"
  using assms
proof (induction cs arbitrary: im)
  case (Cons c cs)
  define im1 where "im1 = im\<lparr>im_inbounds := (im_inbounds im)(ic_Tag c \<mapsto> loaded c),
    im_listeningPorts := insert (ic_PortRange c) (im_listeningPorts im)\<rparr>"
  have im1: "im_inbounds im1 t = (if t = ic_Tag c then Some (loaded c) else im_inbounds im t)"
      "im_listeningPorts im1 = insert (ic_PortRange c) (im_listeningPorts im)" for t
    by (simp_all add: im1_def)
  have add: "InboundManager_Add (loaded c) im = (im1, None)"
    using Cons.prems by (auto simp: InboundManager_Add_def loaded_keeps im1_def)
  have "dom (im_inbounds im1) = insert (ic_Tag c) (dom (im_inbounds im))" by (simp add: im1_def)
  then have "set (map ic_Tag cs) \<inter> dom (im_inbounds im1) = {}" using Cons.prems(1,4) by auto
  moreover have "set (map ic_PortRange cs) \<inter> im_listeningPorts im1 = {}"
    using Cons.prems(2,5) by (auto simp: im1_def)
  ultimately obtain im' where "load_inbounds cs im1 = (im', None)"
      "\<And>t. im_inbounds im' t = (case map_of (map (\<lambda>c. (ic_Tag c, loaded c)) cs) t of
         None \<Rightarrow> im_inbounds im1 t | Some i \<Rightarrow> Some i)"
      "im_listeningPorts im' = im_listeningPorts im1 \<union> set (map ic_PortRange cs)"
    using Cons.IH [of im1] Cons.prems by auto
  moreover have "map_of (map (\<lambda>c. (ic_Tag c, loaded c)) cs) (ic_Tag c) = None"
    using Cons.prems(1) by (auto simp: map_of_eq_None_iff image_image)
  ultimately show ?case
    using add im1 by (auto split: option.split)
qed simp

lemma vals_configs:
  assumes "im_inv im" "\<forall>t i. im_inbounds im t = Some i \<longrightarrow> ic_Tag (ib_Config i) = ib_Tag i"
    and "distinct ord" "\<forall>t \<in> set ord. \<exists>i. im_inbounds im t = Some i"
  defines "cs \<equiv> map ib_Config (vals_in_order (im_inbounds im) ord)"
  shows "map ic_Tag cs = ord \<and> distinct (map ic_PortRange cs) \<and>
    set (map ic_PortRange cs) = {ib_Port i | t i. t \<in> set ord \<and> im_inbounds im t = Some i} \<and>
    (\<forall>t. map_of (map (\<lambda>c. (ic_Tag c, loaded c)) cs) t =
      (if t \<in> set ord then map_option (\<lambda>i. loaded (ib_Config i)) (im_inbounds im t) else None))"
  unfolding cs_def using assms(3,4)
proof (induction ord)
  case (Cons t ord)
  then obtain i where i: "im_inbounds im t = Some i" by force
  then have tag: "ic_Tag (ib_Config i) = t" using assms(1,2) unfolding im_inv_def by metis
  have other: "ib_Port j \<noteq> ib_Port i" if "t' \<noteq> t" "im_inbounds im t' = Some j" for t' j
    using assms(1) i that unfolding im_inv_def by metis
  have IH: "map ic_Tag (map ib_Config (vals_in_order (im_inbounds im) ord)) = ord"
      "distinct (map ic_PortRange (map ib_Config (vals_in_order (im_inbounds im) ord)))"
      "set (map ic_PortRange (map ib_Config (vals_in_order (im_inbounds im) ord))) =
        {ib_Port i | t i. t \<in> set ord \<and> im_inbounds im t = Some i}"
      "\<And>t. map_of (map (\<lambda>c. (ic_Tag c, loaded c)) (map ib_Config (vals_in_order (im_inbounds im) ord))) t =
        (if t \<in> set ord then map_option (\<lambda>i. loaded (ib_Config i)) (im_inbounds im t) else None)"
    using Cons by auto
  have "{ib_Port i | t' i. t' \<in> set (t # ord) \<and> im_inbounds im t' = Some i} =
      insert (ib_Port i) {ib_Port i | t i. t \<in> set ord \<and> im_inbounds im t = Some i}"
    using i by auto
  moreover have "ib_Port i \<notin> {ib_Port i | t i. t \<in> set ord \<and> im_inbounds im t = Some i}"
    using other Cons.prems(1) by force
  ultimately show ?case using IH i tag by simp
qed simp

text \<open>
  C33: a flushed configuration loads to the same table. Writing the table of inbounds to the
  configuration file, as indented JSON with the keys of the structs, and loading this text into a
  fresh manager succeeds and gives the same inbounds under the same tags, the same used ports and the
  same other sections, with the missing TCP headers filled in. Of the package \<open>conf\<close> it is taken that it reads
  the stream settings and sections of this configuration as it wrote them, and of the settings, which
  are raw messages, that they are JSON and not the bare null.
\<close>

theorem flush_load_roundtrip:
  assumes "pm_inv pm" and "ranges (GetInbound pm) ord"
    and "sections_reread fc (pm_api pm)" and "\<And>t i. GetInbound pm t = Some i \<Longrightarrow> rereads fc (ib_Config i)"
    and "\<And>t i. GetInbound pm t = Some i \<Longrightarrow> json_ok (encode_inbound fc (ib_Config i))"
    and "\<And>m. m \<in> set (fst (fc_sections_enc fc (pm_api pm)) @ snd (fc_sections_enc fc (pm_api pm))) \<Longrightarrow> json_ok (snd m)"
  shows "\<exists>pm1 pm2. PM_Flush fc ord None None pm = (pm1, None) \<and>
    LoadConfig fc (Inr (pm_file pm1)) None (new_pm rt) = (pm2, None) \<and>
    GetInbound pm2 = (\<lambda>t. map_option (\<lambda>i. loaded (ib_Config i)) (GetInbound pm t)) \<and>
    im_listeningPorts (pm_InboundManager pm2) = im_listeningPorts (pm_InboundManager pm) \<and> pm_api pm2 = pm_api pm"
proof -
  let ?im = "pm_InboundManager pm"
  let ?cs = "map ib_Config (vals_in_order (im_inbounds ?im) ord)"
  have im: "im_inv ?im" and agree: "\<forall>t i. im_inbounds ?im t = Some i \<longrightarrow> ic_Tag (ib_Config i) = ib_Tag i"
    using assms(1) by (auto simp: pm_inv_def tags_agree_def GetInbound_map)
  have ord: "distinct ord" "set ord = dom (im_inbounds ?im)" using assms(2) by (auto simp: ranges_def GetInbound_map)
  have facts: "map ic_Tag ?cs = ord" "distinct (map ic_PortRange ?cs)"
      "set (map ic_PortRange ?cs) = {ib_Port i | t i. t \<in> set ord \<and> im_inbounds ?im t = Some i}"
      "\<And>t. map_of (map (\<lambda>c. (ic_Tag c, loaded c)) ?cs) t =
        (if t \<in> set ord then map_option (\<lambda>i. loaded (ib_Config i)) (im_inbounds ?im t) else None)"
    using vals_configs [OF im agree ord(1)] ord(2) by (simp_all add: domIff del: map_map set_map)
  have new_im: "dom (im_inbounds NewInboundManager) = {}" "im_listeningPorts NewInboundManager = {}"
    by (simp_all add: NewInboundManager_def)
  have "'''' \<notin> set ord" using im ord(2) by (auto simp: im_inv_def)
  then obtain im' where load: "load_inbounds ?cs NewInboundManager = (im', None)"
      and im': "\<forall>t. im_inbounds im' t = (case map_of (map (\<lambda>c. (ic_Tag c, loaded c)) ?cs) t of
        None \<Rightarrow> im_inbounds NewInboundManager t | Some i \<Rightarrow> Some i)"
      "im_listeningPorts im' = set (map ic_PortRange ?cs)"
    using load_inbounds_all [of ?cs NewInboundManager] facts(1,2) ord(1)
    by (auto simp: new_im simp del: map_map set_map)
  have ports: "im_listeningPorts im' = im_listeningPorts ?im"
    unfolding im'(2) facts(3) im_inv_ports [OF im] using ord(2) by auto
  have table: "im_inbounds im' = (\<lambda>t. map_option (\<lambda>i. loaded (ib_Config i)) (im_inbounds ?im t))"
    using im'(1) facts(4) ord(2) by (auto simp: fun_eq_iff domIff NewInboundManager_def simp del: map_map split: option.split)
  have cfgs: "\<exists>t i. GetInbound pm t = Some i \<and> c = ib_Config i" if "c \<in> set ?cs" for c
    using that by (auto simp: vals_in_order_def GetInbound_map List.map_filter_def split: if_splits) blast
  have "json_ok (encode_config fc (pm_api pm) ?cs)"
    using cfgs assms(5,6) by (fastforce simp: encode_config_def split: prod.split)
  then have "unmarshal_config fc (marshal_config fc (pm_api pm) ?cs) = Inr (pm_api pm, ?cs)"
    using cfgs assms(4) by (intro config_file_roundtrip [OF assms(3)]) fast+
  then show ?thesis
    using load ports table by (simp add: PM_Flush_def Let_def LoadConfig_def new_pm_def GetInbound_map)
qed

theorem flush_load_roundtrip_witness:
  "\<exists>pm1 pm2. PM_Flush demo_conf [''b'', ''a''] None None demo_pm = (pm1, None) \<and>
     LoadConfig demo_conf (Inr (pm_file pm1)) None (new_pm {''a''}) = (pm2, None) \<and>
     GetInbound pm2 ''a'' = Some (loaded (demo_inbound_cfg ''a'' 2000))"
proof -
  have ord: "ranges (GetInbound demo_pm) [''b'', ''a'']" by (auto simp: ranges_def demo_get)
  have one: "\<exists>p. ib_Config i = demo_inbound_cfg t p" if "GetInbound demo_pm t = Some i" for t i
    using that by (auto simp: demo_get demo_inbound_def split: if_splits)
  have ok: "json_ok (encode_inbound demo_conf (demo_inbound_cfg t p))" for t p
    using demo_json_ok [of "[(t, p)]"] by (auto simp: encode_config_def split: prod.splits)
  have sections: "json_ok (snd m)" if "m \<in> set (fst (fc_sections_enc demo_conf (pm_api demo_pm)) @ snd (fc_sections_enc demo_conf (pm_api demo_pm)))" for m
    using that by (auto simp: demo_conf_def)
  have api: "sections_reread demo_conf (pm_api demo_pm)" using demo_sections by (simp add: demo_pm_api)
  have "rereads demo_conf (ib_Config i)" "json_ok (encode_inbound demo_conf (ib_Config i))" if "GetInbound demo_pm t = Some i" for t i
    using one [OF that] demo_rereads ok by auto
  then have "\<exists>pm1 pm2. PM_Flush demo_conf [''b'', ''a''] None None demo_pm = (pm1, None) \<and>
     LoadConfig demo_conf (Inr (pm_file pm1)) None (new_pm {''a''}) = (pm2, None) \<and>
     GetInbound pm2 = (\<lambda>t. map_option (\<lambda>i. loaded (ib_Config i)) (GetInbound demo_pm t)) \<and>
     im_listeningPorts (pm_InboundManager pm2) = im_listeningPorts (pm_InboundManager demo_pm) \<and> pm_api pm2 = pm_api demo_pm"
    using sections by (intro flush_load_roundtrip [OF pm_inv_demo ord api])
  then show ?thesis by (auto simp: demo_get demo_inbound_def)
qed

end
