(* ===== verification/UserManager.thy ===== *)
theory UserManager
  imports ProxyOps
begin

text \<open>
  \<open>cluster/user_manager.go\<close> (behind \<open>global/user/user.go\<close>) without the subscription links: the
  users of a node, their expiry and how they are kept in the configuration. The read-write lock
  is modelled by the number of read locks that are held for ever and by a writer that waits for
  them: with such a reader \<open>Lock\<close> never returns (\<open>Blocked\<close>), and after that neither does \<open>RLock\<close>.
  \<open>um_config\<close> is the value that the process configuration (viper) has for the section of the users:
  what it answered when the users were loaded, and later the map that was last set. Writing the
  configuration file and reading it in another process is viper's, which does not keep the case of
  the names. \<open>gen\<close> yields the generated identifiers.
\<close>

subsection \<open>State\<close>

record user =
  us_Name :: string
  us_Passwd :: string
  us_ExpireTime :: int
  us_Tags :: "string list"
  us_Downlink :: int
  us_Uplink :: int

record 'rt user_manager =
  um_users :: "string \<rightharpoonup> user"
  um_readers :: nat
  um_writer_waits :: bool
  um_proxy :: "'rt proxy_manager"
  um_config :: "string \<rightharpoonup> string"
  um_defaultTags :: "string list"

definition um_Lock :: "'rt user_manager \<Rightarrow> ('rt user_manager, unit) outcome" where
  "um_Lock um = (if um_readers um > 0 then Blocked (um\<lparr>um_writer_waits := True\<rparr>) else Done um ())"

definition um_RLock :: "'rt user_manager \<Rightarrow> ('rt user_manager, unit) outcome" where
  "um_RLock um = (if um_writer_waits um then Blocked um else Done um ())"

subsection \<open>Loading and flushing\<close>

definition user_entry :: "user \<Rightarrow> string" where
  "user_entry u = us_Passwd u @ ''|'' @ itoa (us_ExpireTime u)"

definition parse_user_entry :: "string \<Rightarrow> string \<times> int" where
  "parse_user_entry v =
     (let l = split_on (CHR ''|'') v
      in if length l \<noteq> 2 then (v, 0)
         else case parse_int 64 (l ! 1) of Inl e \<Rightarrow> (v, 0) | Inr e \<Rightarrow> (l ! 0, e))"

text \<open>
  \<open>usersLocal\<close> is the answer of \<open>gc.GetStringMapString\<close>: the section as viper has read it from the
  configuration file, with its keys in lower case. \<open>None\<close> is a panic while the tags of the users
  are collected.
\<close>

definition LoadUser :: "codecs \<Rightarrow> (string \<rightharpoonup> string) \<Rightarrow> 'rt user_manager \<Rightarrow> 'rt user_manager option" where
  "LoadUser cc usersLocal um =
     (case GetUsersTag cc (um_proxy um) of
        None \<Rightarrow> None
      | Some userTagMap \<Rightarrow>
          Some (um\<lparr>um_readers := 0, um_writer_waits := False, um_config := usersLocal,
            um_users := (\<lambda>k. case usersLocal k of
               None \<Rightarrow> None
             | Some v \<Rightarrow> (case parse_user_entry v of (passwd, expireTime) \<Rightarrow>
                 Some \<lparr>us_Name = k, us_Passwd = passwd, us_ExpireTime = expireTime,
                   us_Tags = (case userTagMap k of None \<Rightarrow> [] | Some ts \<Rightarrow> ts), us_Downlink = 0, us_Uplink = 0\<rparr>))\<rparr>))"

text \<open>\<open>gc.Set\<close>: the map becomes the value of the section, names as they are; nothing is written to a file.\<close>

definition FlushUser :: "'rt user_manager \<Rightarrow> ('rt user_manager, unit) outcome" where
  "FlushUser um = bind_o (um_RLock um) (\<lambda>um _.
     Done (um\<lparr>um_config := (\<lambda>k. map_option user_entry (um_users um k))\<rparr>) ())"

subsection \<open>Operations of the proxy for a user\<close>

definition proxy_op ::
    "codecs \<Rightarrow> ('rt, 'h) xray \<Rightarrow> string \<Rightarrow> puser \<Rightarrow> 'rt proxy_manager \<Rightarrow> ('rt proxy_manager, gerror option) outcome" where
  "proxy_op cc x opType bUser pm =
     (let run = (\<lambda>m. bind_o m (\<lambda>pm (u, e). Done pm e))
      in if to_lower opType = ''add'' then run (AddUser cc x bUser pm)
         else if to_lower opType = ''delete'' then run (RemoveUser cc x bUser pm)
         else if to_lower opType = ''reset'' then run (PM_ResetUser cc x bUser pm)
         else Done pm (Some (''unsupport proxy user op['' @ opType @ '']'')))"

text \<open>The loop over the tags; an empty tag is tried, but its result does not count.\<close>

fun proxy_op_loop ::
    "codecs \<Rightarrow> ('rt, 'h) xray \<Rightarrow> (nat \<Rightarrow> string) \<Rightarrow> string \<Rightarrow> string \<Rightarrow> string list \<Rightarrow> 'rt proxy_manager
     \<Rightarrow> string list \<times> string list \<Rightarrow> ('rt proxy_manager, string list \<times> string list) outcome" where
  "proxy_op_loop cc x gen opType name [] pm acc = Done pm acc"
| "proxy_op_loop cc x gen opType name (tag # tags) pm (succTags, faileTags) =
     (case NewUser (gen 0) name tag [] of
        Inl e \<Rightarrow> proxy_op_loop cc x (gen \<circ> Suc) opType name tags pm (succTags, faileTags @ [tag])
      | Inr bUser \<Rightarrow> bind_o (proxy_op cc x opType bUser pm) (\<lambda>pm e.
          proxy_op_loop cc x (gen \<circ> Suc) opType name tags pm
            (if tag = '''' then (succTags, faileTags)
             else if e \<noteq> None then (succTags, faileTags @ [tag])
             else (succTags @ [tag], faileTags))))"

definition tag_error :: "string list \<Rightarrow> string list \<Rightarrow> gerror option" where
  "tag_error succTags faileTags =
     (if faileTags \<noteq> []
      then Some (''succ tag list: ['' @ str_join '', '' succTags @ ''], fail tag list: ['' @ str_join '', '' faileTags @ '']'')
      else None)"

text \<open>
  A user without tags gets the configured default as one tag (\<open>cfgDefault\<close>). The errors of single
  tags are shadowed inside the loop: there is an error exactly when a tag failed.
\<close>

definition proxyUserOp ::
    "codecs \<Rightarrow> ('rt, 'h) xray \<Rightarrow> (nat \<Rightarrow> string) \<Rightarrow> string \<Rightarrow> user \<Rightarrow> string \<Rightarrow> 'rt proxy_manager
     \<Rightarrow> ('rt proxy_manager, user \<times> string list \<times> gerror option) outcome" where
  "proxyUserOp cc x gen cfgDefault u opType pm =
     (let u' = (if us_Tags u = [] then u\<lparr>us_Tags := [cfgDefault]\<rparr> else u)
      in bind_o (proxy_op_loop cc x gen opType (us_Name u') (us_Tags u') pm ([], [])) (\<lambda>pm (succTags, faileTags).
           Done pm (u', succTags, tag_error succTags faileTags)))"

text \<open>Running an operation of the proxy manager inside the user manager.\<close>

fun on_proxy :: "('rt proxy_manager, 'a) outcome \<Rightarrow> 'rt user_manager \<Rightarrow> ('rt user_manager, 'a) outcome" where
  "on_proxy (Done pm a) um = Done (um\<lparr>um_proxy := pm\<rparr>) a"
| "on_proxy (Panicked pm) um = Panicked (um\<lparr>um_proxy := pm\<rparr>)"
| "on_proxy (Blocked pm) um = Blocked (um\<lparr>um_proxy := pm\<rparr>)"

subsection \<open>Operations on users\<close>

definition checkUserTag :: "user \<Rightarrow> 'rt user_manager \<Rightarrow> user" where
  "checkUserTag u um =
     (if us_Tags u = []
      then if um_defaultTags um = [] then u\<lparr>us_Tags := PM_GetTags (um_proxy um)\<rparr>
        else u\<lparr>us_Tags := um_defaultTags um\<rparr>
      else u)"

definition HaveUser :: "user \<Rightarrow> 'rt user_manager \<Rightarrow> bool" where
  "HaveUser u um \<longleftrightarrow> um_users um (us_Name u) \<noteq> None"

definition ListUsers :: "string list \<Rightarrow> 'rt user_manager \<Rightarrow> string list" where
  "ListUsers ord um = filter (\<lambda>k. um_users um k \<noteq> None) ord"

definition UM_Get :: "'rt user_manager \<Rightarrow> string \<Rightarrow> user option" where
  "UM_Get um userName = um_users um userName"

definition GetUserList :: "'rt user_manager \<Rightarrow> ('rt user_manager, string \<rightharpoonup> user) outcome" where
  "GetUserList um = bind_o (um_RLock um) (\<lambda>um _. Done um (um_users um))"

definition store_added :: "user \<Rightarrow> string list \<Rightarrow> 'rt user_manager \<Rightarrow> 'rt user_manager" where
  "store_added u succTags um = um\<lparr>um_users := (um_users um)(us_Name u \<mapsto>
     (case um_users um (us_Name u) of
        None \<Rightarrow> u\<lparr>us_Tags := succTags\<rparr>
      | Some u0 \<Rightarrow> u0\<lparr>us_Tags := us_Tags u0 @ succTags\<rparr>))\<rparr>"

definition UM_Add ::
    "codecs \<Rightarrow> ('rt, 'h) xray \<Rightarrow> (nat \<Rightarrow> string) \<Rightarrow> string \<Rightarrow> user \<Rightarrow> 'rt user_manager
     \<Rightarrow> ('rt user_manager, gerror option) outcome" where
  "UM_Add cc x gen cfgDefault u um =
     (if us_Name u = '''' then Done um (Some ''Empty user'')
      else if \<not> HaveUser u um \<and> us_Passwd u = '''' then Done um (Some ''Empty passwd'')
      else bind_o (on_proxy (proxyUserOp cc x gen cfgDefault (checkUserTag u um) ''add'' (um_proxy um)) um)
        (\<lambda>um (u, succTags, err).
          if succTags = [] \<and> err \<noteq> None then Done um err
          else bind_o (um_Lock um) (\<lambda>um _.
            bind_o (FlushUser (store_added u succTags um)) (\<lambda>um _. Done um err))))"

text \<open>
  The tags that were removed leave the entry; an entry without tags is marked expired. \<open>aliased\<close>
  says that the argument is the stored user itself, as in \<open>ClearUsers\<close>: what the operation does to
  its argument then shows in the table.
\<close>

definition drop_tags :: "string \<Rightarrow> string list \<Rightarrow> 'rt user_manager \<Rightarrow> 'rt user_manager" where
  "drop_tags name succTags um =
     (case um_users um name of
        None \<Rightarrow> um
      | Some u \<Rightarrow>
          (let newTags = filter (\<lambda>t. t \<notin> set succTags) (us_Tags u);
               u1 = u\<lparr>us_Tags := newTags\<rparr>
           in um\<lparr>um_users := (um_users um)(name \<mapsto> (if newTags = [] then u1\<lparr>us_ExpireTime := 1\<rparr> else u1))\<rparr>))"

definition write_back :: "bool \<Rightarrow> user \<Rightarrow> 'rt user_manager \<Rightarrow> 'rt user_manager" where
  "write_back aliased u um = (if aliased then um\<lparr>um_users := (um_users um)(us_Name u \<mapsto> u)\<rparr> else um)"

text \<open>On an unknown user the function returns with the read lock held.\<close>

definition UM_Delete ::
    "codecs \<Rightarrow> ('rt, 'h) xray \<Rightarrow> (nat \<Rightarrow> string) \<Rightarrow> string \<Rightarrow> bool \<Rightarrow> user \<Rightarrow> 'rt user_manager
     \<Rightarrow> ('rt user_manager, gerror option) outcome" where
  "UM_Delete cc x gen cfgDefault aliased u um =
     (if us_Name u = '''' then Done um (Some ''Empty user name'')
      else bind_o (um_RLock um) (\<lambda>um _.
        case um_users um (us_Name u) of
          None \<Rightarrow> Done (um\<lparr>um_readers := Suc (um_readers um)\<rparr>) (Some (''user['' @ us_Name u @ ''] is not exist''))
        | Some localUser \<Rightarrow>
            (let u1 = (if us_Tags u = [] then u\<lparr>us_Tags := us_Tags localUser\<rparr> else u)
             in bind_o (on_proxy (proxyUserOp cc x gen cfgDefault u1 ''delete'' (um_proxy um)) um)
               (\<lambda>um (u2, succTags, err).
                 let um1 = write_back aliased u2 um
                 in if succTags = [] \<and> err \<noteq> None then Done um1 err
                    else bind_o (um_Lock um1) (\<lambda>um _.
                      bind_o (FlushUser (drop_tags (us_Name u2) succTags um)) (\<lambda>um _. Done um err))))))"

definition UM_Update :: "user \<Rightarrow> 'rt user_manager \<Rightarrow> ('rt user_manager, gerror option) outcome" where
  "UM_Update u um =
     (if us_Passwd u = '''' then Done um (Some ''empty passwd'')
      else bind_o (um_Lock um) (\<lambda>um _.
        (case um_users um (us_Name u) of
           None \<Rightarrow> bind_o (FlushUser um) (\<lambda>um _. Done um (Some (''user['' @ us_Name u @ ''] is not exist'')))
         | Some u0 \<Rightarrow>
             bind_o (FlushUser (um\<lparr>um_users := (um_users um)(us_Name u \<mapsto>
                 u0\<lparr>us_ExpireTime := us_ExpireTime u, us_Passwd := us_Passwd u\<rparr>)\<rparr>)) (\<lambda>um _. Done um None))))"

definition UM_Reset ::
    "codecs \<Rightarrow> ('rt, 'h) xray \<Rightarrow> (nat \<Rightarrow> string) \<Rightarrow> string \<Rightarrow> user \<Rightarrow> 'rt user_manager
     \<Rightarrow> ('rt user_manager, gerror option) outcome" where
  "UM_Reset cc x gen cfgDefault u um =
     bind_o (on_proxy (proxyUserOp cc x gen cfgDefault (checkUserTag u um) ''reset'' (um_proxy um)) um)
       (\<lambda>um (u, succTags, err). Done um err)"

definition expired :: "int \<Rightarrow> user \<Rightarrow> bool" where
  "expired now u \<longleftrightarrow> us_ExpireTime u > 0 \<and> us_ExpireTime u < now"

text \<open>\<open>ord\<close> is the order of the first loop over the users.\<close>

definition clear_one ::
    "codecs \<Rightarrow> ('rt, 'h) xray \<Rightarrow> (nat \<Rightarrow> string) \<Rightarrow> string \<Rightarrow> user \<Rightarrow> 'rt user_manager \<Rightarrow> unit \<Rightarrow> ('rt user_manager, unit) outcome" where
  "clear_one cc x gen cfgDefault u um _ =
     bind_o (if us_Tags u \<noteq> []
             then bind_o (on_proxy (proxyUserOp cc x gen cfgDefault u ''delete'' (um_proxy um)) um) (\<lambda>um _. Done um ())
             else Done um ())
       (\<lambda>um _. Done (um\<lparr>um_users := (um_users um)(us_Name u := None)\<rparr>) ())"

definition ClearInvalideUser ::
    "codecs \<Rightarrow> ('rt, 'h) xray \<Rightarrow> (nat \<Rightarrow> string) \<Rightarrow> string \<Rightarrow> int \<Rightarrow> string list \<Rightarrow> 'rt user_manager
     \<Rightarrow> ('rt user_manager, unit) outcome" where
  "ClearInvalideUser cc x gen cfgDefault now ord um =
     bind_o (um_RLock um) (\<lambda>um _.
       let expireUser = filter (expired now) (vals_in_order (um_users um) ord)
       in bind_o (um_Lock um) (\<lambda>um _.
            bind_o (loop_o (clear_one cc x gen cfgDefault) expireUser um ()) (\<lambda>um _. FlushUser um)))"

text \<open>
  \<open>Init\<close>: users without a tag are added to the default tags, with an empty identifier. \<open>ord\<close> is the
  order of the loop over the users.
\<close>

fun init_tags ::
    "codecs \<Rightarrow> ('rt, 'h) xray \<Rightarrow> string \<Rightarrow> string list \<Rightarrow> 'rt user_manager \<Rightarrow> ('rt user_manager, unit) outcome" where
  "init_tags cc x name [] um = Done um ()"
| "init_tags cc x name (tag # tags) um =
     bind_o (on_proxy (AddUser cc x
         \<lparr>pu_Tag = tag, pu_Level = 0, pu_Email = name, pu_AlterId = 0, pu_UUID = '''', pu_Account = None,
          pu_Protocol = '''', pu_IsXtls = False, pu_Flow = ''''\<rparr> (um_proxy um)) um)
       (\<lambda>um (u, e). init_tags cc x name tags
          (if e = None
           then (case um_users um name of
                   None \<Rightarrow> um
                 | Some u0 \<Rightarrow> um\<lparr>um_users := (um_users um)(name \<mapsto> u0\<lparr>us_Tags := us_Tags u0 @ [tag]\<rparr>)\<rparr>)
           else um))"

definition UM_Init ::
    "codecs \<Rightarrow> ('rt, 'h) xray \<Rightarrow> string list \<Rightarrow> string list \<Rightarrow> (string \<rightharpoonup> string) \<Rightarrow> 'rt user_manager
     \<Rightarrow> ('rt user_manager, unit) outcome" where
  "UM_Init cc x cfgDefaultTags ord usersLocal um =
     (case LoadUser cc usersLocal um of
        None \<Rightarrow> Panicked um
      | Some um1 \<Rightarrow>
          (let um2 = um1\<lparr>um_defaultTags := cfgDefaultTags\<rparr>;
               localDefaultTags = (if cfgDefaultTags = [] then PM_GetTags (um_proxy um2) else cfgDefaultTags)
           in loop_o (\<lambda>name um _. case um_users um name of
                None \<Rightarrow> Done um ()
              | Some u \<Rightarrow> if us_Tags u = [] then init_tags cc x name localDefaultTags um else Done um ()) ord um2 ()))"

definition IsUserComplete :: "user \<Rightarrow> bool \<Rightarrow> bool" where
  "IsUserComplete u checkPasswd \<longleftrightarrow>
     (if checkPasswd then us_Name u \<noteq> '''' \<and> us_Passwd u \<noteq> '''' else us_Name u \<noteq> '''')"

end
