(* ===== verification/SubLinks.thy ===== *)
theory SubLinks
  imports ProxyManager JsonText
begin

text \<open>
  \<open>proxy/sub\<close> for the xray build: the subscription link of a user of an inbound. The functions
  return the link or an error; \<open>None\<close> is a panic (a missing stream setting, network or transport
  setting that the code dereferences). The structs of xray-core that a user's raw settings are
  decoded into, and the name lookup of the host, are the record \<open>sub_env\<close>.
\<close>

subsection \<open>Computations that may fail or panic\<close>

type_synonym 'a attempt = "'a result option"

definition ok :: "'a \<Rightarrow> 'a attempt" where "ok x = Some (Inr x)"
definition fails :: "gerror \<Rightarrow> 'a attempt" where "fails e = Some (Inl e)"

definition and_then :: "'a attempt \<Rightarrow> ('a \<Rightarrow> 'b attempt) \<Rightarrow> 'b attempt" where
  "and_then m f = (case m of None \<Rightarrow> None | Some (Inl e) \<Rightarrow> Some (Inl e) | Some (Inr x) \<Rightarrow> f x)"

text \<open>Following a pointer.\<close>

definition deref :: "'a option \<Rightarrow> ('a \<Rightarrow> 'b attempt) \<Rightarrow> 'b attempt" where
  "deref p f = (case p of None \<Rightarrow> None | Some x \<Rightarrow> f x)"

lemma attempt_simps [simp]:
  "and_then None f = None" "and_then (ok x) f = f x" "and_then (fails e) f = fails e"
  "deref None g = None" "deref (Some y) g = g y"
  by (simp_all add: and_then_def ok_def fails_def deref_def)

lemma attempt_distinct [simp]: "ok x \<noteq> fails e" "fails e \<noteq> ok x" "ok x \<noteq> None" "fails e \<noteq> None"
    "None \<noteq> ok x" "None \<noteq> fails e"
  by (simp_all add: ok_def fails_def)

lemma ok_inject [simp]: "ok x = ok y \<longleftrightarrow> x = y"
  by (simp add: ok_def)

lemma and_then_ok: "and_then m f = ok y \<longleftrightarrow> (\<exists>x. m = ok x \<and> f x = ok y)"
  by (auto simp: and_then_def ok_def split: option.splits sum.splits)

lemma deref_ok: "deref p f = ok y \<longleftrightarrow> (\<exists>x. p = Some x \<and> f x = ok y)"
  by (auto simp: deref_def split: option.splits)

record sub_env =
  se_user_email :: "json \<Rightarrow> string result" \<comment> \<open>\<open>protocol.User\<close>\<close>
  se_vless_account :: "json \<Rightarrow> string \<times> string" \<comment> \<open>\<open>vless.Account\<close>: id and flow, errors ignored\<close>
  se_vmess_account :: "json \<Rightarrow> string \<times> 16 word" \<comment> \<open>\<open>conf.VMessAccount\<close>: id and alter id, errors ignored\<close>
  se_is_ip :: "string \<Rightarrow> bool"
  se_lookup :: "string \<Rightarrow> string list result"

subsection \<open>common.go\<close>

record base_config =
  bc_UUID :: string
  bc_RemoteHost :: string
  bc_RemotePort :: "32 word"
  bc_Flow :: string

definition BaseConfig_Build :: "base_config \<Rightarrow> string" where
  "BaseConfig_Build c = QueryEscape (bc_UUID c) @ ''@'' @ bc_RemoteHost c @ '':'' @ itoa (uint (bc_RemotePort c))"

definition fixUri :: "string \<Rightarrow> string" where
  "fixUri uri = replace_all ''&&'' ''&'' 0 uri"

text \<open>\<open>None\<close> is the index out of range on an empty answer of the resolver.\<close>

definition parseHost :: "sub_env \<Rightarrow> string \<Rightarrow> string \<Rightarrow> string option" where
  "parseHost e configHost sni =
     (if sni = '''' \<or> se_is_ip e configHost then Some configHost
      else case se_lookup e configHost of
        Inl err \<Rightarrow> Some configHost
      | Inr ips \<Rightarrow> (case ips of [] \<Rightarrow> None | ip # _ \<Rightarrow> Some ip))"

subsection \<open>protocol.go\<close>

fun str_less :: "string \<Rightarrow> string \<Rightarrow> bool" where
  "str_less s [] = False"
| "str_less [] (d # t) = True"
| "str_less (c # s) (d # t) = (byte c < byte d \<or> c = d \<and> str_less s t)"

text \<open>\<open>sort.SearchStrings\<close> on the sorted list: the index of the first element not below \<open>p\<close>.\<close>

definition SearchStrings :: "string list \<Rightarrow> string \<Rightarrow> nat" where
  "SearchStrings xs p = length (takeWhile (\<lambda>x. str_less x p) xs)"

definition protocols :: "string list" where
  "protocols = [''grpc'', ''http'', ''quic'', ''tcp'', ''ws'']"

definition inProtocols :: "string \<Rightarrow> bool" where
  "inProtocols p \<longleftrightarrow> SearchStrings protocols p \<noteq> length protocols"

record protocol_config =
  pc_Type :: string
  pc_Encryption :: string

definition ProtocolConfig_Build :: "protocol_config \<Rightarrow> string" where
  "ProtocolConfig_Build c = ''type='' @ pc_Type c"

definition newProtocolConfig :: "stream_cfg option \<Rightarrow> protocol_config attempt" where
  "newProtocolConfig streamSetting = deref streamSetting (\<lambda>s. deref (ss_Network s) (\<lambda>network.
     if inProtocols network then ok \<lparr>pc_Type = network, pc_Encryption = ''none''\<rparr>
     else fails (''unsupoort network config: '' @ network)))"

subsection \<open>transport.go\<close>

datatype uri_adapter =
    VlessTcpConfig
  | VlessHttp2Config string string \<comment> \<open>path and host\<close>
  | VlessWebSocketConfig string string \<comment> \<open>path and host\<close>
  | VlessMkcpConfig string string \<comment> \<open>header type and seed\<close>
  | VlessQuicConfig string string string \<comment> \<open>security, key and header type\<close>
  | VlessGrpcConfig string string \<comment> \<open>service name and mode\<close>

definition param :: "string \<Rightarrow> string \<Rightarrow> string list" where
  "param key v = (if v \<noteq> '''' then [key @ ''='' @ v] else [])"

fun adapter_Build :: "uri_adapter \<Rightarrow> string" where
  "adapter_Build VlessTcpConfig = ''''"
| "adapter_Build (VlessHttp2Config path host) = str_join ''&'' (param ''path'' path @ param ''host'' host)"
| "adapter_Build (VlessWebSocketConfig path host) = str_join ''&'' (param ''path'' path @ param ''host'' host)"
| "adapter_Build (VlessMkcpConfig headerType seed) = str_join ''&'' (param ''headerType'' headerType @ param ''seed'' seed)"
| "adapter_Build (VlessQuicConfig security key headerType) = str_join ''&''
     ((if security \<noteq> ''none'' then [''quicSecurity='' @ security @ ''&key='' @ key] else []) @ param ''headerType'' headerType)"
| "adapter_Build (VlessGrpcConfig serviceName mode) = str_join ''&'' (param ''serviceName'' serviceName @ param ''mode'' mode)"

text \<open>A transport without an adapter is the \<open>nil\<close> interface.\<close>

record transport_config =
  tc_Security :: string
  tc_TransportConfig :: "uri_adapter option"

definition TransportConfig_Build :: "transport_config \<Rightarrow> string option" where
  "TransportConfig_Build c =
     (case tc_TransportConfig c of
        None \<Rightarrow> None
      | Some a \<Rightarrow> Some (str_join ''&'' (param ''security'' (tc_Security c)
          @ (if adapter_Build a \<noteq> '''' then [adapter_Build a] else []))))"

text \<open>
  Decoding a raw header into a \<open>map[string]string\<close>: \<open>null\<close> as a value is the empty string, a value of
  another type makes the whole an error. The result is the entry \<open>type\<close>.
\<close>

definition header_type :: "gerror \<Rightarrow> json option \<Rightarrow> string option attempt" where
  "header_type err raw =
     (case raw of
        None \<Rightarrow> ok None
      | Some j \<Rightarrow>
          (case j of
             JNull \<Rightarrow> ok None
           | JObj ms \<Rightarrow>
               if \<exists>(k, v) \<in> set ms. \<not> (v = JNull \<or> (\<exists>s. v = JStr s)) then fails err
               else ok (case map_of (rev ms) ''type'' of None \<Rightarrow> None | Some (JStr s) \<Rightarrow> Some s | Some _ \<Rightarrow> Some '''')
           | _ \<Rightarrow> fails err))"

definition newTransportConfig :: "stream_cfg option \<Rightarrow> transport_config attempt" where
  "newTransportConfig streamSetting = deref streamSetting (\<lambda>s. deref (ss_Network s) (\<lambda>network.
     let made = (\<lambda>a. ok \<lparr>tc_Security = ss_Security s, tc_TransportConfig = a\<rparr>)
     in if network = ''tcp'' then made (Some VlessTcpConfig)
        else if network = ''kcp'' \<or> network = ''mkcp'' then
          deref (ss_KCP s) (\<lambda>kcp. and_then (header_type ''invalid mKCP header config'' (kcp_Header kcp)) (\<lambda>h.
            made (Some (VlessMkcpConfig (case h of None \<Rightarrow> '''' | Some t \<Rightarrow> t)
              (case kcp_Seed kcp of None \<Rightarrow> '''' | Some seed \<Rightarrow> seed)))))
        else if network = ''ws'' then
          deref (ss_WS s) (\<lambda>ws. made (Some (VlessWebSocketConfig (ws_Path ws)
            (case ws_Headers ws ''Host'' of None \<Rightarrow> '''' | Some host \<Rightarrow> host))))
        else if network = ''quic'' then
          deref (ss_QUIC s) (\<lambda>quic. and_then (header_type ''invalid quic header config.'' (quic_Header quic)) (\<lambda>h.
            made (Some (VlessQuicConfig (quic_Security quic) (quic_Key quic) (case h of None \<Rightarrow> '''' | Some t \<Rightarrow> t)))))
        else if network = ''grpc'' then
          deref (ss_GRPC s) (\<lambda>serviceName. made (Some (VlessGrpcConfig serviceName ''gun'')))
        else if network = ''http'' then
          deref (ss_HTTP s) (\<lambda>h2. deref (h2_Host h2) (\<lambda>hosts. deref (case hosts of [] \<Rightarrow> None | x # _ \<Rightarrow> Some x) (\<lambda>host.
            made (Some (VlessHttp2Config (h2_Path h2) host)))))
        else made None))"

subsection \<open>tls.go\<close>

record vless_tls =
  vt_SNI :: string
  vt_ALPN :: string

definition TLSConfig_Build :: "vless_tls \<Rightarrow> string" where
  "TLSConfig_Build c = str_join ''&'' (param ''sni'' (vt_SNI c) @ param ''alpn'' (vt_ALPN c))"

definition tls_of :: "tls_cfg option \<Rightarrow> vless_tls" where
  "tls_of t =
     (case t of
        None \<Rightarrow> \<lparr>vt_SNI = '''', vt_ALPN = ''''\<rparr>
      | Some c \<Rightarrow> \<lparr>vt_SNI = tls_ServerName c,
          vt_ALPN = (case tls_ALPN c of None \<Rightarrow> '''' | Some l \<Rightarrow> str_join '','' l)\<rparr>)"

definition newTLSOrXTLSConfig :: "stream_cfg option \<Rightarrow> vless_tls attempt" where
  "newTLSOrXTLSConfig s = deref s (\<lambda>s.
     if to_lower (ss_Security s) = ''tls'' then ok (tls_of (ss_TLS s))
     else if to_lower (ss_Security s) = ''xtls'' then ok (tls_of (ss_XTLS s))
     else ok \<lparr>vt_SNI = '''', vt_ALPN = ''''\<rparr>)"


subsection \<open>vless.go and trojan.go\<close>

text \<open>\<open>VlessShareConfig\<close> and \<open>TrojanShareConfig\<close> have the same fields and the same \<open>Build\<close>.\<close>

record share_config =
  sc_BaseConfig :: base_config
  sc_ProtocolConfig :: protocol_config
  sc_TransportConfig :: transport_config
  sc_TLSConfig :: vless_tls
  sc_NodeName :: string
  sc_UseSNI :: bool

definition share_Build :: "share_config \<Rightarrow> string attempt" where
  "share_Build c =
     (let tls = (if sc_UseSNI c then sc_TLSConfig c else (sc_TLSConfig c)\<lparr>vt_SNI := ''''\<rparr>)
      in deref (TransportConfig_Build (sc_TransportConfig c)) (\<lambda>transport.
        let params = [ProtocolConfig_Build (sc_ProtocolConfig c), transport, TLSConfig_Build tls]
              @ param ''flow'' (bc_Flow (sc_BaseConfig c))
        in ok (BaseConfig_Build (sc_BaseConfig c) @ ''?'' @ fixUri (str_join ''&'' params)
             @ ''#'' @ QueryEscape (sc_NodeName c))))"

text \<open>The account of a user: identifier (or password) and flow, of the first user with this email.\<close>

fun find_raw :: "sub_env \<Rightarrow> string \<Rightarrow> json list \<Rightarrow> json option" where
  "find_raw e email [] = None"
| "find_raw e email (raw # rest) = (if se_user_email e raw = Inr email then Some raw else find_raw e email rest)"

definition not_in :: "string \<Rightarrow> inbound_cfg \<Rightarrow> gerror" where
  "not_in email cfg = email @ '' not in '' @ ic_Tag cfg"

definition parseVlessAccountInfo :: "codecs \<Rightarrow> sub_env \<Rightarrow> inbound_cfg \<Rightarrow> string \<Rightarrow> (string \<times> string) attempt" where
  "parseVlessAccountInfo cc e cfg email = deref (ic_Settings cfg) (\<lambda>j.
     case vless_dec cc j of
       Inl err \<Rightarrow> fails err
     | Inr v \<Rightarrow> (case find_raw e email (vl_Clients v) of
           None \<Rightarrow> fails (not_in email cfg)
         | Some raw \<Rightarrow> ok (se_vless_account e raw)))"

definition parseTrojanAccountInfo :: "codecs \<Rightarrow> inbound_cfg \<Rightarrow> string \<Rightarrow> (string \<times> string) attempt" where
  "parseTrojanAccountInfo cc cfg email = deref (ic_Settings cfg) (\<lambda>j.
     case trojan_dec cc j of
       Inl err \<Rightarrow> fails err
     | Inr t \<Rightarrow> (case find (\<lambda>u. tu_Email u = email) (tj_Clients t) of
           None \<Rightarrow> fails (not_in email cfg)
         | Some u \<Rightarrow> ok (tu_Password u, tu_Flow u)))"

text \<open>
  What \<open>NewVlessShareConfig\<close> and \<open>NewTrojanShareConfig\<close> do after the account is known. \<open>retype\<close> is the
  change of the protocol's type that the trojan version makes. The host and the port of the
  arguments take precedence over those the inbound listens on; an inbound that falls back to this
  port replaces the port and the TLS settings.
\<close>

definition fill_share ::
    "codecs \<Rightarrow> sub_env \<Rightarrow> (string \<Rightarrow> string) \<Rightarrow> inbound_cfg \<Rightarrow> string \<times> string \<Rightarrow> string \<Rightarrow> 32 word \<Rightarrow> 'rt proxy_manager
     \<Rightarrow> share_config attempt" where
  "fill_share cc e retype cfg account host port pm =
     (let host' = (if host = '''' then ic_ListenOn cfg else host);
          port' = (if port = 0 then ic_PortRange cfg else port)
      in and_then (newProtocolConfig (ic_StreamSetting cfg)) (\<lambda>p.
         and_then (newTransportConfig (ic_StreamSetting cfg)) (\<lambda>t.
         and_then (newTLSOrXTLSConfig (ic_StreamSetting cfg)) (\<lambda>tls.
         deref (GetUpstreamInbound cc (itoa (uint port')) pm) (\<lambda>up.
         and_then (case up of
             Inl err \<Rightarrow> ok (port', tls)
           | Inr u \<Rightarrow> and_then (newTLSOrXTLSConfig (ic_StreamSetting u)) (\<lambda>tls'. ok (ic_PortRange u, tls'))) (\<lambda>(port'', tls'').
         deref (parseHost e host' (vt_SNI tls'')) (\<lambda>remote.
           ok \<lparr>sc_BaseConfig = \<lparr>bc_UUID = fst account, bc_RemoteHost = remote, bc_RemotePort = port'', bc_Flow = snd account\<rparr>,
               sc_ProtocolConfig = p\<lparr>pc_Type := retype (pc_Type p)\<rparr>, sc_TransportConfig = t, sc_TLSConfig = tls'',
               sc_NodeName = '''', sc_UseSNI = False\<rparr>)))))))"

definition NewVlessShareConfig ::
    "codecs \<Rightarrow> sub_env \<Rightarrow> inbound_cfg \<Rightarrow> string \<Rightarrow> string \<Rightarrow> 32 word \<Rightarrow> 'rt proxy_manager \<Rightarrow> share_config attempt" where
  "NewVlessShareConfig cc e cfg email host port pm =
     and_then (parseVlessAccountInfo cc e cfg email) (\<lambda>account. fill_share cc e (\<lambda>t. t) cfg account host port pm)"

definition NewTrojanShareConfig ::
    "codecs \<Rightarrow> sub_env \<Rightarrow> inbound_cfg \<Rightarrow> string \<Rightarrow> string \<Rightarrow> 32 word \<Rightarrow> 'rt proxy_manager \<Rightarrow> share_config attempt" where
  "NewTrojanShareConfig cc e cfg email host port pm =
     and_then (parseTrojanAccountInfo cc cfg email) (\<lambda>account.
       fill_share cc e (\<lambda>t. if t = ''tcp'' then ''original'' else t) cfg account host port pm)"

subsection \<open>vmess.go\<close>

record vmess_share =
  vs_V :: string
  vs_PS :: string
  vs_Add :: string
  vs_Port :: string
  vs_ID :: string
  vs_Aid :: "16 word"
  vs_Scy :: string
  vs_Net :: string
  vs_Type :: string
  vs_Host :: string
  vs_Path :: string
  vs_TLS :: string
  vs_Sni :: string
  vs_UseSNI :: bool

definition NewDefaultVmessShareConfig :: vmess_share where
  "NewDefaultVmessShareConfig = \<lparr>vs_V = ''2'', vs_PS = '''', vs_Add = '''', vs_Port = '''', vs_ID = '''', vs_Aid = 0,
     vs_Scy = '''', vs_Net = '''', vs_Type = '''', vs_Host = '''', vs_Path = '''', vs_TLS = '''', vs_Sni = '''', vs_UseSNI = False\<rparr>"

definition parseVmessAccountInfo :: "codecs \<Rightarrow> sub_env \<Rightarrow> inbound_cfg \<Rightarrow> string \<Rightarrow> vmess_share \<Rightarrow> vmess_share attempt" where
  "parseVmessAccountInfo cc e cfg email v = deref (ic_Settings cfg) (\<lambda>j.
     case vmess_dec cc j of
       Inl err \<Rightarrow> fails err
     | Inr c \<Rightarrow> (case find_raw e email (vm_Users c) of
           None \<Rightarrow> fails (not_in email cfg)
         | Some raw \<Rightarrow> (case se_vmess_account e raw of (i, aid) \<Rightarrow> ok (v\<lparr>vs_ID := i, vs_Aid := aid\<rparr>))))"

definition set_type :: "string option \<Rightarrow> vmess_share \<Rightarrow> vmess_share" where
  "set_type h v = (case h of None \<Rightarrow> v | Some t \<Rightarrow> v\<lparr>vs_Type := t\<rparr>)"

definition insertVmessStreamSetting :: "vmess_share \<Rightarrow> stream_cfg option \<Rightarrow> vmess_share attempt" where
  "insertVmessStreamSetting v streamSetting = deref streamSetting (\<lambda>s. deref (ss_Network s) (\<lambda>network.
     if network = ''tcp'' then ok (v\<lparr>vs_Net := ''tcp''\<rparr>)
     else if network = ''kcp'' \<or> network = ''mkcp'' then
       deref (ss_KCP s) (\<lambda>kcp. deref (kcp_Seed kcp) (\<lambda>seed.
         and_then (header_type ''invalid mKCP header config'' (kcp_Header kcp)) (\<lambda>h.
           ok (set_type h (v\<lparr>vs_Net := ''kcp'', vs_Path := seed\<rparr>)))))
     else if network = ''ws'' then
       deref (ss_WS s) (\<lambda>ws. ok (v\<lparr>vs_Net := ''ws'',
         vs_Host := (case ws_Headers ws ''Host'' of None \<Rightarrow> '''' | Some host \<Rightarrow> host), vs_Path := ws_Path ws\<rparr>))
     else if network = ''quic'' then
       deref (ss_QUIC s) (\<lambda>quic. and_then (header_type ''invalid quic header config.'' (quic_Header quic)) (\<lambda>h.
         ok (set_type h (v\<lparr>vs_Net := ''quic'', vs_Path := quic_Key quic, vs_Host := quic_Security quic\<rparr>))))
     else if network = ''grpc'' then
       deref (ss_GRPC s) (\<lambda>serviceName. ok (v\<lparr>vs_Net := ''grpc'', vs_Path := serviceName\<rparr>))
     else if network = ''http'' then
       deref (ss_HTTP s) (\<lambda>h2. deref (h2_Host h2) (\<lambda>hosts. deref (case hosts of [] \<Rightarrow> None | x # _ \<Rightarrow> Some x) (\<lambda>host.
         ok (v\<lparr>vs_Net := ''h2'', vs_Host := host, vs_Path := h2_Path h2\<rparr>))))
     else fails (''Unsupport transport protocol '' @ network)))"

definition insertVmessTlsSetting :: "vmess_share \<Rightarrow> stream_cfg option \<Rightarrow> vmess_share attempt" where
  "insertVmessTlsSetting v streamSetting = deref streamSetting (\<lambda>s.
     if ss_Security s = ''none'' then ok v
     else if ss_Security s = ''tls'' then deref (ss_TLS s) (\<lambda>t. ok (v\<lparr>vs_TLS := ''tls'', vs_Sni := tls_ServerName t\<rparr>))
     else if ss_Security s = ''xtls'' then deref (ss_XTLS s) (\<lambda>t. ok (v\<lparr>vs_TLS := ''xtls'', vs_Sni := tls_ServerName t\<rparr>))
     else fails (''Unsupport Security protocol '' @ ss_Security s))"

text \<open>The error of the second call of \<open>insertVmessTlsSetting\<close> is dropped, with nothing changed.\<close>

definition vmess_upstream :: "vmess_share \<Rightarrow> inbound_cfg result \<Rightarrow> vmess_share option" where
  "vmess_upstream v up =
     (case up of
        Inl err \<Rightarrow> Some v
      | Inr u \<Rightarrow>
          (let v1 = v\<lparr>vs_Port := itoa (uint (ic_PortRange u))\<rparr>
           in case insertVmessTlsSetting v1 (ic_StreamSetting u) of
                None \<Rightarrow> None | Some (Inl err) \<Rightarrow> Some v1 | Some (Inr v2) \<Rightarrow> Some v2))"

definition NewVmessShareConfig ::
    "codecs \<Rightarrow> sub_env \<Rightarrow> inbound_cfg \<Rightarrow> string \<Rightarrow> string \<Rightarrow> 32 word \<Rightarrow> 'rt proxy_manager \<Rightarrow> vmess_share attempt" where
  "NewVmessShareConfig cc e cfg email host port pm =
     and_then (parseVmessAccountInfo cc e cfg email NewDefaultVmessShareConfig) (\<lambda>v.
       let host' = (if host = '''' then ic_ListenOn cfg else host);
           port' = (if port = 0 then ic_PortRange cfg else port);
           v1 = v\<lparr>vs_Port := itoa (uint port'), vs_TLS := ''tls''\<rparr>
       in and_then (insertVmessStreamSetting v1 (ic_StreamSetting cfg)) (\<lambda>v2.
          and_then (insertVmessTlsSetting v2 (ic_StreamSetting cfg)) (\<lambda>v3.
          deref (GetUpstreamInbound cc (vs_Port v3) pm) (\<lambda>up.
          deref (vmess_upstream v3 up) (\<lambda>v4.
            let v5 = (if vs_TLS v4 = ''xtls'' \<and> vs_Net v4 \<noteq> ''tcp'' \<and> vs_Net v4 \<noteq> ''kcp'' then v4\<lparr>vs_TLS := ''tls''\<rparr> else v4)
            in deref (parseHost e host' (vs_Sni v5)) (\<lambda>remote. ok (v5\<lparr>vs_Add := remote\<rparr>)))))))"

subsection \<open>sub.go\<close>

definition member :: "string \<Rightarrow> string \<Rightarrow> (string \<times> json) list" where
  "member key v = (if v \<noteq> '''' then [(key, JStr v)] else [])"

text \<open>The fields with the tag \<open>omitempty\<close> are left out when empty; \<open>UseSNI\<close> is never written.\<close>

definition vmess_json :: "vmess_share \<Rightarrow> json" where
  "vmess_json v = JObj (member ''v'' (vs_V v) @ member ''ps'' (vs_PS v)
     @ [(''add'', JStr (vs_Add v)), (''port'', JStr (vs_Port v)), (''id'', JStr (vs_ID v)), (''aid'', JNum (uint (vs_Aid v)))]
     @ member ''scy'' (vs_Scy v) @ [(''net'', JStr (vs_Net v)), (''type'', JStr (vs_Type v))]
     @ member ''host'' (vs_Host v) @ member ''path'' (vs_Path v) @ [(''tls'', JStr (vs_TLS v))] @ member ''sni'' (vs_Sni v))"

definition getVmessUri :: "vmess_share \<Rightarrow> string" where
  "getVmessUri u =
     (let u' = (if vs_UseSNI u then u else u\<lparr>vs_Sni := ''''\<rparr>)
      in ''vmess://'' @ b64_enc b64_url False (print_json (vmess_json u')))"

definition getVlessUri :: "share_config \<Rightarrow> string attempt" where
  "getVlessUri v = and_then (share_Build v) (\<lambda>s. ok (''vless://'' @ s))"

definition getTrojanUri :: "share_config \<Rightarrow> string attempt" where
  "getTrojanUri t = and_then (share_Build t) (\<lambda>s. ok (''trojan://'' @ s))"

definition GetVlessSub ::
    "codecs \<Rightarrow> sub_env \<Rightarrow> inbound_cfg \<Rightarrow> string \<Rightarrow> string \<Rightarrow> string \<Rightarrow> 32 word \<Rightarrow> bool \<Rightarrow> 'rt proxy_manager \<Rightarrow> string attempt" where
  "GetVlessSub cc e cfg user host nodeName port useSNI pm =
     and_then (NewVlessShareConfig cc e cfg user host port pm) (\<lambda>u. getVlessUri (u\<lparr>sc_NodeName := nodeName, sc_UseSNI := useSNI\<rparr>))"

definition GetVmessSub ::
    "codecs \<Rightarrow> sub_env \<Rightarrow> inbound_cfg \<Rightarrow> string \<Rightarrow> string \<Rightarrow> string \<Rightarrow> 32 word \<Rightarrow> bool \<Rightarrow> 'rt proxy_manager \<Rightarrow> string attempt" where
  "GetVmessSub cc e cfg user host nodeName port useSNI pm =
     and_then (NewVmessShareConfig cc e cfg user host port pm) (\<lambda>u. ok (getVmessUri (u\<lparr>vs_PS := nodeName, vs_UseSNI := useSNI\<rparr>)))"

definition GetTrojanSub ::
    "codecs \<Rightarrow> sub_env \<Rightarrow> inbound_cfg \<Rightarrow> string \<Rightarrow> string \<Rightarrow> string \<Rightarrow> 32 word \<Rightarrow> bool \<Rightarrow> 'rt proxy_manager \<Rightarrow> string attempt" where
  "GetTrojanSub cc e cfg user host nodeName port useSNI pm =
     and_then (NewTrojanShareConfig cc e cfg user host port pm) (\<lambda>u. getTrojanUri (u\<lparr>sc_NodeName := nodeName, sc_UseSNI := useSNI\<rparr>))"

definition GetUserSubUri ::
    "codecs \<Rightarrow> sub_env \<Rightarrow> string \<Rightarrow> string \<Rightarrow> string \<Rightarrow> string \<Rightarrow> 32 word \<Rightarrow> bool \<Rightarrow> 'rt proxy_manager \<Rightarrow> string attempt" where
  "GetUserSubUri cc e user tag host nodeName port useSNI pm =
     (case GetInbound pm tag of
        None \<Rightarrow> fails (''inbound with tag('' @ tag @ '') is not exist'')
      | Some i \<Rightarrow>
          (let cfg = ib_Config i; p = to_lower (ic_Protocol cfg)
           in if p = VlessProtocolName then GetVlessSub cc e cfg user host nodeName port useSNI pm
              else if p = VmessProtocolName then GetVmessSub cc e cfg user host nodeName port useSNI pm
              else if p = TrojanProtocolName then GetTrojanSub cc e cfg user host nodeName port useSNI pm
              else fails (''not support protocol: '' @ ic_Protocol cfg)))"

end
