(* ===== verification/UrlParse.thy ===== *)
theory UrlParse
  imports Encoding
begin

text \<open>
  \<open>url.Parse\<close> and the accessors of \<open>net/url\<close> the converters use, for texts that start with a scheme
  and two slashes, as all texts the converters parse do. An error of the parser is \<open>None\<close>: the
  callers only log it.
\<close>

subsection \<open>Cutting and splitting\<close>

text \<open>\<open>strings.Cut\<close> and \<open>strings.LastIndex\<close> with a one-byte separator.\<close>

definition cut :: "char \<Rightarrow> string \<Rightarrow> string \<times> string" where
  "cut c s = (takeWhile (\<lambda>x. x \<noteq> c) s, tl (dropWhile (\<lambda>x. x \<noteq> c) s))"

definition cut_last :: "char \<Rightarrow> string \<Rightarrow> (string \<times> string) option" where
  "cut_last c s =
     (if c \<in> set s then Some (rev (tl (dropWhile (\<lambda>x. x \<noteq> c) (rev s))), rev (takeWhile (\<lambda>x. x \<noteq> c) (rev s))) else None)"

subsection \<open>Queries\<close>

definition query_pair :: "string \<Rightarrow> (string \<times> string) option" where
  "query_pair seg =
     (if CHR '';'' \<in> set seg \<or> seg = '''' then None
      else case cut (CHR ''='') seg of (k, v) \<Rightarrow>
        (case (unescape True k, unescape True v) of (Some k', Some v') \<Rightarrow> Some (k', v') | _ \<Rightarrow> None))"

definition ParseQuery :: "string \<Rightarrow> (string \<times> string) list" where
  "ParseQuery q = List.map_filter query_pair (split_on (CHR ''&'') q)"

definition query_get :: "(string \<times> string) list \<Rightarrow> string \<Rightarrow> string" where
  "query_get m k = (case map_of m k of None \<Rightarrow> '''' | Some v \<Rightarrow> v)"

subsection \<open>Hosts\<close>

definition validOptionalPort :: "string \<Rightarrow> bool" where
  "validOptionalPort p \<longleftrightarrow> p = '''' \<or> hd p = CHR '':'' \<and> list_all is_digit (tl p)"

definition host_char :: "char \<Rightarrow> bool" where
  "host_char c \<longleftrightarrow> unreserved c \<or> c \<in> set ''!$&()*+,;=:[]<>'' \<or> c = CHR 0x27 \<or> c = CHR 0x22 \<or> 128 \<le> byte c"

text \<open>Unescaping a host or, with \<open>zone\<close>, the zone of an address.\<close>

fun unescape_host :: "bool \<Rightarrow> string \<Rightarrow> string option" where
  "unescape_host zone [] = Some []"
| "unescape_host zone (c # s) =
     (if c = CHR ''%'' then
        (case s of
           x # y # t \<Rightarrow> (case (unhex x, unhex y) of
               (Some h, Some l) \<Rightarrow>
                 if \<not> (x = CHR ''2'' \<and> y = CHR ''5'')
                   \<and> (if zone then h * 16 + l \<noteq> 32 \<and> \<not> (h * 16 + l < 128 \<and> host_char (char_of (h * 16 + l))) else h < 8)
                 then None else map_option (Cons (char_of (h * 16 + l))) (unescape_host zone t)
             | _ \<Rightarrow> None)
         | _ \<Rightarrow> None)
      else if host_char c then map_option (Cons c) (unescape_host zone s) else None)"

fun find_zone :: "string \<Rightarrow> nat option" where
  "find_zone [] = None"
| "find_zone (c # s) = (if has_prefix ''%25'' (c # s) then Some 0 else map_option Suc (find_zone s))"

definition append_all :: "string option list \<Rightarrow> string option" where
  "append_all xs = (if None \<in> set xs then None else Some (concat (map the xs)))"

definition url_host :: "string \<Rightarrow> string option" where
  "url_host host =
     (if has_prefix ''['' host then
        (case cut_last (CHR '']'') host of
           None \<Rightarrow> None
         | Some (before, port) \<Rightarrow>
             if \<not> validOptionalPort port then None
             else (case find_zone before of
                 None \<Rightarrow> unescape_host False host
               | Some z \<Rightarrow> append_all [unescape_host False (take z before), unescape_host True (drop z before),
                   unescape_host False (CHR '']'' # port)]))
      else case cut_last (CHR '':'') host of
          None \<Rightarrow> unescape_host False host
        | Some (before, port) \<Rightarrow> if \<not> validOptionalPort (CHR '':'' # port) then None else unescape_host False host)"

definition splitHostPort :: "string \<Rightarrow> string \<times> string" where
  "splitHostPort hostPort =
     (case (case cut_last (CHR '':'') hostPort of
              None \<Rightarrow> (hostPort, '''')
            | Some (h, p) \<Rightarrow> if validOptionalPort (CHR '':'' # p) then (h, p) else (hostPort, '''')) of
        (h, p) \<Rightarrow> (if has_prefix ''['' h \<and> h \<noteq> [] \<and> last h = CHR '']'' then butlast (tl h) else h, p))"

subsection \<open>URLs\<close>

text \<open>\<open>url_User\<close> is the user name; \<open>Username\<close> is empty when there is no user information.\<close>

record url =
  url_User :: string
  url_Host :: string
  url_RawQuery :: string
  url_Fragment :: string

definition valid_userinfo_char :: "char \<Rightarrow> bool" where
  "valid_userinfo_char c \<longleftrightarrow> unreserved c \<or> c \<in> set '':!$&()*+,;=%@'' \<or> c = CHR 0x27"

definition parseAuthority :: "string \<Rightarrow> (string \<times> string) option" where
  "parseAuthority authority =
     (case cut_last (CHR ''@'') authority of
        None \<Rightarrow> map_option (Pair '''') (url_host authority)
      | Some (userinfo, host) \<Rightarrow>
          (case url_host host of
             None \<Rightarrow> None
           | Some h \<Rightarrow>
               if \<not> list_all valid_userinfo_char userinfo then None
               else if CHR '':'' \<notin> set userinfo then map_option (\<lambda>u. (u, h)) (unescape False userinfo)
               else (case cut (CHR '':'') userinfo of (name, password) \<Rightarrow>
                   (case (unescape False name, unescape False password) of (Some u, Some p) \<Rightarrow> Some (u, h) | _ \<Rightarrow> None))))"

definition cut_query :: "string \<Rightarrow> string \<times> string" where
  "cut_query rest =
     (if rest \<noteq> [] \<and> last rest = CHR ''?'' \<and> count_list rest (CHR ''?'') = 1 then (butlast rest, '''') else cut (CHR ''?'') rest)"

text \<open>The argument is the text after the scheme and its colon and slashes.\<close>

definition url_parse :: "string \<Rightarrow> url option" where
  "url_parse s =
     (case cut (CHR ''#'') s of (u, frag) \<Rightarrow>
        if \<exists>c \<in> set u. byte c < 32 \<or> c = CHR 0x7F then None
        else (case cut_query u of (rest, query) \<Rightarrow>
          (let authority = takeWhile (\<lambda>x. x \<noteq> CHR ''/'') rest; path = dropWhile (\<lambda>x. x \<noteq> CHR ''/'') rest
           in case (parseAuthority authority, unescape False path, unescape False frag) of
                (Some (user, host), Some _, Some f) \<Rightarrow>
                  Some \<lparr>url_User = user, url_Host = host, url_RawQuery = query, url_Fragment = f\<rparr>
              | _ \<Rightarrow> None)))"

definition url_Hostname :: "url \<Rightarrow> string" where "url_Hostname u = fst (splitHostPort (url_Host u))"
definition url_Port :: "url \<Rightarrow> string" where "url_Port u = snd (splitHostPort (url_Host u))"
definition url_Query :: "url \<Rightarrow> string \<Rightarrow> string" where "url_Query u k = query_get (ParseQuery (url_RawQuery u)) k"

end
