(* ===== verification/Converter.thy ===== *)
theory Converter
  imports SubLinks UrlParse
begin

text \<open>
  \<open>proxy/sub/converter\<close>: from the links of a subscription to the formats of the clients. The clash
  converter's template comes from the network and its output from the YAML library: here the
  proxies it lists are modelled, the rest is the argument \<open>render\<close>. Text outside ASCII is written
  as its UTF-8 bytes.
\<close>

subsection \<open>Reading links\<close>

definition vlessUriHeader :: string where "vlessUriHeader = ''vless://''"
definition vmessUriHeader :: string where "vmessUriHeader = ''vmess://''"
definition trojanUriHeader :: string where "trojanUriHeader = ''trojan://''"
definition hysteriaUriHeader :: string where "hysteriaUriHeader = ''hysteria2://''"
definition shadowsockesUriHeader :: string where "shadowsockesUriHeader = ''ss://''"

definition decodeVmessStandardUri :: "string \<Rightarrow> string" where
  "decodeVmessStandardUri standardUri =
     (if has_prefix vmessUriHeader standardUri
      then (case b64_dec b64_url_val False (drop (length vmessUriHeader) standardUri) of
          None \<Rightarrow> standardUri | Some plaintext \<Rightarrow> plaintext)
      else standardUri)"

definition vmess_string_field :: "string \<Rightarrow> (vmess_share \<Rightarrow> string) \<times> (string \<Rightarrow> vmess_share \<Rightarrow> vmess_share)" where
  "vmess_string_field k =
     (if k = ''v'' then (vs_V, \<lambda>s v. v\<lparr>vs_V := s\<rparr>) else if k = ''ps'' then (vs_PS, \<lambda>s v. v\<lparr>vs_PS := s\<rparr>)
      else if k = ''add'' then (vs_Add, \<lambda>s v. v\<lparr>vs_Add := s\<rparr>) else if k = ''port'' then (vs_Port, \<lambda>s v. v\<lparr>vs_Port := s\<rparr>)
      else if k = ''id'' then (vs_ID, \<lambda>s v. v\<lparr>vs_ID := s\<rparr>) else if k = ''scy'' then (vs_Scy, \<lambda>s v. v\<lparr>vs_Scy := s\<rparr>)
      else if k = ''net'' then (vs_Net, \<lambda>s v. v\<lparr>vs_Net := s\<rparr>) else if k = ''type'' then (vs_Type, \<lambda>s v. v\<lparr>vs_Type := s\<rparr>)
      else if k = ''host'' then (vs_Host, \<lambda>s v. v\<lparr>vs_Host := s\<rparr>) else if k = ''path'' then (vs_Path, \<lambda>s v. v\<lparr>vs_Path := s\<rparr>)
      else if k = ''tls'' then (vs_TLS, \<lambda>s v. v\<lparr>vs_TLS := s\<rparr>) else (vs_Sni, \<lambda>s v. v\<lparr>vs_Sni := s\<rparr>))"

definition vmess_string_keys :: "string list" where
  "vmess_string_keys = [''v'', ''ps'', ''add'', ''port'', ''id'', ''scy'', ''net'', ''type'', ''host'', ''path'', ''tls'', ''sni'']"

text \<open>A member of the object, keys without regard to case; \<open>None\<close> is a value of the wrong type.\<close>

definition vmess_member :: "string \<times> json \<Rightarrow> vmess_share \<Rightarrow> vmess_share option" where
  "vmess_member m v =
     (let k = to_lower (fst m); j = snd m
      in if k \<in> set vmess_string_keys then
           (case vmess_string_field k of (get, put) \<Rightarrow>
              (case decode_string j (get v) of Inr s \<Rightarrow> Some (put s v) | Inl _ \<Rightarrow> None))
         else if k = ''aid'' then
           (case j of JNum i \<Rightarrow> if 0 \<le> i \<and> i < 2 ^ 16 then Some (v\<lparr>vs_Aid := word_of_int i\<rparr>) else None
            | JNull \<Rightarrow> Some v | _ \<Rightarrow> None)
         else Some v)"

fun vmess_members :: "(string \<times> json) list \<Rightarrow> vmess_share \<Rightarrow> vmess_share option" where
  "vmess_members [] v = Some v"
| "vmess_members (m # ms) v = (case vmess_member m v of None \<Rightarrow> None | Some v' \<Rightarrow> vmess_members ms v')"

definition vmess_unmarshal :: "json \<Rightarrow> vmess_share \<Rightarrow> vmess_share option" where
  "vmess_unmarshal j v = (case j of JObj ms \<Rightarrow> vmess_members ms v | JNull \<Rightarrow> Some v | _ \<Rightarrow> None)"

text \<open>The steps both converters do on a vmess link.\<close>

definition vmess_of_link :: "string \<Rightarrow> vmess_share option" where
  "vmess_of_link uri =
     (case parse_json (decodeVmessStandardUri uri) of
        None \<Rightarrow> None | Some j \<Rightarrow> vmess_unmarshal j NewDefaultVmessShareConfig)"

definition decodeShadowsocksUrl :: "url \<Rightarrow> (string \<times> string \<times> string \<times> string) option" where
  "decodeShadowsocksUrl parsedUri =
     (case b64_dec b64_std_val False (url_Host parsedUri) of
        None \<Rightarrow> None
      | Some rawData \<Rightarrow>
          (case split_on (CHR '':'') rawData of
             [ssMethod, mid, port] \<Rightarrow>
               (case split_on (CHR ''@'') mid of
                  [password, server] \<Rightarrow> Some (ssMethod, port, password, server)
                | _ \<Rightarrow> None)
           | _ \<Rightarrow> None))"

text \<open>\<open>strconv.Atoi\<close> with its error ignored: zero for bad syntax, the nearest bound when out of range.\<close>

definition Atoi_value :: "string \<Rightarrow> int" where
  "Atoi_value s =
     (case parse_int 64 s of
        Inr i \<Rightarrow> i
      | Inl _ \<Rightarrow> (case strip_sign s of (neg, ds) \<Rightarrow>
          if ds = [] \<or> digits_val 0 ds = None then 0 else if neg then - (2 ^ 63) else 2 ^ 63 - 1))"

subsection \<open>Surge\<close>

definition clover :: string where "clover = [CHR 0xF0, CHR 0x9F, CHR 0x8D, CHR 0x80]"
definition herb :: string where "herb = [CHR 0xF0, CHR 0x9F, CHR 0x8C, CHR 0xBF]"

definition quoted :: "string \<Rightarrow> string" where "quoted s = [CHR 0x22] @ s @ [CHR 0x22]"

definition getSurgeVmessUri :: "vmess_share \<Rightarrow> string" where
  "getSurgeVmessUri c = str_join '', ''
     ([clover @ '' VMESS_'' @ vs_PS c @ ''=vmess'', vs_Add c, vs_Port c, ''username='' @ vs_ID c]
      @ (if vs_Sni c \<noteq> '''' then [''sni='' @ vs_Sni c] else [])
      @ (if vs_Net c = ''ws'' then [''ws=true'', ''ws-path='' @ vs_Path c]
           @ (if vs_Host c \<noteq> '''' then [''ws-headers=Host:'' @ quoted (vs_Host c)] else []) else [])
      @ (if vs_TLS c = ''tls'' then [''tls=true''] else [])
      @ (if vs_Aid c = 0 then [''vmess-aead=true''] else []))"

definition getSurgeTrojanUri :: "url \<Rightarrow> string" where
  "getSurgeTrojanUri u =
     (let q = url_Query u
      in if q ''security'' = ''xtls'' \<or> q ''security'' = ''none'' then ''''
         else if q ''type'' = ''ws'' \<and> q ''path'' = '''' then ''''
         else str_join '', ''
           ([herb @ '' TROJAN_'' @ url_Fragment u @ ''=trojan'', url_Hostname u, url_Port u, ''password='' @ url_User u,
             ''tfo=true, tls=true'']
            @ (if q ''type'' = ''ws'' then [''ws=true'', ''ws-path='' @ q ''path'']
                 @ (if q ''host'' \<noteq> '''' then [''ws-headers=Host:'' @ quoted (q ''host'')] else []) else [])
            @ (if q ''sni'' \<noteq> '''' then [''sni='' @ q ''sni''] else [])))"

definition getSurgeHysteriaUri :: "url \<Rightarrow> string" where
  "getSurgeHysteriaUri u = str_join '', ''
     [herb @ '' HYSTERIA2_'' @ url_Fragment u @ ''=hysteria2'', url_Hostname u, url_Port u, ''password='' @ url_User u,
      ''download-bandwidth=1000'', ''ecn=true'']"

definition getSurgeSSUri :: "url \<Rightarrow> string" where
  "getSurgeSSUri u =
     (case decodeShadowsocksUrl u of
        None \<Rightarrow> ''''
      | Some (ssMethod, port, password, server) \<Rightarrow> str_join '', ''
          [herb @ '' SS_'' @ url_Fragment u @ ''=ss'', server, port, ''encrypt-method='' @ ssMethod, ''password='' @ password])"

text \<open>Parsing a link with the given header and converting it.\<close>

definition with_url :: "string \<Rightarrow> string \<Rightarrow> (url \<Rightarrow> 'a) \<Rightarrow> 'a option" where
  "with_url header uri f = map_option f (url_parse (drop (length header) uri))"

definition surge_line :: "string \<Rightarrow> string option" where
  "surge_line uri =
     (if has_prefix vlessUriHeader uri then None
      else if has_prefix vmessUriHeader uri then map_option getSurgeVmessUri (vmess_of_link uri)
      else if has_prefix trojanUriHeader uri then with_url trojanUriHeader uri getSurgeTrojanUri
      else if has_prefix hysteriaUriHeader uri then with_url hysteriaUriHeader uri getSurgeHysteriaUri
      else if has_prefix shadowsockesUriHeader uri then with_url shadowsockesUriHeader uri getSurgeSSUri
      else None)"

definition newline :: string where "newline = [CHR 0x0A]"

definition SurgeConverter_Convert :: "string list \<Rightarrow> string" where
  "SurgeConverter_Convert standardUris = str_join newline (filter (\<lambda>l. l \<noteq> '''') (List.map_filter surge_line standardUris))"

subsection \<open>Clash\<close>

record clash_proxy =
  cp_Name :: string
  cp_Type :: string
  cp_Server :: string
  cp_Port :: int
  cp_AlterId :: "int option"
  cp_Password :: string
  cp_UUID :: string
  cp_Cipher :: string
  cp_TLS :: bool
  cp_Servername :: string
  cp_Network :: string
  cp_SNI :: string
  cp_WSOpts :: "(string \<times> string option) option" \<comment> \<open>path and host header\<close>
  cp_H2Opts :: "(string list \<times> string) option" \<comment> \<open>hosts and path\<close>
  cp_GrpcOpts :: "string option"

definition empty_clash_proxy :: clash_proxy where
  "empty_clash_proxy = \<lparr>cp_Name = '''', cp_Type = '''', cp_Server = '''', cp_Port = 0, cp_AlterId = None, cp_Password = '''',
     cp_UUID = '''', cp_Cipher = '''', cp_TLS = False, cp_Servername = '''', cp_Network = '''', cp_SNI = '''',
     cp_WSOpts = None, cp_H2Opts = None, cp_GrpcOpts = None\<rparr>"

definition nonempty :: "string \<Rightarrow> string option" where
  "nonempty s = (if s = '''' then None else Some s)"

definition getClashVmessUri :: "vmess_share \<Rightarrow> clash_proxy option" where
  "getClashVmessUri c =
     (let p = empty_clash_proxy\<lparr>cp_Name := clover @ '' VMESS_'' @ vs_PS c, cp_Type := ''vmess'', cp_Server := vs_Add c,
            cp_Port := Atoi_value (vs_Port c), cp_UUID := vs_ID c, cp_Cipher := ''auto'', cp_AlterId := Some 0,
            cp_Servername := vs_Sni c, cp_TLS := (vs_TLS c \<noteq> '''')\<rparr>
      in if vs_Net c = ''ws'' then Some (p\<lparr>cp_Network := ''ws'', cp_WSOpts := Some (vs_Path c, nonempty (vs_Host c))\<rparr>)
         else if vs_Net c = ''h2'' then Some (p\<lparr>cp_Network := ''h2'', cp_H2Opts := Some ([vs_Host c], vs_Path c)\<rparr>)
         else if vs_Net c = ''grpc'' then Some (p\<lparr>cp_Network := ''grpc'', cp_GrpcOpts := Some (vs_Path c)\<rparr>)
         else if vs_Net c = ''tcp'' then Some p else None)"

definition getClashTrojanUri :: "url \<Rightarrow> clash_proxy option" where
  "getClashTrojanUri u =
     (let q = url_Query u;
          p = empty_clash_proxy\<lparr>cp_Name := herb @ '' TROJAN_'' @ url_Fragment u, cp_Type := ''trojan'', cp_Server := url_Hostname u,
            cp_Port := Atoi_value (url_Port u), cp_Password := url_User u, cp_SNI := q ''sni''\<rparr>
      in if q ''security'' = ''xtls'' \<or> q ''security'' = ''none'' then None
         else if q ''type'' = ''ws'' then
           (if q ''path'' = '''' then None
            else Some (p\<lparr>cp_Network := ''ws'', cp_WSOpts := Some (q ''path'', nonempty (q ''host''))\<rparr>))
         else if q ''type'' = ''grpc'' then Some (p\<lparr>cp_Network := ''grpc'', cp_GrpcOpts := nonempty (q ''serviceName'')\<rparr>)
         else if q ''type'' = ''tcp'' \<or> q ''type'' = ''original'' then Some p else None)"

definition getClashSSUri :: "url \<Rightarrow> clash_proxy option" where
  "getClashSSUri u =
     (case decodeShadowsocksUrl u of
        None \<Rightarrow> None
      | Some (ssMethod, port, password, server) \<Rightarrow>
          Some (empty_clash_proxy\<lparr>cp_Name := herb @ '' SS_'' @ url_Fragment u, cp_Type := ''ss'', cp_Server := server,
            cp_Port := Atoi_value port, cp_Password := password, cp_Cipher := ssMethod\<rparr>))"

definition clash_of :: "string \<Rightarrow> clash_proxy option" where
  "clash_of uri =
     (if has_prefix vlessUriHeader uri then None
      else if has_prefix vmessUriHeader uri then Option.bind (vmess_of_link uri) getClashVmessUri
      else if has_prefix trojanUriHeader uri then Option.bind (url_parse (drop (length trojanUriHeader) uri)) getClashTrojanUri
      else if has_prefix shadowsockesUriHeader uri then Option.bind (url_parse (drop (length shadowsockesUriHeader) uri)) getClashSSUri
      else None)"

definition getClashProxies :: "string list \<Rightarrow> clash_proxy list" where
  "getClashProxies standardUris = List.map_filter clash_of standardUris"

subsection \<open>Choice of the converter\<close>

definition QvConverter_Convert :: "string list \<Rightarrow> string" where
  "QvConverter_Convert standardUris = str_join newline standardUris"

definition CommonConverter_Convert :: "string list \<Rightarrow> string" where
  "CommonConverter_Convert standardUris = b64_enc b64_std True (str_join newline standardUris)"

definition convert_by :: "(clash_proxy list \<Rightarrow> string result) \<Rightarrow> string \<Rightarrow> string list \<Rightarrow> string result" where
  "convert_by render k uris =
     (if k = ''surge'' then Inr (SurgeConverter_Convert uris)
      else if k = ''qv2ray'' then Inr (QvConverter_Convert uris)
      else if k = ''clash'' then render (getClashProxies uris)
      else Inr (CommonConverter_Convert uris))"

definition converter_names :: "string list" where
  "converter_names = [''surge'', ''qv2ray'', ''clash'', ''common'']"

text \<open>\<open>ord\<close> is the order of the loop over the registered converters.\<close>

definition ConvertSubUri :: "(clash_proxy list \<Rightarrow> string result) \<Rightarrow> string list \<Rightarrow> string \<Rightarrow> string list \<Rightarrow> string result" where
  "ConvertSubUri render ord client uris =
     (case find (\<lambda>k. str_contains client k) ord of
        Some k \<Rightarrow> convert_by render k uris
      | None \<Rightarrow> convert_by render ''common'' uris)"

end
