(* ===== verification/Subscription.thy ===== *)
theory Subscription
  imports UserManager Converter
begin

text \<open>
  The subscription of a user: \<open>GetUserSub\<close> of \<open>cluster/user_manager.go\<close>, the hysteria link of
  \<open>proxy/manager/proxy_manager.go\<close> and the third-party links of \<open>proxy/sub/expand\<close>. What the process
  configuration holds is the record \<open>sub_config\<close>, the answer of an HTTP request the argument \<open>fetch\<close>.
  \<open>None\<close> is a panic.
\<close>

record sub_config =
  sg_ProxyHost :: string
  sg_ProxyPort :: int
  sg_NodeName :: string
  sg_RemoteSubs :: "string list"
  sg_hysteria :: "string list option" \<comment> \<open>the ACME domains, when a hysteria server is configured\<close>

subsection \<open>Third-party links\<close>

definition ErrMsgSplitSign :: string where "ErrMsgSplitSign = ''|''"

definition MergeError :: "gerror option \<Rightarrow> gerror option \<Rightarrow> gerror option" where
  "MergeError srcError newError =
     (case srcError of
        None \<Rightarrow> newError
      | Some s \<Rightarrow> (case newError of None \<Rightarrow> srcError | Some n \<Rightarrow> Some (s @ ErrMsgSplitSign @ n)))"

text \<open>\<open>fetch\<close> is the body of the response, or the error of the request or of reading the body.\<close>

definition reqSubFromUrl :: "(string \<Rightarrow> string result) \<Rightarrow> string \<Rightarrow> string list result" where
  "reqSubFromUrl fetch address =
     (case fetch address of
        Inl e \<Rightarrow> Inl e
      | Inr body \<Rightarrow> (case b64_dec b64_std_val True body of
            None \<Rightarrow> Inr [body]
          | Some rawData \<Rightarrow> Inr (split_on (CHR 0x0A) rawData)))"

fun third_loop :: "(string \<Rightarrow> string result) \<Rightarrow> string list \<Rightarrow> string list \<Rightarrow> gerror option \<Rightarrow> string list \<times> gerror option" where
  "third_loop fetch [] subs err = (subs, err)"
| "third_loop fetch (u # us) subs err =
     (case reqSubFromUrl fetch u of
        Inr ss \<Rightarrow> third_loop fetch us (subs @ ss) err
      | Inl e \<Rightarrow> third_loop fetch us subs (MergeError err (Some e)))"

definition GetSubFromThirdUrl :: "(string \<Rightarrow> string result) \<Rightarrow> sub_config \<Rightarrow> string list \<times> gerror option" where
  "GetSubFromThirdUrl fetch g = third_loop fetch (sg_RemoteSubs g) [] None"

subsection \<open>The links of a user\<close>

definition PM_GetUserSub :: "sub_config \<Rightarrow> string \<Rightarrow> string \<Rightarrow> string option" where
  "PM_GetUserSub g password nodeName =
     (case sg_hysteria g of
        None \<Rightarrow> Some ''''
      | Some domains \<Rightarrow>
          (case domains of
             [] \<Rightarrow> None
           | d # _ \<Rightarrow> Some (''hysteria2://'' @ b64_enc b64_std False password @ ''@'' @ d @ '':443'' @ ''#'' @ nodeName)))"

definition getSubUriHead :: "string \<Rightarrow> string" where
  "getSubUriHead uri = hd (split_on (CHR '':'') uri)"

fun tag_uris ::
    "codecs \<Rightarrow> sub_env \<Rightarrow> sub_config \<Rightarrow> string list \<Rightarrow> bool \<Rightarrow> string \<Rightarrow> string list \<Rightarrow> 'rt proxy_manager \<Rightarrow> string list option" where
  "tag_uris cc e g exclude useSNI name [] pm = Some []"
| "tag_uris cc e g exclude useSNI name (tag # tags) pm =
     (case GetUserSubUri cc e name tag (sg_ProxyHost g) (sg_NodeName g) (word_of_int (sg_ProxyPort g)) useSNI pm of
        None \<Rightarrow> None
      | Some (Inl err) \<Rightarrow> tag_uris cc e g exclude useSNI name tags pm
      | Some (Inr uri) \<Rightarrow> map_option ((@) (if getSubUriHead uri \<notin> set exclude then [uri] else []))
          (tag_uris cc e g exclude useSNI name tags pm))"

definition getUserSubUri ::
    "codecs \<Rightarrow> sub_env \<Rightarrow> (string \<Rightarrow> string result) \<Rightarrow> sub_config \<Rightarrow> user \<Rightarrow> string list \<Rightarrow> bool \<Rightarrow> 'rt proxy_manager
     \<Rightarrow> string list option" where
  "getUserSubUri cc e fetch g u exclude useSNI pm =
     (case tag_uris cc e g exclude useSNI (us_Name u) (us_Tags u) pm of
        None \<Rightarrow> None
      | Some uris \<Rightarrow>
          (case PM_GetUserSub g (us_Passwd u) (sg_NodeName g) of
             None \<Rightarrow> None
           | Some hy \<Rightarrow>
               Some (filter (\<lambda>l. l \<noteq> '''')
                 (uris @ (if getSubUriHead hy \<notin> set exclude then [hy] else [])
                  @ filter (\<lambda>l. getSubUriHead l \<notin> set exclude) (fst (GetSubFromThirdUrl fetch g))))))"

definition GetUserSub ::
    "codecs \<Rightarrow> sub_env \<Rightarrow> (string \<Rightarrow> string result) \<Rightarrow> sub_config \<Rightarrow> int \<Rightarrow> user \<Rightarrow> string list \<Rightarrow> bool \<Rightarrow> 'rt user_manager
     \<Rightarrow> string list attempt" where
  "GetUserSub cc e fetch g now u exclude useSNI um =
     (case um_users um (us_Name u) of
        None \<Rightarrow> fails (''user['' @ us_Name u @ ''] is not exist'')
      | Some localUser \<Rightarrow>
          if us_ExpireTime localUser < now \<and> us_ExpireTime localUser > 0
          then fails (''expired user['' @ us_Name u @ ''], expired time is '' @ itoa (us_ExpireTime localUser))
          else if us_Passwd localUser \<noteq> us_Passwd u then fails ''wrong passwd''
          else map_option Inr (getUserSubUri cc e fetch g
            (if us_Tags u = [] then u\<lparr>us_Tags := us_Tags localUser\<rparr> else u) exclude useSNI (um_proxy um)))"

end
