(* ===== verification/Stats.thy ===== *)
theory Stats
  imports GoStrings
begin

text \<open>
  Traffic statistics: what the proxies report (\<open>proxy/manager/stats_xray.go\<close>,
  \<open>proxy/manager/stats_hysteria.go\<close> and \<open>QueryStats\<close> of the proxy manager) and how a node sums it up until
  it is asked for (\<open>common/collect.go\<close>, \<open>global/collecter/collect.go\<close>). The answers of the proxies are
  arguments; \<open>None\<close> is a panic.
\<close>

record stat =
  st_Name :: string
  st_Type :: string
  st_Source :: string
  st_Proxy :: string
  st_Downlink :: int
  st_Uplink :: int

subsection \<open>Counters of xray\<close>

text \<open>
  The leftmost match of \<open>(user|inbound|outbound)>>>(\S+)>>>traffic>>>(downlink|uplink)\<close>, the second
  group as long as possible.
\<close>

definition not_space :: "char \<Rightarrow> bool" where
  "not_space c \<longleftrightarrow> c \<notin> {CHR 0x09, CHR 0x0A, CHR 0x0C, CHR 0x0D, CHR 0x20}"

definition link_tail :: "string \<Rightarrow> string option" where
  "link_tail s =
     (if has_prefix ''>>>traffic>>>downlink'' s then Some ''downlink''
      else if has_prefix ''>>>traffic>>>uplink'' s then Some ''uplink''
      else None)"

definition name_and_link :: "string \<Rightarrow> (string \<times> string) option" where
  "name_and_link s =
     (case find (\<lambda>k. link_tail (drop k s) \<noteq> None) (rev [1..<Suc (length (takeWhile not_space s))]) of
        None \<Rightarrow> None
      | Some k \<Rightarrow> map_option (\<lambda>l. (take k s, l)) (link_tail (drop k s)))"

definition match_here :: "string \<Rightarrow> (string \<times> string \<times> string) option" where
  "match_here s =
     (case find (\<lambda>t. has_prefix (t @ ''>>>'') s) [''user'', ''inbound'', ''outbound''] of
        None \<Rightarrow> None
      | Some t \<Rightarrow> map_option (\<lambda>(n, l). (t, n, l)) (name_and_link (drop (length t + 3) s)))"

fun FindStringSubmatch :: "string \<Rightarrow> (string \<times> string \<times> string) option" where
  "FindStringSubmatch [] = None"
| "FindStringSubmatch (c # cs) =
     (case match_here (c # cs) of Some m \<Rightarrow> Some m | None \<Rightarrow> FindStringSubmatch cs)"

definition proxyName :: string where "proxyName = ''Xray/V2ray''"

definition fresh_stat :: "string \<Rightarrow> string \<Rightarrow> stat" where
  "fresh_stat name type = \<lparr>st_Name = name, st_Type = type, st_Source = '''', st_Proxy = proxyName, st_Downlink = 0, st_Uplink = 0\<rparr>"

definition set_link :: "string \<Rightarrow> int \<Rightarrow> stat \<Rightarrow> stat" where
  "set_link link v s =
     (if link = ''downlink'' then s\<lparr>st_Downlink := v\<rparr> else if link = ''uplink'' then s\<lparr>st_Uplink := v\<rparr> else s)"

definition parse_stat :: "string \<times> int \<Rightarrow> (string \<rightharpoonup> stat) \<Rightarrow> (string \<rightharpoonup> stat) option" where
  "parse_stat nv result =
     (case FindStringSubmatch (fst nv) of
        None \<Rightarrow> None
      | Some (type, name, link) \<Rightarrow>
          (let result' = (if result (proxyName @ ''_'' @ name) = None then result(name \<mapsto> fresh_stat name type) else result)
           in case result' name of
                None \<Rightarrow> None
              | Some s \<Rightarrow> Some (result'(name \<mapsto> set_link link (snd nv) s))))"

fun parse_loop :: "(string \<times> int) list \<Rightarrow> (string \<rightharpoonup> stat) \<Rightarrow> (string \<rightharpoonup> stat) option" where
  "parse_loop [] result = Some result"
| "parse_loop (nv # rest) result = (case parse_stat nv result of None \<Rightarrow> None | Some result' \<Rightarrow> parse_loop rest result')"

definition parseQueryStats :: "(string \<times> int) list \<Rightarrow> (string \<rightharpoonup> stat) option" where
  "parseQueryStats resp = parse_loop resp Map.empty"

text \<open>\<open>query\<close> is the call of the statistics service, or the error of connecting to it.\<close>

definition QueryStats :: "(string \<Rightarrow> bool \<Rightarrow> (string \<times> int) list result) \<Rightarrow> string \<Rightarrow> bool \<Rightarrow> (string \<rightharpoonup> stat) result option" where
  "QueryStats query pattern reset =
     (case query pattern reset of Inl err \<Rightarrow> Some (Inl err) | Inr resp \<Rightarrow> map_option Inr (parseQueryStats resp))"

subsection \<open>Counters of hysteria\<close>

definition hyProxyName :: string where "hyProxyName = ''hysteria''"
definition hyTrafficType :: string where "hyTrafficType = ''user''"

definition hysteria_url :: "string \<Rightarrow> bool \<Rightarrow> string result" where
  "hysteria_url host clear =
     (let hosts = split_on (CHR '':'') host
      in if length hosts \<noteq> 2 then Inl (''hysteria traffic listen config err > host['' @ host @ '']'')
         else let hosts' = (if hosts ! 0 = '''' then hosts[0 := ''127.0.0.1''] else hosts);
                  params = (if clear then ''&clear=1'' else '''');
                  reqUrl = ''http://'' @ str_join '':'' hosts' @ ''/traffic''
           in Inr (if params \<noteq> '''' then reqUrl @ ''?'' @ params else reqUrl))"

text \<open>
  \<open>fetch url secret\<close> is the decoded body, sent and received bytes by name (an entry \<open>null\<close> is \<open>None\<close>), or
  the error of the request, of reading or of decoding, as it is reported. \<open>ord\<close> is the order of the
  loop over the names.
\<close>

fun hy_loop :: "(string \<rightharpoonup> (int \<times> int) option) \<Rightarrow> string list \<Rightarrow> (string \<rightharpoonup> stat) \<Rightarrow> (string \<rightharpoonup> stat) option" where
  "hy_loop hyStats [] result = Some result"
| "hy_loop hyStats (name # names) result =
     (case hyStats name of
        None \<Rightarrow> hy_loop hyStats names result
      | Some None \<Rightarrow> None
      | Some (Some (tx, rx)) \<Rightarrow> hy_loop hyStats names (result(hyProxyName @ ''_'' @ name \<mapsto>
          \<lparr>st_Name = name, st_Type = hyTrafficType, st_Source = '''', st_Proxy = hyProxyName, st_Downlink = tx, st_Uplink = rx\<rparr>)))"

definition QueryHysteriaStats ::
    "(string \<Rightarrow> string \<Rightarrow> (string \<rightharpoonup> (int \<times> int) option) result) \<Rightarrow> string list \<Rightarrow> string \<Rightarrow> string \<Rightarrow> bool \<Rightarrow> (string \<rightharpoonup> stat) result option" where
  "QueryHysteriaStats fetch ord host secret clear =
     (case hysteria_url host clear of
        Inl err \<Rightarrow> Some (Inl err)
      | Inr url \<Rightarrow> (case fetch url secret of
            Inl err \<Rightarrow> Some (Inl err)
          | Inr hyStats \<Rightarrow> map_option Inr (hy_loop hyStats ord Map.empty)))"

subsection \<open>Both proxies\<close>

definition mergeStats :: "(string \<rightharpoonup> stat) \<Rightarrow> (string \<rightharpoonup> stat) \<Rightarrow> (string \<rightharpoonup> stat)" where
  "mergeStats srcMap dstMap = dstMap ++ srcMap"

definition stats_or_none :: "(string \<rightharpoonup> stat) result \<Rightarrow> (string \<rightharpoonup> stat)" where
  "stats_or_none r = (case r of Inl _ \<Rightarrow> Map.empty | Inr m \<Rightarrow> m)"

definition error_of :: "'a result \<Rightarrow> string" where
  "error_of r = (case r of Inl err \<Rightarrow> err | Inr _ \<Rightarrow> '''')"

text \<open>
  \<open>hy\<close> is the call of \<open>QueryHysteriaStats\<close>, when a hysteria server is configured, and \<open>xray\<close> that of
  \<open>QueryStats\<close>. The statistics that could be read are returned beside the error, \<open>errorf\<close> is
  \<open>fmt.Errorf\<close> on a message without arguments.
\<close>

definition PM_QueryStats ::
    "(string \<Rightarrow> string) \<Rightarrow> (string \<rightharpoonup> stat) result option option \<Rightarrow> (string \<rightharpoonup> stat) result option
     \<Rightarrow> ((string \<rightharpoonup> stat) \<times> gerror option) option" where
  "PM_QueryStats errorf hy xray =
     (case (case hy of None \<Rightarrow> Some (Inr Map.empty) | Some r \<Rightarrow> r) of
        None \<Rightarrow> None
      | Some r1 \<Rightarrow> (case xray of
            None \<Rightarrow> None
          | Some r2 \<Rightarrow>
              (let result = mergeStats (stats_or_none r2) (mergeStats (stats_or_none r1) Map.empty);
                   errMsg = error_of r1 @ error_of r2
               in Some (result, if errMsg = '''' then None else Some (errorf errMsg)))))"

subsection \<open>Summing up\<close>

definition stat_id :: "stat \<Rightarrow> string" where
  "stat_id s = st_Name s @ ''_'' @ st_Type s @ ''_'' @ st_Source s @ ''_'' @ st_Proxy s"

definition CollectCBFunc :: "stat \<Rightarrow> (string \<rightharpoonup> stat) \<Rightarrow> (string \<rightharpoonup> stat)" where
  "CollectCBFunc s m =
     m(stat_id s \<mapsto> (case m (stat_id s) of
        Some t \<Rightarrow> t\<lparr>st_Downlink := i64_add (st_Downlink t) (st_Downlink s), st_Uplink := i64_add (st_Uplink t) (st_Uplink s)\<rparr>
      | None \<Rightarrow> s))"

text \<open>
  One round of the collector. The channels keep the order, so each table gets the statistics in
  the order \<open>ord\<close> of the loop.
\<close>

definition collectStats :: "string \<Rightarrow> (string \<rightharpoonup> stat) \<Rightarrow> string list \<Rightarrow> (string \<rightharpoonup> stat) \<Rightarrow> (string \<rightharpoonup> stat)" where
  "collectStats source stats ord m = fold CollectCBFunc (map (\<lambda>s. s\<lparr>st_Source := source\<rparr>) (vals_in_order stats ord)) m"

text \<open>The request for the bandwidth returns what was summed up, in some order, and starts again.\<close>

definition GetBandWidthStats :: "string list \<Rightarrow> (string \<rightharpoonup> stat) \<Rightarrow> (string \<rightharpoonup> stat) \<times> stat list" where
  "GetBandWidthStats ord m = (Map.empty, vals_in_order m ord)"

subsection \<open>No traffic is lost or counted twice\<close>

datatype traffic_event = Collected stat | Asked "string list"

fun traffic_run :: "traffic_event list \<Rightarrow> (string \<rightharpoonup> stat) \<Rightarrow> (string \<rightharpoonup> stat) \<times> stat list" where
  "traffic_run [] m = (m, [])"
| "traffic_run (Collected s # es) m = traffic_run es (CollectCBFunc s m)"
| "traffic_run (Asked ord # es) m =
     (case GetBandWidthStats ord m of (m', out) \<Rightarrow> (case traffic_run es m' of (m'', outs) \<Rightarrow> (m'', out @ outs)))"

text \<open>Every request iterates over the table as it is then.\<close>

fun orders_ok :: "traffic_event list \<Rightarrow> (string \<rightharpoonup> stat) \<Rightarrow> bool" where
  "orders_ok [] m \<longleftrightarrow> True"
| "orders_ok (Collected s # es) m \<longleftrightarrow> orders_ok es (CollectCBFunc s m)"
| "orders_ok (Asked ord # es) m \<longleftrightarrow> ranges m ord \<and> orders_ok es (fst (GetBandWidthStats ord m))"

definition collected :: "traffic_event list \<Rightarrow> stat list" where
  "collected es = List.map_filter (\<lambda>e. case e of Collected s \<Rightarrow> Some s | Asked _ \<Rightarrow> None) es"

definition total :: "(stat \<Rightarrow> int) \<Rightarrow> string \<Rightarrow> stat list \<Rightarrow> int" where
  "total f k ss = sum_list (map f (filter (\<lambda>s. stat_id s = k) ss))"

definition amount :: "(stat \<Rightarrow> int) \<Rightarrow> string \<Rightarrow> (string \<rightharpoonup> stat) \<Rightarrow> int" where
  "amount f k m = (case m k of None \<Rightarrow> 0 | Some t \<Rightarrow> f t)"

definition keyed :: "(string \<rightharpoonup> stat) \<Rightarrow> bool" where
  "keyed m \<longleftrightarrow> (\<forall>k t. m k = Some t \<longrightarrow> stat_id t = k)"

lemma total_simps [simp]:
  "total f k [] = 0" "total f k (s # ss) = (if stat_id s = k then f s else 0) + total f k ss"
  "total f k (ss @ ts) = total f k ss + total f k ts"
  by (simp_all add: total_def)

lemma collected_simps [simp]:
  "collected [] = []" "collected (Collected s # es) = s # collected es" "collected (Asked ord # es) = collected es"
  by (simp_all add: collected_def map_filter_def)

lemma keyed_collect: "keyed m \<Longrightarrow> keyed (CollectCBFunc s m)"
  by (auto simp: keyed_def CollectCBFunc_def stat_id_def split: option.splits)

lemma amount_collect:
  assumes "f = st_Downlink \<or> f = st_Uplink"
  shows "wrap64 (amount f k (CollectCBFunc s m) + x) = wrap64 (amount f k m + ((if stat_id s = k then f s else 0) + x))"
  using assms by (auto simp: amount_def CollectCBFunc_def i64_add_def wrap64_add_left add.assoc split: option.splits)

lemma total_vals:
  "keyed m \<Longrightarrow> distinct ord \<Longrightarrow> total f k (vals_in_order m ord) = (if k \<in> set ord then amount f k m else 0)"
  by (induction ord) (auto simp: keyed_def amount_def split: option.splits)

lemma amount_outside: "k \<notin> dom m \<Longrightarrow> amount f k m = 0"
  by (simp add: amount_def domIff)

lemma traffic_run_total:
  assumes "f = st_Downlink \<or> f = st_Uplink" and "keyed m" and "orders_ok es m" and "traffic_run es m = (m', outs)"
  shows "wrap64 (total f k outs + amount f k m') = wrap64 (amount f k m + total f k (collected es))"
  using assms(2-)
proof (induction es m arbitrary: outs rule: traffic_run.induct)
  case (2 s es m)
  then have "wrap64 (total f k outs + amount f k m') = wrap64 (amount f k (CollectCBFunc s m) + total f k (collected es))"
    by (simp add: keyed_collect)
  then show ?case by (simp add: amount_collect [OF assms(1)])
next
  case (3 ord es m)
  then obtain out1 where run: "traffic_run es Map.empty = (m', out1)" and outs: "outs = vals_in_order m ord @ out1"
    by (auto simp: GetBandWidthStats_def split: prod.splits)
  have vals: "total f k (vals_in_order m ord) = amount f k m"
    using total_vals [of m ord f k] amount_outside [of k m f] 3 by (auto simp: ranges_def)
  have "wrap64 (total f k out1 + amount f k m') = wrap64 (total f k (collected es))"
    using "3.IH" [of Map.empty "vals_in_order m ord" out1] 3 run by (simp add: GetBandWidthStats_def keyed_def amount_def)
  then have "wrap64 (amount f k m + (total f k out1 + amount f k m')) = wrap64 (amount f k m + total f k (collected es))"
    by (rule wrap64_add_cong)
  then show ?case by (simp add: outs vals add.assoc)
qed simp

lemma traffic_run_keyed: "keyed m \<Longrightarrow> traffic_run es m = (m', outs) \<Longrightarrow> keyed m'"
proof (induction es m arbitrary: outs rule: traffic_run.induct)
  case (3 ord es m)
  then show ?case by (auto simp: GetBandWidthStats_def keyed_def split: prod.splits)
qed (simp_all add: keyed_collect)

text \<open>The four labels of a statistic, and its amounts over a list.\<close>

definition labels :: "stat \<Rightarrow> string \<times> string \<times> string \<times> string" where
  "labels s = (st_Name s, st_Type s, st_Source s, st_Proxy s)"

definition labelled_total :: "(stat \<Rightarrow> int) \<Rightarrow> string \<times> string \<times> string \<times> string \<Rightarrow> stat list \<Rightarrow> int" where
  "labelled_total f l ss = sum_list (map f (filter (\<lambda>s. labels s = l) ss))"

text \<open>
  Types and names of proxies hold no underscore, and the statistics of a collector have one source
  (the name of the node), or sources without an underscore.
\<close>

definition told_apart :: "stat set \<Rightarrow> bool" where
  "told_apart S \<longleftrightarrow> (\<forall>s \<in> S. CHR ''_'' \<notin> set (st_Type s) \<and> CHR ''_'' \<notin> set (st_Proxy s)) \<and>
     (\<forall>s \<in> S. \<forall>t \<in> S. st_Source s = st_Source t \<or> CHR ''_'' \<notin> set (st_Source s) \<and> CHR ''_'' \<notin> set (st_Source t))"

lemma last_part:
  assumes "a @ c # b = a' @ c # b'" and "c \<notin> set b" and "c \<notin> set b'"
  shows "a = a' \<and> b = b'"
proof -
  have "rev b @ c # rev a = rev b' @ c # rev a'" using arg_cong [OF assms(1), of rev] by simp
  then have "takeWhile (\<lambda>x. x \<noteq> c) (rev b @ c # rev a) = takeWhile (\<lambda>x. x \<noteq> c) (rev b' @ c # rev a')" by simp
  moreover have "takeWhile (\<lambda>x. x \<noteq> c) (rev d) = rev d" if "c \<notin> set d" for d using that by (auto simp: takeWhile_eq_all_conv)
  ultimately have "b = b'" using assms(2,3) by (simp add: takeWhile_tail)
  with assms(1) show ?thesis by simp
qed

lemma stat_id_labels:
  assumes "told_apart S" and "s \<in> S" and "t \<in> S" and "stat_id s = stat_id t"
  shows "labels s = labels t"
proof -
  have "(st_Name s @ ''_'' @ st_Type s @ ''_'' @ st_Source s) @ CHR ''_'' # st_Proxy s =
      (st_Name t @ ''_'' @ st_Type t @ ''_'' @ st_Source t) @ CHR ''_'' # st_Proxy t"
    using assms(4) by (simp add: stat_id_def)
  from last_part [OF this] assms(1-3)
  have proxy: "st_Proxy s = st_Proxy t" and
    rest: "(st_Name s @ ''_'' @ st_Type s) @ CHR ''_'' # st_Source s = (st_Name t @ ''_'' @ st_Type t) @ CHR ''_'' # st_Source t"
    by (auto simp: told_apart_def)
  have "st_Source s = st_Source t \<and> st_Name s @ CHR ''_'' # st_Type s = st_Name t @ CHR ''_'' # st_Type t"
  proof (cases "st_Source s = st_Source t")
    case False
    then have "CHR ''_'' \<notin> set (st_Source s)" "CHR ''_'' \<notin> set (st_Source t)" using assms(1-3) by (auto simp: told_apart_def)
    from last_part [OF rest this] show ?thesis by simp
  qed (use rest in simp)
  moreover from this last_part [of "st_Name s" "CHR ''_''" "st_Type s" "st_Name t" "st_Type t"] assms(1-3)
  have "st_Name s = st_Name t \<and> st_Type s = st_Type t" by (auto simp: told_apart_def)
  ultimately show ?thesis using proxy by (simp add: labels_def)
qed

lemma labels_collect: "t \<in> ran (CollectCBFunc s m) \<Longrightarrow> labels t = labels s \<or> (\<exists>t0 \<in> ran m. labels t = labels t0)"
  by (auto simp: CollectCBFunc_def ran_def labels_def split: if_splits option.splits)

lemma traffic_run_labels:
  assumes "traffic_run es m = (m', outs)" and "labels ` ran m \<subseteq> L" and "labels ` set (collected es) \<subseteq> L"
  shows "labels ` ran m' \<subseteq> L \<and> labels ` set outs \<subseteq> L"
  using assms
proof (induction es m arbitrary: outs rule: traffic_run.induct)
  case (2 s es m)
  have "labels t \<in> L" if "t \<in> ran (CollectCBFunc s m)" for t using labels_collect [OF that] 2(3,4) by auto
  then have "labels ` ran (CollectCBFunc s m) \<subseteq> L" by blast
  with 2 show ?case by simp
next
  case (3 ord es m)
  then obtain out1 where run: "traffic_run es Map.empty = (m', out1)" and outs: "outs = vals_in_order m ord @ out1"
    by (auto simp: GetBandWidthStats_def split: prod.splits)
  have "labels ` ran m' \<subseteq> L \<and> labels ` set out1 \<subseteq> L"
    using "3.IH" [of Map.empty "vals_in_order m ord" out1] 3 run by (simp add: GetBandWidthStats_def)
  moreover have "set (vals_in_order m ord) \<subseteq> ran m"
    by (auto simp: vals_in_order_def List.map_filter_def ran_def split: if_splits)
  ultimately show ?case using 3(3) outs by auto
qed simp

text \<open>Where the labels of all statistics occur among those collected, the joined text is as good as the labels.\<close>

lemma labelled_total_id:
  assumes "told_apart S" and "s0 \<in> S" and "labels ` set ss \<subseteq> labels ` S"
  shows "labelled_total f (labels s0) ss = total f (stat_id s0) ss"
proof -
  have "labels s = labels s0 \<longleftrightarrow> stat_id s = stat_id s0" if s: "s \<in> set ss" for s
  proof
    assume "stat_id s = stat_id s0"
    moreover obtain s1 where "s1 \<in> S" "labels s = labels s1" using assms(3) s by blast
    moreover from this have "stat_id s = stat_id s1" by (simp add: stat_id_def labels_def)
    ultimately show "labels s = labels s0" using stat_id_labels [OF assms(1), of s1 s0] assms(2) by simp
  qed (simp add: stat_id_def labels_def)
  then show ?thesis by (simp add: labelled_total_def total_def cong: filter_cong)
qed

lemma traffic_labelled:
  assumes "f = st_Downlink \<or> f = st_Uplink" and "orders_ok es Map.empty" and "traffic_run es Map.empty = (m, answers)"
    and "told_apart (set (collected es))" and "ranges m ord"
  shows "wrap64 (labelled_total f l (answers @ vals_in_order m ord)) = wrap64 (labelled_total f l (collected es))"
proof -
  have keyed: "keyed Map.empty" "keyed m" using traffic_run_keyed [OF _ assms(3)] by (simp_all add: keyed_def)
  have "set (vals_in_order m ord) \<subseteq> ran m"
    by (auto simp: vals_in_order_def List.map_filter_def ran_def split: if_splits)
  then have known: "labels ` set (answers @ vals_in_order m ord) \<subseteq> labels ` set (collected es)"
    using traffic_run_labels [OF assms(3), of "labels ` set (collected es)"] by auto
  show ?thesis
  proof (cases "l \<in> labels ` set (collected es)")
    case True
    then obtain s0 where s0: "s0 \<in> set (collected es)" "l = labels s0" by blast
    have "total f (stat_id s0) (vals_in_order m ord) = amount f (stat_id s0) m"
      using total_vals [OF keyed(2), of ord f "stat_id s0"] amount_outside [of "stat_id s0" m f] assms(5) by (auto simp: ranges_def)
    then show ?thesis
      using traffic_run_total [OF assms(1) keyed(1) assms(2,3), of "stat_id s0"]
        labelled_total_id [OF assms(4) s0(1) known, of f] labelled_total_id [OF assms(4) s0(1), of "collected es" f]
      by (simp add: s0(2) amount_def)
  next
    case False
    with known have "filter (\<lambda>s. labels s = l) (answers @ vals_in_order m ord) = []" "filter (\<lambda>s. labels s = l) (collected es) = []"
      unfolding filter_empty_conv by blast+
    then show ?thesis by (simp only: labelled_total_def list.map sum_list.Nil)
  qed
qed

text \<open>
  C16: the traffic that is reported is the traffic that was collected. For every name, type, source
  and proxy, over any sequence of collected statistics and requests for the bandwidth, the answers
  and what the next request would return add up to what was collected under these four labels, in
  64-bit arithmetic; nothing is lost, reported twice or put to another label. Types and proxies hold
  no underscore, and so do the sources unless there is just one: the labels are joined with underscores.
\<close>

theorem traffic_conserved:
  assumes "orders_ok es Map.empty" and "traffic_run es Map.empty = (m, answers)"
    and "told_apart (set (collected es))" and "ranges m ord"
  shows "wrap64 (labelled_total st_Downlink (name, type, source, proxy) (answers @ vals_in_order m ord)) =
      wrap64 (labelled_total st_Downlink (name, type, source, proxy) (collected es)) \<and>
    wrap64 (labelled_total st_Uplink (name, type, source, proxy) (answers @ vals_in_order m ord)) =
      wrap64 (labelled_total st_Uplink (name, type, source, proxy) (collected es))"
  using traffic_labelled [OF _ assms] by blast

definition demo_stat :: "string \<Rightarrow> int \<Rightarrow> stat" where
  "demo_stat type v = \<lparr>st_Name = ''bob'', st_Type = type, st_Source = ''n'', st_Proxy = ''p'', st_Downlink = v, st_Uplink = 0\<rparr>"

text \<open>A user and an inbound of the same name.\<close>

theorem traffic_conserved_witness:
  "traffic_run [Collected (demo_stat ''user'' 3), Asked [''bob_user_n_p''], Collected (demo_stat ''inbound'' 5)] Map.empty =
     ([''bob_inbound_n_p'' \<mapsto> demo_stat ''inbound'' 5], [demo_stat ''user'' 3]) \<and>
   wrap64 (labelled_total st_Downlink (''bob'', ''inbound'', ''n'', ''p'')
     ([demo_stat ''user'' 3] @ vals_in_order [''bob_inbound_n_p'' \<mapsto> demo_stat ''inbound'' 5] [''bob_inbound_n_p''])) = wrap64 5"
proof -
  let ?u = "''bob_user_n_p''" and ?i = "''bob_inbound_n_p''"
  let ?es = "[Collected (demo_stat ''user'' 3), Asked [?u], Collected (demo_stat ''inbound'' 5)]"
  have id: "stat_id (demo_stat ''user'' v) = ?u" "stat_id (demo_stat ''inbound'' v) = ?i" for v by (simp_all add: stat_id_def demo_stat_def)
  have first: "CollectCBFunc (demo_stat ''user'' v) Map.empty = [?u \<mapsto> demo_stat ''user'' v]"
    "CollectCBFunc (demo_stat ''inbound'' v) Map.empty = [?i \<mapsto> demo_stat ''inbound'' v]" for v
    by (simp_all add: CollectCBFunc_def id)
  have run: "traffic_run ?es Map.empty = ([?i \<mapsto> demo_stat ''inbound'' 5], [demo_stat ''user'' 3])"
    by (simp add: first GetBandWidthStats_def)
  have "orders_ok ?es Map.empty" by (simp add: first GetBandWidthStats_def ranges_def)
  moreover have "told_apart (set (collected ?es))" by (simp add: told_apart_def demo_stat_def)
  moreover have "ranges [?i \<mapsto> demo_stat ''inbound'' 5] [?i]" by (simp add: ranges_def)
  ultimately have "wrap64 (labelled_total st_Downlink (''bob'', ''inbound'', ''n'', ''p'')
      ([demo_stat ''user'' 3] @ vals_in_order [?i \<mapsto> demo_stat ''inbound'' 5] [?i])) =
      wrap64 (labelled_total st_Downlink (''bob'', ''inbound'', ''n'', ''p'') (collected ?es))"
    using traffic_conserved [OF _ run] by blast
  also have "\<dots> = wrap64 5" by (simp add: labelled_total_def labels_def demo_stat_def)
  finally show ?thesis using run by simp
qed

subsection \<open>The counters of one name\<close>

definition put_counter :: "string \<times> int \<Rightarrow> (string \<rightharpoonup> stat) \<Rightarrow> (string \<rightharpoonup> stat)" where
  "put_counter nv m =
     (case FindStringSubmatch (fst nv) of
        None \<Rightarrow> m
      | Some (type, name, link) \<Rightarrow> m(name \<mapsto> set_link link (snd nv) (fresh_stat name type)))"

definition counter_name :: "string \<times> int \<Rightarrow> string option" where
  "counter_name nv = map_option (\<lambda>(type, name, link). name) (FindStringSubmatch (fst nv))"

text \<open>
  The table is searched under the proxy's name and the counter's, but filled under the counter's
  name: unless a counter has such a name, every counter starts a new entry.
\<close>

lemma parse_loop_overwrites:
  assumes "\<And>n. n \<in> N \<Longrightarrow> proxyName @ ''_'' @ n \<notin> N" and "dom m \<subseteq> N" and "\<And>nv. nv \<in> set resp \<Longrightarrow> \<exists>n \<in> N. counter_name nv = Some n"
  shows "parse_loop resp m = Some (fold put_counter resp m)"
  using assms(2,3)
proof (induction resp arbitrary: m)
  case (Cons nv resp)
  obtain name where n: "name \<in> N" "counter_name nv = Some name" using Cons.prems(2) [of nv] by auto
  then obtain type link where match: "FindStringSubmatch (fst nv) = Some (type, name, link)" by (auto simp: counter_name_def)
  have "proxyName @ ''_'' @ name \<notin> dom m" using assms(1) [OF n(1)] Cons.prems(1) by blast
  then have "m (proxyName @ ''_'' @ name) = None" by (simp only: domIff not_not)
  with match have "parse_stat nv m = Some (put_counter nv m)" by (simp add: parse_stat_def put_counter_def)
  moreover have "dom (put_counter nv m) \<subseteq> N" using match n(1) Cons.prems(1) by (auto simp: put_counter_def)
  ultimately show ?case using Cons by simp
qed simp

lemma fold_put_counter_other:
  "\<forall>nv \<in> set resp. counter_name nv \<noteq> Some n \<Longrightarrow> fold put_counter resp m n = m n"
  by (induction resp arbitrary: m) (auto simp: put_counter_def counter_name_def split: option.splits)

text \<open>
  Of the two counters of a name only the last one is kept. When every counter of the proxy's
  answer is well-formed and none is named after the proxy, the statistics of a name hold the value
  of its last counter in the answer, and zero for the other direction.
\<close>

theorem counters_overwritten:
  assumes "resp = before @ (counter, v) # rest" and "FindStringSubmatch counter = Some (type, n, link)"
    and "\<forall>nv \<in> set rest. counter_name nv \<noteq> Some n" and "\<forall>nv \<in> set resp. \<exists>k. counter_name nv = Some k \<and> \<not> has_prefix proxyName k"
  shows "\<exists>m. parseQueryStats resp = Some m \<and> m n = Some (set_link link v (fresh_stat n type))"
proof -
  let ?N = "{k. \<not> has_prefix proxyName k}"
  have "parse_loop resp Map.empty = Some (fold put_counter resp Map.empty)"
    by (rule parse_loop_overwrites [of ?N]) (use assms(4) in auto)
  then show ?thesis
    using assms(1-3) by (simp add: parseQueryStats_def fold_put_counter_other) (simp add: put_counter_def)
qed

theorem counters_overwritten_witness:
  "\<exists>m. parseQueryStats [(''user>>>bob>>>traffic>>>downlink'', 5), (''user>>>bob>>>traffic>>>uplink'', 7)] = Some m \<and>
     m ''bob'' = Some \<lparr>st_Name = ''bob'', st_Type = ''user'', st_Source = '''', st_Proxy = ''Xray/V2ray'', st_Downlink = 0, st_Uplink = 7\<rparr>"
proof -
  have 1: "FindStringSubmatch ''user>>>bob>>>traffic>>>downlink'' = Some (''user'', ''bob'', ''downlink'')" by code_simp
  have 2: "FindStringSubmatch ''user>>>bob>>>traffic>>>uplink'' = Some (''user'', ''bob'', ''uplink'')" by code_simp
  show ?thesis
    using counters_overwritten [of _ "[(''user>>>bob>>>traffic>>>downlink'', 5)]" "''user>>>bob>>>traffic>>>uplink''" 7 "[]", OF _ 2]
    by (simp add: 1 2 counter_name_def proxyName_def set_link_def fresh_stat_def del: FindStringSubmatch.simps)
qed

end
