(* ===== verification/NodeHandlers.thy ===== *)
theory NodeHandlers
  imports Subscription Stats
begin

text \<open>
  The requests of \<open>server/rpc/end_node_server.go\<close> that work on users, inbounds and adaptive ports,
  over the state of the user manager (which holds the proxy manager). The interceptor in
  \<open>Membership\<close> decides which of them a request reaches. \<open>gens i\<close> are the identifiers generated for
  the \<open>i\<close>-th user of a request, \<open>cfgDefault\<close> is the configured default tag.
\<close>

record op_rsp =
  rsp_Code :: int
  rsp_Msg :: string

definition ok_rsp :: op_rsp where "ok_rsp = \<lparr>rsp_Code = 0, rsp_Msg = ''''\<rparr>"
definition err_rsp :: "int \<Rightarrow> string \<Rightarrow> op_rsp" where "err_rsp code msg = \<lparr>rsp_Code = code, rsp_Msg = msg\<rparr>"

text \<open>A response whose code is set when a message was collected.\<close>

definition msg_rsp :: "int \<Rightarrow> string \<Rightarrow> op_rsp" where
  "msg_rsp code msg = (if msg \<noteq> '''' then err_rsp code msg else ok_rsp)"

subsection \<open>Users\<close>

text \<open>The loop of the requests on several users: an operation per user, the errors collected.\<close>

fun users_loop ::
    "(nat \<Rightarrow> 'u \<Rightarrow> 's \<Rightarrow> ('s, gerror option) outcome) \<Rightarrow> ('u \<Rightarrow> gerror \<Rightarrow> string) \<Rightarrow> nat \<Rightarrow> 'u list \<Rightarrow> 's \<Rightarrow> string
     \<Rightarrow> ('s, string) outcome" where
  "users_loop op say i [] s msg = Done s msg"
| "users_loop op say i (u # us) s msg =
     bind_o (op i u s) (\<lambda>s e. users_loop op say (Suc i) us s (case e of None \<Rightarrow> msg | Some err \<Rightarrow> msg @ say u err))"

definition Node_AddUsers ::
    "codecs \<Rightarrow> ('rt, 'h) xray \<Rightarrow> (nat \<Rightarrow> nat \<Rightarrow> string) \<Rightarrow> string \<Rightarrow> user list \<Rightarrow> 'rt user_manager \<Rightarrow> ('rt user_manager, op_rsp) outcome" where
  "Node_AddUsers cc x gens cfgDefault users um =
     bind_o (users_loop (\<lambda>i u. UM_Add cc x (gens i) cfgDefault u)
         (\<lambda>u err. ''user: '' @ us_Name u @ '' add failed: '' @ err @ ''|'') 0 users um '''')
       (\<lambda>um msg. Done um (msg_rsp 200 msg))"

definition Node_DeleteUsers ::
    "codecs \<Rightarrow> ('rt, 'h) xray \<Rightarrow> (nat \<Rightarrow> nat \<Rightarrow> string) \<Rightarrow> string \<Rightarrow> user list \<Rightarrow> 'rt user_manager \<Rightarrow> ('rt user_manager, op_rsp) outcome" where
  "Node_DeleteUsers cc x gens cfgDefault users um =
     bind_o (users_loop (\<lambda>i u. UM_Delete cc x (gens i) cfgDefault False u)
         (\<lambda>u err. ''user: '' @ us_Name u @ '' delete failed, '' @ err @ newline) 0 users um '''')
       (\<lambda>um msg. Done um (msg_rsp 201 msg))"

definition Node_ResetUser ::
    "codecs \<Rightarrow> ('rt, 'h) xray \<Rightarrow> (nat \<Rightarrow> nat \<Rightarrow> string) \<Rightarrow> string \<Rightarrow> user list \<Rightarrow> 'rt user_manager \<Rightarrow> ('rt user_manager, op_rsp) outcome" where
  "Node_ResetUser cc x gens cfgDefault users um =
     bind_o (users_loop (\<lambda>i u. UM_Reset cc x (gens i) cfgDefault u)
         (\<lambda>u err. ''user: '' @ us_Name u @ '' reset failed, '' @ err @ newline) 0 users um '''')
       (\<lambda>um msg. Done um (msg_rsp 202 msg))"

text \<open>Only the error of the last user is reported, and the code stays zero.\<close>

fun update_loop :: "user list \<Rightarrow> 'rt user_manager \<Rightarrow> gerror option \<Rightarrow> ('rt user_manager, gerror option) outcome" where
  "update_loop [] um err = Done um err"
| "update_loop (u # us) um err = bind_o (UM_Update u um) (\<lambda>um e. update_loop us um e)"

definition Node_UpdateUsers :: "user list \<Rightarrow> 'rt user_manager \<Rightarrow> ('rt user_manager, op_rsp) outcome" where
  "Node_UpdateUsers users um =
     bind_o (update_loop users um None)
       (\<lambda>um e. Done um (case e of None \<Rightarrow> ok_rsp | Some err \<Rightarrow> err_rsp 0 err))"

text \<open>
  The pointers of the known users are collected first; each is then deleted as it is in the table
  at that moment.
\<close>

definition clear_user ::
    "codecs \<Rightarrow> ('rt, 'h) xray \<Rightarrow> (nat \<Rightarrow> nat \<Rightarrow> string) \<Rightarrow> string \<Rightarrow> nat \<Rightarrow> string \<Rightarrow> 'rt user_manager
     \<Rightarrow> ('rt user_manager, gerror option) outcome" where
  "clear_user cc x gens cfgDefault i name um =
     (case um_users um name of None \<Rightarrow> Done um None | Some u \<Rightarrow> UM_Delete cc x (gens i) cfgDefault True u um)"

definition Node_ClearUsers ::
    "codecs \<Rightarrow> ('rt, 'h) xray \<Rightarrow> (nat \<Rightarrow> nat \<Rightarrow> string) \<Rightarrow> string \<Rightarrow> string list \<Rightarrow> 'rt user_manager \<Rightarrow> ('rt user_manager, op_rsp) outcome" where
  "Node_ClearUsers cc x gens cfgDefault names um =
     bind_o (users_loop (clear_user cc x gens cfgDefault)
         (\<lambda>name err. ''user: '' @ name @ '' clear failed, '' @ err @ newline) 0
         (filter (\<lambda>n. um_users um n \<noteq> None) names) um '''')
       (\<lambda>um msg. Done um (msg_rsp 1040 msg))"

text \<open>
  \<open>stats\<close> are the summed statistics by name, \<open>ord\<close> is the order of the loop over the users. The
  traffic is written into the users of the table.
\<close>

definition with_traffic :: "(string \<rightharpoonup> stat) \<Rightarrow> user \<Rightarrow> user" where
  "with_traffic stats u =
     (case stats (us_Name u @ ''_user'') of
        None \<Rightarrow> u | Some s \<Rightarrow> u\<lparr>us_Downlink := st_Downlink s, us_Uplink := st_Uplink s\<rparr>)"

definition Node_GetUsers ::
    "(string \<rightharpoonup> stat) \<Rightarrow> string list \<Rightarrow> 'rt user_manager \<Rightarrow> ('rt user_manager, user list) outcome" where
  "Node_GetUsers stats ord um = bind_o (GetUserList um) (\<lambda>um users.
     let um' = um\<lparr>um_users := (\<lambda>k. map_option (with_traffic stats) (users k))\<rparr>
     in Done um' (vals_in_order (um_users um') ord))"

definition Node_GetSub ::
    "codecs \<Rightarrow> sub_env \<Rightarrow> (string \<Rightarrow> string result) \<Rightarrow> sub_config \<Rightarrow> int \<Rightarrow> user \<Rightarrow> string list \<Rightarrow> bool \<Rightarrow> 'rt user_manager
     \<Rightarrow> ('rt user_manager, op_rsp \<times> string list) outcome" where
  "Node_GetSub cc e fetch g now u exclude useSNI um =
     (case GetUserSub cc e fetch g now u exclude useSNI um of
        None \<Rightarrow> Panicked um
      | Some (Inl err) \<Rightarrow> Done um (err_rsp 300 (''get sub err > '' @ err), [])
      | Some (Inr uris) \<Rightarrow>
          if uris = [] then Done um (err_rsp 300 ''get sub err > <nil>'', []) else Done um (ok_rsp, uris))"

subsection \<open>Inbounds\<close>

definition zero_inbound :: inbound where
  "zero_inbound = \<lparr>ib_Config = NewInboundDetourConfig '''' '''' '''' 0, ib_Tag = ''''\<rparr>"

text \<open>\<open>decode\<close> is the base64 and JSON decoding of the inbound.\<close>

definition add_tag :: "string \<Rightarrow> string \<Rightarrow> 'rt user_manager \<Rightarrow> 'rt user_manager" where
  "add_tag tag name um =
     (case um_users um name of
        None \<Rightarrow> um
      | Some u \<Rightarrow> um\<lparr>um_users := (um_users um)(name \<mapsto> u\<lparr>us_Tags := us_Tags u @ [tag]\<rparr>)\<rparr>)"

definition Node_AddInbound ::
    "codecs \<Rightarrow> ('rt, 'h) xray \<Rightarrow> (string \<Rightarrow> inbound_cfg result) \<Rightarrow> string \<Rightarrow> 'rt user_manager \<Rightarrow> ('rt user_manager, op_rsp) outcome" where
  "Node_AddInbound cc x decode inboundInfo um =
     (case Inbound_Init decode inboundInfo zero_inbound of
        (i, Some err) \<Rightarrow> Done um (err_rsp 600 (''unmarshal inbound err > '' @ err))
      | (i, None) \<Rightarrow>
          bind_o (on_proxy (AddInbound x i (um_proxy um)) um) (\<lambda>um r. case r of
              Some err \<Rightarrow> Done um (err_rsp 601 (''add inbound err > '' @ err))
            | None \<Rightarrow> (case Inbound_GetUsers cc i of
                  None \<Rightarrow> Panicked um
                | Some users \<Rightarrow> Done (fold (add_tag (ib_Tag i)) users um) ok_rsp)))"

definition named_user :: "string \<Rightarrow> string list \<Rightarrow> user" where
  "named_user name tags = \<lparr>us_Name = name, us_Passwd = '''', us_ExpireTime = 0, us_Tags = tags, us_Downlink = 0, us_Uplink = 0\<rparr>"

definition Node_DeleteInbound ::
    "codecs \<Rightarrow> ('rt, 'h) xray \<Rightarrow> (nat \<Rightarrow> nat \<Rightarrow> string) \<Rightarrow> string \<Rightarrow> string \<Rightarrow> 'rt user_manager \<Rightarrow> ('rt user_manager, op_rsp) outcome" where
  "Node_DeleteInbound cc x gens cfgDefault tag um =
     bind_o (case GetInbound (um_proxy um) tag of
         None \<Rightarrow> Done um ''''
       | Some i \<Rightarrow> (case Inbound_GetUsers cc i of
             None \<Rightarrow> Panicked um
           | Some users \<Rightarrow> users_loop (\<lambda>j name. UM_Delete cc x (gens j) cfgDefault False (named_user name [tag]))
               (\<lambda>_ _. '''') 0 users um ''''))
       (\<lambda>um _. case DeleteInbound x tag (um_proxy um) of
           (pm, Some err) \<Rightarrow> Done (um\<lparr>um_proxy := pm\<rparr>) (err_rsp 601 (''delete inbound err > '' @ err))
         | (pm, None) \<Rightarrow> Done (um\<lparr>um_proxy := pm\<rparr>) ok_rsp)"

definition Node_TransferInbound ::
    "('rt, 'h) xray \<Rightarrow> string \<Rightarrow> int \<Rightarrow> 'rt user_manager \<Rightarrow> ('rt user_manager, op_rsp) outcome" where
  "Node_TransferInbound x tag newPort um =
     bind_o (on_proxy (TransferInbound x tag (word_of_int newPort) (um_proxy um)) um) (\<lambda>um r. case r of
         Some err \<Rightarrow> Done um (err_rsp 700 (''transfer inbound err > '' @ err))
       | None \<Rightarrow> Done um ok_rsp)"

text \<open>\<open>copyUser\<close>: the users of one inbound are added to another, by name only.\<close>

fun copy_loop ::
    "codecs \<Rightarrow> ('rt, 'h) xray \<Rightarrow> (nat \<Rightarrow> nat \<Rightarrow> string) \<Rightarrow> string \<Rightarrow> string \<Rightarrow> nat \<Rightarrow> string list \<Rightarrow> 'rt user_manager
     \<Rightarrow> string list \<times> string list \<Rightarrow> ('rt user_manager, string list \<times> string list) outcome" where
  "copy_loop cc x gens cfgDefault dstTag i [] um acc = Done um acc"
| "copy_loop cc x gens cfgDefault dstTag i (name # names) um (succUser, failedUser) =
     bind_o (UM_Add cc x (gens i) cfgDefault (named_user name [dstTag]) um) (\<lambda>um e.
       copy_loop cc x gens cfgDefault dstTag (Suc i) names um
         (if e \<noteq> None then (succUser, failedUser @ [name]) else (succUser @ [name], failedUser)))"

definition copyUser ::
    "codecs \<Rightarrow> ('rt, 'h) xray \<Rightarrow> (nat \<Rightarrow> nat \<Rightarrow> string) \<Rightarrow> string \<Rightarrow> string \<Rightarrow> string \<Rightarrow> 'rt user_manager
     \<Rightarrow> ('rt user_manager, gerror option) outcome" where
  "copyUser cc x gens cfgDefault srcTag dstTag um =
     (if srcTag = dstTag then Done um None
      else case GetInbound (um_proxy um) srcTag of
        None \<Rightarrow> Done um (Some (''inbound with src tag('' @ srcTag @ '') is not exist''))
      | Some src \<Rightarrow>
          (case GetInbound (um_proxy um) dstTag of
             None \<Rightarrow> Done um (Some (''inbound with dst tag('' @ dstTag @ '') is not exist''))
           | Some dst \<Rightarrow>
               (case Inbound_GetUsers cc src of
                  None \<Rightarrow> Panicked um
                | Some users \<Rightarrow>
                    bind_o (copy_loop cc x gens cfgDefault dstTag 0 users um ([], [])) (\<lambda>um (succUser, failedUser).
                      Done um (if failedUser \<noteq> []
                        then Some (''succ list: ['' @ str_join ''|'' succUser @ ''], failed list: ['' @ str_join ''|'' failedUser @ '']'')
                        else None)))))"

definition Node_CopyUser ::
    "codecs \<Rightarrow> ('rt, 'h) xray \<Rightarrow> (nat \<Rightarrow> nat \<Rightarrow> string) \<Rightarrow> string \<Rightarrow> string \<Rightarrow> string \<Rightarrow> 'rt user_manager
     \<Rightarrow> ('rt user_manager, op_rsp) outcome" where
  "Node_CopyUser cc x gens cfgDefault srcTag dstTag um =
     bind_o (copyUser cc x gens cfgDefault srcTag dstTag um) (\<lambda>um e.
       Done um (case e of None \<Rightarrow> ok_rsp | Some err \<Rightarrow> err_rsp 801 err))"

definition Node_CopyInbound ::
    "codecs \<Rightarrow> ('rt, 'h) xray \<Rightarrow> (nat \<Rightarrow> nat \<Rightarrow> string) \<Rightarrow> string \<Rightarrow> string \<Rightarrow> string \<Rightarrow> string \<Rightarrow> int \<Rightarrow> bool \<Rightarrow> 'rt user_manager
     \<Rightarrow> ('rt user_manager, op_rsp) outcome" where
  "Node_CopyInbound cc x gens cfgDefault srcTag newTag newProtocol newPort isCopyUser um =
     bind_o (on_proxy (CopyInbound cc x srcTag newTag newProtocol newPort (um_proxy um)) um) (\<lambda>um r. case r of
         Some err \<Rightarrow> Done um (err_rsp 800 (''copy inbound err > '' @ err))
       | None \<Rightarrow>
           if isCopyUser
           then bind_o (copyUser cc x gens cfgDefault srcTag newTag um) (\<lambda>um e.
             Done um (case e of None \<Rightarrow> ok_rsp | Some err \<Rightarrow> err_rsp 801 err))
           else Done um ok_rsp)"

text \<open>\<open>encode\<close> is the JSON text of the inbound, or the error of encoding it.\<close>

definition Node_GetInbound :: "(inbound \<Rightarrow> string result) \<Rightarrow> string \<Rightarrow> 'rt user_manager \<Rightarrow> op_rsp \<times> string" where
  "Node_GetInbound encode tag um =
     (case GetInbound (um_proxy um) tag of
        None \<Rightarrow> (err_rsp 901 (''inbound with tag('' @ tag @ '') is not exist''), '''')
      | Some i \<Rightarrow> (case encode i of Inl err \<Rightarrow> (err_rsp 902 err, '''') | Inr data \<Rightarrow> (ok_rsp, data)))"

definition Node_GetTag :: "'rt user_manager \<Rightarrow> string list" where
  "Node_GetTag um = PM_GetTags (um_proxy um)"

subsection \<open>Adaptive ports\<close>

fun collect_errors :: "('a \<Rightarrow> 's \<Rightarrow> 's \<times> gerror option) \<Rightarrow> 'a list \<Rightarrow> 's \<Rightarrow> gerror list \<Rightarrow> 's \<times> gerror list" where
  "collect_errors f [] s errs = (s, errs)"
| "collect_errors f (a # as) s errs =
     (case f a s of (s', e) \<Rightarrow> collect_errors f as s' (case e of None \<Rightarrow> errs | Some err \<Rightarrow> errs @ [err]))"

definition errs_rsp :: "int \<Rightarrow> gerror list \<Rightarrow> op_rsp" where
  "errs_rsp code errs = (if errs \<noteq> [] then err_rsp code (str_join newline errs) else ok_rsp)"

definition prefixed :: "string \<Rightarrow> 's \<times> gerror option \<Rightarrow> 's \<times> gerror option" where
  "prefixed p r = (case r of (s, e) \<Rightarrow> (s, map_option ((@) p) e))"

text \<open>The result is the manager, the response and the configuration section that is written.\<close>

definition AddAdaptiveConfig ::
    "string list \<Rightarrow> string list \<Rightarrow> string list \<Rightarrow> 'rt proxy_manager \<Rightarrow> 'rt proxy_manager \<times> op_rsp \<times> raw_adaptive" where
  "AddAdaptiveConfig ord tags ports pm =
     (case collect_errors (\<lambda>t pm. prefixed ''add tag err > '' (AddAdaptiveTag t pm)) tags pm [] of (pm1, errs1) \<Rightarrow>
        (case collect_errors (\<lambda>p pm. prefixed ''add tag err > '' (AddAdaptivePort (PString p) pm)) ports pm1 errs1 of (pm2, errs2) \<Rightarrow>
           (pm2, errs_rsp 1010 errs2, Adaptive_Build ord (pm_adaptive pm2))))"

definition delete_port :: "string \<Rightarrow> 'rt proxy_manager \<Rightarrow> 'rt proxy_manager \<times> gerror option" where
  "delete_port port pm =
     (case parse_int 64 port of
        Inl e \<Rightarrow> (pm, Some (''invalid port: '' @ port))
      | Inr p \<Rightarrow> (DeleteAdaptivePort p pm, None))"

definition DeleteAdaptiveConfig ::
    "string list \<Rightarrow> string list \<Rightarrow> string list \<Rightarrow> 'rt proxy_manager \<Rightarrow> 'rt proxy_manager \<times> op_rsp \<times> raw_adaptive" where
  "DeleteAdaptiveConfig ord tags ports pm =
     (case collect_errors delete_port ports (fold DeleteAdaptiveTag tags pm) [] of (pm2, errs) \<Rightarrow>
        (pm2, errs_rsp 1011 errs, Adaptive_Build ord (pm_adaptive pm2)))"

fun adaptive_loop ::
    "('rt, 'h) xray \<Rightarrow> (nat \<Rightarrow> int list \<times> nat) \<Rightarrow> nat \<Rightarrow> string list \<Rightarrow> 'rt proxy_manager \<Rightarrow> gerror list
     \<Rightarrow> ('rt proxy_manager, gerror list) outcome" where
  "adaptive_loop x picks i [] pm errs = Done pm errs"
| "adaptive_loop x picks i (tag # tags) pm errs =
     bind_o (AdaptiveOneInbound x (picks i) tag pm) (\<lambda>pm (old, new, e).
       adaptive_loop x picks (Suc i) tags pm
         (case e of None \<Rightarrow> errs | Some err \<Rightarrow> errs @ [''adaptive inbound with tag('' @ tag @ '') err > '' @ err]))"

definition Node_Adaptive ::
    "('rt, 'h) xray \<Rightarrow> (nat \<Rightarrow> int list \<times> nat) \<Rightarrow> string list \<Rightarrow> 'rt proxy_manager \<Rightarrow> ('rt proxy_manager, op_rsp) outcome" where
  "Node_Adaptive x picks tags pm =
     bind_o (adaptive_loop x picks 0 tags pm []) (\<lambda>pm errs. Done pm (errs_rsp 1012 errs))"

end
