(* ===== verification/UserProps.thy ===== *)
theory UserProps
  imports UserManager
begin

text \<open>
  What the user manager guarantees: users survive a restart, expired users are cleared, deleted
  users are expired, and what an unknown user does to the lock.
\<close>

subsection \<open>The stored form of a user\<close>

definition clean_user :: "user \<Rightarrow> bool" where
  "clean_user u \<longleftrightarrow> CHR ''|'' \<notin> set (us_Passwd u) \<and> in_int64 (us_ExpireTime u)"

lemma parse_clean: "clean_user u \<Longrightarrow> parse_user_entry (user_entry u) = (us_Passwd u, us_ExpireTime u)"
proof (cases "CHR ''|'' \<in> set (us_Passwd u)")
  case False
  assume "clean_user u"
  with False have "split_on (CHR ''|'') (user_entry u) = [us_Passwd u, itoa (us_ExpireTime u)]"
    by (simp add: user_entry_def split_on_append_sep split_on_no_sep itoa_no_bar)
  with \<open>clean_user u\<close> show ?thesis by (simp add: parse_user_entry_def Let_def parse_int_itoa clean_user_def)
qed (simp add: clean_user_def)

text \<open>
  Reading back a stored user. The configuration keeps a user as password, bar and expiry time.
  Reading this entry gives both back when the password holds no bar; with a bar in it the whole
  entry becomes the password and the expiry time becomes zero, so that the user never expires.
\<close>

theorem user_entry_roundtrip:
  assumes "in_int64 (us_ExpireTime u)"
  shows "parse_user_entry (user_entry u) =
    (if CHR ''|'' \<notin> set (us_Passwd u) then (us_Passwd u, us_ExpireTime u) else (user_entry u, 0))"
proof (cases "CHR ''|'' \<in> set (us_Passwd u)")
  case False
  with assms show ?thesis by (simp add: parse_clean clean_user_def)
next
  case True
  then have "0 < count_list (us_Passwd u) (CHR ''|'')" using count_list_0_iff by (metis gr0I)
  then have "length (split_on (CHR ''|'') (user_entry u)) \<noteq> 2"
    by (simp add: length_split_on user_entry_def)
  with True show ?thesis by (simp add: parse_user_entry_def Let_def)
qed

theorem user_entry_roundtrip_witness:
  "parse_user_entry ''a|b|77'' = (''a|b|77'', 0) \<and> parse_user_entry ''ab|77'' = (''ab'', 77)"
proof -
  let ?u = "\<lambda>p. \<lparr>us_Name = ''n'', us_Passwd = p, us_ExpireTime = 77, us_Tags = [], us_Downlink = 0, us_Uplink = 0\<rparr>"
  have "user_entry (?u ''a|b'') = ''a|b|77''" "user_entry (?u ''ab'') = ''ab|77''" by code_simp+
  then show ?thesis
    using user_entry_roundtrip [of "?u ''a|b''"] user_entry_roundtrip [of "?u ''ab''"]
    by (simp add: in_int64_def)
qed

text \<open>Users stand under their names and can be stored; the configuration has them as they are.\<close>

definition clean_users :: "'rt user_manager \<Rightarrow> bool" where
  "clean_users um \<longleftrightarrow> (\<forall>k u. um_users um k = Some u \<longrightarrow> us_Name u = k \<and> k \<noteq> '''' \<and> clean_user u)"

definition logins :: "'rt user_manager \<Rightarrow> string \<rightharpoonup> string \<times> int" where
  "logins um = (\<lambda>k. map_option (\<lambda>u. (us_Passwd u, us_ExpireTime u)) (um_users um k))"

definition um_inv :: "'rt user_manager \<Rightarrow> bool" where
  "um_inv um \<longleftrightarrow> clean_users um \<and> (\<lambda>k. map_option parse_user_entry (um_config um k)) = logins um"

lemma um_inv_Flush:
  assumes "clean_users um" "FlushUser um = Done um' r"
  shows "um_inv um' \<and> um_users um' = um_users um \<and> um_proxy um' = um_proxy um \<and> um_readers um' = um_readers um"
proof -
  have um': "um' = um\<lparr>um_config := (\<lambda>k. map_option user_entry (um_users um k))\<rparr>"
    using assms(2) by (auto simp: FlushUser_def um_RLock_def split: if_splits)
  have "map_option parse_user_entry (map_option user_entry (um_users um k)) =
      map_option (\<lambda>u. (us_Passwd u, us_ExpireTime u)) (um_users um k)" for k
    using assms(1) by (cases "um_users um k") (auto simp: clean_users_def parse_clean)
  with assms(1) um' show ?thesis by (auto simp: um_inv_def logins_def clean_users_def)
qed

lemma um_inv_cong:
  "logins um' = logins um \<Longrightarrow> um_config um' = um_config um \<Longrightarrow> clean_users um' \<Longrightarrow> um_inv um \<Longrightarrow> um_inv um'"
  by (simp add: um_inv_def)

lemma on_proxy_Done: "on_proxy m um = Done um' a \<longleftrightarrow> (\<exists>pm. m = Done pm a \<and> um' = um\<lparr>um_proxy := pm\<rparr>)"
  by (cases m) auto

lemma um_Lock_Done: "um_Lock um = Done um' r \<longleftrightarrow> um_readers um = 0 \<and> um' = um"
  by (auto simp: um_Lock_def)

lemma um_RLock_Done: "um_RLock um = Done um' r \<longleftrightarrow> \<not> um_writer_waits um \<and> um' = um"
  by (auto simp: um_RLock_def)

lemmas um_done = on_proxy_Done um_Lock_Done um_RLock_Done bind_o_Done_iff

lemma proxyUserOp_user:
  assumes "proxyUserOp cc x gen d u opType pm = Done pm' (u', ts, e)"
  shows "us_Name u' = us_Name u \<and> us_Passwd u' = us_Passwd u \<and> us_ExpireTime u' = us_ExpireTime u \<and>
    (us_Tags u \<noteq> [] \<longrightarrow> u' = u)"
  using assms by (auto simp: proxyUserOp_def Let_def bind_o_Done_iff)

lemma checkUserTag_user:
  "us_Name (checkUserTag u um) = us_Name u \<and> us_Passwd (checkUserTag u um) = us_Passwd u \<and>
   us_ExpireTime (checkUserTag u um) = us_ExpireTime u"
  by (simp add: checkUserTag_def)

lemma clean_users_proxy [simp]: "clean_users (um\<lparr>um_proxy := pm\<rparr>) = clean_users um"
    "um_inv (um\<lparr>um_proxy := pm\<rparr>) = um_inv um"
  by (simp_all add: clean_users_def um_inv_def logins_def)

lemma clean_users_put:
  "clean_users um \<Longrightarrow> clean_user u \<Longrightarrow> us_Name u = k \<Longrightarrow> k \<noteq> '''' \<Longrightarrow> clean_users (um\<lparr>um_users := (um_users um)(k \<mapsto> u)\<rparr>)"
  by (simp add: clean_users_def)

lemma clean_users_get: "clean_users um \<Longrightarrow> um_users um k = Some u \<Longrightarrow> us_Name u = k \<and> k \<noteq> '''' \<and> clean_user u"
  by (simp add: clean_users_def)

lemma clean_user_tags: "clean_user (u\<lparr>us_Tags := ts\<rparr>) = clean_user u"
    "clean_user u \<Longrightarrow> clean_user (u\<lparr>us_ExpireTime := 1\<rparr>)"
  by (simp_all add: clean_user_def in_int64_def)

lemma um_inv_Add:
  assumes "um_inv um" "clean_user u" "UM_Add cc x gen d u um = Done um' e"
  shows "um_inv um'"
proof (cases "us_Name u = '''' \<or> \<not> HaveUser u um \<and> us_Passwd u = ''''")
  case False
  then obtain pm u1 ts err where op: "proxyUserOp cc x gen d (checkUserTag u um) ''add'' (um_proxy um) = Done pm (u1, ts, err)"
    and rest: "(if ts = [] \<and> err \<noteq> None then Done (um\<lparr>um_proxy := pm\<rparr>) err
      else bind_o (um_Lock (um\<lparr>um_proxy := pm\<rparr>)) (\<lambda>um _.
        bind_o (FlushUser (store_added u1 ts um)) (\<lambda>um _. Done um err))) = Done um' e"
    using assms(3) unfolding UM_Add_def by (auto simp: um_done)
  have u1: "us_Name u1 = us_Name u" "us_Passwd u1 = us_Passwd u" "us_ExpireTime u1 = us_ExpireTime u"
    using proxyUserOp_user [OF op] checkUserTag_user [of u um] by auto
  then have "clean_user u1" using assms(2) by (simp add: clean_user_def)
  have cl: "clean_users um" using assms(1) by (simp add: um_inv_def)
  have "clean_users (store_added u1 ts (um\<lparr>um_proxy := pm\<rparr>))"
    unfolding store_added_def using cl \<open>clean_user u1\<close> u1(1) False
    by (intro clean_users_put) (auto simp: clean_user_tags dest: clean_users_get split: option.split)
  with rest assms(1) um_inv_Flush show ?thesis
    by (auto simp: um_done split: if_splits)
qed (use assms in \<open>auto simp: UM_Add_def split: if_splits\<close>)

lemma clean_users_drop_tags: "clean_users um \<Longrightarrow> clean_users (drop_tags name ts um)"
  by (auto simp: drop_tags_def Let_def clean_user_tags dest: clean_users_get
      intro!: clean_users_put split: option.split)

lemma um_inv_write_back:
  assumes "um_inv um" "aliased \<longrightarrow> um_users um (us_Name u) = Some u"
    and "us_Name u2 = us_Name u \<and> us_Passwd u2 = us_Passwd u \<and> us_ExpireTime u2 = us_ExpireTime u"
  shows "um_inv (write_back aliased u2 um)"
proof (cases aliased)
  case True
  with assms have u: "um_users um (us_Name u2) = Some u" by simp
  have "clean_users um" using assms(1) by (simp add: um_inv_def)
  with clean_users_get [OF this u] assms(3) have "clean_users (um\<lparr>um_users := (um_users um)(us_Name u2 \<mapsto> u2)\<rparr>)"
    by (intro clean_users_put) (auto simp: clean_user_def)
  moreover have "logins (um\<lparr>um_users := (um_users um)(us_Name u2 \<mapsto> u2)\<rparr>) = logins um"
    using u assms(3) by (auto simp: logins_def fun_eq_iff)
  ultimately show ?thesis using True assms(1) um_inv_cong by (fastforce simp: write_back_def)
qed (use assms in \<open>simp add: write_back_def\<close>)

lemma um_inv_Delete:
  assumes "um_inv um" "aliased \<longrightarrow> um_users um (us_Name u) = Some u" "UM_Delete cc x gen d aliased u um = Done um' e"
  shows "um_inv um'"
proof (cases "um_users um (us_Name u)")
  case None
  have "um_inv (um\<lparr>um_readers := n\<rparr>) = um_inv um" for n
    by (simp add: um_inv_def clean_users_def logins_def)
  with None assms(1,3) show ?thesis
    by (auto simp: UM_Delete_def um_done split: if_splits)
next
  case (Some l)
  define u1 where "u1 = (if us_Tags u = [] then u\<lparr>us_Tags := us_Tags l\<rparr> else u)"
  show ?thesis
  proof (cases "us_Name u = ''''")
    case False
    with Some assms(3) obtain pm u2 ts err where
      op: "proxyUserOp cc x gen d u1 ''delete'' (um_proxy um) = Done pm (u2, ts, err)"
      and rest: "(let um1 = write_back aliased u2 (um\<lparr>um_proxy := pm\<rparr>) in
        if ts = [] \<and> err \<noteq> None then Done um1 err
        else bind_o (um_Lock um1) (\<lambda>um _. bind_o (FlushUser (drop_tags (us_Name u2) ts um)) (\<lambda>um _. Done um err)))
        = Done um' e"
      unfolding UM_Delete_def u1_def [symmetric] by (auto simp: um_done u1_def [symmetric])
    have "us_Name u2 = us_Name u \<and> us_Passwd u2 = us_Passwd u \<and> us_ExpireTime u2 = us_ExpireTime u"
      using proxyUserOp_user [OF op] by (auto simp: u1_def)
    then have inv1: "um_inv (write_back aliased u2 (um\<lparr>um_proxy := pm\<rparr>))"
      using assms(1,2) by (intro um_inv_write_back [of _ aliased u]) auto
    then have "clean_users (drop_tags (us_Name u2) ts (write_back aliased u2 (um\<lparr>um_proxy := pm\<rparr>)))"
      by (intro clean_users_drop_tags) (simp add: um_inv_def)
    with rest inv1 um_inv_Flush show ?thesis by (auto simp: um_done Let_def split: if_splits)
  qed (use assms in \<open>auto simp: UM_Delete_def\<close>)
qed

lemma um_inv_Update:
  assumes "um_inv um" "clean_user u" "UM_Update u um = Done um' e"
  shows "um_inv um'"
proof -
  have cl: "clean_users um" using assms(1) by (simp add: um_inv_def)
  have "clean_users (um\<lparr>um_users := (um_users um)(us_Name u \<mapsto> u0\<lparr>us_ExpireTime := us_ExpireTime u, us_Passwd := us_Passwd u\<rparr>)\<rparr>)"
    if "um_users um (us_Name u) = Some u0" for u0
    using clean_users_get [OF cl that] assms(2) by (intro clean_users_put [OF cl]) (auto simp: clean_user_def)
  with assms(1,3) cl um_inv_Flush show ?thesis
    by (auto simp: UM_Update_def um_done split: if_splits option.splits)
qed

lemma um_inv_Reset: "um_inv um \<Longrightarrow> UM_Reset cc x gen d u um = Done um' e \<Longrightarrow> um_inv um'"
  by (auto simp: UM_Reset_def um_done)

lemma clear_one_Done:
  assumes "clear_one cc x gen d u um r = Done um' r'"
  shows "\<exists>pm. um' = um\<lparr>um_proxy := pm, um_users := (um_users um)(us_Name u := None)\<rparr>"
proof -
  have "um' = um\<lparr>um_proxy := um_proxy um', um_users := (um_users um)(us_Name u := None)\<rparr>"
    using assms by (auto simp: clear_one_def um_done split: if_splits)
  then show ?thesis by blast
qed

lemma clear_loop_Done:
  "loop_o (clear_one cc x gen d) us um r = Done um' r' \<Longrightarrow>
   um_users um' = (\<lambda>k. if k \<in> us_Name ` set us then None else um_users um k) \<and> um_readers um' = um_readers um
   \<and> um_writer_waits um' = um_writer_waits um \<and> um_config um' = um_config um \<and> um_defaultTags um' = um_defaultTags um"
proof (induction us arbitrary: um r)
  case (Cons u us)
  then obtain um1 r1 where one: "clear_one cc x gen d u um r = Done um1 r1"
    and rest: "loop_o (clear_one cc x gen d) us um1 r1 = Done um' r'"
    by (auto simp: bind_o_Done_iff)
  from clear_one_Done [OF one] Cons.IH [OF rest] show ?case by (auto simp: fun_eq_iff)
qed simp

lemma um_inv_Clear:
  assumes "um_inv um" "ClearInvalideUser cc x gen d now ord um = Done um' r"
  shows "um_inv um'"
proof -
  obtain um1 where loop: "loop_o (clear_one cc x gen d) (filter (expired now) (vals_in_order (um_users um) ord)) um () = Done um1 ()"
    and flush: "FlushUser um1 = Done um' r"
    using assms(2) by (auto simp: ClearInvalideUser_def um_done Let_def)
  have "clean_users um1"
    using assms(1) clear_loop_Done [OF loop] by (auto simp: um_inv_def clean_users_def)
  from um_inv_Flush [OF this flush] show ?thesis by simp
qed

subsection \<open>Steps of the user manager\<close>

text \<open>The completed operations, on requests that can be stored.\<close>

inductive um_step :: "codecs \<Rightarrow> ('rt, 'h) xray \<Rightarrow> 'rt user_manager \<Rightarrow> 'rt user_manager \<Rightarrow> bool" for cc x where
  add: "UM_Add cc x gen d u um = Done um' e \<Longrightarrow> clean_user u \<Longrightarrow> um_step cc x um um'"
| delete: "UM_Delete cc x gen d aliased u um = Done um' e \<Longrightarrow> (aliased \<longrightarrow> um_users um (us_Name u) = Some u)
    \<Longrightarrow> um_step cc x um um'"
| update: "UM_Update u um = Done um' e \<Longrightarrow> clean_user u \<Longrightarrow> um_step cc x um um'"
| reset: "UM_Reset cc x gen d u um = Done um' e \<Longrightarrow> um_step cc x um um'"
| clear: "ClearInvalideUser cc x gen d now ord um = Done um' () \<Longrightarrow> um_step cc x um um'"

inductive um_run :: "codecs \<Rightarrow> ('rt, 'h) xray \<Rightarrow> 'rt user_manager \<Rightarrow> 'rt user_manager \<Rightarrow> bool" for cc x where
  um_start: "um_run cc x um um"
| um_next: "um_run cc x um um' \<Longrightarrow> um_step cc x um' um'' \<Longrightarrow> um_run cc x um um''"

lemma um_step_inv: "um_step cc x um um' \<Longrightarrow> um_inv um \<Longrightarrow> um_inv um'"
  by (induction rule: um_step.induct)
    (auto intro: um_inv_Add um_inv_Delete um_inv_Update um_inv_Reset um_inv_Clear)

lemma um_run_inv: "um_run cc x um um' \<Longrightarrow> um_inv um \<Longrightarrow> um_inv um'"
  by (induction rule: um_run.induct) (auto intro: um_step_inv)

lemma LoadUser_logins:
  "LoadUser cc m um0 = Some um \<Longrightarrow> logins um = (\<lambda>k. map_option parse_user_entry (m k)) \<and> um_config um = m"
  by (auto simp: LoadUser_def logins_def fun_eq_iff split: option.splits prod.split)

text \<open>
  What a later process reads of a section that was set and written: viper's keys do not
  distinguish case, and the file is read with all of them in lower case. Of names that differ in case only
  one is left, with the value of one of them.
\<close>

definition reread_section :: "(string \<rightharpoonup> string) \<Rightarrow> (string \<rightharpoonup> string) \<Rightarrow> bool" where
  "reread_section m m' \<longleftrightarrow> dom m' = to_lower ` dom m \<and> (\<forall>k v. m' k = Some v \<longrightarrow> (\<exists>k0. to_lower k0 = k \<and> m k0 = Some v))"

lemma reread_distinct:
  assumes "reread_section m m'" and "inj_on to_lower (dom m)" and "m k = Some v"
  shows "m' (to_lower k) = Some v"
proof -
  have "to_lower k \<in> dom m'" using assms(1,3) by (auto simp: reread_section_def)
  then obtain v' where v': "m' (to_lower k) = Some v'" by blast
  then obtain k0 where "to_lower k0 = to_lower k" "m k0 = Some v'" using assms(1) by (fastforce simp: reread_section_def)
  moreover from this have "k0 = k" using inj_onD [OF assms(2), of k0 k] assms(3) by (simp add: domI)
  ultimately show ?thesis using assms(3) v' by simp
qed

text \<open>
  C8: users survive a restart, up to the case of their names. Whatever additions, deletions, updates,
  resets and clean-ups of users with passwords without a bar have completed since the users were loaded, the
  section of the configuration holds all of them. When the next process reads this section, with
  the names in lower case, every user it loads is one of before with the same password and expiry
  time, under its name in lower case, and each user of before has such an entry. If no two
  names differ in case only, all users keep their password and expiry time; if the names are in
  lower case, the users are the same.
\<close>

theorem users_survive_restart:
  assumes "LoadUser cc m um0 = Some um" and "clean_users um" and "um_run cc x um um'"
    and "reread_section (um_config um') m2" and "LoadUser cc m2 fresh = Some um2"
  shows "(\<forall>k l. logins um2 k = Some l \<longrightarrow> (\<exists>n. to_lower n = k \<and> logins um' n = Some l)) \<and>
    (\<forall>n. logins um' n \<noteq> None \<longrightarrow> logins um2 (to_lower n) \<noteq> None) \<and>
    (inj_on to_lower (dom (logins um')) \<longrightarrow> (\<forall>n l. logins um' n = Some l \<longrightarrow> logins um2 (to_lower n) = Some l)) \<and>
    ((\<forall>n. logins um' n \<noteq> None \<longrightarrow> to_lower n = n) \<longrightarrow> logins um2 = logins um')"
proof -
  have "um_inv um" using LoadUser_logins [OF assms(1)] assms(2) by (simp add: um_inv_def)
  then have "um_inv um'" using um_run_inv [OF assms(3)] by blast
  then have old: "logins um' n = map_option parse_user_entry (um_config um' n)" for n by (auto simp: um_inv_def fun_eq_iff)
  have new: "logins um2 k = map_option parse_user_entry (m2 k)" for k using LoadUser_logins [OF assms(5)] by simp
  have dom: "dom (logins um') = dom (um_config um')" by (auto simp: old)
  have from_old: "\<forall>k l. logins um2 k = Some l \<longrightarrow> (\<exists>n. to_lower n = k \<and> logins um' n = Some l)"
    using assms(4) by (fastforce simp: new old reread_section_def)
  have "m2 (to_lower n) \<noteq> None" if "um_config um' n = Some v" for n v
  proof -
    have "to_lower n \<in> dom m2" using assms(4) that by (auto simp: reread_section_def)
    then show ?thesis by blast
  qed
  then have kept: "\<forall>n. logins um' n \<noteq> None \<longrightarrow> logins um2 (to_lower n) \<noteq> None" by (auto simp: new old)
  have same: "inj_on to_lower (dom (logins um')) \<longrightarrow> (\<forall>n l. logins um' n = Some l \<longrightarrow> logins um2 (to_lower n) = Some l)"
    using reread_distinct [OF assms(4)] by (auto simp: new old dom)
  have "logins um2 = logins um'" if low: "\<forall>n. logins um' n \<noteq> None \<longrightarrow> to_lower n = n"
  proof
    fix k
    have "inj_on to_lower (dom (logins um'))" using low by (auto simp: inj_on_def)
    with same low have fwd: "logins um2 k = Some l" if "logins um' k = Some l" for l using that by (metis option.distinct(1))
    moreover have "logins um' k = Some l" if "logins um2 k = Some l" for l using that from_old low by (metis option.distinct(1))
    ultimately show "logins um2 k = logins um' k" by (cases "logins um2 k"; cases "logins um' k") auto
  qed
  with from_old kept same show ?thesis by blast
qed

definition demo_um :: "string set user_manager" where
  "demo_um = \<lparr>um_users = Map.empty, um_readers = 0, um_writer_waits = False, um_proxy = demo_pm,
     um_config = [''bob'' \<mapsto> ''pw|50''], um_defaultTags = []\<rparr>"

definition demo_bob :: user where
  "demo_bob = \<lparr>us_Name = ''bob'', us_Passwd = ''pw'', us_ExpireTime = 50, us_Tags = [], us_Downlink = 0, us_Uplink = 0\<rparr>"

definition demo_loaded :: "string set user_manager" where
  "demo_loaded = demo_um\<lparr>um_users := [''bob'' \<mapsto> demo_bob]\<rparr>"

lemma demo_LoadUser: "LoadUser demo_codecs [''bob'' \<mapsto> ''pw|50''] demo_um = Some demo_loaded"
proof -
  have tags: "GetUsersTag demo_codecs demo_pm = Some Map.empty"
    using demo_users by (simp add: GetUsersTag_def demo_pm_def demo_LoadConfig Let_def loaded_def
        CompleteInboundConfigInformation_def demo_inbound_cfg_def demo_stream_def NewStreamSetting_def apiTag_def
        new_pm_def NewInboundManager_def InboundManager_Add_def)
  have "user_entry demo_bob = ''pw|50''" by code_simp
  then have "parse_user_entry ''pw|50'' = (''pw'', 50)"
    using parse_clean [of demo_bob] by (simp add: demo_bob_def clean_user_def in_int64_def)
  then show ?thesis
    using tags by (auto simp: LoadUser_def demo_um_def demo_loaded_def demo_bob_def fun_eq_iff)
qed

lemma clean_demo: "clean_users demo_loaded"
  by (simp add: clean_users_def demo_loaded_def demo_bob_def clean_user_def in_int64_def)

definition demo_updated :: "string set user_manager" where
  "demo_updated = out_state (UM_Update (demo_bob\<lparr>us_Passwd := ''new''\<rparr>) demo_loaded)"

lemma demo_update_done: "UM_Update (demo_bob\<lparr>us_Passwd := ''new''\<rparr>) demo_loaded = Done demo_updated None"
    "um_users demo_updated = [''bob'' \<mapsto> demo_bob\<lparr>us_Passwd := ''new''\<rparr>]"
    "um_proxy demo_updated = demo_pm"
  by (simp_all add: demo_updated_def UM_Update_def um_Lock_def FlushUser_def um_RLock_def demo_loaded_def demo_um_def demo_bob_def)

text \<open>A user whose name is not in lower case is added, and the next process reads the name in lower case.\<close>

definition demo_Ann :: user where
  "demo_Ann = \<lparr>us_Name = ''Ann'', us_Passwd = ''pw'', us_ExpireTime = 70, us_Tags = [''''], us_Downlink = 0, us_Uplink = 0\<rparr>"

definition demo_added :: "string set user_manager" where
  "demo_added = out_state (UM_Add demo_codecs demo_xray (\<lambda>_. ''id'') '''' demo_Ann demo_updated)"

lemma demo_add_done: "UM_Add demo_codecs demo_xray (\<lambda>_. ''id'') '''' demo_Ann demo_updated = Done demo_added None"
    "um_users demo_added = [''bob'' \<mapsto> demo_bob\<lparr>us_Passwd := ''new''\<rparr>, ''Ann'' \<mapsto> demo_Ann\<lparr>us_Tags := []\<rparr>]"
    "um_config demo_added = (\<lambda>k. map_option user_entry (um_users demo_added k))"
proof -
  have "to_lower ''add'' = ''add''" by code_simp
  then have "proxyUserOp demo_codecs demo_xray (\<lambda>_. ''id'') '''' demo_Ann ''add'' demo_pm = Done demo_pm (demo_Ann, [], None)"
    by (simp add: proxyUserOp_def demo_Ann_def NewUser_def proxy_op_def AddUser_def demo_get CompleteUserInformation_def tag_error_def Let_def)
  moreover have "checkUserTag demo_Ann demo_updated = demo_Ann" by (simp add: checkUserTag_def demo_Ann_def)
  moreover have "um_readers demo_updated = 0" "\<not> um_writer_waits demo_updated"
    by (simp_all add: demo_updated_def UM_Update_def um_Lock_def FlushUser_def um_RLock_def demo_loaded_def demo_um_def demo_bob_def)
  ultimately have add: "UM_Add demo_codecs demo_xray (\<lambda>_. ''id'') '''' demo_Ann demo_updated =
      Done ((store_added demo_Ann [] demo_updated)\<lparr>um_config := (\<lambda>k. map_option user_entry (um_users (store_added demo_Ann [] demo_updated) k))\<rparr>) None"
    using demo_update_done(3)
    by (simp add: UM_Add_def um_Lock_def FlushUser_def um_RLock_def) (simp add: demo_Ann_def store_added_def)
  then show "UM_Add demo_codecs demo_xray (\<lambda>_. ''id'') '''' demo_Ann demo_updated = Done demo_added None" by (simp add: demo_added_def)
  have eq: "demo_added = (store_added demo_Ann [] demo_updated)\<lparr>um_config := (\<lambda>k. map_option user_entry (um_users (store_added demo_Ann [] demo_updated) k))\<rparr>"
    using add by (simp add: demo_added_def)
  have users: "um_users (store_added demo_Ann [] demo_updated) = [''bob'' \<mapsto> demo_bob\<lparr>us_Passwd := ''new''\<rparr>, ''Ann'' \<mapsto> demo_Ann\<lparr>us_Tags := []\<rparr>]"
    by (simp add: store_added_def demo_update_done(2)) (simp add: demo_Ann_def)
  show "um_users demo_added = [''bob'' \<mapsto> demo_bob\<lparr>us_Passwd := ''new''\<rparr>, ''Ann'' \<mapsto> demo_Ann\<lparr>us_Tags := []\<rparr>]"
    "um_config demo_added = (\<lambda>k. map_option user_entry (um_users demo_added k))"
    unfolding eq by (simp_all add: users)
qed

theorem users_survive_restart_witness:
  "\<exists>um2. LoadUser demo_codecs [''bob'' \<mapsto> ''new|50'', ''ann'' \<mapsto> ''pw|70''] demo_um = Some um2 \<and>
     logins um2 ''bob'' = Some (''new'', 50) \<and> logins um2 ''ann'' = Some (''pw'', 70)"
proof -
  let ?m = "[''bob'' \<mapsto> ''new|50'', ''ann'' \<mapsto> ''pw|70'']"
  have "um_run demo_codecs demo_xray demo_loaded demo_updated"
    by (rule um_run.um_next [OF um_run.um_start um_step.update [OF demo_update_done(1)]])
      (simp add: clean_user_def demo_bob_def in_int64_def)
  then have run: "um_run demo_codecs demo_xray demo_loaded demo_added"
    by (rule um_run.um_next [OF _ um_step.add [OF demo_add_done(1)]]) (simp add: clean_user_def demo_Ann_def in_int64_def)
  have low: "to_lower ''bob'' = ''bob''" "to_lower ''Ann'' = ''ann''" by code_simp+
  have entries: "user_entry (demo_bob\<lparr>us_Passwd := ''new''\<rparr>) = ''new|50''" "user_entry (demo_Ann\<lparr>us_Tags := []\<rparr>) = ''pw|70''"
    by code_simp+
  have "reread_section (um_config demo_added) ?m"
  proof -
    have cfg: "um_config demo_added = [''bob'' \<mapsto> ''new|50'', ''Ann'' \<mapsto> ''pw|70'']"
      by (simp add: demo_add_done fun_eq_iff entries)
    have one: "\<exists>k0. to_lower k0 = k \<and> um_config demo_added k0 = Some v" if "?m k = Some v" for k v
    proof (cases "k = ''ann''")
      case True
      with that have "v = ''pw|70''" by simp
      with True show ?thesis by (intro exI [of _ "''Ann''"]) (simp add: low cfg)
    next
      case False
      with that have "k = ''bob''" "v = ''new|50''" by (simp_all split: if_splits)
      then show ?thesis by (intro exI [of _ "''bob''"]) (simp add: low cfg)
    qed
    have "dom ?m = to_lower ` dom (um_config demo_added)" by (simp add: cfg low insert_commute)
    with one show ?thesis unfolding reread_section_def by blast
  qed
  moreover obtain um2 where loaded: "LoadUser demo_codecs ?m demo_um = Some um2"
    using demo_LoadUser by (auto simp: LoadUser_def split: option.splits)
  moreover have logins: "logins demo_added ''bob'' = Some (''new'', 50)" "logins demo_added ''Ann'' = Some (''pw'', 70)"
      "dom (logins demo_added) = {''bob'', ''Ann''}"
    by (auto simp: logins_def demo_add_done demo_bob_def demo_Ann_def dom_def)
  moreover from this(3) low have "inj_on to_lower (dom (logins demo_added))" by simp
  ultimately have "logins um2 (to_lower ''bob'') = Some (''new'', 50)" "logins um2 (to_lower ''Ann'') = Some (''pw'', 70)"
    using users_survive_restart [OF demo_LoadUser clean_demo run, of ?m demo_um um2] by blast+
  with loaded low show ?thesis by auto
qed

subsection \<open>Expiry\<close>

text \<open>
  C34: the clean-up removes exactly the expired users. When it completes, the remaining users are
  those whose expiry time is not positive or not yet over, with nothing changed, whatever tags they
  have: a user without any tag stays until it expires, although the comment on \<open>ClearInvalideUser\<close>
  says that users without a valid tag are invalid as well.
\<close>

theorem clear_removes_expired_users:
  assumes "clean_users um" and "ranges (um_users um) ord"
    and "ClearInvalideUser cc x gen d now ord um = Done um' ()"
  shows "um_users um' = map_filter_vals (\<lambda>u. us_ExpireTime u \<le> 0 \<or> now \<le> us_ExpireTime u) (um_users um)"
proof -
  obtain um1 where loop: "loop_o (clear_one cc x gen d) (filter (expired now) (vals_in_order (um_users um) ord)) um () = Done um1 ()"
    and flush: "FlushUser um1 = Done um' ()"
    using assms(3) by (auto simp: ClearInvalideUser_def um_done Let_def)
  have names: "us_Name ` set (filter (expired now) (vals_in_order (um_users um) ord)) = {k. \<exists>u. um_users um k = Some u \<and> expired now u}"
    using set_vals_in_order [OF assms(2)] assms(1) by (force simp: ran_def clean_users_def)
  have "um_users um' = um_users um1" using flush by (auto simp: FlushUser_def um_done)
  with clear_loop_Done [OF loop] names show ?thesis
    by (auto simp: fun_eq_iff map_filter_vals_def expired_def not_less split: option.split)
qed

lemma demo_clear_done: "\<exists>um'. ClearInvalideUser demo_codecs demo_xray gen d 60 [''bob''] demo_loaded = Done um' ()"
  by (simp add: ClearInvalideUser_def um_Lock_def um_RLock_def FlushUser_def clear_one_def expired_def demo_loaded_def
      demo_um_def demo_bob_def Let_def)

theorem clear_removes_expired_users_witness:
  "\<exists>um'. ClearInvalideUser demo_codecs demo_xray (\<lambda>_. ''id'') '''' 60 [''bob''] demo_loaded = Done um' () \<and>
     um_users um' ''bob'' = None"
proof -
  obtain um' where cleared: "ClearInvalideUser demo_codecs demo_xray (\<lambda>_. ''id'') '''' 60 [''bob''] demo_loaded = Done um' ()"
    using demo_clear_done by blast
  have "ranges (um_users demo_loaded) [''bob'']" by (simp add: ranges_def demo_loaded_def)
  from clear_removes_expired_users [OF clean_demo this cleared] cleared show ?thesis
    by (simp add: map_filter_vals_def demo_loaded_def demo_bob_def expired_def)
qed

lemma proxy_op_loop_tags:
  "proxy_op_loop cc x gen opType name tags pm (s, f) = Done pm' (s', f') \<Longrightarrow>
   set s \<subseteq> set s' \<and> set f \<subseteq> set f' \<and> set tags - {''''} \<subseteq> set s' \<union> set f' \<and> set s' \<subseteq> set s \<union> set tags"
proof (induction tags arbitrary: gen pm s f)
  case (Cons t ts)
  show ?case
  proof (cases "NewUser (gen 0) name t []")
    case (Inl e)
    with Cons.prems have "proxy_op_loop cc x (gen \<circ> Suc) opType name ts pm (s, f @ [t]) = Done pm' (s', f')" by simp
    from Cons.IH [OF this] show ?thesis by auto
  next
    case (Inr b)
    with Cons.prems have "\<exists>pm1 e. proxy_op cc x opType b pm = Done pm1 e \<and> proxy_op_loop cc x (gen \<circ> Suc) opType name ts pm1
        (if t = '''' then (s, f) else if e \<noteq> None then (s, f @ [t]) else (s @ [t], f)) = Done pm' (s', f')"
      by (simp only: proxy_op_loop.simps sum.case bind_o_Done_iff)
    then obtain pm1 and e :: "gerror option" where
      rest: "proxy_op_loop cc x (gen \<circ> Suc) opType name ts pm1
        (if t = '''' then (s, f) else if e \<noteq> None then (s, f @ [t]) else (s @ [t], f)) = Done pm' (s', f')" by blast
    consider "t = ''''" | "t \<noteq> ''''" "e \<noteq> None" | "t \<noteq> ''''" "e = None" by blast
    then show ?thesis
    proof cases
      case 1
      with rest have "proxy_op_loop cc x (gen \<circ> Suc) opType name ts pm1 (s, f) = Done pm' (s', f')" by simp
      from Cons.IH [OF this] 1 show ?thesis by auto
    next
      case 2
      with rest have "proxy_op_loop cc x (gen \<circ> Suc) opType name ts pm1 (s, f @ [t]) = Done pm' (s', f')" by simp
      from Cons.IH [OF this] show ?thesis by auto
    next
      case 3
      with rest have "proxy_op_loop cc x (gen \<circ> Suc) opType name ts pm1 (s @ [t], f) = Done pm' (s', f')" by simp
      from Cons.IH [OF this] show ?thesis by auto
    qed
  qed
qed simp

lemma proxyUserOp_tags:
  assumes "proxyUserOp cc x gen d u opType pm = Done pm' (u', ts, e)"
  shows "set ts \<subseteq> set (us_Tags u') \<and> (e = None \<longrightarrow> set (us_Tags u') - {''''} \<subseteq> set ts)"
proof -
  obtain pm1 f where "proxy_op_loop cc x gen opType (us_Name u') (us_Tags u') pm ([], []) = Done pm1 (ts, f)"
      "e = tag_error ts f"
    using assms by (auto simp: proxyUserOp_def Let_def bind_o_Done_iff split: if_splits)
  with proxy_op_loop_tags [OF this(1)] show ?thesis by (auto simp: tag_error_def split: if_splits)
qed

text \<open>
  A deleted user is expired. When a user is deleted without naming tags and the operation
  completes without an error, the user's entry has no tag left and counts as expired from then
  on, so that the next clean-up removes it; the other users are unchanged.
\<close>

theorem deleted_user_expires:
  assumes "um_users um (us_Name u) = Some l" and "us_Name u \<noteq> ''''" and "us_Tags u = []" and "'''' \<notin> set (us_Tags l)"
    and "UM_Delete cc x gen d False u um = Done um' None" and "1 < now"
  shows "\<exists>u'. um_users um' (us_Name u) = Some u' \<and> us_Tags u' = [] \<and> expired now u' \<and>
    (\<forall>k. k \<noteq> us_Name u \<longrightarrow> um_users um' k = um_users um k)"
proof -
  let ?u1 = "u\<lparr>us_Tags := us_Tags l\<rparr>"
  obtain pm u2 ts err um1 where
    op: "proxyUserOp cc x gen d ?u1 ''delete'' (um_proxy um) = Done pm (u2, ts, None)"
    and flush: "FlushUser (drop_tags (us_Name u2) ts (um\<lparr>um_proxy := pm\<rparr>)) = Done um' um1"
    using assms(1-3,5) by (auto simp: UM_Delete_def um_done Let_def write_back_def split: if_splits)
  have users: "um_users um' = um_users (drop_tags (us_Name u2) ts (um\<lparr>um_proxy := pm\<rparr>))"
    using flush by (auto simp: FlushUser_def um_done)
  have name: "us_Name u2 = us_Name u" and same: "us_Tags l \<noteq> [] \<Longrightarrow> u2 = ?u1"
    using proxyUserOp_user [OF op] by auto
  have "filter (\<lambda>t. t \<notin> set ts) (us_Tags l) = []"
  proof (cases "us_Tags l")
    case (Cons t more)
    with same have "us_Tags u2 = us_Tags l" by auto
    with proxyUserOp_tags [OF op] assms(4) show ?thesis by (auto simp: filter_empty_conv)
  qed simp
  with users name assms(1,6) show ?thesis by (auto simp: drop_tags_def Let_def expired_def)
qed

lemma demo_delete_done:
  "\<exists>um'. UM_Delete demo_codecs demo_xray (\<lambda>_. ''id'') '''' False (demo_bob\<lparr>us_Passwd := ''''\<rparr>) demo_loaded = Done um' None"
proof -
  have get: "GetInbound demo_pm '''' = None" by (simp add: demo_get)
  have low: "to_lower ''delete'' = ''delete''" by code_simp
  show ?thesis
    by (simp add: UM_Delete_def um_Lock_def um_RLock_def FlushUser_def proxyUserOp_def proxy_op_def NewUser_def low
        RemoveUser_def CompleteUserInformation_def get tag_error_def drop_tags_def write_back_def demo_loaded_def
        demo_um_def demo_bob_def Let_def)
qed

theorem deleted_user_expires_witness:
  "\<exists>um' u'. UM_Delete demo_codecs demo_xray (\<lambda>_. ''id'') '''' False (demo_bob\<lparr>us_Passwd := ''''\<rparr>) demo_loaded = Done um' None
     \<and> um_users um' ''bob'' = Some u' \<and> expired 2 u'"
proof -
  obtain um' where del: "UM_Delete demo_codecs demo_xray (\<lambda>_. ''id'') '''' False (demo_bob\<lparr>us_Passwd := ''''\<rparr>) demo_loaded = Done um' None"
    using demo_delete_done by blast
  have bob: "um_users demo_loaded (us_Name (demo_bob\<lparr>us_Passwd := ''''\<rparr>)) = Some demo_bob"
    by (simp add: demo_loaded_def demo_bob_def)
  from deleted_user_expires [OF bob _ _ _ del, of 2] del show ?thesis by (auto simp: demo_bob_def)
qed

subsection \<open>The lock\<close>

text \<open>
  Deleting an unknown user blocks the manager. \<open>Delete\<close> returns its error without releasing the
  read lock. From then on every update of a user and every clean-up waits for ever, and once one
  of them waits, reading the list of users and flushing wait for ever too.
\<close>

theorem delete_unknown_user_blocks_manager:
  assumes "us_Name u \<noteq> ''''" and "um_users um (us_Name u) = None" and "\<not> um_writer_waits um" and "us_Passwd v \<noteq> ''''"
  shows "\<exists>um1 um2 e. UM_Delete cc x gen d False u um = Done um1 (Some e) \<and>
    UM_Update v um1 = Blocked um2 \<and> ClearInvalideUser cc x gen d now ord um1 = Blocked um2 \<and>
    GetUserList um2 = Blocked um2 \<and> FlushUser um2 = Blocked um2"
  using assms
  by (simp add: UM_Delete_def UM_Update_def ClearInvalideUser_def GetUserList_def FlushUser_def um_Lock_def um_RLock_def Let_def)

theorem delete_unknown_user_blocks_manager_witness:
  "\<exists>um1 um2 e. UM_Delete demo_codecs demo_xray (\<lambda>_. ''id'') '''' False (demo_bob\<lparr>us_Name := ''eve''\<rparr>) demo_loaded = Done um1 (Some e)
     \<and> UM_Update demo_bob um1 = Blocked um2 \<and> GetUserList um2 = Blocked um2"
  using delete_unknown_user_blocks_manager [of "demo_bob\<lparr>us_Name := ''eve''\<rparr>" demo_loaded demo_bob demo_codecs demo_xray]
  by (force simp: demo_bob_def demo_loaded_def demo_um_def)

end
