(* ===== verification/LinkProps.thy ===== *)
theory LinkProps
  imports Subscription
begin

text \<open>
  Properties of the links: what the converters read back from a link that the node printed, which
  inbounds have a link, and how one node's subscription is read by another.
\<close>

subsection \<open>vmess links\<close>

lemma vmess_keys_lower:
  "to_lower ''v'' = ''v''" "to_lower ''ps'' = ''ps''" "to_lower ''add'' = ''add''" "to_lower ''port'' = ''port''"
  "to_lower ''id'' = ''id''" "to_lower ''aid'' = ''aid''" "to_lower ''scy'' = ''scy''" "to_lower ''net'' = ''net''"
  "to_lower ''type'' = ''type''" "to_lower ''host'' = ''host''" "to_lower ''path'' = ''path''" "to_lower ''tls'' = ''tls''"
  "to_lower ''sni'' = ''sni''"
  by code_simp+

lemma vmess_members_append:
  "vmess_members (xs @ ys) v = (case vmess_members xs v of None \<Rightarrow> None | Some v' \<Rightarrow> vmess_members ys v')"
  by (induction xs arbitrary: v) (auto split: option.splits)

lemma vmess_set:
  "vmess_member (''v'', JStr s) v = Some (v\<lparr>vs_V := s\<rparr>)" "vmess_member (''ps'', JStr s) v = Some (v\<lparr>vs_PS := s\<rparr>)"
  "vmess_member (''add'', JStr s) v = Some (v\<lparr>vs_Add := s\<rparr>)" "vmess_member (''port'', JStr s) v = Some (v\<lparr>vs_Port := s\<rparr>)"
  "vmess_member (''id'', JStr s) v = Some (v\<lparr>vs_ID := s\<rparr>)" "vmess_member (''scy'', JStr s) v = Some (v\<lparr>vs_Scy := s\<rparr>)"
  "vmess_member (''net'', JStr s) v = Some (v\<lparr>vs_Net := s\<rparr>)" "vmess_member (''type'', JStr s) v = Some (v\<lparr>vs_Type := s\<rparr>)"
  "vmess_member (''host'', JStr s) v = Some (v\<lparr>vs_Host := s\<rparr>)" "vmess_member (''path'', JStr s) v = Some (v\<lparr>vs_Path := s\<rparr>)"
  "vmess_member (''tls'', JStr s) v = Some (v\<lparr>vs_TLS := s\<rparr>)" "vmess_member (''sni'', JStr s) v = Some (v\<lparr>vs_Sni := s\<rparr>)"
  by (simp_all add: vmess_member_def vmess_keys_lower vmess_string_keys_def vmess_string_field_def decode_string_def)

lemma vmess_set_aid: "vmess_member (''aid'', JNum (uint (w :: 16 word))) v = Some (v\<lparr>vs_Aid := w\<rparr>)"
proof -
  have "uint w < 2 ^ LENGTH(16)" by (rule uint_lt2p)
  then show ?thesis by (simp add: vmess_member_def vmess_keys_lower vmess_string_keys_def)
qed

text \<open>An omitted member leaves the empty string that the default has there.\<close>

lemma vmess_omitted:
  "vmess_members (member ''ps'' s) v = Some (if s = '''' then v else v\<lparr>vs_PS := s\<rparr>)"
  "vmess_members (member ''scy'' s) v = Some (if s = '''' then v else v\<lparr>vs_Scy := s\<rparr>)"
  "vmess_members (member ''host'' s) v = Some (if s = '''' then v else v\<lparr>vs_Host := s\<rparr>)"
  "vmess_members (member ''path'' s) v = Some (if s = '''' then v else v\<lparr>vs_Path := s\<rparr>)"
  "vmess_members (member ''sni'' s) v = Some (if s = '''' then v else v\<lparr>vs_Sni := s\<rparr>)"
  "vmess_members (member ''v'' s) v = Some (if s = '''' then v else v\<lparr>vs_V := s\<rparr>)"
  by (simp_all add: member_def vmess_set)

lemma vmess_unmarshal_json:
  "vmess_unmarshal (vmess_json v) NewDefaultVmessShareConfig =
     Some (v\<lparr>vs_V := (if vs_V v = '''' then ''2'' else vs_V v), vs_UseSNI := False\<rparr>)"
  by (cases v) (simp add: vmess_unmarshal_def vmess_json_def vmess_members_append vmess_omitted vmess_set vmess_set_aid
      NewDefaultVmessShareConfig_def)

lemma flat_vmess_json: "\<exists>ms. vmess_json v = JObj ms \<and> ms \<noteq> [] \<and> (\<forall>(k, j) \<in> set ms. flat_value j)"
proof -
  have "flat_value (JNum (uint (vs_Aid v)))" unfolding flat_value_def by (metis int_nat_eq uint_nat)
  moreover have "flat_value (JStr s)" for s by (auto simp: flat_value_def)
  ultimately show ?thesis by (auto simp: vmess_json_def member_def split: if_splits)
qed

lemma parse_vmess_json: "parse_json (print_json (vmess_json v)) = Some (vmess_json v)"
  using flat_vmess_json [of v] parse_print_flat by metis

text \<open>
  C20: a vmess link holds the share configuration, but for three fields. Decoding the link that the node prints, as the
  converters do, gives the configuration back with the server name left out unless it was
  asked for, without the mark that asks for it, and with the version 2 where none was set.
\<close>

theorem vmess_link_roundtrip:
  "vmess_of_link (getVmessUri v) =
     Some (v\<lparr>vs_V := (if vs_V v = '''' then ''2'' else vs_V v), vs_Sni := (if vs_UseSNI v then vs_Sni v else ''''), vs_UseSNI := False\<rparr>)"
proof -
  let ?u = "if vs_UseSNI v then v else v\<lparr>vs_Sni := ''''\<rparr>"
  have "decodeVmessStandardUri (getVmessUri v) = print_json (vmess_json ?u)"
    using b64_dec_enc [OF b64_alphabet_url, of False "print_json (vmess_json ?u)"]
    by (simp add: decodeVmessStandardUri_def getVmessUri_def vmessUriHeader_def Let_def split: if_splits)
  then show ?thesis
    using vmess_unmarshal_json [of ?u] by (simp add: vmess_of_link_def parse_vmess_json split: if_splits)
qed

subsection \<open>Queries of vless and trojan links\<close>

lemma split_on_Cons_sep [simp]: "split_on sep (sep # s) = [] # split_on sep s"
  by simp

lemma split_on_join_concat:
  "xs \<noteq> [] \<Longrightarrow> split_on sep (str_join [sep] xs) = concat (map (split_on sep) xs)"
proof (induction "[sep]" xs rule: str_join.induct)
  case (3 x y zs)
  have "split_on sep (x @ sep # t) = split_on sep x @ split_on sep t" for t
    by (induction x) (auto split: list.split simp: neq_Nil_conv append_eq_Cons_conv)
  with 3 show ?case by simp
qed auto

text \<open>Replacing double ampersands drops empty segments only.\<close>

lemma fixUri_segments:
  "hd (split_on (CHR ''&'') (fixUri s)) = hd (split_on (CHR ''&'') s) \<and>
   filter (\<lambda>w. w \<noteq> []) (tl (split_on (CHR ''&'') (fixUri s))) = filter (\<lambda>w. w \<noteq> []) (tl (split_on (CHR ''&'') s))"
proof (induction s rule: length_induct)
  case (1 s)
  have split: "filter (\<lambda>w. w \<noteq> []) (split_on (CHR ''&'') t) = filter (\<lambda>w. w \<noteq> []) (split_on (CHR ''&'') t')"
    if "hd (split_on (CHR ''&'') t) = hd (split_on (CHR ''&'') t')"
      "filter (\<lambda>w. w \<noteq> []) (tl (split_on (CHR ''&'') t)) = filter (\<lambda>w. w \<noteq> []) (tl (split_on (CHR ''&'') t'))" for t t'
    using that by (cases "split_on (CHR ''&'') t"; cases "split_on (CHR ''&'') t'") auto
  show ?case
  proof (cases s)
    case Nil
    then show ?thesis by (simp add: fixUri_def)
  next
    case (Cons c cs)
    show ?thesis
    proof (cases "has_prefix ''&&'' s")
      case True
      then obtain r where r: "s = CHR ''&'' # CHR ''&'' # r" by (auto simp: has_prefix_iff)
      then have "fixUri s = CHR ''&'' # fixUri r" by (simp add: fixUri_def)
      moreover have "length r < length s" using r by simp
      ultimately show ?thesis using 1 r split [of "fixUri r" r] by simp
    next
      case False
      then have "fixUri s = c # fixUri cs" unfolding Cons fixUri_def by (simp only: replace_all.simps if_False)
      moreover have "length cs < length s" using Cons by simp
      moreover obtain w ws w' ws' where "split_on (CHR ''&'') cs = w # ws" "split_on (CHR ''&'') (fixUri cs) = w' # ws'"
        by (metis list.exhaust split_on_nonempty)
      ultimately show ?thesis using 1 Cons split [of "fixUri cs" cs] by (cases "c = CHR ''&''") auto
    qed
  qed
qed

lemma map_filter_nonempty: "f [] = None \<Longrightarrow> List.map_filter f (filter (\<lambda>w. w \<noteq> []) xs) = List.map_filter f xs"
  by (induction xs) (auto simp: map_filter_simps split: option.splits)

lemma ParseQuery_fixUri: "ParseQuery (fixUri s) = ParseQuery s"
proof -
  have "filter (\<lambda>w. w \<noteq> []) (split_on (CHR ''&'') (fixUri s)) = filter (\<lambda>w. w \<noteq> []) (split_on (CHR ''&'') s)"
    using fixUri_segments [of s] by (cases "split_on (CHR ''&'') s"; cases "split_on (CHR ''&'') (fixUri s)") auto
  moreover have "query_pair [] = None" by (simp add: query_pair_def)
  note map_filter_nonempty [of query_pair, OF this]
  ultimately show ?thesis unfolding ParseQuery_def by metis
qed

lemma ParseQuery_join: "xs \<noteq> [] \<Longrightarrow> ParseQuery (str_join ''&'' xs) = concat (map ParseQuery xs)"
proof -
  have "List.map_filter f (concat xss) = concat (map (List.map_filter f) xss)" for f :: "string \<Rightarrow> (string \<times> string) option" and xss
    by (induction xss) (auto simp: map_filter_def)
  moreover assume "xs \<noteq> []"
  ultimately show ?thesis by (simp add: ParseQuery_def [abs_def] split_on_join_concat comp_def)
qed

text \<open>Text that a link can carry without escapes.\<close>

definition safe_char :: "char \<Rightarrow> bool" where
  "safe_char c \<longleftrightarrow> c \<notin> set ''&;%+#'' \<and> 32 \<le> byte c \<and> c \<noteq> CHR 0x7F"

lemma unescape_safe: "list_all safe_char s \<Longrightarrow> unescape q s = Some s"
  by (induction s) (auto simp: safe_char_def)

definition plain_key :: "string \<Rightarrow> bool" where
  "plain_key k \<longleftrightarrow> k \<noteq> '''' \<and> list_all safe_char k \<and> CHR ''='' \<notin> set k"

lemma ParseQuery_pair:
  assumes "plain_key k" "list_all safe_char v"
  shows "ParseQuery (k @ ''='' @ v) = [(k, v)]"
proof -
  have cut: "cut (CHR ''='') (k @ CHR ''='' # v) = (k, v)"
    using assms(1) by (auto simp: cut_def plain_key_def takeWhile_append dropWhile_append)
  have "CHR ''&'' \<notin> set k \<and> CHR ''&'' \<notin> set v" "CHR '';'' \<notin> set k \<and> CHR '';'' \<notin> set v"
    using assms by (auto simp: plain_key_def safe_char_def list_all_iff)
  then show ?thesis
    using assms cut by (simp add: ParseQuery_def split_on_no_sep map_filter_simps query_pair_def plain_key_def unescape_safe)
qed

lemma plain_keys:
  "plain_key ''type''" "plain_key ''security''" "plain_key ''path''" "plain_key ''host''" "plain_key ''headerType''"
  "plain_key ''seed''" "plain_key ''quicSecurity''" "plain_key ''key''" "plain_key ''serviceName''" "plain_key ''mode''"
  "plain_key ''sni''" "plain_key ''alpn''" "plain_key ''flow''"
  by (simp_all add: plain_key_def safe_char_def)


subsection \<open>vless and trojan links\<close>

definition pair_if :: "string \<Rightarrow> string \<Rightarrow> (string \<times> string) list" where
  "pair_if k v = (if v = '''' then [] else [(k, v)])"

text \<open>The parameters a link is meant to carry.\<close>

fun adapter_pairs :: "uri_adapter \<Rightarrow> (string \<times> string) list" where
  "adapter_pairs VlessTcpConfig = []"
| "adapter_pairs (VlessHttp2Config path host) = pair_if ''path'' path @ pair_if ''host'' host"
| "adapter_pairs (VlessWebSocketConfig path host) = pair_if ''path'' path @ pair_if ''host'' host"
| "adapter_pairs (VlessMkcpConfig headerType seed) = pair_if ''headerType'' headerType @ pair_if ''seed'' seed"
| "adapter_pairs (VlessQuicConfig security key headerType) =
     (if security \<noteq> ''none'' then [(''quicSecurity'', security), (''key'', key)] else []) @ pair_if ''headerType'' headerType"
| "adapter_pairs (VlessGrpcConfig serviceName mode) = pair_if ''serviceName'' serviceName @ pair_if ''mode'' mode"

definition link_pairs :: "share_config \<Rightarrow> (string \<times> string) list" where
  "link_pairs c = [(''type'', pc_Type (sc_ProtocolConfig c))] @ pair_if ''security'' (tc_Security (sc_TransportConfig c))
     @ (case tc_TransportConfig (sc_TransportConfig c) of None \<Rightarrow> [] | Some a \<Rightarrow> adapter_pairs a)
     @ (if sc_UseSNI c then pair_if ''sni'' (vt_SNI (sc_TLSConfig c)) else []) @ pair_if ''alpn'' (vt_ALPN (sc_TLSConfig c))
     @ pair_if ''flow'' (bc_Flow (sc_BaseConfig c))"

definition safe_pairs :: "(string \<times> string) list \<Rightarrow> bool" where
  "safe_pairs ps \<longleftrightarrow> (\<forall>(k, v) \<in> set ps. list_all safe_char v)"

lemma safe_pairs_append [simp]: "safe_pairs (xs @ ys) \<longleftrightarrow> safe_pairs xs \<and> safe_pairs ys"
  by (auto simp: safe_pairs_def)

lemma ParseQuery_Nil [simp]: "ParseQuery '''' = []"
  by (simp add: ParseQuery_def query_pair_def map_filter_simps)

lemma ParseQuery_param:
  "plain_key k \<Longrightarrow> safe_pairs (pair_if k v) \<Longrightarrow> concat (map ParseQuery (param k v)) = pair_if k v"
  using ParseQuery_pair [of k v] by (auto simp: param_def pair_if_def safe_pairs_def)

lemma ParseQuery_str_join: "ParseQuery (str_join ''&'' xs) = concat (map ParseQuery xs)"
  by (cases "xs = []") (simp_all add: ParseQuery_join)

lemma ParseQuery_two:
  assumes "plain_key k" "plain_key l" "list_all safe_char v" "list_all safe_char w"
  shows "ParseQuery (k @ ''='' @ v @ ''&'' @ l @ ''='' @ w) = [(k, v), (l, w)]"
  using ParseQuery_join [of "[k @ ''='' @ v, l @ ''='' @ w]"] ParseQuery_pair [of k v] ParseQuery_pair [of l w] assms by simp

lemma ParseQuery_adapter:
  assumes "safe_pairs (adapter_pairs a)"
  shows "ParseQuery (adapter_Build a) = adapter_pairs a"
proof (cases a)
  case (VlessQuicConfig security key headerType)
  with assms ParseQuery_two [of "''quicSecurity''" "''key''" security key] show ?thesis
    by (auto simp: ParseQuery_str_join ParseQuery_param plain_keys safe_pairs_def)
qed (use assms in \<open>auto simp: ParseQuery_str_join ParseQuery_param plain_keys simp del: str_join.simps\<close>)

lemma ParseQuery_link:
  assumes "tc_TransportConfig (sc_TransportConfig c) = Some a" "safe_pairs (link_pairs c)"
    and "tls = (if sc_UseSNI c then sc_TLSConfig c else (sc_TLSConfig c)\<lparr>vt_SNI := ''''\<rparr>)"
    and "TransportConfig_Build (sc_TransportConfig c) = Some transport"
  shows "ParseQuery (fixUri (str_join ''&'' ([ProtocolConfig_Build (sc_ProtocolConfig c), transport, TLSConfig_Build tls]
    @ param ''flow'' (bc_Flow (sc_BaseConfig c))))) = link_pairs c"
proof -
  have safe: "safe_pairs (pair_if ''security'' (tc_Security (sc_TransportConfig c)))" "safe_pairs (adapter_pairs a)"
      "sc_UseSNI c \<Longrightarrow> safe_pairs (pair_if ''sni'' (vt_SNI (sc_TLSConfig c)))"
      "safe_pairs (pair_if ''alpn'' (vt_ALPN (sc_TLSConfig c)))" "safe_pairs (pair_if ''flow'' (bc_Flow (sc_BaseConfig c)))"
      "list_all safe_char (pc_Type (sc_ProtocolConfig c))"
    using assms(1,2) by (auto simp: link_pairs_def) (auto simp: safe_pairs_def)
  have "transport = str_join ''&'' (param ''security'' (tc_Security (sc_TransportConfig c))
      @ (if adapter_Build a \<noteq> '''' then [adapter_Build a] else []))"
    using assms(1,4) by (simp add: TransportConfig_Build_def)
  then have "ParseQuery transport = pair_if ''security'' (tc_Security (sc_TransportConfig c)) @ adapter_pairs a"
    using ParseQuery_adapter [OF safe(2)] safe(1) by (auto simp: ParseQuery_str_join ParseQuery_param plain_keys)
  moreover have "ParseQuery (TLSConfig_Build tls) = (if sc_UseSNI c then pair_if ''sni'' (vt_SNI (sc_TLSConfig c)) else [])
      @ pair_if ''alpn'' (vt_ALPN (sc_TLSConfig c))"
    using safe(3,4) assms(3) by (auto simp: TLSConfig_Build_def ParseQuery_str_join ParseQuery_param plain_keys) (simp add: param_def)
  moreover have "ParseQuery (ProtocolConfig_Build (sc_ProtocolConfig c)) = [(''type'', pc_Type (sc_ProtocolConfig c))]"
    using ParseQuery_pair [OF plain_keys(1) safe(6)] by (simp add: ProtocolConfig_Build_def)
  ultimately show ?thesis
    unfolding ParseQuery_fixUri ParseQuery_str_join using safe(5) assms(1) by (simp add: ParseQuery_param plain_keys link_pairs_def)
qed


subsection \<open>Parsing a link\<close>

text \<open>Host names and addresses of the usual form.\<close>

definition plain_host :: "string \<Rightarrow> bool" where
  "plain_host h \<longleftrightarrow> h \<noteq> '''' \<and> list_all unreserved h"

definition plus_spaces :: "string \<Rightarrow> string" where
  "plus_spaces s = map (\<lambda>c. if c = CHR '' '' then CHR ''+'' else c) s"

lemma unescape_fragment: "unescape False (QueryEscape s) = Some (plus_spaces s)"
  by (simp add: unescape_QueryEscape plus_spaces_def)

lemma not_unreserved [simp]:
  "\<not> unreserved (CHR ''#'')" "\<not> unreserved (CHR ''?'')" "\<not> unreserved (CHR ''/'')" "\<not> unreserved (CHR ''@'')"
  "\<not> unreserved (CHR '':'')" "\<not> unreserved (CHR ''%'')" "\<not> unreserved (CHR ''['')" "\<not> unreserved (CHR 0x7F)"
  by (simp_all add: unreserved_def)

lemma unreserved_is:
  assumes "unreserved c"
  shows "32 \<le> byte c" "host_char c" "valid_userinfo_char c"
  using assms by (auto simp: unreserved_def host_char_def valid_userinfo_char_def)

text \<open>The characters of the authority of a link.\<close>

definition auth_char :: "char \<Rightarrow> bool" where
  "auth_char c \<longleftrightarrow> unreserved c \<or> c = CHR ''+'' \<or> c = CHR ''%''"

lemma not_auth [simp]:
  "\<not> auth_char (CHR ''#'')" "\<not> auth_char (CHR ''?'')" "\<not> auth_char (CHR ''/'')" "\<not> auth_char (CHR ''@'')"
  "\<not> auth_char (CHR '':'')" "\<not> auth_char (CHR 0x7F)"
  by (simp_all add: auth_char_def)

lemma auth_is: "auth_char c \<Longrightarrow> 32 \<le> byte c" "auth_char c \<Longrightarrow> valid_userinfo_char c"
  by (auto simp: auth_char_def valid_userinfo_char_def unreserved_is)

lemma auth_text:
  assumes "\<forall>c \<in> set s. auth_char c \<or> c = CHR ''@'' \<or> c = CHR '':''"
  shows "CHR ''#'' \<notin> set s" "CHR ''?'' \<notin> set s" "CHR ''/'' \<notin> set s" "CHR 0x7F \<notin> set s" "\<forall>c \<in> set s. 32 \<le> byte c"
proof -
  show "CHR ''#'' \<notin> set s" using bspec [OF assms, of "CHR ''#''"] by auto
  show "CHR ''?'' \<notin> set s" using bspec [OF assms, of "CHR ''?''"] by auto
  show "CHR ''/'' \<notin> set s" using bspec [OF assms, of "CHR ''/''"] by auto
  show "CHR 0x7F \<notin> set s" using bspec [OF assms, of "CHR 0x7F"] by auto
  show "\<forall>c \<in> set s. 32 \<le> byte c"
  proof
    fix c assume "c \<in> set s"
    with assms have "auth_char c \<or> c = CHR ''@'' \<or> c = CHR '':''" by blast
    then show "32 \<le> byte c" by (elim disjE) (simp_all add: auth_is(1))
  qed
qed

lemma not_digit [simp]: "\<not> is_digit (CHR ''%'')" "\<not> is_digit (CHR ''@'')"
  by (simp_all add: is_digit_def)

lemma QueryEscape_auth: "\<forall>c \<in> set (QueryEscape s). auth_char c"
  using QueryEscape_chars by (auto simp: auth_char_def)

lemma itoa_port: "list_all is_digit (itoa (uint (w :: 32 word)))"
  by (auto simp: itoa_def list_all_iff nat_digits_are_digits)

lemma digit_unreserved: "is_digit c \<Longrightarrow> unreserved c"
  by (simp add: is_digit_def unreserved_def)

lemma cut_at: "c \<notin> set s \<Longrightarrow> cut c (s @ c # t) = (s, t)"
  by (auto simp: cut_def takeWhile_append dropWhile_append)

lemma cut_last_at: "c \<notin> set t \<Longrightarrow> cut_last c (s @ c # t) = Some (s, t)"
  by (auto simp: cut_last_def takeWhile_append dropWhile_append)

lemma unescape_host_plain: "list_all host_char h \<Longrightarrow> CHR ''%'' \<notin> set h \<Longrightarrow> unescape_host zone h = Some h"
  by (induction h) auto

lemma has_prefix_bracket: "has_prefix ''['' h \<longleftrightarrow> h \<noteq> [] \<and> hd h = CHR ''[''"
  by (cases h) auto

lemma url_host_port:
  assumes "plain_host h" "list_all is_digit p"
  shows "url_host (h @ '':'' @ p) = Some (h @ '':'' @ p)" "splitHostPort (h @ '':'' @ p) = (h, p)"
proof -
  have colon: "CHR '':'' \<notin> set p" using assms(2) by (auto simp: list_all_iff is_digit_def)
  have chars: "list_all host_char (h @ '':'' @ p)" "CHR ''%'' \<notin> set (h @ '':'' @ p)"
    using assms by (auto simp: plain_host_def list_all_iff host_char_def dest: digit_unreserved bspec)
  have nb: "\<not> has_prefix ''['' (h @ '':'' @ p)" "\<not> has_prefix ''['' h"
    using assms(1) by (cases h; auto simp: plain_host_def)+
  have port: "validOptionalPort (CHR '':'' # p)" using assms(2) by (simp add: validOptionalPort_def)
  show "url_host (h @ '':'' @ p) = Some (h @ '':'' @ p)"
    using nb(1) port cut_last_at [OF colon, of h] unescape_host_plain [OF chars] by (simp add: url_host_def)
  show "splitHostPort (h @ '':'' @ p) = (h, p)"
    using nb(2) port cut_last_at [OF colon, of h] by (simp add: splitHostPort_def)
qed

lemma parseAuthority_link:
  assumes "plain_host h" "list_all is_digit p"
  shows "parseAuthority (QueryEscape uuid @ ''@'' @ h @ '':'' @ p) = Some (plus_spaces uuid, h @ '':'' @ p)"
proof -
  have "CHR ''@'' \<notin> set (h @ '':'' @ p)"
    using assms by (auto simp: plain_host_def list_all_iff dest: digit_unreserved bspec)
  then have "cut_last (CHR ''@'') (QueryEscape uuid @ ''@'' @ h @ '':'' @ p) = Some (QueryEscape uuid, h @ '':'' @ p)"
    using cut_last_at by simp
  moreover have "list_all valid_userinfo_char (QueryEscape uuid)" "CHR '':'' \<notin> set (QueryEscape uuid)"
    using QueryEscape_auth [of uuid] by (auto simp: list_all_iff auth_is)
  ultimately show ?thesis using url_host_port(1) [OF assms] by (simp add: parseAuthority_def unescape_fragment)
qed

lemma url_parse_parts:
  assumes auth: "CHR ''#'' \<notin> set auth" "CHR ''?'' \<notin> set auth" "CHR ''/'' \<notin> set auth" "CHR 0x7F \<notin> set auth"
      "\<forall>c \<in> set auth. 32 \<le> byte c"
    and q: "q \<noteq> ''''" "\<forall>c \<in> set q. c \<noteq> CHR ''#'' \<and> 32 \<le> byte c \<and> c \<noteq> CHR 0x7F"
    and host: "parseAuthority auth = Some (user, host)"
  shows "url_parse (auth @ ''?'' @ q @ ''#'' @ QueryEscape name) =
    Some \<lparr>url_User = user, url_Host = host, url_RawQuery = q, url_Fragment = plus_spaces name\<rparr>"
proof -
  have "CHR ''#'' \<notin> set (auth @ ''?'' @ q)" using auth(1) q(2) by auto
  from cut_at [OF this, of "QueryEscape name"]
  have frag: "cut (CHR ''#'') (auth @ ''?'' @ q @ ''#'' @ QueryEscape name) = (auth @ ''?'' @ q, QueryEscape name)" by simp
  have "\<forall>c \<in> set (auth @ ''?'' @ q). \<not> (byte c < 32 \<or> c = CHR 0x7F)"
    using auth(4,5) q(2) by (auto simp: not_less)
  then have no_ctl: "(\<exists>c \<in> set (auth @ ''?'' @ q). byte c < 32 \<or> c = CHR 0x7F) = False" by blast
  have "last (auth @ ''?'' @ q) = CHR ''?'' \<Longrightarrow> count_list (auth @ ''?'' @ q) (CHR ''?'') \<noteq> 1"
    using q(1) last_in_set [of q] by (auto simp: count_list_0_iff)
  then have no_force: "(auth @ ''?'' @ q \<noteq> [] \<and> last (auth @ ''?'' @ q) = CHR ''?'' \<and>
      count_list (auth @ ''?'' @ q) (CHR ''?'') = 1) = False" by blast
  have "cut (CHR ''?'') (auth @ ''?'' @ q) = (auth, q)" using cut_at [OF auth(2), of q] by simp
  then have rest: "cut_query (auth @ ''?'' @ q) = (auth, q)" unfolding cut_query_def no_force if_False .
  have path: "takeWhile (\<lambda>x. x \<noteq> CHR ''/'') auth = auth" "dropWhile (\<lambda>x. x \<noteq> CHR ''/'') auth = []"
    unfolding takeWhile_eq_all_conv dropWhile_eq_Nil_conv using auth(3) by blast+
  show ?thesis
    unfolding url_parse_def frag prod.case no_ctl if_False rest Let_def path host unescape_fragment by simp
qed

lemma url_parse_link:
  assumes "plain_host h" "list_all is_digit p" "q \<noteq> ''''" "\<forall>c \<in> set q. c \<noteq> CHR ''#'' \<and> 32 \<le> byte c \<and> c \<noteq> CHR 0x7F"
  shows "url_parse (QueryEscape uuid @ ''@'' @ h @ '':'' @ p @ ''?'' @ q @ ''#'' @ QueryEscape name) =
    Some \<lparr>url_User = plus_spaces uuid, url_Host = h @ '':'' @ p, url_RawQuery = q, url_Fragment = plus_spaces name\<rparr>"
proof -
  have "\<forall>c \<in> set (QueryEscape uuid @ ''@'' @ h @ '':'' @ p). auth_char c \<or> c = CHR ''@'' \<or> c = CHR '':''"
    using QueryEscape_auth [of uuid] assms(1,2) by (auto simp: plain_host_def list_all_iff auth_char_def dest: digit_unreserved)
  from url_parse_parts [OF auth_text [OF this] assms(3,4) parseAuthority_link [OF assms(1,2)], of name]
  show ?thesis by simp
qed

text \<open>The query of a link has no character that ends it.\<close>

lemma set_str_join: "set (str_join sep xs) \<subseteq> set sep \<union> (\<Union>x \<in> set xs. set x)"
  by (induction sep xs rule: str_join.induct) auto

lemma set_replace_all: "set (replace_all old new k s) \<subseteq> set new \<union> set s"
  by (induction old new k s rule: replace_all.induct) auto

definition query_char :: "char \<Rightarrow> bool" where
  "query_char c \<longleftrightarrow> c \<noteq> CHR ''#'' \<and> 32 \<le> byte c \<and> c \<noteq> CHR 0x7F"

definition query_text :: "string \<Rightarrow> bool" where
  "query_text s \<longleftrightarrow> list_all query_char s"

lemma query_text_join: "(\<And>x. x \<in> set xs \<Longrightarrow> query_text x) \<Longrightarrow> query_text (str_join ''&'' xs)"
proof -
  have "query_char (CHR ''&'')" by (simp add: query_char_def)
  then show "(\<And>x. x \<in> set xs \<Longrightarrow> query_text x) \<Longrightarrow> query_text (str_join ''&'' xs)"
    using set_str_join [of "''&''" xs] by (fastforce simp: query_text_def list_all_iff)
qed

lemma query_text_fixUri: "query_text s \<Longrightarrow> query_text (fixUri s)"
  using set_replace_all [of "''&&''" "''&''" 0 s]
  by (fastforce simp: fixUri_def query_text_def list_all_iff query_char_def)

lemma query_text_safe: "list_all safe_char s \<Longrightarrow> query_text s"
  by (auto simp: query_text_def list_all_iff safe_char_def query_char_def)

lemma query_text_eq: "query_text (k @ v) \<longleftrightarrow> query_text k \<and> query_text v"
  by (simp add: query_text_def)

lemma query_text_pair: "plain_key k \<Longrightarrow> list_all safe_char v \<Longrightarrow> query_text (k @ ''='' @ v)"
  unfolding query_text_eq by (simp add: plain_key_def query_text_safe) (simp add: query_text_def query_char_def)

lemma query_text_param: "plain_key k \<Longrightarrow> safe_pairs (pair_if k v) \<Longrightarrow> x \<in> set (param k v) \<Longrightarrow> query_text x"
  using query_text_pair [of k v] by (auto simp: param_def pair_if_def safe_pairs_def split: if_splits)

lemmas query_text_params = plain_keys [THEN query_text_param]

lemma query_text_adapter:
  assumes "safe_pairs (adapter_pairs a)"
  shows "query_text (adapter_Build a)"
proof (cases a)
  case VlessTcpConfig
  then show ?thesis by (simp add: query_text_def)
next
  case (VlessQuicConfig security key headerType)
  have "query_text (''quicSecurity='' @ security @ ''&key='' @ key)" if "security \<noteq> ''none''"
  proof -
    have "query_text ''&''" by (simp add: query_text_def query_char_def)
    moreover have "list_all safe_char security" "list_all safe_char key"
      using that assms VlessQuicConfig by (auto simp: safe_pairs_def)
    ultimately show ?thesis
      using query_text_pair [OF plain_keys(7), of security] query_text_pair [OF plain_keys(8), of key] by (simp add: query_text_def)
  qed
  moreover have "safe_pairs (pair_if ''headerType'' headerType)" using assms VlessQuicConfig by simp
  ultimately show ?thesis
    unfolding VlessQuicConfig adapter_Build.simps
    by (intro query_text_join) (auto split: if_splits dest: query_text_params)
qed (use assms in \<open>auto simp del: str_join.simps intro!: query_text_join dest: query_text_params\<close>)


lemma share_Build_ok:
  assumes "tc_TransportConfig (sc_TransportConfig c) = Some a" "safe_pairs (link_pairs c)"
  shows "\<exists>q. share_Build c = ok (BaseConfig_Build (sc_BaseConfig c) @ ''?'' @ q @ ''#'' @ QueryEscape (sc_NodeName c)) \<and>
    ParseQuery q = link_pairs c \<and> query_text q \<and> q \<noteq> ''''"
proof -
  define tls where "tls = (if sc_UseSNI c then sc_TLSConfig c else (sc_TLSConfig c)\<lparr>vt_SNI := ''''\<rparr>)"
  obtain transport where tr: "TransportConfig_Build (sc_TransportConfig c) = Some transport"
      "transport = str_join ''&'' (param ''security'' (tc_Security (sc_TransportConfig c))
        @ (if adapter_Build a \<noteq> '''' then [adapter_Build a] else []))"
    using assms(1) by (simp add: TransportConfig_Build_def)
  let ?ps = "[ProtocolConfig_Build (sc_ProtocolConfig c), transport, TLSConfig_Build tls] @ param ''flow'' (bc_Flow (sc_BaseConfig c))"
  have pairs: "ParseQuery (fixUri (str_join ''&'' ?ps)) = link_pairs c"
    by (rule ParseQuery_link [OF assms tls_def tr(1)])
  have safe: "safe_pairs (pair_if ''security'' (tc_Security (sc_TransportConfig c)))" "safe_pairs (adapter_pairs a)"
      "sc_UseSNI c \<Longrightarrow> safe_pairs (pair_if ''sni'' (vt_SNI (sc_TLSConfig c)))"
      "safe_pairs (pair_if ''alpn'' (vt_ALPN (sc_TLSConfig c)))" "safe_pairs (pair_if ''flow'' (bc_Flow (sc_BaseConfig c)))"
      "list_all safe_char (pc_Type (sc_ProtocolConfig c))"
    using assms(1,2) by (auto simp: link_pairs_def) (auto simp: safe_pairs_def)
  have "safe_pairs (pair_if ''sni'' (vt_SNI tls))" "vt_ALPN tls = vt_ALPN (sc_TLSConfig c)"
    using safe(3) by (auto simp: tls_def pair_if_def safe_pairs_def)
  with safe(4) have "query_text (TLSConfig_Build tls)"
    unfolding TLSConfig_Build_def by (intro query_text_join) (auto dest: query_text_params)
  moreover have "query_text transport"
    unfolding tr(2) using safe(1) query_text_adapter [OF safe(2)]
    by (intro query_text_join) (auto dest: query_text_params split: if_splits)
  moreover have "query_text (ProtocolConfig_Build (sc_ProtocolConfig c))"
    using query_text_pair [OF plain_keys(1) safe(6)] by (simp add: ProtocolConfig_Build_def)
  ultimately have "\<And>x. x \<in> set ?ps \<Longrightarrow> query_text x" using safe(5) by (auto dest: query_text_params)
  then have printable: "query_text (fixUri (str_join ''&'' ?ps))" by (intro query_text_fixUri query_text_join)
  have "fixUri (str_join ''&'' ?ps) \<noteq> ''''"
    using pairs by (auto simp: link_pairs_def)
  moreover have "share_Build c = ok (BaseConfig_Build (sc_BaseConfig c) @ ''?'' @ fixUri (str_join ''&'' ?ps)
      @ ''#'' @ QueryEscape (sc_NodeName c))"
    unfolding share_Build_def Let_def tls_def [symmetric] tr(1) deref_def option.case ..
  ultimately show ?thesis using pairs printable by blast
qed

text \<open>
  C19: a vless or trojan link carries what it is meant to. When the host has the usual form and the
  parameters hold no character with a meaning of its own in a query (they are not escaped), the
  link can be parsed as a URL, and the converters find in it the host, the port and exactly the
  parameters of the configuration; spaces in the identifier and in the node's name turn into plus
  signs.
\<close>

theorem share_link_roundtrip:
  assumes "tc_TransportConfig (sc_TransportConfig c) = Some a" and "safe_pairs (link_pairs c)"
    and "plain_host (bc_RemoteHost (sc_BaseConfig c))"
  shows "\<exists>s u. share_Build c = ok s \<and> url_parse s = Some u \<and> url_User u = plus_spaces (bc_UUID (sc_BaseConfig c)) \<and>
    url_Hostname u = bc_RemoteHost (sc_BaseConfig c) \<and> url_Port u = itoa (uint (bc_RemotePort (sc_BaseConfig c))) \<and>
    url_Fragment u = plus_spaces (sc_NodeName c) \<and> ParseQuery (url_RawQuery u) = link_pairs c"
proof -
  obtain q where q: "share_Build c = ok (BaseConfig_Build (sc_BaseConfig c) @ ''?'' @ q @ ''#'' @ QueryEscape (sc_NodeName c))"
      "ParseQuery q = link_pairs c" "query_text q" "q \<noteq> ''''"
    using share_Build_ok [OF assms(1,2)] by blast
  let ?p = "itoa (uint (bc_RemotePort (sc_BaseConfig c)))"
  have "\<forall>c \<in> set q. c \<noteq> CHR ''#'' \<and> 32 \<le> byte c \<and> c \<noteq> CHR 0x7F"
    using q(3) by (simp add: query_text_def list_all_iff query_char_def)
  from url_parse_link [OF assms(3) itoa_port q(4) this, of "bc_UUID (sc_BaseConfig c)" _ "sc_NodeName c"] q(1,2)
    url_host_port(2) [OF assms(3) itoa_port]
  show ?thesis by (simp add: BaseConfig_Build_def url_Hostname_def url_Port_def)
qed


theorem share_link_roundtrip_witness:
  "\<exists>s u. share_Build \<lparr>sc_BaseConfig = \<lparr>bc_UUID = ''u 1'', bc_RemoteHost = ''a.b'', bc_RemotePort = 443, bc_Flow = ''''\<rparr>,
      sc_ProtocolConfig = \<lparr>pc_Type = ''ws'', pc_Encryption = ''none''\<rparr>,
      sc_TransportConfig = \<lparr>tc_Security = ''tls'', tc_TransportConfig = Some (VlessWebSocketConfig ''/p'' '''')\<rparr>,
      sc_TLSConfig = \<lparr>vt_SNI = ''s'', vt_ALPN = ''''\<rparr>, sc_NodeName = ''n'', sc_UseSNI = True\<rparr> = ok s \<and>
    url_parse s = Some u \<and> url_User u = ''u+1'' \<and> url_Port u = ''443'' \<and>
    ParseQuery (url_RawQuery u) = [(''type'', ''ws''), (''security'', ''tls''), (''path'', ''/p''), (''sni'', ''s'')]"
proof -
  let ?c = "\<lparr>sc_BaseConfig = \<lparr>bc_UUID = ''u 1'', bc_RemoteHost = ''a.b'', bc_RemotePort = 443, bc_Flow = ''''\<rparr>,
      sc_ProtocolConfig = \<lparr>pc_Type = ''ws'', pc_Encryption = ''none''\<rparr>,
      sc_TransportConfig = \<lparr>tc_Security = ''tls'', tc_TransportConfig = Some (VlessWebSocketConfig ''/p'' '''')\<rparr>,
      sc_TLSConfig = \<lparr>vt_SNI = ''s'', vt_ALPN = ''''\<rparr>, sc_NodeName = ''n'', sc_UseSNI = True\<rparr>"
  have pairs: "link_pairs ?c = [(''type'', ''ws''), (''security'', ''tls''), (''path'', ''/p''), (''sni'', ''s'')]"
    by (simp add: link_pairs_def pair_if_def)
  have "safe_pairs (link_pairs ?c)" unfolding pairs by (simp add: safe_pairs_def safe_char_def)
  moreover have "plain_host (bc_RemoteHost (sc_BaseConfig ?c))" by (simp add: plain_host_def unreserved_def)
  moreover have "plus_spaces ''u 1'' = ''u+1''" "itoa 443 = ''443''" by (simp add: plus_spaces_def) code_simp
  ultimately show ?thesis
    using share_link_roundtrip [of ?c "VlessWebSocketConfig ''/p'' ''''"] pairs by auto
qed

theorem vmess_link_roundtrip_witness:
  "vmess_of_link (getVmessUri (NewDefaultVmessShareConfig\<lparr>vs_ID := ''u'', vs_Sni := ''s'', vs_UseSNI := True\<rparr>)) =
    Some (NewDefaultVmessShareConfig\<lparr>vs_ID := ''u'', vs_Sni := ''s''\<rparr>)"
  using vmess_link_roundtrip [of "NewDefaultVmessShareConfig\<lparr>vs_ID := ''u'', vs_Sni := ''s'', vs_UseSNI := True\<rparr>"]
  by (simp add: NewDefaultVmessShareConfig_def)

subsection \<open>Networks without a link\<close>

lemma str_less_trans: "str_less a b \<Longrightarrow> str_less b c \<Longrightarrow> str_less a c"
proof (induction a b arbitrary: c rule: str_less.induct)
  case (3 x s y t)
  then show ?case by (cases c) auto
next
  case (2 d t)
  then show ?case by (cases c) auto
qed simp

lemma inProtocols_iff: "inProtocols p \<longleftrightarrow> \<not> str_less ''ws'' p"
proof -
  have below: "str_less ''grpc'' ''ws''" "str_less ''http'' ''ws''" "str_less ''quic'' ''ws''" "str_less ''tcp'' ''ws''"
    by simp_all
  have "length (takeWhile P xs) = length xs \<longleftrightarrow> list_all P xs" for P and xs :: "string list"
    by (induction xs) auto
  then have "inProtocols p \<longleftrightarrow> \<not> list_all (\<lambda>x. str_less x p) protocols" by (simp add: inProtocols_def SearchStrings_def)
  also have "\<dots> \<longleftrightarrow> \<not> str_less ''ws'' p"
    using below [THEN str_less_trans, of p] by (auto simp: protocols_def simp del: str_less.simps)
  finally show ?thesis .
qed

definition known_networks :: "string list" where
  "known_networks = [''tcp'', ''kcp'', ''mkcp'', ''ws'', ''quic'', ''grpc'', ''http'']"

lemma unknown_transport:
  assumes "ss_Network s = Some n" "n \<notin> set known_networks"
  shows "newTransportConfig (Some s) = ok \<lparr>tc_Security = ss_Security s, tc_TransportConfig = None\<rparr>"
  using assms by (simp add: newTransportConfig_def known_networks_def)

text \<open>The TLS part of a link never fails.\<close>

lemma newTLS_ok: "\<exists>t. newTLSOrXTLSConfig (Some s) = ok t"
  by (simp add: newTLSOrXTLSConfig_def)

lemma share_Build_nil: "tc_TransportConfig (sc_TransportConfig c) = None \<Longrightarrow> share_Build c = None"
  by (simp add: share_Build_def TransportConfig_Build_def deref_def)

lemma fill_share_unknown:
  assumes "ic_StreamSetting cfg = Some s" "ss_Network s = Some n" "n \<notin> set known_networks"
  shows "str_less ''ws'' n \<Longrightarrow> fill_share cc e retype cfg account host port pm = fails (''unsupoort network config: '' @ n)"
    and "\<not> str_less ''ws'' n \<Longrightarrow> fill_share cc e retype cfg account host port pm = None \<or>
      (\<exists>c. fill_share cc e retype cfg account host port pm = ok c \<and> tc_TransportConfig (sc_TransportConfig c) = None)"
proof -
  obtain t where t: "newTLSOrXTLSConfig (Some s) = ok t" using newTLS_ok by blast
  show "str_less ''ws'' n \<Longrightarrow> fill_share cc e retype cfg account host port pm = fails (''unsupoort network config: '' @ n)"
    using assms by (simp add: fill_share_def newProtocolConfig_def inProtocols_iff Let_def)
  assume "\<not> str_less ''ws'' n"
  then have p: "newProtocolConfig (ic_StreamSetting cfg) = ok \<lparr>pc_Type = n, pc_Encryption = ''none''\<rparr>"
    using assms by (simp add: newProtocolConfig_def inProtocols_iff)
  note steps = p unknown_transport [OF assms(2,3), folded assms(1)] t [folded assms(1)]
  show "fill_share cc e retype cfg account host port pm = None \<or>
      (\<exists>c. fill_share cc e retype cfg account host port pm = ok c \<and> tc_TransportConfig (sc_TransportConfig c) = None)"
  proof (cases "GetUpstreamInbound cc (itoa (uint (if port = 0 then ic_PortRange cfg else port))) pm")
    case None
    then show ?thesis by (simp add: fill_share_def Let_def steps)
  next
    case (Some up)
    then obtain m where m: "m = None \<or> (\<exists>x. m = ok x)" and fill: "fill_share cc e retype cfg account host port pm =
        and_then m (\<lambda>(port'', tls''). deref (parseHost e (if host = '''' then ic_ListenOn cfg else host) (vt_SNI tls'')) (\<lambda>remote.
           ok \<lparr>sc_BaseConfig = \<lparr>bc_UUID = fst account, bc_RemoteHost = remote, bc_RemotePort = port'', bc_Flow = snd account\<rparr>,
               sc_ProtocolConfig = \<lparr>pc_Type = retype n, pc_Encryption = ''none''\<rparr>,
               sc_TransportConfig = \<lparr>tc_Security = ss_Security s, tc_TransportConfig = None\<rparr>, sc_TLSConfig = tls'',
               sc_NodeName = '''', sc_UseSNI = False\<rparr>))"
    proof -
      let ?m = "case up of Inl err \<Rightarrow> ok (if port = 0 then ic_PortRange cfg else port, t)
         | Inr u \<Rightarrow> and_then (newTLSOrXTLSConfig (ic_StreamSetting u)) (\<lambda>tls'. ok (ic_PortRange u, tls'))"
      have "?m = None \<or> (\<exists>x. ?m = ok x)"
      proof (cases up)
        case (Inr u)
        show ?thesis
        proof (cases "ic_StreamSetting u")
          case None
          with Inr show ?thesis by (simp add: newTLSOrXTLSConfig_def)
        next
          case (Some s')
          obtain t' where "newTLSOrXTLSConfig (Some s') = ok t'" using newTLS_ok by blast
          with Inr Some show ?thesis by simp
        qed
      qed simp
      then show thesis by (rule that) (simp add: fill_share_def Let_def steps Some)
    qed
    from m show ?thesis
    proof (elim disjE exE)
      fix x assume "m = ok x"
      then show ?thesis
        unfolding fill by (cases x; cases "parseHost e (if host = '''' then ic_ListenOn cfg else host) (vt_SNI (snd x))") auto
    qed (simp add: fill)
  qed
qed

text \<open>
  An unknown network panics or fails. The test for the supported networks compares with the
  place a sorted search would insert the name at, so it lets every name pass that is not above
  \<open>ws\<close>. For a vless user of an inbound with a network that has no link, such as \<open>httpupgrade\<close>, the
  request panics then; only for names above \<open>ws\<close> it returns the error.
\<close>

theorem unknown_network_panics:
  assumes "GetInbound pm tag = Some i" and "to_lower (ic_Protocol (ib_Config i)) = VlessProtocolName"
    and "ic_StreamSetting (ib_Config i) = Some s" and "ss_Network s = Some n" and "n \<notin> set known_networks"
    and "parseVlessAccountInfo cc e (ib_Config i) user = ok account"
  shows "GetUserSubUri cc e user tag host nodeName port useSNI pm =
    (if str_less ''ws'' n then fails (''unsupoort network config: '' @ n) else None)"
proof -
  have "share_Build (c\<lparr>sc_NodeName := nodeName, sc_UseSNI := useSNI\<rparr>) = None"
    if "tc_TransportConfig (sc_TransportConfig c) = None" for c :: share_config
    using that by (simp add: share_Build_nil)
  then show ?thesis
    using assms(1,2,6) fill_share_unknown(1) [OF assms(3-5), of cc e "\<lambda>t. t" account host port pm]
      fill_share_unknown(2) [OF assms(3-5), of cc e "\<lambda>t. t" account host port pm]
    by (auto simp: GetUserSubUri_def GetVlessSub_def NewVlessShareConfig_def getVlessUri_def Let_def)
qed

subsection \<open>A subscription as the source of another\<close>

text \<open>
  A node can take its third-party links from another node. What the common converter returns for
  a list of links, fetched as a third-party subscription, gives exactly these links again.
\<close>

theorem subscription_as_third_party:
  assumes "uris \<noteq> []" and "\<And>u. u \<in> set uris \<Longrightarrow> CHR 0x0A \<notin> set u"
    and "fetch address = Inr (CommonConverter_Convert uris)"
  shows "reqSubFromUrl fetch address = Inr uris"
  using assms b64_dec_enc [OF b64_alphabet_std, of True "str_join newline uris"] split_on_join [OF assms(1,2)]
  by (simp add: reqSubFromUrl_def CommonConverter_Convert_def newline_def)

theorem subscription_as_third_party_witness:
  "reqSubFromUrl (\<lambda>_. Inr (CommonConverter_Convert [''vless://a'', ''trojan://b''])) ''x'' = Inr [''vless://a'', ''trojan://b'']"
  by (rule subscription_as_third_party) auto


text \<open>An environment whose decoders agree with the program's own for the accounts it writes.\<close>

definition env_ok :: "sub_env \<Rightarrow> bool" where
  "env_ok e \<longleftrightarrow> (\<forall>u. se_user_email e (encode_user u) = Inr (iu_Email u) \<and> se_vless_account e (encode_user u) = (iu_ID u, iu_Flow u))"

definition demo_env :: sub_env where
  "demo_env = \<lparr>se_user_email = (\<lambda>j. Inr (iu_Email (fst (decode_user j)))),
     se_vless_account = (\<lambda>j. (iu_ID (fst (decode_user j)), iu_Flow (fst (decode_user j)))),
     se_vmess_account = (\<lambda>j. (iu_ID (fst (decode_user j)), ucast (iu_AlterID (fst (decode_user j))))),
     se_is_ip = (\<lambda>_. False), se_lookup = (\<lambda>_. Inl ''no such host'')\<rparr>"

lemma env_ok_demo: "env_ok demo_env"
  by (simp add: env_ok_def demo_env_def decode_encode_user)

definition demo_vless_cfg :: "string \<Rightarrow> inbound_user list \<Rightarrow> inbound_cfg" where
  "demo_vless_cfg network us = \<lparr>ic_Protocol = ''vless'', ic_PortRange = 2000, ic_ListenOn = ''1.2.3.4'',
     ic_Settings = Some (vless_enc demo_codecs \<lparr>vl_Clients = map encode_user us, vl_Decryption = ''none'', vl_Fallbacks = []\<rparr>),
     ic_Tag = ''v'', ic_Allocation = None, ic_StreamSetting = Some (NewStreamSetting network ''tls'' ''k'' ''c''), ic_DomainOverride = None, ic_SniffingConfig = None\<rparr>"

definition demo_bob_account :: inbound_user where
  "demo_bob_account = \<lparr>iu_Email = ''bob'', iu_ID = ''id1'', iu_Flow = '''', iu_Level = 0, iu_AlterID = 0\<rparr>"

definition demo_vless_pm :: "string \<Rightarrow> inbound_user list \<Rightarrow> string set proxy_manager" where
  "demo_vless_pm network us = demo_pm\<lparr>pm_InboundManager := \<lparr>im_inbounds = [''v'' \<mapsto> \<lparr>ib_Config = demo_vless_cfg network us, ib_Tag = ''v''\<rparr>],
     im_listeningPorts = {2000}\<rparr>, pm_InboundConfigs := []\<rparr>"

lemma demo_vless_get: "GetInbound (demo_vless_pm network us) ''v'' = Some \<lparr>ib_Config = demo_vless_cfg network us, ib_Tag = ''v''\<rparr>"
  by (simp add: GetInbound_map demo_vless_pm_def)

lemma demo_account: "parseVlessAccountInfo demo_codecs demo_env (demo_vless_cfg network [demo_bob_account]) ''bob'' = ok (''id1'', '''')"
  by (simp add: parseVlessAccountInfo_def demo_vless_cfg_def codec_ok_simps [OF codec_ok_demo] demo_env_def decode_encode_user
      demo_bob_account_def)

theorem unknown_network_panics_witness:
  "GetUserSubUri demo_codecs demo_env ''bob'' ''v'' '''' ''n'' 0 True (demo_vless_pm ''httpupgrade'' [demo_bob_account]) = None"
proof -
  have "to_lower ''vless'' = VlessProtocolName" by code_simp
  then show ?thesis
    using unknown_network_panics [OF demo_vless_get, of "''httpupgrade''" "[demo_bob_account]" _ "''httpupgrade''" demo_codecs demo_env "''bob''"]
      demo_account by (simp add: demo_vless_cfg_def NewStreamSetting_def known_networks_def)
qed

text \<open>
  C32: an added user gets its own account, unless it has one. After a user has been added to a vless inbound that
  lists no account under this email, the account its links are made from has the generated identifier of
  this user, and its flow when the inbound uses XTLS. Adding does not look whether the user is listed
  already: for a user that is, the new account comes after the old one, and the links are made from the old one as before.
\<close>

theorem added_user_account:
  assumes "codec_ok cc" and "env_ok e" and "ic_Settings cfg = Some j" and "vless_dec cc j = Inr v"
    and "addVlessUser cc u cfg = Done cfg' None"
  shows "parseVlessAccountInfo cc e cfg' (pu_Email u) =
    (if find_raw e (pu_Email u) (vl_Clients v) = None then ok (pu_UUID u, if pu_IsXtls u then pu_Flow u else '''')
     else parseVlessAccountInfo cc e cfg (pu_Email u))"
proof -
  have new: "find_raw e m (xs @ [encode_user w]) = Some (encode_user w)" if "find_raw e m xs = None" "iu_Email w = m" for xs w m
    using that assms(2) by (induction xs) (auto simp: env_ok_def split: if_splits)
  have old: "find_raw e m (xs @ ys) = Some r" if "find_raw e m xs = Some r" for xs ys m r
    using that by (induction xs) (auto split: if_splits)
  show ?thesis
  proof (cases "find_raw e (pu_Email u) (vl_Clients v)")
    case None
    then show ?thesis
      using assms new by (auto simp: addVlessUser_def NewVlessInboundConfig_def parseVlessAccountInfo_def codec_ok_simps env_ok_def
          Let_def split: if_splits)
  next
    case (Some r)
    then show ?thesis
      using assms old by (auto simp: addVlessUser_def NewVlessInboundConfig_def parseVlessAccountInfo_def codec_ok_simps
          Let_def split: if_splits)
  qed
qed

theorem added_user_account_witness:
  "\<exists>cfg' cfg''. addVlessUser demo_codecs \<lparr>pu_Tag = ''v'', pu_Level = 0, pu_Email = ''eve'', pu_AlterId = 0, pu_UUID = ''id2'',
      pu_Account = None, pu_Protocol = ''vless'', pu_IsXtls = False, pu_Flow = ''''\<rparr> (demo_vless_cfg ''tcp'' [demo_bob_account]) = Done cfg' None \<and>
    parseVlessAccountInfo demo_codecs demo_env cfg' ''eve'' = ok (''id2'', '''') \<and>
    addVlessUser demo_codecs \<lparr>pu_Tag = ''v'', pu_Level = 0, pu_Email = ''bob'', pu_AlterId = 0, pu_UUID = ''id2'',
      pu_Account = None, pu_Protocol = ''vless'', pu_IsXtls = False, pu_Flow = ''''\<rparr> (demo_vless_cfg ''tcp'' [demo_bob_account]) = Done cfg'' None \<and>
    parseVlessAccountInfo demo_codecs demo_env cfg'' ''bob'' = ok (''id1'', '''')"
proof -
  let ?u = "\<lambda>n. \<lparr>pu_Tag = ''v'', pu_Level = 0, pu_Email = n, pu_AlterId = 0, pu_UUID = ''id2'',
      pu_Account = None, pu_Protocol = ''vless'', pu_IsXtls = False, pu_Flow = ''''\<rparr>"
  let ?cfg = "demo_vless_cfg ''tcp'' [demo_bob_account]"
  have low: "to_lower ''vless'' = VlessProtocolName" by code_simp
  let ?v = "\<lparr>vl_Clients = map encode_user [demo_bob_account], vl_Decryption = ''none'', vl_Fallbacks = []\<rparr>"
  have added: "\<exists>cfg'. addVlessUser demo_codecs (?u n) ?cfg = Done cfg' None" for n
    by (simp add: addVlessUser_def NewVlessInboundConfig_def demo_vless_cfg_def low codec_ok_simps [OF codec_ok_demo] Let_def)
  obtain cfg' where add: "addVlessUser demo_codecs (?u ''eve'') ?cfg = Done cfg' None" using added by blast
  obtain cfg'' where again: "addVlessUser demo_codecs (?u ''bob'') ?cfg = Done cfg'' None" using added by blast
  have "find_raw demo_env ''eve'' (vl_Clients ?v) = None" "find_raw demo_env ''bob'' (vl_Clients ?v) \<noteq> None"
    by (simp_all add: demo_env_def decode_encode_user demo_bob_account_def)
  moreover have "parseVlessAccountInfo demo_codecs demo_env c (pu_Email (?u n)) =
      (if find_raw demo_env (pu_Email (?u n)) (vl_Clients ?v) = None then ok (pu_UUID (?u n), if pu_IsXtls (?u n) then pu_Flow (?u n) else '''')
       else parseVlessAccountInfo demo_codecs demo_env ?cfg (pu_Email (?u n)))" if "addVlessUser demo_codecs (?u n) ?cfg = Done c None" for c n
    by (rule added_user_account [OF codec_ok_demo env_ok_demo _ codec_ok_simps(1) [OF codec_ok_demo] that]) (simp add: demo_vless_cfg_def)
  note this [OF add] this [OF again]
  ultimately have "parseVlessAccountInfo demo_codecs demo_env cfg' ''eve'' = ok (''id2'', '''')"
    "parseVlessAccountInfo demo_codecs demo_env cfg'' ''bob'' = ok (''id1'', '''')"
    using demo_account by (simp_all del: find_raw.simps)
  with add again show ?thesis by blast
qed

end
