(* ===== verification/HandlerProps.thy ===== *)
theory HandlerProps
  imports NodeHandlers UserProps LinkProps
begin

text \<open>
  Properties of the requests of an end node: who gets links, what the requests on several users
  report, and what deleting an inbound does to the lock of the user manager.
\<close>

subsection \<open>Subscriptions\<close>

lemma tag_uris_exclude:
  "tag_uris cc e g exclude useSNI name tags pm = Some uris \<Longrightarrow> u \<in> set uris \<Longrightarrow> getSubUriHead u \<notin> set exclude"
  by (induction tags arbitrary: uris) (auto split: option.splits sum.splits if_splits)

lemma getUserSubUri_exclude:
  assumes "getUserSubUri cc e fetch g u exclude useSNI pm = Some uris" "l \<in> set uris"
  shows "getSubUriHead l \<notin> set exclude"
  using assms by (auto simp: getUserSubUri_def split: option.splits if_splits dest: tag_uris_exclude)

lemma GetUserSub_ok:
  assumes "GetUserSub cc e fetch g now u exclude useSNI um = Some (Inr uris)"
  shows "\<exists>l v. um_users um (us_Name u) = Some l \<and> \<not> (us_ExpireTime l < now \<and> us_ExpireTime l > 0) \<and>
    us_Passwd l = us_Passwd u \<and> getUserSubUri cc e fetch g v exclude useSNI (um_proxy um) = Some uris"
proof (cases "um_users um (us_Name u)")
  case None
  with assms show ?thesis by (simp add: GetUserSub_def fails_def)
next
  case (Some l)
  then have "\<not> (us_ExpireTime l < now \<and> us_ExpireTime l > 0)" "us_Passwd l = us_Passwd u"
    using assms by (auto simp: GetUserSub_def fails_def split: if_splits)
  moreover from this Some have "GetUserSub cc e fetch g now u exclude useSNI um = map_option Inr (getUserSubUri cc e fetch g
      (if us_Tags u = [] then u\<lparr>us_Tags := us_Tags l\<rparr> else u) exclude useSNI (um_proxy um))"
    by (auto simp: GetUserSub_def)
  then have "\<exists>v. getUserSubUri cc e fetch g v exclude useSNI (um_proxy um) = Some uris"
    unfolding assms by (metis map_option_eq_Some sum.inject(2))
  ultimately show ?thesis using Some by blast
qed

text \<open>
  C13: links are given to valid users only. A request for a subscription never changes the node. It
  is answered with links only for a known user whose password matches and whose time is not over,
  and then no link has an excluded protocol and none is empty.
\<close>

theorem links_for_valid_users_only:
  assumes "Node_GetSub cc e fetch g now u exclude useSNI um = Done um' (rsp, uris)"
  shows "um' = um \<and> (rsp_Code rsp = 0 \<longleftrightarrow> uris \<noteq> []) \<and>
    (uris \<noteq> [] \<longrightarrow> (\<exists>l. um_users um (us_Name u) = Some l \<and> us_Passwd l = us_Passwd u \<and>
      (us_ExpireTime l \<le> 0 \<or> now \<le> us_ExpireTime l)) \<and>
      (\<forall>l \<in> set uris. l \<noteq> '''' \<and> getSubUriHead l \<notin> set exclude))"
proof (cases "uris = []")
  case True
  with assms show ?thesis
    by (auto simp: Node_GetSub_def err_rsp_def split: option.splits sum.splits if_splits)
next
  case False
  then have sub: "GetUserSub cc e fetch g now u exclude useSNI um = Some (Inr uris)" and rsp: "um' = um" "rsp = ok_rsp"
    using assms by (auto simp: Node_GetSub_def split: option.splits sum.splits if_splits)
  from GetUserSub_ok [OF sub] obtain l v where l: "um_users um (us_Name u) = Some l"
      "\<not> (us_ExpireTime l < now \<and> us_ExpireTime l > 0)" "us_Passwd l = us_Passwd u"
      "getUserSubUri cc e fetch g v exclude useSNI (um_proxy um) = Some uris" by blast
  have "'''' \<notin> set uris" using l(4) by (auto simp: getUserSubUri_def split: option.splits)
  with False l(1-3) rsp getUserSubUri_exclude [OF l(4)] show ?thesis by (auto simp: ok_rsp_def not_less)
qed

theorem links_for_valid_users_only_witness:
  "\<exists>uris. Node_GetSub demo_codecs demo_env (\<lambda>_. Inl '''') \<lparr>sg_ProxyHost = '''', sg_ProxyPort = 0, sg_NodeName = ''n'',
       sg_RemoteSubs = [], sg_hysteria = Some [''h.org'']\<rparr> 40 demo_bob [''vmess''] True demo_loaded = Done demo_loaded (ok_rsp, uris)
     \<and> uris \<noteq> [] \<and> (\<forall>l \<in> set uris. getSubUriHead l \<noteq> ''vmess'')"
proof -
  let ?g = "\<lparr>sg_ProxyHost = '''', sg_ProxyPort = 0, sg_NodeName = ''n'', sg_RemoteSubs = [], sg_hysteria = Some [''h.org'']\<rparr>"
  let ?hy = "''hysteria2:'' @ ''//'' @ b64_enc b64_std False ''pw'' @ ''@h.org:443#n''"
  have hy: "PM_GetUserSub ?g ''pw'' ''n'' = Some ?hy" by (simp add: PM_GetUserSub_def del: b64_enc.simps)
  have head: "getSubUriHead ?hy = ''hysteria2''"
    using split_on_append_sep [of "CHR '':''" "''hysteria2''"] by (simp add: getSubUriHead_def del: b64_enc.simps split_on.simps)
  have run: "Node_GetSub demo_codecs demo_env (\<lambda>_. Inl '''') ?g 40 demo_bob [''vmess''] True demo_loaded = Done demo_loaded (ok_rsp, [?hy])"
    using hy head by (simp del: b64_enc.simps add: Node_GetSub_def GetUserSub_def getUserSubUri_def GetSubFromThirdUrl_def
        demo_loaded_def demo_um_def demo_bob_def)
  from links_for_valid_users_only [OF run] run show ?thesis by (intro exI [of _ "[?hy]"]) (simp del: b64_enc.simps)
qed


subsection \<open>Requests on several users\<close>

text \<open>The loop over the users of a request: what every operation keeps, the whole loop keeps.\<close>

lemma users_loop_Done:
  assumes "users_loop op say i us s msg = Done s' msg'"
    and "\<And>j u s s' e. op j u s = Done s' e \<Longrightarrow> R s s'" and "\<And>s. R s s" and "\<And>s t u. R s t \<Longrightarrow> R t u \<Longrightarrow> R s u"
  shows "R s s'"
  using assms(1)
proof (induction us arbitrary: i s msg)
  case (Cons u us)
  then obtain s1 e where "op i u s = Done s1 e"
      "users_loop op say (Suc i) us s1 (case e of None \<Rightarrow> msg | Some err \<Rightarrow> msg @ say u err) = Done s' msg'"
    by (auto simp: bind_o_Done_iff)
  with Cons.IH assms(2,4) show ?case by blast
qed (simp add: assms(3))

text \<open>The collected message grows, and stays empty only when every operation succeeded.\<close>

lemma users_loop_msg:
  "users_loop op say i us s msg = Done s' msg' \<Longrightarrow> (\<exists>t. msg' = msg @ t)"
proof (induction us arbitrary: i s msg)
  case (Cons u us)
  then obtain s1 e where "users_loop op say (Suc i) us s1 (case e of None \<Rightarrow> msg | Some err \<Rightarrow> msg @ say u err) = Done s' msg'"
    by (auto simp: bind_o_Done_iff)
  from Cons.IH [OF this] show ?case by (auto split: option.splits)
qed simp

lemma users_loop_success:
  assumes "users_loop op say i us s '''' = Done s' ''''" and "\<And>u err. say u err \<noteq> ''''"
    and "\<And>j u s s'. op j u s = Done s' None \<Longrightarrow> Q u s'" and "\<And>j u v s s' e. op j u s = Done s' e \<Longrightarrow> Q v s \<Longrightarrow> Q v s'"
  shows "\<forall>u \<in> set us. Q u s'"
  using assms(1)
proof (induction us arbitrary: i s)
  case (Cons u us)
  then obtain s1 e where op: "op i u s = Done s1 e"
      and rest: "users_loop op say (Suc i) us s1 (case e of None \<Rightarrow> '''' | Some err \<Rightarrow> '''' @ say u err) = Done s' ''''"
    by (auto simp: bind_o_Done_iff simp del: append.simps)
  have none: "e = None" using users_loop_msg [OF rest] assms(2) by (auto split: option.splits)
  have "Q u s'"
  proof (rule users_loop_Done [OF rest, where R = "\<lambda>s s'. Q u s \<longrightarrow> Q u s'", THEN mp])
    show "Q u s1" using assms(3) op none by blast
  qed (use assms(4) in blast)+
  moreover have "\<forall>u \<in> set us. Q u s'" using Cons.IH rest none by simp
  ultimately show ?case by simp
qed simp

lemma UM_Add_users:
  assumes "UM_Add cc x gen d u um = Done um' e"
  shows "um_users um k \<noteq> None \<Longrightarrow> um_users um' k \<noteq> None"
    and "e = None \<Longrightarrow> um_users um' (us_Name u) \<noteq> None \<and> um_config um' = (\<lambda>k. map_option user_entry (um_users um' k))"
proof -
  show "um_users um k \<noteq> None \<Longrightarrow> um_users um' k \<noteq> None"
    using assms by (auto simp: UM_Add_def um_done FlushUser_def store_added_def split: if_splits)
  assume "e = None"
  with assms obtain pm u1 ts where op: "proxyUserOp cc x gen d (checkUserTag u um) ''add'' (um_proxy um) = Done pm (u1, ts, None)"
    and um': "um' = (store_added u1 ts (um\<lparr>um_proxy := pm\<rparr>))\<lparr>um_config :=
      (\<lambda>k. map_option user_entry (um_users (store_added u1 ts (um\<lparr>um_proxy := pm\<rparr>)) k))\<rparr>"
    by (auto simp: UM_Add_def um_done FlushUser_def split: if_splits)
  have "us_Name u1 = us_Name u" using proxyUserOp_user [OF op] checkUserTag_user [of u um] by simp
  with um' show "um_users um' (us_Name u) \<noteq> None \<and> um_config um' = (\<lambda>k. map_option user_entry (um_users um' k))"
    by (simp add: store_added_def)
qed

text \<open>
  C40: adding users reports every failure. The answer of \<open>AddUsers\<close> has the code 0 or 200. With the
  code 0 every user of the request is known to the node afterwards, and no user is lost.
\<close>

theorem add_users_reports_failures:
  assumes "Node_AddUsers cc x gens d users um = Done um' rsp"
  shows "rsp_Code rsp \<in> {0, 200} \<and> (rsp_Code rsp = 0 \<longrightarrow> (\<forall>u \<in> set users. um_users um' (us_Name u) \<noteq> None)) \<and>
    (\<forall>k. um_users um k \<noteq> None \<longrightarrow> um_users um' k \<noteq> None)"
proof -
  let ?op = "\<lambda>i u. UM_Add cc x (gens i) d u" and ?say = "\<lambda>u err. ''user: '' @ us_Name u @ '' add failed: '' @ err @ ''|''"
  obtain msg where loop: "users_loop ?op ?say 0 users um '''' = Done um' msg" and rsp: "rsp = msg_rsp 200 msg"
    using assms by (auto simp: Node_AddUsers_def bind_o_Done_iff)
  have all: "\<forall>u \<in> set users. um_users um' (us_Name u) \<noteq> None" if "msg = ''''"
    by (rule users_loop_success [OF loop [unfolded that]]) (use UM_Add_users in blast)+
  have keep: "um_users um k \<noteq> None \<longrightarrow> um_users um' k \<noteq> None" for k
    by (rule users_loop_Done [OF loop, where R = "\<lambda>s s'. um_users s k \<noteq> None \<longrightarrow> um_users s' k \<noteq> None"])
      (use UM_Add_users(1) in blast)+
  show ?thesis using all keep rsp by (auto simp: msg_rsp_def err_rsp_def ok_rsp_def)
qed

theorem add_users_reports_failures_witness:
  "\<exists>um'. Node_AddUsers demo_codecs demo_xray (\<lambda>_ _. ''id'') '''' [demo_bob\<lparr>us_Name := ''''\<rparr>] demo_loaded = Done um' (err_rsp 200 ''user:  add failed: Empty user|'')
     \<and> um_users um' ''bob'' \<noteq> None"
proof -
  have run: "Node_AddUsers demo_codecs demo_xray (\<lambda>_ _. ''id'') '''' [demo_bob\<lparr>us_Name := ''''\<rparr>] demo_loaded =
      Done demo_loaded (err_rsp 200 ''user:  add failed: Empty user|'')"
    by (simp add: Node_AddUsers_def UM_Add_def msg_rsp_def)
  from add_users_reports_failures [OF run] show ?thesis
    using run by (simp add: demo_loaded_def)
qed

text \<open>What an operation on one user of the list does stays done, when the others keep it.\<close>

lemma users_loop_hit:
  assumes "users_loop op say i us s msg = Done s' msg'" and "u \<in> set us" and "N s"
    and "\<And>j v s s' e. op j v s = Done s' e \<Longrightarrow> N s \<Longrightarrow> N s'" and "\<And>j s s' e. op j u s = Done s' e \<Longrightarrow> N s \<Longrightarrow> B s'"
    and "\<And>j v s s' e. op j v s = Done s' e \<Longrightarrow> B s \<Longrightarrow> B s'"
  shows "B s'"
  using assms(1-3)
proof (induction us arbitrary: i s msg)
  case (Cons v us)
  then obtain s1 e where op: "op i v s = Done s1 e"
      and rest: "users_loop op say (Suc i) us s1 (case e of None \<Rightarrow> msg | Some err \<Rightarrow> msg @ say v err) = Done s' msg'"
    by (auto simp: bind_o_Done_iff)
  show ?case
  proof (cases "u \<in> set us")
    case True
    with Cons.IH [OF rest True] assms(4) [OF op] Cons.prems(3) show ?thesis by blast
  next
    case False
    with Cons.prems op assms(5) have "B s1" by auto
    then show ?thesis
      using users_loop_Done [OF rest, where R = "\<lambda>s s'. B s \<longrightarrow> B s'"] assms(6) by blast
  qed
qed simp

text \<open>Deleting users creates none, and gives no read lock back.\<close>

lemma UM_Delete_Done:
  assumes "UM_Delete cc x gen d False u um = Done um' e"
  shows "um_users um k = None \<Longrightarrow> um_users um' k = None" and "um_readers um \<le> um_readers um'"
    and "us_Name u \<noteq> '''' \<Longrightarrow> um_users um (us_Name u) = None \<Longrightarrow> 0 < um_readers um'"
  using assms
  by (auto simp: UM_Delete_def um_done FlushUser_def drop_tags_def write_back_def Let_def split: if_splits option.splits)

text \<open>
  Deleting an inbound can block the user manager. When one of the clients of the inbound is not
  a user of the node (a client of the configuration file, say), the request is answered, but it
  leaves a read lock held, and the next update of any user and the next clean-up never return.
\<close>

theorem delete_inbound_blocks_manager:
  assumes "GetInbound (um_proxy um) tag = Some i" and "Inbound_GetUsers cc i = Some names" and "n \<in> set names" and "n \<noteq> ''''"
    and "um_users um n = None" and "Node_DeleteInbound cc x gens d tag um = Done um' rsp" and "us_Passwd v \<noteq> ''''"
  shows "\<exists>um2. UM_Update v um' = Blocked um2 \<and> (\<not> um_writer_waits um' \<longrightarrow> ClearInvalideUser cc x gen d now ord um' = Blocked um2)"
proof -
  let ?op = "\<lambda>j name. UM_Delete cc x (gens j) d False (named_user name [tag])"
  obtain um1 msg where loop: "users_loop ?op (\<lambda>_ _. '''') 0 names um '''' = Done um1 msg"
      and um': "(case DeleteInbound x tag (um_proxy um1) of
           (pm, Some err) \<Rightarrow> Done (um1\<lparr>um_proxy := pm\<rparr>) (err_rsp 601 (''delete inbound err > '' @ err))
         | (pm, None) \<Rightarrow> Done (um1\<lparr>um_proxy := pm\<rparr>) ok_rsp) = Done um' rsp"
    using assms(6) by (simp only: Node_DeleteInbound_def assms(1,2) option.case bind_o_Done_iff) blast
  have readers: "um_readers um' = um_readers um1"
    using um' by (cases "DeleteInbound x tag (um_proxy um1)"; cases "snd (DeleteInbound x tag (um_proxy um1))") auto
  have "0 < um_readers um1"
  proof (rule users_loop_hit [OF loop assms(3), where N = "\<lambda>s. um_users s n = None" and B = "\<lambda>s. 0 < um_readers s"])
    show "0 < um_readers s'" if "UM_Delete cc x (gens j) d False (named_user n [tag]) s = Done s' e" "um_users s n = None" for j s s' e
      using UM_Delete_Done(3) [OF that(1)] that(2) assms(4) by (simp add: named_user_def)
    show "0 < um_readers s'" if "?op j v s = Done s' e" "0 < um_readers s" for j v s s' e
      using UM_Delete_Done(2) [OF that(1)] that(2) by simp
  qed (rule assms(5), rule UM_Delete_Done(1))
  then show ?thesis
    using assms(7) readers by (auto simp: UM_Update_def ClearInvalideUser_def um_Lock_def um_RLock_def Let_def)
qed

definition demo_unmanaged :: "string set user_manager" where
  "demo_unmanaged = demo_um\<lparr>um_proxy := demo_vless_pm ''tcp'' [demo_bob_account]\<rparr>"

theorem delete_inbound_blocks_manager_witness:
  "\<exists>um' um2 rsp. Node_DeleteInbound demo_codecs demo_xray (\<lambda>_ _. ''id'') '''' ''v'' demo_unmanaged = Done um' rsp
     \<and> UM_Update demo_bob um' = Blocked um2"
proof -
  have low: "to_lower ''vless'' = VlessProtocolName" by code_simp
  have get: "GetInbound (um_proxy demo_unmanaged) ''v'' = Some \<lparr>ib_Config = demo_vless_cfg ''tcp'' [demo_bob_account], ib_Tag = ''v''\<rparr>"
    by (simp add: demo_unmanaged_def demo_vless_get)
  have names: "Inbound_GetUsers demo_codecs \<lparr>ib_Config = demo_vless_cfg ''tcp'' [demo_bob_account], ib_Tag = ''v''\<rparr> = Some [''bob'']"
    by (simp add: Inbound_GetUsers_def GetInboundUsers_def getVlessUsers_def demo_vless_cfg_def low NewVlessInboundConfig_def
        codec_ok_simps [OF codec_ok_demo] decode_encode_user demo_bob_account_def raw_emails_def Let_def)
  have del: "UM_Delete demo_codecs demo_xray gen '''' False (named_user ''bob'' [''v'']) demo_unmanaged =
      Done (demo_unmanaged\<lparr>um_readers := 1\<rparr>) (Some ''user[bob] is not exist'')" for gen
    by (simp add: UM_Delete_def named_user_def um_RLock_def demo_unmanaged_def demo_um_def)
  have "\<exists>um' rsp. Node_DeleteInbound demo_codecs demo_xray (\<lambda>_ _. ''id'') '''' ''v'' demo_unmanaged = Done um' rsp"
    by (simp add: Node_DeleteInbound_def get names del split: prod.split option.split)
  then obtain um' rsp where run: "Node_DeleteInbound demo_codecs demo_xray (\<lambda>_ _. ''id'') '''' ''v'' demo_unmanaged = Done um' rsp"
    by blast
  have "um_users demo_unmanaged ''bob'' = None" "us_Passwd demo_bob \<noteq> ''''"
    by (simp_all add: demo_unmanaged_def demo_um_def demo_bob_def)
  then obtain um2 where "UM_Update demo_bob um' = Blocked um2"
    using delete_inbound_blocks_manager [OF get names _ _ _ run, of "''bob''" demo_bob "\<lambda>_. ''id''" 0 "[]"] by auto
  with run show ?thesis by blast
qed

lemma update_loop_last:
  "us \<noteq> [] \<Longrightarrow> update_loop us um e0 = Done um' e \<Longrightarrow> \<exists>um1. UM_Update (last us) um1 = Done um' e"
  by (induction us arbitrary: um e0) (auto simp: bind_o_Done_iff split: if_splits)

text \<open>
  An update of several users reports one error at most. The code of the answer is always 0, and
  only the error of the last user of the request shows: with a valid last user a request that
  failed for the others is answered like a success.
\<close>

theorem update_users_reports_last_error:
  assumes "Node_UpdateUsers users um = Done um' rsp"
  shows "rsp_Code rsp = 0 \<and> (rsp_Msg rsp \<noteq> '''' \<longrightarrow>
    users \<noteq> [] \<and> (\<exists>um1. UM_Update (last users) um1 = Done um' (Some (rsp_Msg rsp))))"
proof -
  obtain e where loop: "update_loop users um None = Done um' e" and rsp: "rsp = (case e of None \<Rightarrow> ok_rsp | Some err \<Rightarrow> err_rsp 0 err)"
    using assms by (auto simp: Node_UpdateUsers_def bind_o_Done_iff)
  from loop update_loop_last [OF _ loop] show ?thesis
    by (cases "users = []"; cases e) (auto simp: rsp ok_rsp_def err_rsp_def)
qed

theorem update_users_reports_last_error_witness:
  "Node_UpdateUsers [demo_bob\<lparr>us_Passwd := ''''\<rparr>, demo_bob\<lparr>us_Passwd := ''new''\<rparr>] demo_loaded = Done demo_updated ok_rsp
    \<and> rsp_Code ok_rsp = 0"
proof -
  have fail: "UM_Update (demo_bob\<lparr>us_Passwd := ''''\<rparr>) demo_loaded = Done demo_loaded (Some ''empty passwd'')"
    by (simp add: UM_Update_def)
  have run: "Node_UpdateUsers [demo_bob\<lparr>us_Passwd := ''''\<rparr>, demo_bob\<lparr>us_Passwd := ''new''\<rparr>] demo_loaded = Done demo_updated ok_rsp"
    by (simp add: Node_UpdateUsers_def fail demo_update_done)
  from update_users_reports_last_error [OF run] run show ?thesis by simp
qed

subsection \<open>Traffic of the users\<close>

lemma collect_keys:
  "k \<in> dom (fold CollectCBFunc ss m) \<Longrightarrow> k \<in> dom m \<or> (\<exists>s \<in> set ss. k = stat_id s)"
proof (induction ss arbitrary: m)
  case (Cons s ss)
  have "dom (CollectCBFunc s m) = insert (stat_id s) (dom m)" by (simp add: CollectCBFunc_def)
  with Cons.IH [of "CollectCBFunc s m"] Cons.prems show ?case by auto
qed simp

lemma last_stat_id: "st_Proxy s \<in> {proxyName, hyProxyName} \<Longrightarrow> last (stat_id s) \<noteq> CHR ''r''"
  by (auto simp: stat_id_def proxyName_def hyProxyName_def)

text \<open>
  The list of users never shows their traffic. The collector keeps the sums under name, type,
  source and proxy, the request looks for name and type only; with the names of the two proxies no
  user is found, so that the users are returned as they are and nothing changes.
\<close>

theorem users_report_no_traffic:
  assumes "\<forall>s \<in> set ss. st_Proxy s \<in> {proxyName, hyProxyName}"
    and "Node_GetUsers (fold CollectCBFunc ss Map.empty) ord um = Done um' users"
  shows "um' = um \<and> users = vals_in_order (um_users um) ord"
proof -
  let ?m = "fold CollectCBFunc ss Map.empty"
  have none: "?m (n @ ''_user'') = None" for n
  proof (rule ccontr)
    assume "?m (n @ ''_user'') \<noteq> None"
    then have "n @ ''_user'' \<in> dom ?m" by (simp only: domIff not_False_eq_True)
    then obtain s where "s \<in> set ss" and id: "n @ ''_user'' = stat_id s" using collect_keys [of "n @ ''_user''" ss Map.empty] by auto
    with assms(1) last_stat_id [of s] show False unfolding id [symmetric] by simp
  qed
  have "map_option (with_traffic ?m) u = u" for u by (cases u) (simp_all add: with_traffic_def none)
  with assms(2) show ?thesis by (auto simp: Node_GetUsers_def GetUserList_def um_done Let_def)
qed

theorem users_report_no_traffic_witness:
  "Node_GetUsers (fold CollectCBFunc [(demo_stat ''user'' 5)\<lparr>st_Proxy := ''Xray/V2ray''\<rparr>] Map.empty) [''bob''] demo_loaded =
     Done demo_loaded (vals_in_order (um_users demo_loaded) [''bob''])"
proof -
  let ?ss = "[(demo_stat ''user'' 5)\<lparr>st_Proxy := ''Xray/V2ray''\<rparr>]"
  obtain um' users where run: "Node_GetUsers (fold CollectCBFunc ?ss Map.empty) [''bob''] demo_loaded = Done um' users"
    by (simp add: Node_GetUsers_def GetUserList_def um_RLock_def demo_loaded_def demo_um_def Let_def)
  have "\<forall>s \<in> set ?ss. st_Proxy s \<in> {proxyName, hyProxyName}" by (simp add: proxyName_def)
  from users_report_no_traffic [OF this run] run show ?thesis by simp
qed

end
