(* ===== verification/Certs.thy ===== *)
theory Certs
  imports GoStrings
begin

text \<open>
  The certificates of a node: \<open>lego/cert.go\<close>. The file system and the environment of the process are the
  record \<open>world\<close>; what the source calls is the record \<open>cert_env\<close>: errors of opening files and directories,
  the expiry time that \<open>crypto/tls\<close> and \<open>crypto/x509\<close> read from a certificate and its key, and the run
  of the embedded ACME client, which works on the files below \<open>legoPath\<close>. A write that fails is taken to
  write nothing.
\<close>

subsection \<open>Paths\<close>

text \<open>\<open>filepath.Join\<close> of two elements and \<open>filepath.Clean\<close>, with slashes.\<close>

fun clean_parts :: "bool \<Rightarrow> string list \<Rightarrow> string list \<Rightarrow> string list" where
  "clean_parts rooted [] st = rev st"
| "clean_parts rooted (p # ps) st =
     clean_parts rooted ps
       (if p = '''' \<or> p = ''.'' then st
        else if p = ''..''
          then (case st of [] \<Rightarrow> if rooted then [] else [''..''] | d # r \<Rightarrow> if d = ''..'' then ''..'' # st else r)
        else p # st)"

definition path_clean :: "string \<Rightarrow> string" where
  "path_clean s =
     (let rooted = has_prefix ''/'' s; body = str_join ''/'' (clean_parts rooted (split_on (CHR ''/'') s) [])
      in if rooted then ''/'' @ body else if body = '''' then ''.'' else body)"

definition path_join :: "string \<Rightarrow> string \<Rightarrow> string" where
  "path_join a b =
     (if a = '''' then (if b = '''' then '''' else path_clean b)
      else if b = '''' then path_clean a
      else path_clean (a @ ''/'' @ b))"

subsection \<open>State\<close>

record certificate =
  ct_Domain :: string
  ct_CertificateFile :: string
  ct_KeyFile :: string
  ct_ExpireTime :: int
  ct_ObtainedByLocal :: bool

record cert_manager =
  cm_Email :: string
  cm_Secrets :: "(string \<times> string) list"
  cm_DnsProvider :: string
  cm_Path :: string
  cm_Certs :: "string \<rightharpoonup> certificate"
  cm_Args :: "string list"

record world =
  w_files :: "string \<rightharpoonup> string"
  w_env :: "string \<rightharpoonup> string"

record cert_env =
  legoPath :: string \<comment> \<open>the directory of the client, below that of the executable\<close>
  defaultCertPath :: string
  ce_open_write :: "string \<Rightarrow> gerror option"
  ce_write :: "string \<Rightarrow> gerror option"
  ce_readdir :: "string \<Rightarrow> world \<Rightarrow> string list result"
  ce_missing :: "string \<Rightarrow> gerror" \<comment> \<open>the error of opening a missing file\<close>
  ce_not_after :: "string \<Rightarrow> string \<Rightarrow> int result"
  ce_acme :: "string list \<Rightarrow> world \<Rightarrow> world \<times> gerror option"

definition subCertPath :: string where "subCertPath = ''certificates''"

subsection \<open>Files\<close>

text \<open>The file is opened without truncating it: a shorter text leaves the rest of the old one.\<close>

definition overwrite :: "string \<Rightarrow> string option \<Rightarrow> string" where
  "overwrite data old = data @ drop (length data) (case old of None \<Rightarrow> '''' | Some t \<Rightarrow> t)"

definition write_file :: "cert_env \<Rightarrow> string \<Rightarrow> string \<Rightarrow> world \<Rightarrow> world \<times> gerror option" where
  "write_file e data path w =
     (case ce_open_write e path of
        Some err \<Rightarrow> (w, Some err)
      | None \<Rightarrow> (case ce_write e path of
            Some err \<Rightarrow> (w\<lparr>w_files := (w_files w)(path \<mapsto> overwrite '''' (w_files w path))\<rparr>, Some err)
          | None \<Rightarrow> (w\<lparr>w_files := (w_files w)(path \<mapsto> overwrite data (w_files w path))\<rparr>, None)))"

definition SaveFile :: "cert_env \<Rightarrow> string \<Rightarrow> string \<Rightarrow> world \<Rightarrow> world \<times> gerror option" where
  "SaveFile e data filePath w = write_file e data filePath w"

definition copyFile :: "cert_env \<Rightarrow> string \<Rightarrow> string \<Rightarrow> world \<Rightarrow> world \<times> gerror option" where
  "copyFile e srcName dstName w =
     (case w_files w srcName of
        None \<Rightarrow> (w, Some (ce_missing e srcName))
      | Some data \<Rightarrow> write_file e data dstName w)"

definition char_upper :: "char \<Rightarrow> char" where
  "char_upper c = (if 97 \<le> (of_char c :: nat) \<and> (of_char c :: nat) \<le> 122 then char_of ((of_char c :: nat) - 32) else c)"

definition SetEnvs :: "(string \<times> string) list \<Rightarrow> world \<Rightarrow> world" where
  "SetEnvs envs w = w\<lparr>w_env := fold (\<lambda>(k, v) env. env(map char_upper k \<mapsto> v)) envs (w_env w)\<rparr>"

definition fullCertExpireTime :: "cert_env \<Rightarrow> world \<Rightarrow> certificate \<Rightarrow> certificate \<times> gerror option" where
  "fullCertExpireTime e w ca =
     (case w_files w (ct_CertificateFile ca) of
        None \<Rightarrow> (ca, Some (ce_missing e (ct_CertificateFile ca)))
      | Some certPEM \<Rightarrow> (case w_files w (ct_KeyFile ca) of
            None \<Rightarrow> (ca, Some (ce_missing e (ct_KeyFile ca)))
          | Some keyPEM \<Rightarrow> (case ce_not_after e certPEM keyPEM of
                Inl err \<Rightarrow> (ca, Some err)
              | Inr t \<Rightarrow> (ca\<lparr>ct_ExpireTime := t\<rparr>, None))))"

subsection \<open>Loading\<close>

definition has_suffix :: "string \<Rightarrow> string \<Rightarrow> bool" where
  "has_suffix suf s = has_prefix (rev suf) (rev s)"

definition paraseDomainCertFile :: "string \<Rightarrow> string \<Rightarrow> bool \<Rightarrow> certificate option" where
  "paraseDomainCertFile path fileName obtainedByLocal =
     (if length fileName < 4 then None
      else let domain0 = take (length fileName - 4) fileName;
               domain = (if has_prefix ''_.'' domain0 then replace_all ''_.'' ''*.'' 0 domain0 else domain0)
        in if has_suffix ''.crt'' fileName \<and> \<not> has_suffix ''.issuer.crt'' fileName
           then Some \<lparr>ct_Domain = domain, ct_CertificateFile = path_join path fileName, ct_KeyFile = '''',
                  ct_ExpireTime = 0, ct_ObtainedByLocal = obtainedByLocal\<rparr>
           else if has_suffix ''.key'' fileName
           then Some \<lparr>ct_Domain = domain, ct_CertificateFile = '''', ct_KeyFile = path_join path fileName,
                  ct_ExpireTime = 0, ct_ObtainedByLocal = obtainedByLocal\<rparr>
           else None)"

definition mergeCertificate :: "cert_env \<Rightarrow> world \<Rightarrow> certificate \<Rightarrow> certificate \<Rightarrow> certificate result" where
  "mergeCertificate e w cert1 cert2 =
     (if ct_Domain cert1 \<noteq> ct_Domain cert2
      then Inl (''domain is different: ['' @ ct_Domain cert1 @ ''] and ['' @ ct_Domain cert2 @ '']'')
      else if ct_CertificateFile cert1 \<noteq> '''' \<and> ct_CertificateFile cert2 \<noteq> '''' \<and> ct_CertificateFile cert1 \<noteq> ct_CertificateFile cert2
      then Inl (''get two certificate file: ['' @ ct_KeyFile cert1 @ ''] and ['' @ ct_KeyFile cert2 @ '']'')
      else if ct_KeyFile cert1 \<noteq> '''' \<and> ct_KeyFile cert2 \<noteq> '''' \<and> ct_KeyFile cert1 \<noteq> ct_KeyFile cert2
      then Inl (''get two key file: ['' @ ct_KeyFile cert1 @ ''] and ['' @ ct_KeyFile cert2 @ '']'')
      else let c = \<lparr>ct_Domain = ct_Domain cert1,
                 ct_CertificateFile = (if ct_CertificateFile cert1 \<noteq> '''' then ct_CertificateFile cert1 else ct_CertificateFile cert2),
                 ct_KeyFile = (if ct_KeyFile cert1 \<noteq> '''' then ct_KeyFile cert1 else ct_KeyFile cert2),
                 ct_ExpireTime = 0, ct_ObtainedByLocal = ct_ObtainedByLocal cert1 \<or> ct_ObtainedByLocal cert2\<rparr>
        in case fullCertExpireTime e w c of (c', Some err) \<Rightarrow> Inl err | (c', None) \<Rightarrow> Inr c')"

definition checkConfig :: "cert_manager \<Rightarrow> gerror option" where
  "checkConfig cm =
     (if cm_Email cm = '''' then Some (''email can'' @ [CHR 0x27] @ ''t be empty'')
      else if cm_DnsProvider cm = '''' then Some (''invalid dns provider: '' @ cm_DnsProvider cm)
      else None)"

definition file_name :: "string \<Rightarrow> string \<Rightarrow> string" where
  "file_name domain ext = replace_all ''*'' ''_'' 0 domain @ ext"

definition restore_file :: "cert_env \<Rightarrow> string \<Rightarrow> string \<Rightarrow> world \<Rightarrow> world" where
  "restore_file e name path w =
     (if w_files w path = None then fst (copyFile e (path_join (path_join (legoPath e) subCertPath) name) path w) else w)"

text \<open>\<open>ord\<close> is the order of the loop over the certificates.\<close>

definition checkCertFile :: "cert_env \<Rightarrow> string list \<Rightarrow> cert_manager \<Rightarrow> world \<Rightarrow> world" where
  "checkCertFile e ord cm w =
     fold (\<lambda>c w. restore_file e (file_name (ct_Domain c) ''.crt'') (ct_CertificateFile c)
                   (restore_file e (file_name (ct_Domain c) ''.key'') (ct_KeyFile c) w))
       (vals_in_order (cm_Certs cm) ord) w"

definition load_entry ::
    "cert_env \<Rightarrow> world \<Rightarrow> string \<Rightarrow> bool \<Rightarrow> string \<Rightarrow> (string \<rightharpoonup> certificate) \<times> string \<Rightarrow> (string \<rightharpoonup> certificate) \<times> string" where
  "load_entry e w path isLocal name acc =
     (case acc of (certs, errMsg) \<Rightarrow>
       (case paraseDomainCertFile path name isLocal of
          None \<Rightarrow> (certs, errMsg)
        | Some cert1 \<Rightarrow>
            (case certs (ct_Domain cert1) of
               None \<Rightarrow> (certs(ct_Domain cert1 \<mapsto> cert1), errMsg)
             | Some cert2 \<Rightarrow>
                 (case mergeCertificate e w cert1 cert2 of
                    Inl err \<Rightarrow> (certs, errMsg @ ''|Load domain certificate err > '' @ err)
                  | Inr cert3 \<Rightarrow> (certs(ct_Domain cert1 \<mapsto> cert3), errMsg)))))"

definition load_dir ::
    "cert_env \<Rightarrow> world \<Rightarrow> string \<Rightarrow> string \<Rightarrow> bool \<Rightarrow> (string \<rightharpoonup> certificate) \<times> string \<Rightarrow> (string \<rightharpoonup> certificate) \<times> string" where
  "load_dir e w path dir isLocal acc =
     (case ce_readdir e dir w of
        Inl err \<Rightarrow> (fst acc, snd acc @ ''|'' @ err)
      | Inr names \<Rightarrow> fold (load_entry e w path isLocal) names acc)"

definition LoadCertificates :: "cert_env \<Rightarrow> string list \<Rightarrow> cert_manager \<Rightarrow> world \<Rightarrow> cert_manager \<times> world \<times> gerror option" where
  "LoadCertificates e ord cm w =
     (case load_dir e w (cm_Path cm) (cm_Path cm) False
             (load_dir e w (cm_Path cm) (path_join (legoPath e) subCertPath) True (cm_Certs cm, '''')) of (certs, errMsg) \<Rightarrow>
        (let cm' = cm\<lparr>cm_Certs := certs\<rparr>
         in (cm', checkCertFile e ord cm' w, if errMsg \<noteq> '''' then Some errMsg else None)))"

definition CheckAndFullCertManager :: "cert_env \<Rightarrow> string list \<Rightarrow> cert_manager \<Rightarrow> world \<Rightarrow> cert_manager \<times> world" where
  "CheckAndFullCertManager e ord cm w =
     (case LoadCertificates e ord
        (cm\<lparr>cm_Certs := Map.empty, cm_Path := (if cm_Path cm = '''' then defaultCertPath e else cm_Path cm)\<rparr>) w of
        (cm', w', _) \<Rightarrow> (cm', w'))"

subsection \<open>Operations\<close>

definition AddCertificates :: "cert_env \<Rightarrow> string \<Rightarrow> string \<Rightarrow> string \<Rightarrow> cert_manager \<Rightarrow> world \<Rightarrow> cert_manager \<times> world \<times> gerror option" where
  "AddCertificates e domain keyData certData cm w =
     (let certFileName = file_name domain ''.crt''; keyFileName = file_name domain ''.key''
      in case SaveFile e keyData (path_join (cm_Path cm) keyFileName) w of
           (w1, Some err) \<Rightarrow> (cm, w1, Some err)
         | (w1, None) \<Rightarrow>
             (case SaveFile e certData (path_join (cm_Path cm) certFileName) w1 of
                (w2, Some err) \<Rightarrow> (cm, w2, Some err)
              | (w2, None) \<Rightarrow>
                  (let c = fst (fullCertExpireTime e w2 \<lparr>ct_Domain = domain, ct_CertificateFile = certFileName,
                         ct_KeyFile = keyFileName, ct_ExpireTime = 0, ct_ObtainedByLocal = False\<rparr>)
                   in (cm\<lparr>cm_Certs := (cm_Certs cm)(domain \<mapsto> c)\<rparr>, w2, None))))"

definition copyCertAndKeyFile :: "cert_env \<Rightarrow> string \<Rightarrow> cert_manager \<Rightarrow> world \<Rightarrow> world \<times> gerror option" where
  "copyCertAndKeyFile e domain cm w =
     (let lego = path_join (legoPath e) subCertPath; certFileName = file_name domain ''.crt''; keyFileName = file_name domain ''.key''
      in case copyFile e (path_join lego certFileName) (path_join (cm_Path cm) certFileName) w of
           (w1, Some err) \<Rightarrow> (w1, Some err)
         | (w1, None) \<Rightarrow> copyFile e (path_join lego keyFileName) (path_join (cm_Path cm) keyFileName) w1)"

definition empty_domain :: gerror where
  "empty_domain = ''domian can'' @ [CHR 0x27] @ ''t be empty''"

definition ObtainNewCert :: "cert_env \<Rightarrow> string \<Rightarrow> cert_manager \<Rightarrow> world \<Rightarrow> cert_manager \<times> world \<times> gerror option" where
  "ObtainNewCert e domain cm w =
     (if cm_Certs cm domain \<noteq> None then (cm, w, None)
      else case checkConfig cm of
        Some err \<Rightarrow> (cm, w, Some err)
      | None \<Rightarrow>
          if domain = '''' then (cm, w, Some empty_domain)
          else case ce_acme e ([''lego'', ''--accept-tos'', ''--email'', cm_Email cm, ''--domains'', domain, ''--dns'', cm_DnsProvider cm]
                 @ cm_Args cm @ [''run'']) (SetEnvs (cm_Secrets cm) w) of
            (w1, Some err) \<Rightarrow> (cm, w1, Some err)
          | (w1, None) \<Rightarrow>
              (case copyCertAndKeyFile e domain cm w1 of
                 (w2, Some err) \<Rightarrow> (cm, w2, Some err)
               | (w2, None) \<Rightarrow>
                   (case fullCertExpireTime e w2 \<lparr>ct_Domain = domain,
                           ct_CertificateFile = path_join (cm_Path cm) (file_name domain ''.crt''),
                           ct_KeyFile = path_join (cm_Path cm) (file_name domain ''.key''),
                           ct_ExpireTime = 0, ct_ObtainedByLocal = False\<rparr> of
                      (c, Some err) \<Rightarrow> (cm, w2, Some (''full cert expire time err > '' @ err))
                    | (c, None) \<Rightarrow> (cm\<lparr>cm_Certs := (cm_Certs cm)(domain \<mapsto> c)\<rparr>, w2, None))))"

text \<open>\<open>now\<close> is the current time. The certificate is changed in the table.\<close>

definition RenewCert :: "cert_env \<Rightarrow> int \<Rightarrow> string \<Rightarrow> cert_manager \<Rightarrow> world \<Rightarrow> cert_manager \<times> world \<times> gerror option" where
  "RenewCert e now domain cm w =
     (case checkConfig cm of
        Some err \<Rightarrow> (cm, w, Some err)
      | None \<Rightarrow>
          if domain = '''' then (cm, w, Some empty_domain)
          else case cm_Certs cm domain of
            None \<Rightarrow> (cm, w, Some (''no cert of domain['' @ domain @ ''], should Obtain new cert first''))
          | Some cert \<Rightarrow>
              if \<not> ct_ObtainedByLocal cert then (cm, w, None)
              else if now < ct_ExpireTime cert then (cm, w, None)
              else (case ce_acme e ([''lego'', ''--email'', cm_Email cm, ''--domains'', domain, ''--dns'', cm_DnsProvider cm]
                       @ cm_Args cm @ [''renew'']) (SetEnvs (cm_Secrets cm) w) of
                  (w1, Some err) \<Rightarrow> (cm, w1, Some err)
                | (w1, None) \<Rightarrow>
                    (case fullCertExpireTime e w1 cert of
                       (c, Some err) \<Rightarrow> (cm, w1, Some (''full cert expire time err > '' @ err))
                     | (c, None) \<Rightarrow>
                         (case copyCertAndKeyFile e domain cm w1 of
                            (w2, err) \<Rightarrow> (cm\<lparr>cm_Certs := (cm_Certs cm)(domain \<mapsto> c)\<rparr>, w2, err)))))"

definition getWildcardDomain :: "string \<Rightarrow> string" where
  "getWildcardDomain domain =
     (if CHR ''.'' \<in> set domain then ''*'' @ dropWhile (\<lambda>c. c \<noteq> CHR ''.'') domain else domain)"

definition GetCert :: "cert_manager \<Rightarrow> string \<Rightarrow> certificate option" where
  "GetCert cm domain =
     (case cm_Certs cm domain of Some c \<Rightarrow> Some c | None \<Rightarrow> cm_Certs cm (getWildcardDomain domain))"

definition GetAllCert :: "string list \<Rightarrow> cert_manager \<Rightarrow> certificate list" where
  "GetAllCert ord cm = vals_in_order (cm_Certs cm) ord"

text \<open>One round of the renewal, over the domains in the order of the loop.\<close>

fun renew_round :: "cert_env \<Rightarrow> int \<Rightarrow> string list \<Rightarrow> cert_manager \<Rightarrow> world \<Rightarrow> cert_manager \<times> world" where
  "renew_round e now [] cm w = (cm, w)"
| "renew_round e now (d # ds) cm w = (case RenewCert e now d cm w of (cm', w', _) \<Rightarrow> renew_round e now ds cm' w')"

end
