(* ===== verification/Builders.thy ===== *)
theory Builders
  imports NodeHandlers Certs
begin

text \<open>
  Inbounds made from a few parameters: the builders of \<open>proxy/config/xray_builder.go\<close>, \<open>newInbound\<close> and
  the requests of \<open>server/rpc/end_node_server.go\<close> on certificates and for a new inbound. \<open>rnd i\<close> is the
  result of the \<open>i\<close>-th call of \<open>NewRandomStringWithTime\<close> in a request. The builders are shared objects
  behind a mutex that \<open>newInbound\<close> holds from \<open>Init\<close> to \<open>Build\<close>, so \<open>Build\<close> sees the values of its own
  request; the congestion flag of mKCP, which the program never reads, is left out.
\<close>

subsection \<open>Protocol settings\<close>

definition VlessSettingBuilder_Build :: "codecs \<Rightarrow> json" where
  "VlessSettingBuilder_Build cc = vless_enc cc \<lparr>vl_Clients = [], vl_Decryption = ''none'', vl_Fallbacks = []\<rparr>"

definition VmessSettingBuilder_Build :: "codecs \<Rightarrow> json" where
  "VmessSettingBuilder_Build cc = vmess_enc cc \<lparr>vm_Users = [], vm_rest = JNull\<rparr>"

definition TrojanSettingBuilder_Build :: "codecs \<Rightarrow> json" where
  "TrojanSettingBuilder_Build cc = trojan_enc cc \<lparr>tj_Clients = [], tj_Fallbacks = []\<rparr>"

text \<open>A builder type is its number in the protocol; a builder its protocol and its settings.\<close>

definition GetInboundSettingBuilder :: "codecs \<Rightarrow> int \<Rightarrow> (string \<times> json) option" where
  "GetInboundSettingBuilder cc builderType =
     (if builderType = 10 then Some (''vless'', VlessSettingBuilder_Build cc)
      else if builderType = 11 then Some (''vmess'', VmessSettingBuilder_Build cc)
      else if builderType = 12 then Some (''trojan'', TrojanSettingBuilder_Build cc)
      else None)"

subsection \<open>Stream settings\<close>

definition cert_files :: "certificate option \<Rightarrow> (string \<times> string) list" where
  "cert_files c = (case c of None \<Rightarrow> [] | Some c \<Rightarrow> [(ct_CertificateFile c, ct_KeyFile c)])"

definition NewTLSConfig :: "string \<Rightarrow> cert_manager \<Rightarrow> tls_cfg" where
  "NewTLSConfig domain cm = \<lparr>tls_ServerName = domain, tls_ALPN = None, tls_Certs = cert_files (GetCert cm domain)\<rparr>"

definition NewXTLSConfig :: "string \<Rightarrow> cert_manager \<Rightarrow> tls_cfg" where
  "NewXTLSConfig domain cm = \<lparr>tls_ServerName = domain, tls_ALPN = None, tls_Certs = cert_files (GetCert cm domain)\<rparr>"

definition FullTlsXtlsConfig :: "stream_cfg \<Rightarrow> string \<Rightarrow> cert_manager \<Rightarrow> bool \<Rightarrow> stream_cfg" where
  "FullTlsXtlsConfig s domain cm isXtls =
     (if isXtls then s\<lparr>ss_Security := ''xtls'', ss_XTLS := Some (NewXTLSConfig domain cm)\<rparr>
      else s\<lparr>ss_Security := ''tls'', ss_TLS := Some (NewTLSConfig domain cm)\<rparr>)"

definition network_stream :: "string \<Rightarrow> stream_cfg" where
  "network_stream network =
     \<lparr>ss_Network = Some network, ss_Security = '''', ss_TLS = None, ss_XTLS = None, ss_TCP = None, ss_KCP = None, ss_WS = None,
      ss_HTTP = None, ss_QUIC = None, ss_GRPC = None\<rparr>"

definition TCPBuilder_Build :: "string \<Rightarrow> cert_manager \<Rightarrow> bool \<Rightarrow> stream_cfg" where
  "TCPBuilder_Build domain cm isXtls = FullTlsXtlsConfig (network_stream ''tcp'') domain cm isXtls"

definition NewWebSocketHeaders :: "(nat \<Rightarrow> string) \<Rightarrow> (string \<rightharpoonup> string)" where
  "NewWebSocketHeaders rnd = [''Host'' \<mapsto> rnd 0, rnd 1 \<mapsto> rnd 2]"

definition WSBuilder_Build :: "(nat \<Rightarrow> string) \<Rightarrow> string \<Rightarrow> cert_manager \<Rightarrow> bool \<Rightarrow> stream_cfg" where
  "WSBuilder_Build rnd domain cm isXtls =
     FullTlsXtlsConfig ((network_stream ''ws'')\<lparr>ss_WS := Some \<lparr>ws_Path = ''/'' @ rnd 0, ws_Headers = NewWebSocketHeaders (rnd \<circ> Suc)\<rparr>\<rparr>)
       domain cm isXtls"

definition NewFakeHeader :: json where
  "NewFakeHeader = JObj [(''type'', JStr ''wechat-video'')]"

definition chacha20 :: string where "chacha20 = ''chacha20-poly1395''"

definition QuicBuilder_Build :: "(nat \<Rightarrow> string) \<Rightarrow> string \<Rightarrow> cert_manager \<Rightarrow> bool \<Rightarrow> stream_cfg" where
  "QuicBuilder_Build rnd domain cm isXtls =
     FullTlsXtlsConfig ((network_stream ''quic'')\<lparr>ss_QUIC := Some \<lparr>quic_Header = Some NewFakeHeader, quic_Security = chacha20, quic_Key = rnd 0\<rparr>\<rparr>)
       domain cm isXtls"

definition MkcpBuilder_Build :: "(nat \<Rightarrow> string) \<Rightarrow> string \<Rightarrow> cert_manager \<Rightarrow> bool \<Rightarrow> stream_cfg" where
  "MkcpBuilder_Build rnd domain cm isXtls =
     FullTlsXtlsConfig ((network_stream ''mkcp'')\<lparr>ss_KCP := Some \<lparr>kcp_Header = Some NewFakeHeader, kcp_Seed = Some (rnd 0)\<rparr>\<rparr>)
       domain cm isXtls"

definition GrpcBuilder_Build :: "(nat \<Rightarrow> string) \<Rightarrow> string \<Rightarrow> cert_manager \<Rightarrow> bool \<Rightarrow> stream_cfg" where
  "GrpcBuilder_Build rnd domain cm isXtls =
     FullTlsXtlsConfig ((network_stream ''grpc'')\<lparr>ss_GRPC := Some (rnd 0)\<rparr>) domain cm isXtls"

definition HttpBuilder_Build :: "(nat \<Rightarrow> string) \<Rightarrow> string \<Rightarrow> cert_manager \<Rightarrow> bool \<Rightarrow> stream_cfg" where
  "HttpBuilder_Build rnd domain cm isXtls =
     FullTlsXtlsConfig ((network_stream ''http'')\<lparr>ss_HTTP := Some \<lparr>h2_Host = Some [rnd 0 @ ''.'' @ rnd 1], h2_Path = ''/'' @ rnd 2\<rparr>\<rparr>)
       domain cm isXtls"

definition GetStreamSettingBuilder :: "(nat \<Rightarrow> string) \<Rightarrow> int \<Rightarrow> (string \<Rightarrow> cert_manager \<Rightarrow> bool \<Rightarrow> stream_cfg) option" where
  "GetStreamSettingBuilder rnd builderType =
     (if builderType = 20 then Some TCPBuilder_Build
      else if builderType = 21 then Some (WSBuilder_Build rnd)
      else if builderType = 22 then Some (QuicBuilder_Build rnd)
      else if builderType = 23 then Some (MkcpBuilder_Build rnd)
      else if builderType = 24 then Some (GrpcBuilder_Build rnd)
      else if builderType = 25 then Some (HttpBuilder_Build rnd)
      else None)"

subsection \<open>Requests\<close>

record fast_req =
  fr_Domain :: string
  fr_InboundBuilderType :: int
  fr_StreamBuilderType :: int
  fr_Port :: int
  fr_IsXtls :: bool
  fr_Tag :: string

definition newInbound :: "codecs \<Rightarrow> (nat \<Rightarrow> string) \<Rightarrow> fast_req \<Rightarrow> cert_manager \<Rightarrow> inbound result" where
  "newInbound cc rnd req cm =
     (if GetCert cm (fr_Domain req) = None
      then Inl (''not found domain'' @ [CHR 0x27] @ ''s['' @ fr_Domain req @ ''] cert'')
      else case GetInboundSettingBuilder cc (fr_InboundBuilderType req) of
        None \<Rightarrow> Inl ''unsupport protocol''
      | Some (protocol, settings) \<Rightarrow>
          (case GetStreamSettingBuilder rnd (fr_StreamBuilderType req) of
             None \<Rightarrow> Inl ''unsupport stream type''
           | Some build \<Rightarrow>
               Inr \<lparr>ib_Config = \<lparr>ic_Protocol = protocol, ic_PortRange = word_of_int (fr_Port req), ic_ListenOn = ''0.0.0.0'',
                        ic_Settings = Some settings, ic_Tag = fr_Tag req,
                        ic_Allocation = None, ic_StreamSetting = Some (build (fr_Domain req) cm (fr_IsXtls req)), ic_DomainOverride = None, ic_SniffingConfig = None\<rparr>,
                    ib_Tag = fr_Tag req\<rparr>))"

text \<open>The state of a node with its certificates and the files they are in.\<close>

record 'rt node_state =
  ns_um :: "'rt user_manager"
  ns_certs :: cert_manager
  ns_world :: world

definition Node_ObtainNewCert :: "cert_env \<Rightarrow> string \<Rightarrow> 'rt node_state \<Rightarrow> ('rt node_state, op_rsp) outcome" where
  "Node_ObtainNewCert e domain s =
     (case ObtainNewCert e domain (ns_certs s) (ns_world s) of (cm, w, err) \<Rightarrow>
        Done (s\<lparr>ns_certs := cm, ns_world := w\<rparr>) (case err of None \<Rightarrow> ok_rsp | Some m \<Rightarrow> err_rsp 1020 m))"

definition Node_TransferCert :: "cert_env \<Rightarrow> string \<Rightarrow> string \<Rightarrow> string \<Rightarrow> 'rt node_state \<Rightarrow> ('rt node_state, op_rsp) outcome" where
  "Node_TransferCert e domain keyDatas certData s =
     (case AddCertificates e domain keyDatas certData (ns_certs s) (ns_world s) of (cm, w, err) \<Rightarrow>
        Done (s\<lparr>ns_certs := cm, ns_world := w\<rparr>) (case err of None \<Rightarrow> ok_rsp | Some m \<Rightarrow> err_rsp 1030 m))"

definition Node_GetCerts :: "string list \<Rightarrow> 'rt node_state \<Rightarrow> certificate list" where
  "Node_GetCerts ord s = GetAllCert ord (ns_certs s)"

definition on_um :: "('rt user_manager, 'a) outcome \<Rightarrow> 'rt node_state \<Rightarrow> ('rt node_state, 'a) outcome" where
  "on_um m s =
     (case m of Done um a \<Rightarrow> Done (s\<lparr>ns_um := um\<rparr>) a | Panicked um \<Rightarrow> Panicked (s\<lparr>ns_um := um\<rparr>) | Blocked um \<Rightarrow> Blocked (s\<lparr>ns_um := um\<rparr>))"

definition Node_FastAddInbound ::
    "codecs \<Rightarrow> ('rt, 'h) xray \<Rightarrow> cert_env \<Rightarrow> (nat \<Rightarrow> string) \<Rightarrow> fast_req \<Rightarrow> 'rt node_state \<Rightarrow> ('rt node_state, op_rsp) outcome" where
  "Node_FastAddInbound cc x e rnd req s =
     (let add = (\<lambda>s. case newInbound cc rnd req (ns_certs s) of
            Inl err \<Rightarrow> Done s (err_rsp 1020 err)
          | Inr i \<Rightarrow> bind_o (on_um (on_proxy (AddInbound x i (um_proxy (ns_um s))) (ns_um s)) s) (\<lambda>s r.
              Done s (case r of None \<Rightarrow> ok_rsp | Some err \<Rightarrow> err_rsp 1021 err)))
      in if GetCert (ns_certs s) (fr_Domain req) = None
         then (case ObtainNewCert e (fr_Domain req) (ns_certs s) (ns_world s) of
                 (cm, w, Some err) \<Rightarrow> Done (s\<lparr>ns_certs := cm, ns_world := w\<rparr>)
                   (err_rsp 1022 (''obtain new cert of domain['' @ fr_Domain req @ ''] fail > '' @ err))
               | (cm, w, None) \<Rightarrow> add (s\<lparr>ns_certs := cm, ns_world := w\<rparr>))
         else add s)"

end
