(* ===== verification/CertProps.thy ===== *)
theory CertProps
  imports Builders ProxyManagerProps
begin

text \<open>
  Properties of the certificates and of the inbounds that are built with them.
\<close>

subsection \<open>The table of certificates\<close>

definition certs_ok :: "(string \<rightharpoonup> certificate) \<Rightarrow> bool" where
  "certs_ok certs \<longleftrightarrow> (\<forall>k c. certs k = Some c \<longrightarrow> ct_Domain c = k)"

lemma certs_ok_put: "certs_ok certs \<Longrightarrow> ct_Domain c = k \<Longrightarrow> certs_ok (certs(k \<mapsto> c))"
  by (simp add: certs_ok_def)

lemma fullCertExpireTime_domain: "fullCertExpireTime e w c = (c', r) \<Longrightarrow> ct_Domain c' = ct_Domain c"
  by (auto simp: fullCertExpireTime_def split: option.splits sum.splits)

lemma mergeCertificate_domain: "mergeCertificate e w c1 c2 = Inr c3 \<Longrightarrow> ct_Domain c3 = ct_Domain c1"
  by (auto simp: mergeCertificate_def Let_def split: if_splits prod.splits option.splits dest: fullCertExpireTime_domain)

lemma certs_ok_load_entry: "certs_ok (fst acc) \<Longrightarrow> certs_ok (fst (load_entry e w path isLocal name acc))"
  by (cases acc) (auto simp: load_entry_def intro!: certs_ok_put split: option.splits sum.splits dest: mergeCertificate_domain)

lemma certs_ok_load_dir: "certs_ok (fst acc) \<Longrightarrow> certs_ok (fst (load_dir e w path dir isLocal acc))"
proof -
  have "certs_ok (fst acc) \<Longrightarrow> certs_ok (fst (fold (load_entry e w path isLocal) names acc))" for names
  proof (induction names arbitrary: acc)
    case (Cons n names)
    from Cons.IH [OF certs_ok_load_entry [OF Cons.prems]] show ?case by simp
  qed simp
  then show "certs_ok (fst acc) \<Longrightarrow> ?thesis" by (auto simp: load_dir_def split: sum.splits)
qed

lemma certs_ok_Load:
  assumes "LoadCertificates e ord cm w = (cm', w', r)" and "certs_ok (cm_Certs cm)"
  shows "certs_ok (cm_Certs cm')"
proof -
  let ?acc = "load_dir e w (cm_Path cm) (cm_Path cm) False (load_dir e w (cm_Path cm) (path_join (legoPath e) subCertPath) True (cm_Certs cm, ''''))"
  have "certs_ok (fst ?acc)" using assms(2) by (intro certs_ok_load_dir) simp
  then show ?thesis using assms(1) by (auto simp: LoadCertificates_def Let_def split: prod.splits)
qed

lemma certs_ok_Check: "CheckAndFullCertManager e ord cm w = (cm', w') \<Longrightarrow> certs_ok (cm_Certs cm')"
  by (auto simp: CheckAndFullCertManager_def certs_ok_def [of Map.empty] split: prod.splits dest: certs_ok_Load)

lemma certs_ok_Add:
  "AddCertificates e d key crt cm w = (cm', w', r) \<Longrightarrow> certs_ok (cm_Certs cm) \<Longrightarrow> certs_ok (cm_Certs cm')"
  by (auto simp: AddCertificates_def Let_def intro!: certs_ok_put split: prod.splits option.splits)
    (simp add: fullCertExpireTime_domain [OF prod.collapse [symmetric]])

lemma certs_ok_Obtain:
  assumes "ObtainNewCert e d cm w = (cm', w', r)" and "certs_ok (cm_Certs cm)"
  shows "certs_ok (cm_Certs cm')"
  using assms fullCertExpireTime_domain
  by (auto simp: ObtainNewCert_def intro!: certs_ok_put split: if_splits option.splits prod.splits)

lemma certs_ok_Renew:
  assumes "RenewCert e now d cm w = (cm', w', r)" and "certs_ok (cm_Certs cm)"
  shows "certs_ok (cm_Certs cm')"
proof -
  have dom: "cm_Certs cm d = Some c \<Longrightarrow> ct_Domain c = d" for c using assms(2) by (simp add: certs_ok_def)
  show ?thesis
    using assms by (auto simp: RenewCert_def intro!: certs_ok_put split: if_splits option.splits prod.splits dest!: fullCertExpireTime_domain dom)
qed

text \<open>However certificates are loaded, transferred, obtained and renewed, each is stored under its own domain.\<close>

inductive cert_run :: "cert_env \<Rightarrow> cert_manager \<Rightarrow> cert_manager \<Rightarrow> bool" for e where
  cert_loaded: "CheckAndFullCertManager e ord cm w = (cm', w') \<Longrightarrow> cert_run e cm cm'"
| cert_added: "cert_run e cm cm' \<Longrightarrow> AddCertificates e d key crt cm' w = (cm'', w', r) \<Longrightarrow> cert_run e cm cm''"
| cert_obtained: "cert_run e cm cm' \<Longrightarrow> ObtainNewCert e d cm' w = (cm'', w', r) \<Longrightarrow> cert_run e cm cm''"
| cert_renewed: "cert_run e cm cm' \<Longrightarrow> RenewCert e now d cm' w = (cm'', w', r) \<Longrightarrow> cert_run e cm cm''"

lemma cert_run_ok: "cert_run e cm cm' \<Longrightarrow> certs_ok (cm_Certs cm')"
  by (induction rule: cert_run.induct) (auto dest: certs_ok_Check certs_ok_Add certs_ok_Obtain certs_ok_Renew)

lemma getWildcardDomain_cases:
  "getWildcardDomain d = d \<or> (\<exists>a b. d = a @ ''.'' @ b \<and> CHR ''.'' \<notin> set a \<and> getWildcardDomain d = ''*.'' @ b)"
proof (cases "CHR ''.'' \<in> set d")
  case True
  then obtain a b where "d = a @ CHR ''.'' # b" "CHR ''.'' \<notin> set a" using split_list_first by metis
  moreover from this have "dropWhile (\<lambda>c. c \<noteq> CHR ''.'') d = CHR ''.'' # b"
    by (induction a arbitrary: d) auto
  ultimately show ?thesis by (auto simp: getWildcardDomain_def)
qed (simp add: getWildcardDomain_def)

lemma GetCert_domain:
  assumes "certs_ok (cm_Certs cm)" and "GetCert cm d = Some c"
  shows "(ct_Domain c = d \<or> (\<exists>a b. d = a @ ''.'' @ b \<and> CHR ''.'' \<notin> set a \<and> ct_Domain c = ''*.'' @ b)) \<and> cm_Certs cm (ct_Domain c) = Some c"
proof -
  have "(ct_Domain c = d \<or> ct_Domain c = getWildcardDomain d) \<and> cm_Certs cm (ct_Domain c) = Some c"
    using assms by (auto simp: GetCert_def certs_ok_def split: option.splits)
  with getWildcardDomain_cases [of d] show ?thesis by metis
qed

subsection \<open>Built inbounds\<close>

text \<open>The TLS part of a stream that a builder made, and that links can be made for it.\<close>

definition tls_part :: "bool \<Rightarrow> stream_cfg \<Rightarrow> tls_cfg option" where
  "tls_part isXtls s = (if isXtls then ss_XTLS s else ss_TLS s)"

lemma tls_part_Full:
  "tls_part isXtls (FullTlsXtlsConfig s d cm isXtls) = Some \<lparr>tls_ServerName = d, tls_ALPN = None, tls_Certs = cert_files (GetCert cm d)\<rparr>"
  by (simp add: tls_part_def FullTlsXtlsConfig_def NewTLSConfig_def NewXTLSConfig_def)

lemma header_type_fake: "header_type err (Some NewFakeHeader) = ok (Some ''wechat-video'')"
  by (simp add: header_type_def NewFakeHeader_def)

lemmas stream_builders = TCPBuilder_Build_def WSBuilder_Build_def QuicBuilder_Build_def MkcpBuilder_Build_def
  GrpcBuilder_Build_def HttpBuilder_Build_def

lemma built_stream:
  assumes "GetStreamSettingBuilder rnd ty = Some build"
  shows "\<exists>s. build d cm isXtls = FullTlsXtlsConfig s d cm isXtls \<and>
    (\<exists>tc. newTransportConfig (Some (build d cm isXtls)) = ok tc \<and> TransportConfig_Build tc \<noteq> None)"
proof -
  have "\<exists>s. build d cm isXtls = FullTlsXtlsConfig s d cm isXtls"
    using assms by (auto simp: GetStreamSettingBuilder_def stream_builders split: if_splits)
  moreover have "\<exists>tc. newTransportConfig (Some (build d cm isXtls)) = ok tc \<and> TransportConfig_Build tc \<noteq> None"
    using assms
    by (cases isXtls) (auto simp: GetStreamSettingBuilder_def stream_builders FullTlsXtlsConfig_def network_stream_def newTransportConfig_def
        deref_def and_then_def header_type_fake ok_def TransportConfig_Build_def Let_def split: if_splits)
  ultimately show ?thesis by blast
qed

text \<open>
  C17: an inbound made from a domain is well-formed. Whatever happened to the certificates, an inbound
  that \<open>newInbound\<close> returns has the name and port that were asked for, its TLS (or XTLS) settings name
  the domain and exactly one certificate of the table, one for this domain or for its wildcard, and
  its transport is one that links can be made for.
\<close>

theorem new_inbound_wellformed:
  assumes "cert_run e cm0 cm" and "newInbound cc rnd req cm = Inr i"
  shows "ib_Tag i = fr_Tag req \<and> ic_Tag (ib_Config i) = fr_Tag req \<and> ib_Port i = word_of_int (fr_Port req) \<and>
    (\<exists>s t c. ic_StreamSetting (ib_Config i) = Some s \<and> tls_part (fr_IsXtls req) s = Some t \<and> tls_ServerName t = fr_Domain req \<and>
      tls_Certs t = [(ct_CertificateFile c, ct_KeyFile c)] \<and> cm_Certs cm (ct_Domain c) = Some c \<and>
      (ct_Domain c = fr_Domain req \<or> (\<exists>a b. fr_Domain req = a @ ''.'' @ b \<and> CHR ''.'' \<notin> set a \<and> ct_Domain c = ''*.'' @ b)) \<and>
      (\<exists>tc. newTransportConfig (Some s) = ok tc \<and> TransportConfig_Build tc \<noteq> None))"
proof -
  obtain c where c: "GetCert cm (fr_Domain req) = Some c"
    using assms(2) by (cases "GetCert cm (fr_Domain req)") (simp_all add: newInbound_def)
  obtain build where build: "GetStreamSettingBuilder rnd (fr_StreamBuilderType req) = Some build"
    and stream: "ic_StreamSetting (ib_Config i) = Some (build (fr_Domain req) cm (fr_IsXtls req))"
    and rest: "ib_Tag i = fr_Tag req" "ic_Tag (ib_Config i) = fr_Tag req" "ib_Port i = word_of_int (fr_Port req)"
    using assms(2) c by (auto simp: newInbound_def split: option.splits prod.splits)
  let ?s = "build (fr_Domain req) cm (fr_IsXtls req)"
  have "tls_part (fr_IsXtls req) ?s = Some \<lparr>tls_ServerName = fr_Domain req, tls_ALPN = None, tls_Certs = [(ct_CertificateFile c, ct_KeyFile c)]\<rparr>"
    using built_stream [OF build, of "fr_Domain req" cm "fr_IsXtls req"] c by (auto simp: tls_part_Full cert_files_def)
  moreover have "\<exists>tc. newTransportConfig (Some ?s) = ok tc \<and> TransportConfig_Build tc \<noteq> None"
    using built_stream [OF build] by blast
  ultimately show ?thesis using GetCert_domain [OF cert_run_ok [OF assms(1)] c] stream rest
    by (intro conjI exI [of _ ?s] exI [of _ "\<lparr>tls_ServerName = fr_Domain req, tls_ALPN = None, tls_Certs = [(ct_CertificateFile c, ct_KeyFile c)]\<rparr>"]
        exI [of _ c]) simp_all
qed

subsection \<open>Renewal\<close>

lemma ObtainNewCert_stores:
  assumes "cm_Certs cm d = None" and "ObtainNewCert e d cm w = (cm', w', None)"
  shows "\<exists>c. cm' = cm\<lparr>cm_Certs := (cm_Certs cm)(d \<mapsto> c)\<rparr> \<and> \<not> ct_ObtainedByLocal c" and "checkConfig cm = None" and "d \<noteq> ''''"
proof -
  have keep: "fullCertExpireTime e w2 c = (c', r) \<Longrightarrow> ct_ObtainedByLocal c' = ct_ObtainedByLocal c" for w2 c c' r
    by (auto simp: fullCertExpireTime_def split: option.splits sum.splits)
  show "\<exists>c. cm' = cm\<lparr>cm_Certs := (cm_Certs cm)(d \<mapsto> c)\<rparr> \<and> \<not> ct_ObtainedByLocal c" "checkConfig cm = None" "d \<noteq> ''''"
    using assms by (auto simp: ObtainNewCert_def split: if_splits option.splits prod.splits dest!: keep)
qed

text \<open>
  A certificate that the running node has obtained is not renewed. It is stored as if it came from
  elsewhere, so renewing it does nothing at any time; only after a restart, when it is found in the
  directory of the client, it counts as the node's own.
\<close>

theorem obtained_cert_not_renewed:
  assumes "cm_Certs cm d = None" and "ObtainNewCert e d cm w = (cm', w', None)"
  shows "RenewCert e now d cm' w'' = (cm', w'', None) \<and> (\<exists>c. GetCert cm' d = Some c \<and> \<not> ct_ObtainedByLocal c)"
proof -
  note ObtainNewCert_stores [OF assms]
  moreover have "checkConfig (cm\<lparr>cm_Certs := m\<rparr>) = checkConfig cm" for m by (simp add: checkConfig_def)
  ultimately show ?thesis by (auto simp: RenewCert_def GetCert_def)
qed

definition demo_cert_env :: cert_env where
  "demo_cert_env = \<lparr>legoPath = ''.lego'', defaultCertPath = ''cert'', ce_open_write = (\<lambda>_. None), ce_write = (\<lambda>_. None),
     ce_readdir = (\<lambda>_ _. Inr []), ce_missing = (\<lambda>p. p), ce_not_after = (\<lambda>_ _. Inr 50),
     ce_acme = (\<lambda>args w. (w\<lparr>w_files := (\<lambda>_. Some ''pem'')\<rparr>, None))\<rparr>"

definition demo_certs :: cert_manager where
  "demo_certs = \<lparr>cm_Email = ''a@b'', cm_Secrets = [], cm_DnsProvider = ''dns'', cm_Path = ''certs'', cm_Certs = Map.empty, cm_Args = []\<rparr>"

definition demo_obtained :: cert_manager where
  "demo_obtained = fst (ObtainNewCert demo_cert_env ''x.org'' demo_certs \<lparr>w_files = Map.empty, w_env = Map.empty\<rparr>)"

lemma demo_obtain:
  "\<exists>w'. ObtainNewCert demo_cert_env ''x.org'' demo_certs \<lparr>w_files = Map.empty, w_env = Map.empty\<rparr> = (demo_obtained, w', None)"
  by (simp add: demo_obtained_def ObtainNewCert_def demo_cert_env_def demo_certs_def checkConfig_def copyCertAndKeyFile_def copyFile_def
      write_file_def SetEnvs_def fullCertExpireTime_def Let_def)

theorem obtained_cert_not_renewed_witness:
  "RenewCert demo_cert_env 100 ''x.org'' demo_obtained \<lparr>w_files = Map.empty, w_env = Map.empty\<rparr> =
     (demo_obtained, \<lparr>w_files = Map.empty, w_env = Map.empty\<rparr>, None)"
  using demo_obtain obtained_cert_not_renewed [of demo_certs "''x.org''" demo_cert_env _ demo_obtained]
  by (auto simp: demo_certs_def)

theorem new_inbound_wellformed_witness:
  "\<exists>i s t. newInbound demo_codecs (\<lambda>_. ''r'') \<lparr>fr_Domain = ''x.org'', fr_InboundBuilderType = 11, fr_StreamBuilderType = 21, fr_Port = 443,
      fr_IsXtls = False, fr_Tag = ''t''\<rparr> demo_obtained = Inr i \<and>
    ic_StreamSetting (ib_Config i) = Some s \<and> tls_part False s = Some t \<and> tls_ServerName t = ''x.org''"
proof -
  let ?req = "\<lparr>fr_Domain = ''x.org'', fr_InboundBuilderType = 11, fr_StreamBuilderType = 21, fr_Port = 443, fr_IsXtls = False, fr_Tag = ''t''\<rparr>"
  let ?w = "\<lparr>w_files = Map.empty, w_env = Map.empty\<rparr>"
  have "\<exists>w'. CheckAndFullCertManager demo_cert_env [] demo_certs ?w = (demo_certs, w')"
    by (simp add: CheckAndFullCertManager_def LoadCertificates_def load_dir_def demo_cert_env_def demo_certs_def Let_def)
  then have "cert_run demo_cert_env demo_certs demo_certs" by (blast intro: cert_run.cert_loaded)
  then have run: "cert_run demo_cert_env demo_certs demo_obtained" using demo_obtain by (blast intro: cert_run.cert_obtained)
  have "cm_Certs demo_certs ''x.org'' = None" by (simp add: demo_certs_def)
  then obtain c where c: "demo_obtained = demo_certs\<lparr>cm_Certs := (cm_Certs demo_certs)(''x.org'' \<mapsto> c)\<rparr>"
    using demo_obtain ObtainNewCert_stores(1) by blast
  have "GetCert demo_obtained ''x.org'' = Some c" by (subst c) (simp add: GetCert_def)
  then obtain i where i: "newInbound demo_codecs (\<lambda>_. ''r'') ?req demo_obtained = Inr i"
    by (auto simp: newInbound_def GetInboundSettingBuilder_def GetStreamSettingBuilder_def)
  from new_inbound_wellformed [OF run i] i show ?thesis by auto
qed

end
