(* ===== verification/Encryption.thy ===== *)
theory Encryption
  imports GoStrings
begin

unbundle bit_operations_syntax

text \<open>
  The encryption of the messages between nodes: \<open>common/util/ase.go\<close> and \<open>common/rpc/encrypt_codec.go\<close>.
  Bytes are \<open>8 word\<close>. The block function of AES is the argument \<open>aes\<close>, with \<open>aes_ok\<close> saying what FIPS 197
  promises of it; the CBC mode and the padding are modelled in full. A result \<open>None\<close> is a panic. The
  wire format of protocol buffers is a pair of functions.
\<close>

type_synonym byte = "8 word"
type_synonym bytes = "byte list"

subsection \<open>Padding\<close>

definition PKCS7Padding :: "bytes \<Rightarrow> nat \<Rightarrow> bytes" where
  "PKCS7Padding plaintext blockSize =
     (let paddingNum = blockSize - length plaintext mod blockSize
      in plaintext @ replicate paddingNum (word_of_nat paddingNum))"

definition PKCS7UnPadding :: "bytes \<Rightarrow> bytes result" where
  "PKCS7UnPadding plaintextWithPadding =
     (let len = length plaintextWithPadding
      in if len = 0 then Inl ''empty data''
         else let unpaddingNum = unat (last plaintextWithPadding)
           in if len < unpaddingNum then Inl ''invalid data''
              else Inr (take (len - unpaddingNum) plaintextWithPadding))"

subsection \<open>AES in CBC mode\<close>

record aes =
  aes_encrypt :: "bytes \<Rightarrow> bytes \<Rightarrow> bytes" \<comment> \<open>key and block\<close>
  aes_decrypt :: "bytes \<Rightarrow> bytes \<Rightarrow> bytes"

definition aes_key_sizes :: "nat set" where
  "aes_key_sizes = {16, 24, 32}"

definition aes_ok :: "aes \<Rightarrow> bool" where
  "aes_ok a \<longleftrightarrow> (\<forall>k b. length k \<in> aes_key_sizes \<and> length b = 16 \<longrightarrow>
     length (aes_encrypt a k b) = 16 \<and> length (aes_decrypt a k b) = 16 \<and> aes_decrypt a k (aes_encrypt a k b) = b)"

definition BlockSize :: nat where "BlockSize = 16"

definition xor_block :: "bytes \<Rightarrow> bytes \<Rightarrow> bytes" where
  "xor_block a b = map2 (XOR) a b"

function cbc_encrypt :: "(bytes \<Rightarrow> bytes) \<Rightarrow> bytes \<Rightarrow> bytes \<Rightarrow> bytes" where
  "cbc_encrypt E iv p =
     (if p = [] then []
      else let c = E (xor_block iv (take BlockSize p)) in c @ cbc_encrypt E c (drop BlockSize p))"
  by auto
termination by (relation "measure (\<lambda>(E, iv, p). length p)") (auto simp: BlockSize_def)

function cbc_decrypt :: "(bytes \<Rightarrow> bytes) \<Rightarrow> bytes \<Rightarrow> bytes \<Rightarrow> bytes" where
  "cbc_decrypt D iv c =
     (if c = [] then []
      else xor_block iv (D (take BlockSize c)) @ cbc_decrypt D (take BlockSize c) (drop BlockSize c))"
  by auto
termination by (relation "measure (\<lambda>(D, iv, c). length c)") (auto simp: BlockSize_def)

declare cbc_encrypt.simps [simp del] cbc_decrypt.simps [simp del]

definition key_size_error :: "bytes \<Rightarrow> gerror" where
  "key_size_error key = ''crypto/aes: invalid key size '' @ itoa (int (length key))"

definition EncryptWithAES :: "aes \<Rightarrow> bytes \<Rightarrow> bytes \<Rightarrow> bytes result" where
  "EncryptWithAES a plaintext key =
     (if length key \<notin> aes_key_sizes then Inl (key_size_error key)
      else Inr (cbc_encrypt (aes_encrypt a key) (take BlockSize key) (PKCS7Padding plaintext BlockSize)))"

text \<open>\<open>CryptBlocks\<close> panics when its input is not a sequence of whole blocks.\<close>

definition DecryptWithAES :: "aes \<Rightarrow> bytes \<Rightarrow> bytes \<Rightarrow> bytes result option" where
  "DecryptWithAES a encryptedData key =
     (if length key \<notin> aes_key_sizes then Some (Inl (key_size_error key))
      else if length encryptedData mod BlockSize \<noteq> 0 then None
      else Some (PKCS7UnPadding (cbc_decrypt (aes_decrypt a key) (take BlockSize key) encryptedData)))"

subsection \<open>The codec\<close>

definition rpcServerKeyLen :: nat where "rpcServerKeyLen = 32"

definition token_bytes :: "string \<Rightarrow> bytes" where
  "token_bytes token = map (\<lambda>c. word_of_nat (of_char c)) token"

definition GetRpcKeyByToken :: "string \<Rightarrow> bytes" where
  "GetRpcKeyByToken token =
     (if length token \<ge> rpcServerKeyLen then take 32 (token_bytes token)
      else PKCS7Padding (token_bytes token) rpcServerKeyLen)"

definition Codec_Marshal :: "aes \<Rightarrow> ('m \<Rightarrow> bytes result) \<Rightarrow> bytes \<Rightarrow> 'm \<Rightarrow> bytes result" where
  "Codec_Marshal a marshal key m =
     (case marshal m of Inl e \<Rightarrow> Inl e | Inr byteReq \<Rightarrow> EncryptWithAES a byteReq key)"

definition Codec_Unmarshal :: "aes \<Rightarrow> (bytes \<Rightarrow> 'm result) \<Rightarrow> bytes \<Rightarrow> bytes \<Rightarrow> 'm result option" where
  "Codec_Unmarshal a unmarshal key data =
     (case DecryptWithAES a data key of
        None \<Rightarrow> None
      | Some (Inl e) \<Rightarrow> Some (Inl e)
      | Some (Inr decryptMessage) \<Rightarrow> Some (unmarshal decryptMessage))"

subsection \<open>Padding and its removal\<close>

lemma length_PKCS7Padding:
  assumes "0 < blockSize"
  shows "length (PKCS7Padding p blockSize) = blockSize * (length p div blockSize + 1)"
proof -
  define q r where "q = length p div blockSize" and "r = length p mod blockSize"
  have "length p = blockSize * q + r" "r < blockSize" using assms by (simp_all add: q_def r_def)
  then show ?thesis by (simp add: PKCS7Padding_def Let_def flip: q_def r_def)
qed

lemma unat_byte: "n < 256 \<Longrightarrow> unat (word_of_nat n :: byte) = n"
  by (simp add: unat_of_nat take_bit_eq_mod)

lemma PKCS7UnPadding_Padding:
  assumes "0 < blockSize" "blockSize < 256"
  shows "PKCS7UnPadding (PKCS7Padding p blockSize) = Inr p"
proof -
  define n where "n = blockSize - length p mod blockSize"
  have "0 < n" "n < 256" using assms by (simp_all add: n_def less_imp_diff_less)
  then show ?thesis by (simp add: PKCS7UnPadding_def PKCS7Padding_def Let_def unat_byte flip: n_def)
qed

subsection \<open>CBC\<close>

lemma xor_block_length [simp]: "length a = length b \<Longrightarrow> length (xor_block a b) = length a"
  by (simp add: xor_block_def)

lemma xor_block_cancel: "length a = length b \<Longrightarrow> xor_block a (xor_block a b) = b"
  by (induction a b rule: list_induct2) (auto simp: xor_block_def simp flip: xor.assoc)

lemma blocks_induct [consumes 1, case_names empty block]:
  assumes "length p mod 16 = 0" and "P []"
    and "\<And>b q. length b = 16 \<Longrightarrow> length q mod 16 = 0 \<Longrightarrow> P q \<Longrightarrow> P (b @ q)"
  shows "P (p :: bytes)"
  using assms(1)
proof (induction "length p" arbitrary: p rule: less_induct)
  case less
  show ?case
  proof (cases "p = []")
    case False
    with less.prems have long: "16 \<le> length p" by (metis length_0_conv mod_less not_le)
    then have "length (drop 16 p) mod 16 = 0" using less.prems by (simp add: le_mod_geq)
    with less.hyps [of "drop 16 p"] long assms(3) [of "take 16 p" "drop 16 p"] False show ?thesis by simp
  qed (simp add: assms(2))
qed

lemma cbc_encrypt_block:
  "length b = 16 \<Longrightarrow> cbc_encrypt E iv (b @ q) = E (xor_block iv b) @ cbc_encrypt E (E (xor_block iv b)) q"
  by (subst cbc_encrypt.simps) (auto simp: Let_def BlockSize_def)

lemma cbc_decrypt_block:
  "length b = 16 \<Longrightarrow> cbc_decrypt D iv (b @ q) = xor_block iv (D b) @ cbc_decrypt D b q"
  by (subst cbc_decrypt.simps) (auto simp: BlockSize_def)

lemma cbc_nil [simp]: "cbc_encrypt E iv [] = []" "cbc_decrypt D iv [] = []"
  by (simp_all add: cbc_encrypt.simps cbc_decrypt.simps)

lemma cbc_decrypt_encrypt:
  assumes "length p mod 16 = 0" and "length iv = 16"
    and "\<And>b. length b = 16 \<Longrightarrow> length (E b) = 16 \<and> D (E b) = b"
  shows "cbc_decrypt D iv (cbc_encrypt E iv p) = p"
  using assms(1,2)
proof (induction p arbitrary: iv rule: blocks_induct)
  case (block b q)
  then have "length (xor_block iv b) = 16" by simp
  with block assms(3) show ?case by (simp add: cbc_encrypt_block cbc_decrypt_block xor_block_cancel)
qed simp

lemma length_cbc_encrypt:
  assumes "length p mod 16 = 0" and "length iv = 16" and "\<And>b. length b = 16 \<Longrightarrow> length (E b) = 16"
  shows "length (cbc_encrypt E iv p) = length p"
  using assms(1,2)
proof (induction p arbitrary: iv rule: blocks_induct)
  case (block b q)
  then have "length (xor_block iv b) = 16" by simp
  with block assms(3) show ?case by (simp add: cbc_encrypt_block)
qed simp

lemma length_cbc_decrypt:
  assumes "length c mod 16 = 0" and "length iv = 16" and "\<And>b. length b = 16 \<Longrightarrow> length (D b) = 16"
  shows "length (cbc_decrypt D iv c) = length c"
  using assms(1,2)
  by (induction c arbitrary: iv rule: blocks_induct) (simp_all add: cbc_decrypt_block assms(3))

subsection \<open>Messages between nodes\<close>

lemma length_key: "length (GetRpcKeyByToken t) = 32"
  by (simp add: GetRpcKeyByToken_def length_PKCS7Padding token_bytes_def rpcServerKeyLen_def)

lemma inj_token_bytes: "token_bytes s = token_bytes t \<longleftrightarrow> s = t"
proof
  have "char_of (unat (word_of_nat (of_char c) :: byte)) = c" for c :: char
    using unat_byte [of "of_char c"] nat_of_char_less_256 [of c] by simp
  then have chars: "map (char_of \<circ> unat) (token_bytes u) = u" for u by (simp add: token_bytes_def comp_def)
  assume "token_bytes s = token_bytes t"
  then show "s = t" by (metis chars)
qed simp

lemma PKCS7Padding_inj: "PKCS7Padding x 32 = PKCS7Padding y 32 \<longleftrightarrow> x = y"
proof
  have unpad: "PKCS7UnPadding (PKCS7Padding p 32) = Inr p" for p by (rule PKCS7UnPadding_Padding) simp_all
  assume "PKCS7Padding x 32 = PKCS7Padding y 32"
  then show "x = y" by (metis unpad sum.inject(2))
qed simp

text \<open>
  The key of a token has the size AES needs, for every token. Tokens below 32 bytes have
  different keys when they differ; of longer tokens only the first 32 bytes count.
\<close>

theorem rpc_keys:
  "length (GetRpcKeyByToken s) \<in> aes_key_sizes \<and>
   (length s < 32 \<and> length t < 32 \<longrightarrow> (GetRpcKeyByToken s = GetRpcKeyByToken t \<longleftrightarrow> s = t)) \<and>
   (32 \<le> length s \<and> 32 \<le> length t \<longrightarrow> (GetRpcKeyByToken s = GetRpcKeyByToken t \<longleftrightarrow> take 32 s = take 32 t))"
proof (intro conjI impI)
  show "length (GetRpcKeyByToken s) \<in> aes_key_sizes" by (simp add: length_key aes_key_sizes_def)
next
  assume "length s < 32 \<and> length t < 32"
  then have key: "GetRpcKeyByToken s = PKCS7Padding (token_bytes s) 32" "GetRpcKeyByToken t = PKCS7Padding (token_bytes t) 32"
    by (simp_all add: GetRpcKeyByToken_def rpcServerKeyLen_def)
  show "GetRpcKeyByToken s = GetRpcKeyByToken t \<longleftrightarrow> s = t"
    by (simp add: key PKCS7Padding_inj inj_token_bytes)
next
  assume "32 \<le> length s \<and> 32 \<le> length t"
  then show "GetRpcKeyByToken s = GetRpcKeyByToken t \<longleftrightarrow> take 32 s = take 32 t"
    using inj_token_bytes [of "take 32 s" "take 32 t"] by (simp add: GetRpcKeyByToken_def rpcServerKeyLen_def token_bytes_def take_map)
qed

theorem rpc_keys_witness: "GetRpcKeyByToken ''a'' \<noteq> GetRpcKeyByToken ''b''"
  using rpc_keys [of "''a''" "''b''"] by simp

text \<open>
  C14: messages between nodes arrive as they were sent. With the same token on both sides the
  encoding of every message succeeds, takes the next multiple of 16 bytes above the message, and is
  decoded to the message.
\<close>

theorem rpc_codec_roundtrip:
  assumes "aes_ok a" and "marshal m = Inr bs" and "unmarshal bs = Inr m"
  shows "\<exists>data. Codec_Marshal a marshal (GetRpcKeyByToken token) m = Inr data \<and> length data = 16 * (length bs div 16 + 1) \<and>
    Codec_Unmarshal a unmarshal (GetRpcKeyByToken token) data = Some (Inr m)"
proof -
  let ?key = "GetRpcKeyByToken token"
  have key: "length ?key \<in> aes_key_sizes" "length (take 16 ?key) = 16" by (simp_all add: length_key aes_key_sizes_def)
  have pad: "length (PKCS7Padding bs 16) mod 16 = 0" by (simp add: length_PKCS7Padding)
  have E: "length b = 16 \<Longrightarrow> length (aes_encrypt a ?key b) = 16 \<and> aes_decrypt a ?key (aes_encrypt a ?key b) = b" for b
    using assms(1) key(1) unfolding aes_ok_def by blast
  note len = length_cbc_encrypt [OF pad key(2), of "aes_encrypt a ?key"]
  show ?thesis
    using key E len cbc_decrypt_encrypt [OF pad key(2) E] PKCS7UnPadding_Padding [of 16 bs]
    by (simp add: Codec_Marshal_def Codec_Unmarshal_def EncryptWithAES_def DecryptWithAES_def BlockSize_def assms(2,3) length_PKCS7Padding)
qed

text \<open>A block function to evaluate with.\<close>

definition demo_aes :: aes where
  "demo_aes = \<lparr>aes_encrypt = (\<lambda>k b. xor_block (take 16 k) (rev b)), aes_decrypt = (\<lambda>k b. rev (xor_block (take 16 k) b))\<rparr>"

lemma aes_ok_demo: "aes_ok demo_aes"
proof -
  have "16 \<le> length k" if "length k \<in> aes_key_sizes" for k :: bytes using that by (auto simp: aes_key_sizes_def)
  then show ?thesis by (auto simp: aes_ok_def demo_aes_def xor_block_cancel)
qed

theorem rpc_codec_roundtrip_witness:
  "\<exists>data. Codec_Marshal demo_aes Inr (GetRpcKeyByToken ''secret'') [1, 2, 3] = Inr data \<and> length data = 16 \<and>
     Codec_Unmarshal demo_aes Inr (GetRpcKeyByToken ''secret'') data = Some (Inr [1, 2, 3])"
  using rpc_codec_roundtrip [OF aes_ok_demo, of Inr "[1, 2, 3]" "[1, 2, 3]" Inr "''secret''"] by simp

text \<open>
  A frame of a wrong length panics. Decoding panics exactly for frames that are not whole blocks,
  whoever sent them. For the others it never does; an empty frame is an error, and of the padding
  only the last byte is looked at.
\<close>

theorem frame_decoding:
  assumes "aes_ok a"
  shows "(Codec_Unmarshal a unmarshal (GetRpcKeyByToken token) data = None \<longleftrightarrow> length data mod 16 \<noteq> 0) \<and>
    (length data mod 16 = 0 \<longrightarrow> (\<exists>p. length p = length data \<and> Codec_Unmarshal a unmarshal (GetRpcKeyByToken token) data =
      Some (if data = [] then Inl ''empty data''
            else if length data < unat (last p) then Inl ''invalid data''
            else unmarshal (take (length data - unat (last p)) p))))"
proof -
  let ?key = "GetRpcKeyByToken token"
  let ?p = "cbc_decrypt (aes_decrypt a ?key) (take 16 ?key) data"
  have key: "length ?key \<in> aes_key_sizes" "length (take 16 ?key) = 16" by (simp_all add: length_key aes_key_sizes_def)
  have D: "length b = 16 \<Longrightarrow> length (aes_decrypt a ?key b) = 16" for b
    using assms key(1) unfolding aes_ok_def by blast
  have "length ?p = length data" if "length data mod 16 = 0" by (rule length_cbc_decrypt [OF that key(2) D])
  then show ?thesis
    using key(1) by (auto simp: Codec_Unmarshal_def DecryptWithAES_def BlockSize_def PKCS7UnPadding_def Let_def intro!: exI [of _ ?p])
qed

theorem frame_decoding_witness: "Codec_Unmarshal demo_aes Inr (GetRpcKeyByToken ''secret'') [7] = None"
  using frame_decoding [OF aes_ok_demo, of Inr "''secret''" "[7]"] by simp

end
