(* ===== verification/NodeClient.thy ===== *)
theory NodeClient
  imports Membership Encryption
begin

text \<open>
  The requests a node sends to others: \<open>client/rpc/end_node_rpc.go\<close> with the request types of
  \<open>client/rpc/end_node_rpc_type.go\<close>. A remote node is its stub \<open>'q access\<close>: what it answers to a method,
  or the error of the call, in which case the generated stub returns no response. The response is
  its code, its message and what the caller takes out of it. The record \<open>client_env\<close> holds the decoding
  of a message type (protocol buffers), the text of a request in an error, and \<open>fmt.Errorf\<close> on a message
  without arguments.
\<close>

subsection \<open>Requests\<close>

record 'd rpc_reply =
  rp_Code :: int
  rp_Msg :: string
  rp_Payload :: 'd

type_synonym ('q, 'd) access = "string \<Rightarrow> node_auth \<Rightarrow> 'q \<Rightarrow> string \<Rightarrow> 'd rpc_reply result"

record 'q client_env =
  ce_marshal :: "'q \<Rightarrow> bytes result"
  ce_unmarshal :: "string \<Rightarrow> bytes \<Rightarrow> 'q result"
  ce_show :: "'q \<Rightarrow> string"
  ce_errorf :: "string \<Rightarrow> string"

text \<open>A request function: the bytes of the request, the stub, the sender and the cluster's token.\<close>

type_synonym ('q, 'd) req_fun = "bytes \<Rightarrow> ('q, 'd) access \<Rightarrow> node_auth \<Rightarrow> string \<Rightarrow> 'd option result"

definition fmt_bytes :: "bytes \<Rightarrow> string" where
  "fmt_bytes bs = ''['' @ str_join '' '' (map (\<lambda>b. itoa (uint b)) bs) @ '']''"

text \<open>
  The three ways the functions read an answer. A missing response has the code 0, so it does not
  matter that some functions look at the code before they look at the error.
\<close>

definition process_data :: "'q client_env \<Rightarrow> 'd rpc_reply result \<Rightarrow> 'd option result" where
  "process_data env r =
     (case r of
        Inl err \<Rightarrow> Inl err
      | Inr rsp \<Rightarrow> if rp_Code rsp \<noteq> 0 then Inl (ce_errorf env (rp_Msg rsp)) else Inr (Some (rp_Payload rsp)))"

definition process_code :: "'q client_env \<Rightarrow> 'd rpc_reply result \<Rightarrow> 'd option result" where
  "process_code env r =
     (case r of
        Inl err \<Rightarrow> Inl err
      | Inr rsp \<Rightarrow> if rp_Code rsp \<noteq> 0 then Inl (ce_errorf env (rp_Msg rsp)) else Inr None)"

definition process_raw :: "'d rpc_reply result \<Rightarrow> 'd option result" where
  "process_raw r = (case r of Inl err \<Rightarrow> Inl err | Inr rsp \<Rightarrow> Inr (Some (rp_Payload rsp)))"

definition send_req ::
    "'q client_env \<Rightarrow> string \<Rightarrow> string \<Rightarrow> string \<Rightarrow> ('d rpc_reply result \<Rightarrow> 'd option result) \<Rightarrow> ('q, 'd) req_fun" where
  "send_req env msgType what meth process reqData stub auth token =
     (case ce_unmarshal env msgType reqData of
        Inl err \<Rightarrow> Inl ([CHR ''c'', CHR ''a'', CHR ''n'', CHR 0x27] @ ''t unmarshal req['' @ fmt_bytes reqData @ ''] to '' @ what @ '' > '' @ err)
      | Inr req \<Rightarrow> process (stub meth auth req token))"

definition ReqAddUsers :: "'q client_env \<Rightarrow> ('q, 'd) req_fun" where
  "ReqAddUsers env = send_req env ''UserOpReq'' ''add users req'' ''AddUsers'' (process_code env)"

definition ReqDeleteUsers :: "'q client_env \<Rightarrow> ('q, 'd) req_fun" where
  "ReqDeleteUsers env = send_req env ''UserOpReq'' ''delete users req'' ''DeleteUsers'' (process_code env)"

definition ReqUpdateUsers :: "'q client_env \<Rightarrow> ('q, 'd) req_fun" where
  "ReqUpdateUsers env = send_req env ''UserOpReq'' ''update users req'' ''UpdateUsers'' (process_code env)"

definition ReqResetUser :: "'q client_env \<Rightarrow> ('q, 'd) req_fun" where
  "ReqResetUser env = send_req env ''UserOpReq'' ''reset users req'' ''ResetUser'' (process_code env)"

definition ReqGetSub :: "'q client_env \<Rightarrow> ('q, 'd) req_fun" where
  "ReqGetSub env = send_req env ''GetSubReq'' ''get sub req'' ''GetSub'' (process_data env)"

definition ReqGetBandwidthStats :: "'q client_env \<Rightarrow> ('q, 'd) req_fun" where
  "ReqGetBandwidthStats env = send_req env ''GetBandwidthStatsReq'' ''get badnwidth stats req'' ''GetBandWidthStats'' (process_data env)"

definition ReqAddInbound :: "'q client_env \<Rightarrow> ('q, 'd) req_fun" where
  "ReqAddInbound env = send_req env ''InboundOpReq'' ''add inbound req'' ''AddInbound'' (process_code env)"

definition ReqDeleteInbound :: "'q client_env \<Rightarrow> ('q, 'd) req_fun" where
  "ReqDeleteInbound env = send_req env ''InboundOpReq'' ''delete inbound req'' ''DeleteInbound'' (process_code env)"

definition ReqTransferInbound :: "'q client_env \<Rightarrow> ('q, 'd) req_fun" where
  "ReqTransferInbound env = send_req env ''TransferInboundReq'' ''TransferInboundReq'' ''TransferInbound'' (process_code env)"

definition ReqCopyInbound :: "'q client_env \<Rightarrow> ('q, 'd) req_fun" where
  "ReqCopyInbound env = send_req env ''CopyInboundReq'' ''CopyInboundReq'' ''CopyInbound'' (process_code env)"

definition ReqCopyUser :: "'q client_env \<Rightarrow> ('q, 'd) req_fun" where
  "ReqCopyUser env = send_req env ''CopyUserReq'' ''CopyUserReq'' ''CopyUser'' (process_code env)"

definition ReqGetUsers :: "'q client_env \<Rightarrow> ('q, 'd) req_fun" where
  "ReqGetUsers env = send_req env ''GetUsersReq'' ''GetUsersReq'' ''GetUsers'' (process_data env)"

definition ReqGetInbound :: "'q client_env \<Rightarrow> ('q, 'd) req_fun" where
  "ReqGetInbound env = send_req env ''GetInboundReq'' ''GetInboundReq'' ''GetInbound'' (process_data env)"

definition ReqGetTag :: "'q client_env \<Rightarrow> ('q, 'd) req_fun" where
  "ReqGetTag env = send_req env ''GetTagReq'' ''GetTagReq'' ''GetTag'' (process_data env)"

definition ReqUpdateProxy :: "'q client_env \<Rightarrow> ('q, 'd) req_fun" where
  "ReqUpdateProxy env = send_req env ''UpdateProxyReq'' ''UpdateProxyReq'' ''UpdateProxy'' (process_code env)"

definition ReqAddAdaptiveOp :: "'q client_env \<Rightarrow> ('q, 'd) req_fun" where
  "ReqAddAdaptiveOp env = send_req env ''AdaptiveOpReq'' ''add adaptive op req'' ''AddAdaptiveConfig'' (process_code env)"

definition ReqDeleteAdaptiveOp :: "'q client_env \<Rightarrow> ('q, 'd) req_fun" where
  "ReqDeleteAdaptiveOp env = send_req env ''AdaptiveOpReq'' ''delete adaptive op req'' ''AddAdaptiveConfig'' (process_code env)"

definition ReqAdaptive :: "'q client_env \<Rightarrow> ('q, 'd) req_fun" where
  "ReqAdaptive env = send_req env ''AdaptiveReq'' ''AdaptiveReq'' ''Adaptive'' (process_code env)"

definition ReqSetGatewayModel :: "'q client_env \<Rightarrow> ('q, 'd) req_fun" where
  "ReqSetGatewayModel env = send_req env ''SetGatewayModelReq'' ''SetGatewayModelReq'' ''SetGatewayModel'' (process_code env)"

definition ReqObtainNewCert :: "'q client_env \<Rightarrow> ('q, 'd) req_fun" where
  "ReqObtainNewCert env = send_req env ''ObtainNewCertReq'' ''ObtainNewCertReq'' ''ObtainNewCert'' (process_code env)"

definition ReqFastAddInbound :: "'q client_env \<Rightarrow> ('q, 'd) req_fun" where
  "ReqFastAddInbound env = send_req env ''FastAddInboundReq'' ''FastAddInboundReq'' ''FastAddInbound'' (process_code env)"

definition ReqTransferCert :: "'q client_env \<Rightarrow> ('q, 'd) req_fun" where
  "ReqTransferCert env = send_req env ''TransferCertReq'' ''TransferCertReq'' ''TransferCert'' (process_code env)"

definition ReqGetCerts :: "'q client_env \<Rightarrow> ('q, 'd) req_fun" where
  "ReqGetCerts env = send_req env ''GetCertsReq'' ''GetCertsReq'' ''GetCerts'' process_raw"

definition ReqClearUsers :: "'q client_env \<Rightarrow> ('q, 'd) req_fun" where
  "ReqClearUsers env = send_req env ''ClearUsersReq'' ''ClearUsersReq'' ''ClearUsers'' (process_code env)"

definition ReqGetPingMetric :: "'q client_env \<Rightarrow> ('q, 'd) req_fun" where
  "ReqGetPingMetric env = send_req env ''GetPingMetricReq'' ''GetPingMetricReq'' ''GetPingMetric'' (process_data env)"

definition ReqRegisterNode :: "'q client_env \<Rightarrow> ('q, 'd) req_fun" where
  "ReqRegisterNode env = send_req env ''RegisterNodeReq'' ''register node req'' ''RegisterNode'' process_raw"

definition ReqHeartBeat :: "'q client_env \<Rightarrow> ('q, 'd) req_fun" where
  "ReqHeartBeat env = send_req env ''HeartBeatReq'' ''heart beat req'' ''HeartBeat'' process_raw"

datatype req_type =
    AddUsersReqType
  | DeleteUsersReqType
  | UpdateUsersReqType
  | ResetUserReqType
  | GetSubReqType
  | GetBandWidthStatsReqType
  | AddInboundReqType
  | DeleteInboundReqType
  | TransferInboundReqType
  | CopyInboundReqType
  | CopyUserReqType
  | GetUsersReqType
  | GetInboundReqType
  | GetTagReqType
  | UpdateProxyReqType
  | AddAdaptiveConfigReqType
  | DeleteAdaptiveConfigReqType
  | AdaptiveReqType
  | SetGatewayModelReqType
  | ObtainNewCertType
  | FastAddInboundType
  | TransferCertType
  | GetCertsType
  | ClearUsersType
  | GetPingMetricType
  | RegisterNodeType
  | HeartBeatType

text \<open>The table that \<open>init\<close> fills.\<close>

fun reqFuncMap :: "'q client_env \<Rightarrow> req_type \<Rightarrow> ('q, 'd) req_fun option" where
  "reqFuncMap env AddUsersReqType = Some (ReqAddUsers env)"
| "reqFuncMap env DeleteUsersReqType = Some (ReqDeleteUsers env)"
| "reqFuncMap env UpdateUsersReqType = Some (ReqUpdateUsers env)"
| "reqFuncMap env ResetUserReqType = Some (ReqResetUser env)"
| "reqFuncMap env GetSubReqType = Some (ReqGetSub env)"
| "reqFuncMap env GetBandWidthStatsReqType = Some (ReqGetBandwidthStats env)"
| "reqFuncMap env AddInboundReqType = Some (ReqAddInbound env)"
| "reqFuncMap env DeleteInboundReqType = Some (ReqDeleteInbound env)"
| "reqFuncMap env TransferInboundReqType = Some (ReqTransferInbound env)"
| "reqFuncMap env CopyInboundReqType = Some (ReqCopyInbound env)"
| "reqFuncMap env CopyUserReqType = Some (ReqCopyUser env)"
| "reqFuncMap env GetUsersReqType = Some (ReqGetUsers env)"
| "reqFuncMap env GetInboundReqType = Some (ReqGetInbound env)"
| "reqFuncMap env GetTagReqType = Some (ReqGetTag env)"
| "reqFuncMap env UpdateProxyReqType = Some (ReqUpdateProxy env)"
| "reqFuncMap env AddAdaptiveConfigReqType = Some (ReqAddAdaptiveOp env)"
| "reqFuncMap env DeleteAdaptiveConfigReqType = Some (ReqDeleteAdaptiveOp env)"
| "reqFuncMap env AdaptiveReqType = Some (ReqAdaptive env)"
| "reqFuncMap env SetGatewayModelReqType = Some (ReqSetGatewayModel env)"
| "reqFuncMap env ObtainNewCertType = Some (ReqObtainNewCert env)"
| "reqFuncMap env FastAddInboundType = Some (ReqFastAddInbound env)"
| "reqFuncMap env TransferCertType = Some (ReqTransferCert env)"
| "reqFuncMap env GetCertsType = Some (ReqGetCerts env)"
| "reqFuncMap env ClearUsersType = Some (ReqClearUsers env)"
| "reqFuncMap env GetPingMetricType = Some (ReqGetPingMetric env)"
| "reqFuncMap env RegisterNodeType = Some (ReqRegisterNode env)"
| "reqFuncMap env HeartBeatType = None"

subsection \<open>The fan-out\<close>

definition MaxConcurrencyClientNum :: nat where "MaxConcurrencyClientNum = 64"

text \<open>
  One goroutine: \<open>dial\<close> is the error of connecting to a node, \<open>stub\<close> the remote node behind the
  connection. The request carries the token this node got from the remote one.
\<close>

definition request_node ::
    "('q, 'd) req_fun \<Rightarrow> bytes \<Rightarrow> pnode \<Rightarrow> string \<Rightarrow> (node \<Rightarrow> gerror option) \<Rightarrow> (node \<Rightarrow> ('q, 'd) access) \<Rightarrow> node \<Rightarrow> 'd option result" where
  "request_node reqFunc reqData localNode token dial stub n =
     (case dial n of
        Some err \<Rightarrow> Inl err
      | None \<Rightarrow> reqFunc reqData (stub n) \<lparr>na_Token = nd_OutToken n, na_Node = localNode\<rparr> token)"

definition wanted :: "int \<Rightarrow> req_type \<Rightarrow> node \<Rightarrow> bool" where
  "wanted now reqType n \<longleftrightarrow> reqType = RegisterNodeType \<or> Node_RegisteredRemote now n"

record 'd answers =
  an_succ :: "string \<rightharpoonup> 'd option"
  an_failed :: "string \<rightharpoonup> string"

definition no_answers :: "'d answers" where
  "no_answers = \<lparr>an_succ = Map.empty, an_failed = Map.empty\<rparr>"

definition store_answer :: "(node \<Rightarrow> 'd option result) \<Rightarrow> node \<Rightarrow> 'd answers \<Rightarrow> 'd answers" where
  "store_answer call n a =
     (case call n of
        Inl err \<Rightarrow> a\<lparr>an_failed := (an_failed a)(nd_Name n \<mapsto> err)\<rparr>
      | Inr result \<Rightarrow> a\<lparr>an_succ := (an_succ a)(nd_Name n \<mapsto> result)\<rparr>)"

text \<open>
  The loop and its goroutines as steps. A node that is not wanted is skipped; a goroutine starts when
  the channel that limits the calls of the process has room (\<open>others\<close> places are taken by other
  requests); goroutines end in any order, and each stores its answer under the lock.
\<close>

record 'd fan =
  fn_todo :: "node list"
  fn_running :: "node list"
  fn_answers :: "'d answers"

definition fan_start :: "node list \<Rightarrow> 'd fan" where
  "fan_start nodes = \<lparr>fn_todo = nodes, fn_running = [], fn_answers = no_answers\<rparr>"

inductive fan_step :: "nat \<Rightarrow> (node \<Rightarrow> bool) \<Rightarrow> (node \<Rightarrow> 'd option result) \<Rightarrow> 'd fan \<Rightarrow> 'd fan \<Rightarrow> bool"
  for others and want and call where
  fan_skip: "fn_todo s = n # ns \<Longrightarrow> \<not> want n \<Longrightarrow> fan_step others want call s (s\<lparr>fn_todo := ns\<rparr>)"
| fan_go: "fn_todo s = n # ns \<Longrightarrow> want n \<Longrightarrow> length (fn_running s) + others < MaxConcurrencyClientNum \<Longrightarrow>
    fan_step others want call s (s\<lparr>fn_todo := ns, fn_running := n # fn_running s\<rparr>)"
| fan_end: "fn_running s = xs @ n # ys \<Longrightarrow>
    fan_step others want call s (s\<lparr>fn_running := xs @ ys, fn_answers := store_answer call n (fn_answers s)\<rparr>)"

text \<open>\<open>wg.Wait\<close> returns when every goroutine has ended.\<close>

definition fan_over :: "'d fan \<Rightarrow> bool" where
  "fan_over s \<longleftrightarrow> fn_todo s = [] \<and> fn_running s = []"

text \<open>The same request with one call after the other.\<close>

definition ask_all :: "(node \<Rightarrow> bool) \<Rightarrow> (node \<Rightarrow> 'd option result) \<Rightarrow> node list \<Rightarrow> 'd answers" where
  "ask_all want call nodes = fold (store_answer call) (filter want nodes) no_answers"

definition req_types :: "req_type list" where
  "req_types = [AddUsersReqType, DeleteUsersReqType, UpdateUsersReqType, ResetUserReqType, GetSubReqType,
     GetBandWidthStatsReqType, AddInboundReqType, DeleteInboundReqType, TransferInboundReqType, CopyInboundReqType,
     CopyUserReqType, GetUsersReqType, GetInboundReqType, GetTagReqType, UpdateProxyReqType, AddAdaptiveConfigReqType,
     DeleteAdaptiveConfigReqType, AdaptiveReqType, SetGatewayModelReqType, ObtainNewCertType, FastAddInboundType,
     TransferCertType, GetCertsType, ClearUsersType, GetPingMetricType, RegisterNodeType, HeartBeatType]"

definition req_number :: "req_type \<Rightarrow> int" where
  "req_number t = int (length (takeWhile (\<lambda>u. u \<noteq> t) req_types))"

definition ReqToMultiEndNodeServer ::
    "'q client_env \<Rightarrow> int \<Rightarrow> pnode \<Rightarrow> (node \<Rightarrow> gerror option) \<Rightarrow> (node \<Rightarrow> ('q, 'd) access) \<Rightarrow> node list \<Rightarrow> req_type \<Rightarrow> 'q \<Rightarrow> string
     \<Rightarrow> 'd answers \<times> gerror option" where
  "ReqToMultiEndNodeServer env now localNode dial stub nodes reqType req token =
     (case ce_marshal env req of
        Inl err \<Rightarrow> (no_answers, Some ([CHR ''r'', CHR ''e'', CHR ''q''] @ '' message can'' @ [CHR 0x27] @ ''t marshal > '' @ err @ '', Req: '' @ ce_show env req))
      | Inr reqData \<Rightarrow>
          (case reqFuncMap env reqType of
             None \<Rightarrow> (no_answers, Some (''unsupport req type: '' @ itoa (req_number reqType) @ '', Req: '' @ ce_show env req))
           | Some reqFunc \<Rightarrow>
               (ask_all (wanted now reqType) (request_node reqFunc reqData localNode token dial stub) nodes, None)))"

subsection \<open>Every order of the goroutines gives the same answers\<close>

inductive_cases fan_stepE: "fan_step others want call s s'"

lemma store_answer_commute:
  "nd_Name n \<noteq> nd_Name m \<Longrightarrow> store_answer call n (store_answer call m a) = store_answer call m (store_answer call n a)"
  by (cases "call n"; cases "call m") (auto simp: store_answer_def fun_upd_twist)

text \<open>The answers, if what runs and what is left were asked one after the other.\<close>

definition fan_result :: "(node \<Rightarrow> bool) \<Rightarrow> (node \<Rightarrow> 'd option result) \<Rightarrow> 'd fan \<Rightarrow> 'd answers" where
  "fan_result want call s = fold (store_answer call) (fn_running s @ filter want (fn_todo s)) (fn_answers s)"

definition fan_names :: "'d fan \<Rightarrow> string list" where
  "fan_names s = map nd_Name (fn_running s @ fn_todo s)"

lemma fold_store_first:
  assumes "nd_Name n \<notin> nd_Name ` set xs"
  shows "fold (store_answer call) (xs @ n # ys) a = fold (store_answer call) (xs @ ys) (store_answer call n a)"
  using assms
proof (induction xs arbitrary: a)
  case (Cons x xs)
  then have "nd_Name n \<noteq> nd_Name x" by auto
  with Cons show ?case by (simp add: store_answer_commute)
qed simp

lemma fan_step_result:
  assumes "fan_step others want call s s'" and "distinct (fan_names s)"
  shows "fan_result want call s' = fan_result want call s" and "distinct (fan_names s')"
proof -
  show "distinct (fan_names s')"
    using assms by (cases rule: fan_step.cases) (auto simp: fan_names_def)
  show "fan_result want call s' = fan_result want call s"
    using assms(1)
  proof (cases rule: fan_step.cases)
    case (fan_go n ns)
    then show ?thesis
      using assms(2) fold_store_first [of n "fn_running s" call "filter want ns" "fn_answers s"]
      by (simp add: fan_result_def fan_names_def)
  next
    case (fan_end xs n ys)
    then show ?thesis
      using assms(2) fold_store_first [of n xs call "ys @ filter want (fn_todo s)" "fn_answers s"]
      by (simp add: fan_result_def fan_names_def)
  qed (simp add: fan_result_def)
qed

text \<open>Reachable states of a request, and how far a state is from the end.\<close>

inductive fan_run :: "nat \<Rightarrow> (node \<Rightarrow> bool) \<Rightarrow> (node \<Rightarrow> 'd option result) \<Rightarrow> 'd fan \<Rightarrow> 'd fan \<Rightarrow> bool"
  for others and want and call where
  fan_here: "fan_run others want call s s"
| fan_more: "fan_run others want call s s' \<Longrightarrow> fan_step others want call s' s'' \<Longrightarrow> fan_run others want call s s''"

lemma fan_run_result:
  "fan_run others want call s s' \<Longrightarrow> distinct (fan_names s) \<Longrightarrow>
     fan_result want call s' = fan_result want call s \<and> distinct (fan_names s')"
  by (induction rule: fan_run.induct) (auto dest: fan_step_result)

lemma fan_run_bound:
  "fan_run others want call s s' \<Longrightarrow> length (fn_running s) + others \<le> MaxConcurrencyClientNum \<Longrightarrow>
     length (fn_running s') + others \<le> MaxConcurrencyClientNum"
  by (induction rule: fan_run.induct) (auto elim!: fan_stepE)

definition fan_size :: "'d fan \<Rightarrow> nat" where
  "fan_size s = 2 * length (fn_todo s) + length (fn_running s)"

lemma fan_step_size: "fan_step others want call s s' \<Longrightarrow> fan_size s' < fan_size s"
  by (auto simp: fan_size_def elim!: fan_stepE)

lemma fan_not_stuck:
  assumes "others < MaxConcurrencyClientNum" and "\<not> fan_over s"
  shows "\<exists>s'. fan_step others want call s s'"
proof (cases "fn_running s")
  case (Cons n ns)
  then show ?thesis using fan_end [of s "[]" n ns] by auto
next
  case Nil
  with assms obtain n ns where "fn_todo s = n # ns" by (cases "fn_todo s") (auto simp: fan_over_def)
  then show ?thesis
    using Nil assms(1) fan_skip [of s n ns want others call] fan_go [of s n ns want others call] by (cases "want n") auto
qed

text \<open>
  C15: a request to several nodes does not depend on the order of its goroutines. For nodes with
  different names, whatever goroutines start and end when, the two tables of the result are those
  of asking the wanted nodes one after the other.
\<close>

theorem fan_out_deterministic:
  assumes "distinct (map nd_Name nodes)" and "fan_run others (wanted now reqType) call (fan_start nodes) s" and "fan_over s"
  shows "fn_answers s = ask_all (wanted now reqType) call nodes"
  using fan_run_result [OF assms(2)] assms(1,3)
  by (simp add: fan_result_def fan_over_def fan_start_def ask_all_def fan_names_def)

definition demo_peer :: "string \<Rightarrow> node" where
  "demo_peer name = \<lparr>nd_Node = \<lparr>pn_Host = ''h'', pn_Port = 1, pn_ClusterName = ''c'', pn_Name = name\<rparr>, nd_InToken = '''', nd_OutToken = ''t'',
     nd_GetHeartBeatTime = 0, nd_ReportHeartBeatTime = 100, nd_CreateTime = 0, nd_isLocal = False\<rparr>"

lemma demo_peer_simps: "nd_Name (demo_peer name) = name" "Node_RegisteredRemote 120 (demo_peer name)"
  by (simp_all add: demo_peer_def Node_RegisteredRemote_def NodeTimeOut_def i64_add_id in_int64_def)

definition demo_call :: "node \<Rightarrow> string option result" where
  "demo_call n = (if nd_Name n = ''a'' then Inr (Some ''ok'') else Inl ''refused'')"

theorem fan_out_deterministic_witness:
  "\<exists>s. fan_run 0 (wanted 120 GetTagReqType) demo_call (fan_start [demo_peer ''a'', demo_peer ''b'']) s \<and>
     an_succ (fn_answers s) = [''a'' \<mapsto> Some ''ok''] \<and> an_failed (fn_answers s) = [''b'' \<mapsto> ''refused'']"
proof -
  let ?want = "wanted 120 GetTagReqType" and ?a = "demo_peer ''a''" and ?b = "demo_peer ''b''"
  have want: "?want n = Node_RegisteredRemote 120 n" for n by (simp add: wanted_def)
  let ?s1 = "\<lparr>fn_todo = [?b], fn_running = [?a], fn_answers = no_answers\<rparr> :: string fan"
  let ?s2 = "\<lparr>fn_todo = [], fn_running = [?b, ?a], fn_answers = no_answers\<rparr> :: string fan"
  let ?s3 = "\<lparr>fn_todo = [], fn_running = [?a], fn_answers = store_answer demo_call ?b no_answers\<rparr>"
  let ?s4 = "\<lparr>fn_todo = [], fn_running = [], fn_answers = store_answer demo_call ?a (store_answer demo_call ?b no_answers)\<rparr>"
  have 1: "fan_step 0 ?want demo_call (fan_start [?a, ?b]) ?s1"
    using fan_go [of "fan_start [?a, ?b] :: string fan" ?a "[?b]" ?want 0 demo_call]
    by (simp add: fan_start_def want demo_peer_simps MaxConcurrencyClientNum_def)
  have 2: "fan_step 0 ?want demo_call ?s1 ?s2"
    using fan_go [of ?s1 ?b "[]" ?want 0 demo_call] by (simp add: want demo_peer_simps MaxConcurrencyClientNum_def)
  have 3: "fan_step 0 ?want demo_call ?s2 ?s3" using fan_end [of ?s2 "[]" ?b "[?a]"] by simp
  have 4: "fan_step 0 ?want demo_call ?s3 ?s4" using fan_end [of ?s3 "[]" ?a "[]"] by simp
  have run: "fan_run 0 ?want demo_call (fan_start [?a, ?b]) ?s4"
    by (rule fan_more [OF fan_more [OF fan_more [OF fan_more [OF fan_here 1] 2] 3] 4])
  have "fn_answers ?s4 = ask_all ?want demo_call [?a, ?b]"
    by (rule fan_out_deterministic [OF _ run]) (simp_all add: demo_peer_simps fan_over_def)
  then show ?thesis
    using run by (intro exI [of _ ?s4]) (simp add: ask_all_def want demo_peer_simps store_answer_def demo_call_def no_answers_def)
qed

lemma fan_steps_size: "(fan_step others want call ^^ k) s s' \<Longrightarrow> fan_size s' + k \<le> fan_size s"
proof (induction k arbitrary: s')
  case (Suc k)
  then obtain t where "(fan_step others want call ^^ k) s t" and step: "fan_step others want call t s'" by auto
  with Suc.IH [of t] fan_step_size [OF step] show ?case by simp
qed simp

text \<open>
  C18: a request to several nodes ends. No run has more steps than twice the number of nodes, a state
  that is not over has a next step unless other requests hold all places for ever, and never more
  than 64 calls are under way.
\<close>

theorem fan_out_terminates:
  assumes "others < MaxConcurrencyClientNum"
  shows "(\<forall>k s. (fan_step others want call ^^ k) (fan_start nodes) s \<longrightarrow> k \<le> 2 * length nodes) \<and>
    (\<forall>s. fan_run others want call (fan_start nodes) s \<longrightarrow>
       length (fn_running s) \<le> 64 \<and> (fan_over s \<or> (\<exists>s'. fan_step others want call s s')))"
proof (intro conjI allI impI)
  fix k and s :: "'a fan"
  assume "(fan_step others want call ^^ k) (fan_start nodes) s"
  from fan_steps_size [OF this] show "k \<le> 2 * length nodes" by (simp add: fan_size_def fan_start_def)
next
  fix s :: "'a fan"
  assume "fan_run others want call (fan_start nodes) s"
  from fan_run_bound [OF this] assms show "length (fn_running s) \<le> 64"
    by (simp add: fan_start_def MaxConcurrencyClientNum_def)
  show "fan_over s \<or> (\<exists>s'. fan_step others want call s s')" using fan_not_stuck [OF assms] by blast
qed

theorem fan_out_terminates_witness:
  "\<not> (\<exists>s. (fan_step 0 (\<lambda>_. True) demo_call ^^ 5) (fan_start [demo_peer ''a'', demo_peer ''b'']) s)"
proof
  assume "\<exists>s. (fan_step 0 (\<lambda>_. True) demo_call ^^ 5) (fan_start [demo_peer ''a'', demo_peer ''b'']) s"
  then show False
    using fan_out_terminates [of 0 "\<lambda>_. True" demo_call "[demo_peer ''a'', demo_peer ''b'']"] by (auto simp: MaxConcurrencyClientNum_def)
qed

subsection \<open>Which method a request reaches\<close>

fun method_of :: "req_type \<Rightarrow> string" where
  "method_of AddUsersReqType = ''AddUsers''"
| "method_of DeleteUsersReqType = ''DeleteUsers''"
| "method_of UpdateUsersReqType = ''UpdateUsers''"
| "method_of ResetUserReqType = ''ResetUser''"
| "method_of GetSubReqType = ''GetSub''"
| "method_of GetBandWidthStatsReqType = ''GetBandWidthStats''"
| "method_of AddInboundReqType = ''AddInbound''"
| "method_of DeleteInboundReqType = ''DeleteInbound''"
| "method_of TransferInboundReqType = ''TransferInbound''"
| "method_of CopyInboundReqType = ''CopyInbound''"
| "method_of CopyUserReqType = ''CopyUser''"
| "method_of GetUsersReqType = ''GetUsers''"
| "method_of GetInboundReqType = ''GetInbound''"
| "method_of GetTagReqType = ''GetTag''"
| "method_of UpdateProxyReqType = ''UpdateProxy''"
| "method_of AddAdaptiveConfigReqType = ''AddAdaptiveConfig''"
| "method_of DeleteAdaptiveConfigReqType = ''DeleteAdaptiveConfig''"
| "method_of AdaptiveReqType = ''Adaptive''"
| "method_of SetGatewayModelReqType = ''SetGatewayModel''"
| "method_of ObtainNewCertType = ''ObtainNewCert''"
| "method_of FastAddInboundType = ''FastAddInbound''"
| "method_of TransferCertType = ''TransferCert''"
| "method_of GetCertsType = ''GetCerts''"
| "method_of ClearUsersType = ''ClearUsers''"
| "method_of GetPingMetricType = ''GetPingMetric''"
| "method_of RegisterNodeType = ''RegisterNode''"
| "method_of HeartBeatType = ''HeartBeat''"

lemmas req_fun_defs = ReqAddUsers_def ReqDeleteUsers_def ReqUpdateUsers_def ReqResetUser_def ReqGetSub_def ReqGetBandwidthStats_def
  ReqAddInbound_def ReqDeleteInbound_def ReqTransferInbound_def ReqCopyInbound_def ReqCopyUser_def ReqGetUsers_def ReqGetInbound_def
  ReqGetTag_def ReqUpdateProxy_def ReqAddAdaptiveOp_def ReqDeleteAdaptiveOp_def ReqAdaptive_def ReqSetGatewayModel_def
  ReqObtainNewCert_def ReqFastAddInbound_def ReqTransferCert_def ReqGetCerts_def ReqClearUsers_def ReqGetPingMetric_def ReqRegisterNode_def

text \<open>
  A request reaches the method it is named after, with one exception. Every registered request
  function that can read its request calls one method of the stub, and returns the error of the
  call; this method is the one of the request's name, but a request to delete adaptive ports or
  tags calls the method that adds them.
\<close>

theorem request_method:
  assumes "reqFuncMap env t = Some f" and "\<And>ty. ce_unmarshal env ty reqData = Inr q" and "\<And>m. stub m auth q token = Inl (err m)"
  shows "f reqData stub auth token =
    Inl (err (if t = DeleteAdaptiveConfigReqType then ''AddAdaptiveConfig'' else method_of t))"
  using assms(1)
  by (cases t) (auto simp: req_fun_defs send_req_def assms(2,3) process_code_def process_data_def process_raw_def)

definition demo_client :: "string client_env" where
  "demo_client = \<lparr>ce_marshal = (\<lambda>_. Inr []), ce_unmarshal = (\<lambda>_ _. Inr ''q''), ce_show = (\<lambda>_. ''''), ce_errorf = (\<lambda>s. s)\<rparr>"

theorem request_method_witness:
  "ReqDeleteAdaptiveOp demo_client [] (\<lambda>m _ _ _. Inl m :: unit rpc_reply result) \<lparr>na_Token = '''', na_Node = nd_Node (demo_peer ''a'')\<rparr> '''' = Inl ''AddAdaptiveConfig''"
  by (subst request_method [of demo_client DeleteAdaptiveConfigReqType _ "[]" "''q''" _ _ _ "\<lambda>m. m"]) (simp_all add: demo_client_def)

end
