(* ===== verification/Ping.thy ===== *)
theory Ping
  imports GoStrings "HOL-Library.Multiset"
begin

text \<open>
  The round-trip times of a node: the buffer of the last delays and its statistics (\<open>ping/ping.go\<close>),
  the search in a page (\<open>ping/html_parser/parser.go\<close>), the client of ping.pe (\<open>ping/ping_pe/util.go\<close>,
  \<open>ping/ping_pe/checker.go\<close>), the table of results (\<open>global/collecter/ping_collect.go\<close>) and the request
  \<open>GetPingMetric\<close>. The operations on floating-point numbers are the record \<open>float_ops\<close>, with one type
  for each of the two widths; answers of ping.pe are arguments.
\<close>

subsection \<open>The buffer of delays\<close>

record ('f, 'g) float_ops =
  fo_lt :: "'f \<Rightarrow> 'f \<Rightarrow> bool"
  fo_eq :: "'f \<Rightarrow> 'f \<Rightarrow> bool"
  fo_add :: "'f \<Rightarrow> 'f \<Rightarrow> 'f"
  fo_sub :: "'f \<Rightarrow> 'f \<Rightarrow> 'f"
  fo_mul :: "'f \<Rightarrow> 'f \<Rightarrow> 'f"
  fo_div :: "'f \<Rightarrow> 'f \<Rightarrow> 'f"
  fo_int :: "int \<Rightarrow> 'f"
  fo_MaxFloat64 :: 'f
  fo_float32 :: "'f \<Rightarrow> 'g"

definition maxDelayNum :: nat where "maxDelayNum = 100"
definition invalidDelay :: int where "invalidDelay = -1"
definition invalidResult :: int where "invalidResult = -1"

record 'f ping_result =
  pr_Geo :: string
  pr_ISP :: string
  pr_delayList :: "'f list"
  pr_delayIndex :: int

definition NewPingResult :: "('f, 'g) float_ops \<Rightarrow> string \<Rightarrow> string \<Rightarrow> 'f ping_result" where
  "NewPingResult fo geo isp =
     \<lparr>pr_Geo = geo, pr_ISP = isp, pr_delayList = replicate maxDelayNum (fo_int fo 0), pr_delayIndex = 0\<rparr>"

text \<open>Go's remainder has the sign of the dividend; a negative index panics.\<close>

definition go_rem :: "int \<Rightarrow> int \<Rightarrow> int" where
  "go_rem a b = (if a < 0 then - ((- a) mod b) else a mod b)"

definition PingResult_Update :: "'f \<Rightarrow> 'f ping_result \<Rightarrow> ('f ping_result, unit) outcome" where
  "PingResult_Update delay r =
     (let i = go_rem (pr_delayIndex r) (int maxDelayNum)
      in if i < 0 then Panicked r
         else Done (r\<lparr>pr_delayList := (pr_delayList r)[nat i := delay], pr_delayIndex := i64_add (pr_delayIndex r) 1\<rparr>) ())"

definition loopReadData :: "('f list \<Rightarrow> 'f) \<Rightarrow> 'f ping_result \<Rightarrow> ('f ping_result, 'f) outcome" where
  "loopReadData fn r =
     (if pr_delayIndex r \<ge> int maxDelayNum then Done r (fn (pr_delayList r))
      else if pr_delayIndex r < 0 then Panicked r
      else Done r (fn (take (nat (pr_delayIndex r)) (pr_delayList r))))"

definition positive :: "('f, 'g) float_ops \<Rightarrow> 'f \<Rightarrow> bool" where
  "positive fo v \<longleftrightarrow> fo_lt fo (fo_int fo 0) v"

definition calculateAvg :: "('f, 'g) float_ops \<Rightarrow> 'f list \<Rightarrow> 'f" where
  "calculateAvg fo data =
     (case fold (\<lambda>v (acc, num). if positive fo v then (fo_add fo acc v, num + 1) else (acc, num)) data (fo_int fo 0, 0 :: int) of
        (acc, num) \<Rightarrow> if num = 0 then fo_int fo invalidResult else fo_div fo acc (fo_int fo num))"

definition math_Max :: "('f, 'g) float_ops \<Rightarrow> 'f \<Rightarrow> 'f \<Rightarrow> 'f" where
  "math_Max fo x y = (if fo_lt fo x y then y else x)"

definition math_Min :: "('f, 'g) float_ops \<Rightarrow> 'f \<Rightarrow> 'f \<Rightarrow> 'f" where
  "math_Min fo x y = (if fo_lt fo y x then y else x)"

definition findMax :: "('f, 'g) float_ops \<Rightarrow> 'f list \<Rightarrow> 'f" where
  "findMax fo data = fold (\<lambda>v m. if positive fo v then math_Max fo m v else m) data (fo_int fo (-1))"

definition findMin :: "('f, 'g) float_ops \<Rightarrow> 'f list \<Rightarrow> 'f" where
  "findMin fo data = fold (\<lambda>v m. if positive fo v then math_Min fo m v else m) data (fo_MaxFloat64 fo)"

definition calculateStDev :: "('f, 'g) float_ops \<Rightarrow> 'f list \<Rightarrow> 'f" where
  "calculateStDev fo data =
     (let avg = calculateAvg fo data
      in case fold (\<lambda>v (s, num). if positive fo v
             then (fo_add fo s (fo_mul fo (fo_sub fo v avg) (fo_sub fo v avg)), num + 1) else (s, num)) data (fo_int fo 0, 0 :: int) of
           (s, num) \<Rightarrow> if num = 0 then fo_int fo invalidResult else fo_div fo s (fo_int fo num))"

definition calculateLoss :: "('f, 'g) float_ops \<Rightarrow> 'f list \<Rightarrow> 'f" where
  "calculateLoss fo data =
     (case fold (\<lambda>v (lossNum, validNum). if fo_eq fo v (fo_int fo invalidDelay) then (lossNum, validNum)
            else (if fo_eq fo v (fo_int fo (-2)) then lossNum + 1 else lossNum, validNum + 1)) data (0 :: int, 0 :: int) of
        (lossNum, validNum) \<Rightarrow>
          if validNum = 0 then fo_int fo invalidResult
          else fo_mul fo (fo_div fo (fo_int fo lossNum) (fo_int fo validNum)) (fo_int fo 100))"

definition GetAvg :: "('f, 'g) float_ops \<Rightarrow> 'f ping_result \<Rightarrow> ('f ping_result, 'f) outcome" where
  "GetAvg fo = loopReadData (calculateAvg fo)"
definition GetMax :: "('f, 'g) float_ops \<Rightarrow> 'f ping_result \<Rightarrow> ('f ping_result, 'f) outcome" where
  "GetMax fo = loopReadData (findMax fo)"
definition GetMin :: "('f, 'g) float_ops \<Rightarrow> 'f ping_result \<Rightarrow> ('f ping_result, 'f) outcome" where
  "GetMin fo = loopReadData (findMin fo)"
definition GetStDev :: "('f, 'g) float_ops \<Rightarrow> 'f ping_result \<Rightarrow> ('f ping_result, 'f) outcome" where
  "GetStDev fo = loopReadData (calculateStDev fo)"
definition GetLoss :: "('f, 'g) float_ops \<Rightarrow> 'f ping_result \<Rightarrow> ('f ping_result, 'f) outcome" where
  "GetLoss fo = loopReadData (calculateLoss fo)"

definition GetLatestDelay :: "('f, 'g) float_ops \<Rightarrow> 'f ping_result \<Rightarrow> 'f" where
  "GetLatestDelay fo r =
     (if pr_delayIndex r \<le> 0 then fo_int fo invalidDelay
      else pr_delayList r ! nat ((pr_delayIndex r - 1) mod int maxDelayNum))"

definition PingResult_Copy :: "('f, 'g) float_ops \<Rightarrow> 'f ping_result \<Rightarrow> 'f ping_result" where
  "PingResult_Copy fo r =
     (NewPingResult fo (pr_Geo r) (pr_ISP r))\<lparr>pr_delayList := pr_delayList r, pr_delayIndex := pr_delayIndex r\<rparr>"

definition GetIndex :: "'f ping_result \<Rightarrow> int" where
  "GetIndex r = pr_delayIndex r"

record 'g proto_ping =
  pp_Geo :: string
  pp_Isp :: string
  pp_MaxDelay :: 'g
  pp_MinDelay :: 'g
  pp_StDevDelay :: 'g
  pp_AvgDelay :: 'g
  pp_Loss :: 'g
  pp_LatestDelay :: 'g

definition ConvertToProtoPingResult :: "('f, 'g) float_ops \<Rightarrow> 'f ping_result \<Rightarrow> ('f ping_result, 'g proto_ping) outcome" where
  "ConvertToProtoPingResult fo r =
     bind_o (GetMax fo r) (\<lambda>r mx. bind_o (GetMin fo r) (\<lambda>r mn. bind_o (GetAvg fo r) (\<lambda>r avg.
     bind_o (GetStDev fo r) (\<lambda>r sd. bind_o (GetLoss fo r) (\<lambda>r loss.
       Done r \<lparr>pp_Geo = pr_Geo r, pp_Isp = pr_ISP r, pp_MaxDelay = fo_float32 fo mx, pp_MinDelay = fo_float32 fo mn,
         pp_StDevDelay = fo_float32 fo sd, pp_AvgDelay = fo_float32 fo avg, pp_Loss = fo_float32 fo loss,
         pp_LatestDelay = fo_float32 fo (GetLatestDelay fo r)\<rparr>)))))"

subsection \<open>Pages\<close>

datatype node_kind = TextNode | ElementNode | OtherNode

datatype html = Html (ht_Type: node_kind) (ht_Data: string) (ht_Attr: "(string \<times> string) list") (ht_children: "html list")

definition HasIDAttribute :: "html \<Rightarrow> string \<Rightarrow> bool" where
  "HasIDAttribute n i \<longleftrightarrow> list_ex (\<lambda>(k, v). k = ''id'' \<and> v = i) (ht_Attr n)"

definition HasClassAttribute :: "html \<Rightarrow> string \<Rightarrow> bool" where
  "HasClassAttribute n className \<longleftrightarrow> list_ex (\<lambda>(k, v). k = ''class'' \<and> v = className) (ht_Attr n)"

fun FindNodeByID :: "html \<Rightarrow> string \<Rightarrow> html option"
  and find_in_children :: "html list \<Rightarrow> string \<Rightarrow> html option" where
  "FindNodeByID (Html t d as cs) i =
     (if t = ElementNode \<and> HasIDAttribute (Html t d as cs) i then Some (Html t d as cs) else find_in_children cs i)"
| "find_in_children [] i = None"
| "find_in_children (c # cs) i = (case FindNodeByID c i of Some n \<Rightarrow> Some n | None \<Rightarrow> find_in_children cs i)"

fun FindTagsByClass :: "html \<Rightarrow> string \<Rightarrow> html list"
  and tags_in_children :: "html list \<Rightarrow> string \<Rightarrow> html list" where
  "FindTagsByClass (Html t d as cs) className =
     (if t = ElementNode \<and> HasClassAttribute (Html t d as cs) className then [Html t d as cs] else []) @ tags_in_children cs className"
| "tags_in_children [] className = []"
| "tags_in_children (c # cs) className = FindTagsByClass c className @ tags_in_children cs className"

fun ExtractNodeValue :: "html \<Rightarrow> string"
  and values_of_children :: "html list \<Rightarrow> string" where
  "ExtractNodeValue (Html t d as cs) = (if t = TextNode then d else values_of_children cs)"
| "values_of_children [] = []"
| "values_of_children (c # cs) = ExtractNodeValue c @ values_of_children cs"

text \<open>The nodes in document order.\<close>

fun preorder :: "html \<Rightarrow> html list"
  and preorders :: "html list \<Rightarrow> html list" where
  "preorder (Html t d as cs) = Html t d as cs # preorders cs"
| "preorders [] = []"
| "preorders (c # cs) = preorder c @ preorders cs"

subsection \<open>The client of ping.pe\<close>

definition PingPeBaseUrl :: string where "PingPeBaseUrl = ''https://ping.pe''"

definition PingPeGetResultUrl :: "string \<Rightarrow> string" where
  "PingPeGetResultUrl streamId = PingPeBaseUrl @ ''/ajax_getPingResults_v2.php?stream_id='' @ streamId"

definition PingPeSubmitUrl :: "string \<Rightarrow> string" where
  "PingPeSubmitUrl host = PingPeBaseUrl @ ''/'' @ host"

definition UserAgents :: "string list" where
  "UserAgents = [
     ''Mozilla/5.0 (compatible; MSIE 7.0; Windows 98; Trident/3.0)'',
     ''Mozilla/5.0 (compatible; MSIE 9.0; Windows NT 10.0; Trident/3.0)'',
     ''Mozilla/5.0 (compatible; MSIE 8.0; Windows NT 6.0; Trident/3.0)'',
     ''Mozilla/5.0 (compatible; MSIE 7.0; Windows NT 6.0; Trident/4.1)'',
     ''Mozilla/5.0 (compatible; MSIE 5.0; Windows 98; Win 9x 4.90; Trident/3.0)'',
     ''Mozilla/5.0 (Windows NT 4.0) AppleWebKit/532.0 (KHTML, like Gecko) Chrome/43.0.837.0 Safari/532.0'',
     ''Mozilla/5.0 (Windows 98) AppleWebKit/532.2 (KHTML, like Gecko) Chrome/41.0.833.0 Safari/532.2'',
     ''Mozilla/5.0 (Windows; U; Windows NT 6.1) AppleWebKit/535.17.1 (KHTML, like Gecko) Version/4.1 Safari/535.17.1'',
     ''Mozilla/5.0 (Windows NT 6.1) AppleWebKit/536.0 (KHTML, like Gecko) Chrome/46.0.830.0 Safari/536.0'',
     ''Mozilla/5.0 (compatible; MSIE 8.0; Windows NT 5.2; Trident/4.1)'']"

text \<open>
  The leftmost match of a pattern. \<open>document.cookie="(.*)";\<close> takes as much of the line as it can,
  \<open>stream_id = '([0-9]+)'\<close> takes digits; both are matched on bytes.
\<close>

fun leftmost :: "(string \<Rightarrow> string option) \<Rightarrow> string \<Rightarrow> string option" where
  "leftmost m [] = m []"
| "leftmost m (c # cs) = (case m (c # cs) of Some x \<Rightarrow> Some x | None \<Rightarrow> leftmost m cs)"

definition cookie_here :: "string \<Rightarrow> string option" where
  "cookie_here s =
     (if has_prefix ''document'' s \<and> length s > 8 \<and> s ! 8 \<noteq> CHR 0x0A \<and> has_prefix (''cookie='' @ [CHR 0x22]) (drop 9 s)
      then (let body = takeWhile (\<lambda>c. c \<noteq> CHR 0x0A) (drop 17 s)
            in map_option (\<lambda>k. take k body) (find (\<lambda>k. has_prefix [CHR 0x22, CHR '';''] (drop k body)) (rev [0..<length body])))
      else None)"

definition stream_id_here :: "string \<Rightarrow> string option" where
  "stream_id_here s =
     (let p = ''stream_id = '' @ [CHR 0x27]; ds = takeWhile is_digit (drop (length p) s)
      in if has_prefix p s \<and> ds \<noteq> [] \<and> has_prefix [CHR 0x27] (drop (length p + length ds) s) then Some ds else None)"

record pe_data =
  pd_NodeId :: string
  pd_TimestampMs :: int
  pd_Result :: int
  pd_ResultText :: string

text \<open>
  A GET of a page: the error of the request, or what reading the body gives. \<open>pe_decode\<close> is
  the JSON decoding of a result, \<open>pe_parse\<close> the HTML parser.
\<close>

type_synonym getter = "string \<Rightarrow> (string \<times> string) list \<Rightarrow> string result result"

record pe_env =
  pe_decode :: "string \<Rightarrow> pe_data list result"
  pe_parse :: "string \<Rightarrow> html result"

definition agent_at :: "nat \<Rightarrow> string" where
  "agent_at userAgentIndex = UserAgents ! (userAgentIndex mod length UserAgents)"

definition read_page :: "string \<Rightarrow> string \<Rightarrow> string result result \<Rightarrow> string result" where
  "read_page what what_read r =
     (case r of
        Inl err \<Rightarrow> Inl (what @ '' fail, err: '' @ err)
      | Inr (Inl err) \<Rightarrow> Inl (what_read @ '' fail, err: '' @ err)
      | Inr (Inr body) \<Rightarrow> Inr body)"

definition cant_get :: "string \<Rightarrow> string" where
  "cant_get what = ''can'' @ [CHR 0x27] @ ''t get '' @ what"

definition getPingPeCookie :: "getter \<Rightarrow> nat \<Rightarrow> nat \<times> string result" where
  "getPingPeCookie get userAgentIndex =
     (userAgentIndex + 1,
      case read_page ''get ping pe cookie'' ''read ping.pe response''
             (get PingPeBaseUrl [(''User-Agent'', agent_at userAgentIndex)]) of
        Inl err \<Rightarrow> Inl err
      | Inr data \<Rightarrow> (case leftmost cookie_here data of None \<Rightarrow> Inl (cant_get ''cookie'') | Some c \<Rightarrow> Inr c))"

definition getStreamIdAndDoc :: "getter \<Rightarrow> string \<Rightarrow> string \<Rightarrow> nat \<Rightarrow> nat \<times> (string \<times> string) result" where
  "getStreamIdAndDoc get host cookie userAgentIndex =
     (userAgentIndex + 1,
      case read_page ''get ping pe stream id'' ''read ping.pe response''
             (get (PingPeSubmitUrl host) [(''User-Agent'', agent_at userAgentIndex), (''Cookie'', cookie)]) of
        Inl err \<Rightarrow> Inl err
      | Inr data \<Rightarrow> (case leftmost stream_id_here data of None \<Rightarrow> Inl (cant_get ''stream id'') | Some i \<Rightarrow> Inr (i, data)))"

definition getResult :: "pe_env \<Rightarrow> getter \<Rightarrow> string \<Rightarrow> string \<Rightarrow> nat \<Rightarrow> nat \<times> pe_data list result" where
  "getResult env get streamId cookie userAgentIndex =
     (userAgentIndex + 1,
      case read_page ''get ping pe result'' ''read ping.pe result''
             (get (PingPeGetResultUrl streamId) [(''User-Agent'', agent_at userAgentIndex), (''Cookie'', cookie)]) of
        Inl err \<Rightarrow> Inl err
      | Inr data \<Rightarrow> (case pe_decode env data of Inl err \<Rightarrow> Inl (''parse ping pe result fail, err: '' @ err) | Inr ds \<Rightarrow> Inr ds))"

definition named_span :: "html \<Rightarrow> string \<Rightarrow> string \<Rightarrow> string \<Rightarrow> string \<Rightarrow> string result" where
  "named_span root i part className what =
     (case FindNodeByID root (''ping-'' @ i @ part) of
        None \<Rightarrow> Inl (''can'' @ [CHR 0x27] @ ''t find node geo by id['' @ i @ '']'')
      | Some n \<Rightarrow>
          (case FindTagsByClass n className of
             [] \<Rightarrow> Inl (''can'' @ [CHR 0x27] @ ''t find node '' @ what @ '' by id['' @ i @ '']'')
           | span # _ \<Rightarrow> Inr (ExtractNodeValue span)))"

definition getNodeGeo :: "html \<Rightarrow> string \<Rightarrow> string result" where
  "getNodeGeo root i = named_span root i ''-location'' ''td-location'' ''location''"

definition getNodeISP :: "html \<Rightarrow> string \<Rightarrow> string result" where
  "getNodeISP root i = named_span root i ''-provider'' ''td-provider'' ''provider''"

definition getNodeGeoAndISP :: "html \<Rightarrow> string \<Rightarrow> string \<times> string" where
  "getNodeGeoAndISP root i =
     (case getNodeGeo root i of
        Inl _ \<Rightarrow> ('''', '''')
      | Inr geo \<Rightarrow> (geo, case getNodeISP root i of Inl _ \<Rightarrow> '''' | Inr isp \<Rightarrow> isp))"

subsection \<open>The checker\<close>

definition pingTime :: nat where "pingTime = 100"

record 'f pe_checker =
  pc_cookie :: string
  pc_results :: "'f ping_result list"
  pc_running :: bool
  pc_agent :: nat

definition NewPingPeChekcer :: "'f pe_checker" where
  "NewPingPeChekcer = \<lparr>pc_cookie = '''', pc_results = [], pc_running = False, pc_agent = 0\<rparr>"

definition updateCookie :: "getter \<Rightarrow> 'f pe_checker \<Rightarrow> 'f pe_checker \<times> gerror option" where
  "updateCookie get pc =
     (case getPingPeCookie get (pc_agent pc) of
        (a, Inl err) \<Rightarrow> (pc\<lparr>pc_agent := a\<rparr>, Some (''update ping pe cooke fail > '' @ err))
      | (a, Inr cookie) \<Rightarrow> (pc\<lparr>pc_agent := a, pc_cookie := cookie\<rparr>, None))"

definition PingPe_Init :: "getter \<Rightarrow> 'f pe_checker \<Rightarrow> 'f pe_checker \<times> gerror option" where
  "PingPe_Init get pc = updateCookie get (pc\<lparr>pc_results := []\<rparr>)"

text \<open>
  What one round of the goroutine puts into the channel. The consumer in \<open>StartPing\<close> reads the
  channel, so that sending does not block.
\<close>

definition ping_delay :: "('f, 'g) float_ops \<Rightarrow> pe_data \<Rightarrow> 'f" where
  "ping_delay fo d = fo_div fo (fo_int fo (pd_Result d)) (fo_int fo 1000)"

definition ping_sample :: "('f, 'g) float_ops \<Rightarrow> html \<Rightarrow> pe_data \<Rightarrow> 'f ping_result option" where
  "ping_sample fo root d =
     (if fo_eq fo (ping_delay fo d) (fo_int fo (-1)) then None
      else (case getNodeGeoAndISP root (pd_NodeId d) of (geo, isp) \<Rightarrow>
        (case PingResult_Update (ping_delay fo d) (NewPingResult fo geo isp) of
           Done r _ \<Rightarrow> Some r | Panicked _ \<Rightarrow> None | Blocked _ \<Rightarrow> None)))"

definition ping_round :: "('f, 'g) float_ops \<Rightarrow> pe_env \<Rightarrow> html \<Rightarrow> string \<Rightarrow> getter \<Rightarrow> 'f pe_checker \<Rightarrow> 'f pe_checker" where
  "ping_round fo env root streamId get pc =
     (case getResult env get streamId (pc_cookie pc) (pc_agent pc) of
        (a, Inl err) \<Rightarrow> pc\<lparr>pc_agent := a\<rparr>
      | (a, Inr ds) \<Rightarrow> pc\<lparr>pc_agent := a, pc_results := pc_results pc @ List.map_filter (ping_sample fo root) ds\<rparr>)"

text \<open>
  The goroutine, tick by tick: whether the context is done at the tick, and what the server
  answers then. The result says whether the goroutine has ended.
\<close>

fun ping_ticks ::
    "('f, 'g) float_ops \<Rightarrow> pe_env \<Rightarrow> html \<Rightarrow> string \<Rightarrow> (bool \<times> getter) list \<Rightarrow> nat \<Rightarrow> 'f pe_checker \<Rightarrow> 'f pe_checker \<times> bool" where
  "ping_ticks fo env root streamId [] num pc = (pc, False)"
| "ping_ticks fo env root streamId ((over, get) # ticks) num pc =
     (if num = pingTime then (pc, True)
      else if over then (pc\<lparr>pc_running := False\<rparr>, True)
      else ping_ticks fo env root streamId ticks (num + 1) (ping_round fo env root streamId get pc))"

text \<open>Starting: the checker, the error, and the goroutine's stream and page if it was started.\<close>

definition StartPing :: "pe_env \<Rightarrow> getter \<Rightarrow> string \<Rightarrow> 'f pe_checker \<Rightarrow> 'f pe_checker \<times> gerror option \<times> (string \<times> html) option" where
  "StartPing env get host pc =
     (if pc_running pc then (pc, None, None)
      else case updateCookie get pc of
        (pc, Some err) \<Rightarrow> (pc, Some err, None)
      | (pc, None) \<Rightarrow>
          (case getStreamIdAndDoc get host (pc_cookie pc) (pc_agent pc) of
             (a, Inl err) \<Rightarrow> (pc\<lparr>pc_agent := a\<rparr>, Some err, None)
           | (a, Inr (streamId, doc)) \<Rightarrow>
               (case pe_parse env doc of
                  Inl err \<Rightarrow> (pc\<lparr>pc_agent := a\<rparr>, Some err, None)
                | Inr root \<Rightarrow> (pc\<lparr>pc_agent := a, pc_running := True\<rparr>, None, Some (streamId, root)))))"

definition IsRunning :: "'f pe_checker \<Rightarrow> bool" where
  "IsRunning pc = pc_running pc"

subsection \<open>The table of results\<close>

definition ping_key :: "'f ping_result \<Rightarrow> string" where
  "ping_key r = pr_Geo r @ ''_'' @ pr_ISP r"

text \<open>The body of the loop over the channel.\<close>

definition collect_ping ::
    "('f, 'g) float_ops \<Rightarrow> 'f ping_result \<Rightarrow> (string \<rightharpoonup> 'f ping_result) \<Rightarrow> (string \<rightharpoonup> 'f ping_result, unit) outcome" where
  "collect_ping fo result pingResults =
     (case pingResults (ping_key result) of
        None \<Rightarrow> Done (pingResults(ping_key result \<mapsto> result)) ()
      | Some r \<Rightarrow>
          (case PingResult_Update (GetLatestDelay fo result) r of
             Done r' _ \<Rightarrow> Done (pingResults(ping_key result \<mapsto> r')) ()
           | Panicked _ \<Rightarrow> Panicked pingResults
           | Blocked _ \<Rightarrow> Blocked pingResults))"

definition GetPingResult :: "('f, 'g) float_ops \<Rightarrow> (string \<rightharpoonup> 'f ping_result) \<Rightarrow> (string \<rightharpoonup> 'f ping_result)" where
  "GetPingResult fo pingResults = (\<lambda>k. map_option (PingResult_Copy fo) (pingResults k))"

record 'g ping_metric =
  pm_Host :: string
  pm_Source :: string
  pm_Results :: "'g proto_ping list"

text \<open>\<open>ord\<close> is the order of the loop over the copied table.\<close>

fun convert_results :: "('f, 'g) float_ops \<Rightarrow> 'f ping_result list \<Rightarrow> ('f ping_result list, 'g proto_ping list) outcome" where
  "convert_results fo [] = Done [] []"
| "convert_results fo (r # rs) =
     (case ConvertToProtoPingResult fo r of
        Done r' p \<Rightarrow> bind_o (convert_results fo rs) (\<lambda>rs' ps. Done (r' # rs') (p # ps))
      | Panicked _ \<Rightarrow> Panicked (r # rs)
      | Blocked _ \<Rightarrow> Blocked (r # rs))"

definition Node_GetPingMetric ::
    "('f, 'g) float_ops \<Rightarrow> string \<Rightarrow> string \<Rightarrow> string list \<Rightarrow> (string \<rightharpoonup> 'f ping_result)
     \<Rightarrow> ('f ping_result list, 'g ping_metric) outcome" where
  "Node_GetPingMetric fo host name ord pingResults =
     bind_o (convert_results fo (vals_in_order (GetPingResult fo pingResults) ord))
       (\<lambda>rs ps. Done rs \<lparr>pm_Host = host, pm_Source = name, pm_Results = ps\<rparr>)"


subsection \<open>The statistics are those of the last hundred delays\<close>

text \<open>The delays an operation reads.\<close>

definition delays :: "'f ping_result \<Rightarrow> 'f list" where
  "delays r = (if pr_delayIndex r \<ge> int maxDelayNum then pr_delayList r else take (nat (pr_delayIndex r)) (pr_delayList r))"

fun feed :: "'f list \<Rightarrow> 'f ping_result \<Rightarrow> ('f ping_result, unit) outcome" where
  "feed [] r = Done r ()"
| "feed (d # ds) r = bind_o (PingResult_Update d r) (\<lambda>r _. feed ds r)"

lemma feed_snoc: "feed (ds @ [d]) r = bind_o (feed ds r) (\<lambda>r _. PingResult_Update d r)"
  by (induction ds arbitrary: r) (auto simp: PingResult_Update_def Let_def)

lemma loopReadData_delays: "0 \<le> pr_delayIndex r \<Longrightarrow> loopReadData fn r = Done r (fn (delays r))"
  by (simp add: loopReadData_def delays_def)

text \<open>The buffer holds delay \<open>i\<close> at the place \<open>i mod 100\<close>, for the last hundred of them.\<close>

definition ring_of :: "'f list \<Rightarrow> 'f ping_result \<Rightarrow> bool" where
  "ring_of ds r \<longleftrightarrow> pr_delayIndex r = int (length ds) \<and> length (pr_delayList r) = maxDelayNum \<and>
     (\<forall>i. i < length ds \<and> length ds \<le> i + maxDelayNum \<longrightarrow> pr_delayList r ! (i mod maxDelayNum) = ds ! i)"

lemma ring_index_differs:
  assumes "i < n" and "n < i + (k :: nat)"
  shows "i mod k \<noteq> n mod k"
proof
  assume "i mod k = n mod k"
  then have "k dvd n - i" using assms by (metis less_imp_le_nat mod_eq_dvd_iff_nat)
  moreover have "0 < n - i" "n - i < k" using assms by auto
  ultimately show False by (auto dest: dvd_imp_le)
qed

lemma ring_of_update:
  assumes "ring_of ds r" and "int (length ds) < max_int64"
  shows "\<exists>r'. PingResult_Update d r = Done r' () \<and> ring_of (ds @ [d]) r'"
proof -
  have idx: "pr_delayIndex r = int (length ds)" and len: "length (pr_delayList r) = maxDelayNum"
    and buf: "\<And>i. i < length ds \<Longrightarrow> length ds \<le> i + maxDelayNum \<Longrightarrow> pr_delayList r ! (i mod maxDelayNum) = ds ! i"
    using assms(1) by (auto simp: ring_of_def)
  have place: "go_rem (pr_delayIndex r) (int maxDelayNum) = int (length ds mod maxDelayNum)"
    by (simp add: go_rem_def idx zmod_int)
  have bound: "length ds mod maxDelayNum < maxDelayNum" by (simp add: maxDelayNum_def)
  let ?r = "r\<lparr>pr_delayList := (pr_delayList r)[length ds mod maxDelayNum := d], pr_delayIndex := int (length ds) + 1\<rparr>"
  have "PingResult_Update d r = Done ?r ()"
    using assms(2) by (simp add: PingResult_Update_def Let_def place, simp add: idx i64_add_id in_int64_def max_int64_def)
  moreover have "ring_of (ds @ [d]) ?r"
    unfolding ring_of_def
  proof (intro conjI allI impI)
    fix i
    assume i: "i < length (ds @ [d]) \<and> length (ds @ [d]) \<le> i + maxDelayNum"
    show "pr_delayList ?r ! (i mod maxDelayNum) = (ds @ [d]) ! i"
    proof (cases "i = length ds")
      case True
      then show ?thesis using bound len by simp
    next
      case False
      with i have "i < length ds" "length ds < i + maxDelayNum" by auto
      then show ?thesis using buf [of i] ring_index_differs [of i "length ds" maxDelayNum] by (simp add: nth_append)
    qed
  qed (simp_all add: len)
  ultimately show ?thesis by blast
qed

lemma feed_ring:
  "int (length ds) \<le> max_int64 \<Longrightarrow> \<exists>r. feed ds (NewPingResult fo geo isp) = Done r () \<and> ring_of ds r"
proof (induction ds rule: rev_induct)
  case Nil
  then show ?case by (simp add: ring_of_def NewPingResult_def)
next
  case (snoc d ds)
  then obtain r where "feed ds (NewPingResult fo geo isp) = Done r ()" "ring_of ds r" by auto
  with ring_of_update [of ds r d] snoc.prems show ?case by (auto simp: feed_snoc)
qed

lemma ring_of_mset:
  assumes "ring_of ds r"
  shows "mset (delays r) = mset (drop (length ds - maxDelayNum) ds)"
proof (cases "length ds < maxDelayNum")
  case True
  have "delays r = ds"
    using assms True by (intro nth_equalityI) (auto simp: ring_of_def delays_def)
  with True show ?thesis by simp
next
  case False
  let ?n = "length ds" and ?k = maxDelayNum
  have k: "0 < ?k" by (simp add: maxDelayNum_def)
  have inj: "inj_on (\<lambda>i. i mod ?k) {?n - ?k..<?n}"
  proof (rule inj_onI, rule ccontr)
    fix i j
    assume ij: "i \<in> {?n - ?k..<?n}" "j \<in> {?n - ?k..<?n}" "i mod ?k = j mod ?k" "i \<noteq> j"
    with False have "i < j \<and> j < i + ?k \<or> j < i \<and> i < j + ?k" by auto
    then show False using ring_index_differs [of i j ?k] ring_index_differs [of j i ?k] ij(3) by auto
  qed
  have "(\<lambda>i. i mod ?k) ` {?n - ?k..<?n} = {0..<?k}"
    using False k by (intro card_subset_eq) (auto simp: card_image [OF inj])
  then have perm: "image_mset (\<lambda>i. i mod ?k) (mset_set {?n - ?k..<?n}) = mset_set {0..<?k}"
    by (simp add: image_mset_mset_set [OF inj])
  have "mset (delays r) = mset (map ((!) (pr_delayList r)) [0..<?k])"
    using assms False map_nth [of "pr_delayList r"] by (simp add: ring_of_def delays_def del: mset_map)
  also have "\<dots> = image_mset ((!) (pr_delayList r)) (mset_set {0..<?k})" by (metis mset_map mset_upt)
  also have "\<dots> = image_mset (\<lambda>i. pr_delayList r ! (i mod ?k)) (mset_set {?n - ?k..<?n})"
    by (simp add: image_mset.compositionality comp_def flip: perm)
  also have "\<dots> = image_mset ((!) ds) (mset_set {?n - ?k..<?n})"
    using assms False by (intro image_mset_cong) (auto simp: ring_of_def)
  also have "\<dots> = mset (drop (?n - ?k) ds)"
    by (metis add_0 drop_map drop_upt map_nth mset_map mset_upt)
  finally show ?thesis .
qed


lemma window_fold:
  assumes "ring_of ds r" and "\<And>x y. f x \<circ> f y = f y \<circ> f x"
  shows "fold f (delays r) = fold f (drop (length ds - maxDelayNum) ds)"
  using assms by (intro fold_multiset_equiv ring_of_mset) auto

lemma window_loss:
  assumes "ring_of ds r"
  shows "calculateLoss fo (delays r) = calculateLoss fo (drop (length ds - maxDelayNum) ds)"
  unfolding calculateLoss_def by (subst window_fold [OF assms]) (auto simp: fun_eq_iff)

lemma window_extremes:
  fixes fo :: "('f :: linorder, 'g) float_ops"
  assumes "ring_of ds r" and lt: "\<And>x y. fo_lt fo x y \<longleftrightarrow> x < y"
  shows "findMax fo (delays r) = findMax fo (drop (length ds - maxDelayNum) ds)"
    and "findMin fo (delays r) = findMin fo (drop (length ds - maxDelayNum) ds)"
proof -
  show "findMax fo (delays r) = findMax fo (drop (length ds - maxDelayNum) ds)"
    unfolding findMax_def by (subst window_fold [OF assms(1)]) (auto simp: fun_eq_iff math_Max_def lt)
  show "findMin fo (delays r) = findMin fo (drop (length ds - maxDelayNum) ds)"
    unfolding findMin_def by (subst window_fold [OF assms(1)]) (auto simp: fun_eq_iff math_Min_def lt)
qed

lemma ring_of_latest:
  assumes "ring_of ds r"
  shows "GetLatestDelay fo r = (if ds = [] then fo_int fo (-1) else last ds)"
proof (cases ds rule: rev_cases)
  case Nil
  then show ?thesis using assms by (simp add: ring_of_def GetLatestDelay_def invalidDelay_def)
next
  case (snoc ys y)
  then have idx: "pr_delayIndex r = int (length ys) + 1" and "pr_delayList r ! (length ys mod maxDelayNum) = y"
    using assms by (auto simp: ring_of_def maxDelayNum_def nth_append)
  moreover have "nat (int (length ys) mod int maxDelayNum) = length ys mod maxDelayNum" by (simp flip: zmod_int)
  ultimately show ?thesis by (simp add: GetLatestDelay_def snoc)
qed

text \<open>
  C29: the statistics of a target are those of its last hundred delays. Whatever delays are recorded,
  fewer than \<open>2 ^ 63\<close>, no update fails, and the loss, the maximum and the minimum are computed from the
  last hundred of them, in whatever place of the buffer they are; the latest delay is the last one,
  and -1 when there is none.
\<close>

theorem ping_window:
  fixes fo :: "('f :: linorder, 'g) float_ops"
  assumes "int (length ds) \<le> max_int64" and "\<And>x y. fo_lt fo x y \<longleftrightarrow> x < y"
  shows "\<exists>r. feed ds (NewPingResult fo geo isp) = Done r () \<and> GetIndex r = int (length ds) \<and>
    GetLoss fo r = Done r (calculateLoss fo (drop (length ds - 100) ds)) \<and>
    GetMax fo r = Done r (findMax fo (drop (length ds - 100) ds)) \<and>
    GetMin fo r = Done r (findMin fo (drop (length ds - 100) ds)) \<and>
    GetLatestDelay fo r = (if ds = [] then fo_int fo (-1) else last ds)"
proof -
  obtain r where fed: "feed ds (NewPingResult fo geo isp) = Done r ()" and ring: "ring_of ds r"
    using feed_ring [OF assms(1)] by blast
  then have idx: "pr_delayIndex r = int (length ds)" by (simp add: ring_of_def)
  have k: "length ds - 100 = length ds - maxDelayNum" by (simp add: maxDelayNum_def)
  show ?thesis unfolding k
  proof (intro exI [of _ r] conjI)
    show "GetLatestDelay fo r = (if ds = [] then fo_int fo (- 1) else last ds)" by (rule ring_of_latest [OF ring])
  qed (simp_all add: fed GetIndex_def idx GetLoss_def GetMax_def GetMin_def loopReadData_delays window_loss [OF ring]
        window_extremes [OF ring assms(2)])
qed

definition exact_ops :: "(int, int) float_ops" where
  "exact_ops = \<lparr>fo_lt = (<), fo_eq = (=), fo_add = (+), fo_sub = (-), fo_mul = (*), fo_div = (div), fo_int = (\<lambda>i. i),
     fo_MaxFloat64 = 1000000, fo_float32 = (\<lambda>x. x)\<rparr>"

theorem ping_window_witness:
  "\<exists>r. feed (replicate 100 5 @ [7, -2]) (NewPingResult exact_ops ''geo'' ''isp'') = Done r () \<and> GetMax exact_ops r = Done r 7 \<and>
     GetMin exact_ops r = Done r 5 \<and> GetLatestDelay exact_ops r = -2"
proof -
  let ?ds = "replicate 100 5 @ [7, -2] :: int list"
  have lt: "fo_lt exact_ops x y \<longleftrightarrow> x < y" for x y by (simp add: exact_ops_def)
  have mx: "findMax exact_ops (replicate 98 5 @ [7, -2]) = 7" and mn: "findMin exact_ops (replicate 98 5 @ [7, -2]) = 5"
    by code_simp+
  show ?thesis
    using ping_window [of ?ds exact_ops "''geo''" "''isp''", OF _ lt] by (simp add: max_int64_def drop_replicate mx mn) blast
qed

text \<open>
  Without a delay above zero the minimum is the largest number, where the other statistics are -1.
\<close>

lemma minimum_of_nothing:
  assumes "\<And>v. v \<in> set data \<Longrightarrow> \<not> positive fo v"
  shows "findMin fo data = fo_MaxFloat64 fo \<and> findMax fo data = fo_int fo (-1) \<and> calculateAvg fo data = fo_int fo (-1) \<and>
    calculateStDev fo data = fo_int fo (-1)"
proof -
  have keep: "fold (\<lambda>v m. if positive fo v then f v m else m) data a = a" for f :: "_ \<Rightarrow> 'z \<Rightarrow> 'z" and a
    using assms by (induction data arbitrary: a) auto
  have keep2: "fold (\<lambda>v (x, y). if positive fo v then f v x y else (x, y)) data a = a" for f :: "_ \<Rightarrow> _ \<Rightarrow> int \<Rightarrow> _" and a
    using assms by (induction data arbitrary: a) (auto split: prod.splits)
  show ?thesis
    by (simp add: findMin_def findMax_def calculateAvg_def calculateStDev_def keep keep2 invalidResult_def)
qed

text \<open>The standard deviation is the variance: its root is not taken.\<close>

lemma deviation_is_variance: "calculateStDev exact_ops [2, 6] = 4 \<and> calculateStDev exact_ops [20, 60] = 400"
  by (simp add: calculateStDev_def calculateAvg_def positive_def exact_ops_def)

subsection \<open>The search in a page\<close>

lemma FindNodeByID_preorder:
  "FindNodeByID t i = find (\<lambda>n. ht_Type n = ElementNode \<and> HasIDAttribute n i) (preorder t)"
  "find_in_children ts i = find (\<lambda>n. ht_Type n = ElementNode \<and> HasIDAttribute n i) (preorders ts)"
proof -
  have find_app: "find P (xs @ ys) = (case find P xs of Some x \<Rightarrow> Some x | None \<Rightarrow> find P ys)" for P and xs ys :: "html list"
    by (induction xs) auto
  show "FindNodeByID t i = find (\<lambda>n. ht_Type n = ElementNode \<and> HasIDAttribute n i) (preorder t)"
    "find_in_children ts i = find (\<lambda>n. ht_Type n = ElementNode \<and> HasIDAttribute n i) (preorders ts)"
    by (induction t i and ts i rule: FindNodeByID_find_in_children.induct) (auto simp: find_app split: option.splits)
qed

lemma FindTagsByClass_preorder:
  "FindTagsByClass t c = filter (\<lambda>n. ht_Type n = ElementNode \<and> HasClassAttribute n c) (preorder t)"
  "tags_in_children ts c = filter (\<lambda>n. ht_Type n = ElementNode \<and> HasClassAttribute n c) (preorders ts)"
  by (induction t c and ts c rule: FindTagsByClass_tags_in_children.induct) auto

subsection \<open>A cycle of the checker\<close>

lemma ping_round_running [simp]: "pc_running (ping_round fo env root streamId get pc) = pc_running pc"
  by (auto simp: ping_round_def split: prod.splits sum.splits)

lemma ping_ticks_timeout:
  "length (takeWhile (\<lambda>t. \<not> fst t) ticks) < length ticks \<Longrightarrow> num + length (takeWhile (\<lambda>t. \<not> fst t) ticks) < pingTime \<Longrightarrow>
     \<exists>pc'. ping_ticks fo env root streamId ticks num pc = (pc', True) \<and> \<not> pc_running pc'"
  by (induction ticks arbitrary: num pc) auto

text \<open>A goroutine that has its hundred answers ends, but the checker stays marked as running.\<close>

lemma full_cycle_keeps_running:
  "num \<le> pingTime \<Longrightarrow> pingTime < num + length ticks \<Longrightarrow> pingTime \<le> num + length (takeWhile (\<lambda>t. \<not> fst t) ticks) \<Longrightarrow>
     \<exists>pc'. ping_ticks fo env root streamId ticks num pc = (pc', True) \<and> pc_running pc' = pc_running pc"
proof (induction ticks arbitrary: num pc)
  case (Cons t ticks)
  show ?case
  proof (cases "num = pingTime")
    case True
    then show ?thesis by (cases t) auto
  next
    case False
    obtain over get where t: "t = (over, get)" by (cases t)
    with Cons.prems False have "\<not> over" by auto
    with Cons.prems False Cons.IH [of "num + 1" "ping_round fo env root streamId get pc"] show ?thesis by (auto simp: t)
  qed
qed simp

text \<open>
  A cycle of pings ends by its time limit and can be followed by the next one. When the ticks
  come five seconds apart or later and the context ends after 480 seconds, the goroutine ends at
  the first tick after that and the checker is not marked as running; it does not get to
  its hundredth round, which would leave the mark.
\<close>

theorem ping_cycle_restarts:
  assumes "\<And>k. k < length ts \<Longrightarrow> 5 * (k + 1) \<le> ts ! k" and "480 \<le> last ts" and "ts \<noteq> []"
  shows "\<exists>pc'. ping_ticks fo env root streamId (map (\<lambda>t. (480 \<le> t, get t)) ts) 0 pc = (pc', True) \<and> \<not> IsRunning pc'"
proof -
  let ?ticks = "map (\<lambda>t. (480 \<le> t, get t)) ts"
  let ?k = "length (takeWhile (\<lambda>t. \<not> fst t) ?ticks)"
  have k: "?k = length (takeWhile (\<lambda>t. t < 480) ts)" by (simp add: takeWhile_map comp_def not_le)
  have less: "?k < length ts"
  proof (rule ccontr)
    assume "\<not> ?thesis"
    then have "length ts \<le> length (takeWhile (\<lambda>t. t < 480) ts)" using k by simp
    then have "takeWhile (\<lambda>t. t < 480) ts = ts" by (metis takeWhile_eq_take take_all)
    then have "last ts < 480" using assms(3) by (metis last_in_set takeWhile_eq_all_conv)
    with assms(2) show False by simp
  qed
  have "?k < pingTime"
  proof (cases ?k)
    case (Suc j)
    with less k have "ts ! j < 480" "j < length ts" by (metis lessI nth_mem set_takeWhileD takeWhile_nth, simp)
    with assms(1) [of j] Suc show ?thesis by (simp add: pingTime_def)
  qed (simp add: pingTime_def)
  with less ping_ticks_timeout [of ?ticks 0 fo env root streamId pc] show ?thesis by (simp add: IsRunning_def)
qed


definition idle_env :: pe_env where
  "idle_env = \<lparr>pe_decode = (\<lambda>_. Inr []), pe_parse = (\<lambda>_. Inl ''no page'')\<rparr>"

theorem ping_cycle_restarts_witness:
  "\<exists>pc'. ping_ticks exact_ops idle_env (Html OtherNode '''' [] []) ''1''
      (map (\<lambda>t. (480 \<le> t, \<lambda>_ _. Inl ''down'')) (map (\<lambda>k. 5 * (k + 1)) [0..<100])) 0 (NewPingPeChekcer\<lparr>pc_running := True\<rparr>) = (pc', True) \<and>
    \<not> IsRunning pc'"
  by (rule ping_cycle_restarts) (auto simp: last_conv_nth)

end
