(* ===== verification/HttpServer.thy ===== *)
theory HttpServer
  imports NodeClient Builders Ping "HOL-Library.List_Lexorder" "HOL-Library.Char_ord"
begin

text \<open>
  The HTTP interface of a node: the server (\<open>server/http/http_server.go\<close>, \<open>http_handler.go\<close>, \<open>init.go\<close>,
  \<open>common.go\<close>, \<open>auth_with_token_handler.go\<close>) and what its handlers share. A handler is a plan: it replies,
  or it asks nodes through the client of \<open>NodeClient\<close> and goes on with their answers. So what a handler
  asks of whom is part of the model, and running a plan threads the state of the nodes asked. The
  routing of gin is a table; \<open>gin.Default\<close> turns a panic of a handler into an answer 500.
\<close>

subsection \<open>Messages\<close>

datatype node_req =
    UserOpReq "user list"
  | GetSubReq user "string list" bool
  | GetBandwidthStatsReq
  | InboundOpReq string
  | TransferInboundReq string int
  | CopyInboundReq string string int string bool
  | CopyUserReq string string
  | GetUsersReq
  | GetInboundReq string
  | GetTagReq
  | UpdateProxyReq string
  | AdaptiveOpReq "string list" "string list"
  | AdaptiveReq "string list"
  | SetGatewayModelReq bool
  | ObtainNewCertReq string
  | FastAddInboundReq fast_req
  | TransferCertReq string string string
  | GetCertsReq
  | ClearUsersReq "string list"
  | GetPingMetricReq

datatype 'g node_data =
    DUris "string list"
  | DUsers "user list"
  | DStats "stat list"
  | DInbound string
  | DTags "string list"
  | DCerts "certificate list"
  | DMetric "'g ping_metric"

text \<open>A request as gin sees it, and what the handlers answer.\<close>

record http_req =
  hr_Method :: string
  hr_Path :: string
  hr_RawQuery :: string
  hr_UserAgent :: string
  hr_Body :: string

datatype 'g http_value =
    JAnswers "string \<rightharpoonup> 'g node_data option"
  | JNodes "string \<rightharpoonup> node"
  | JAuth string

record sample =
  sm_Name :: string
  sm_Labels :: "string list"

datatype ('f, 'g) http_rsp =
    RString int string
  | RJson int "'g http_value"
  | RMetrics "(sample \<times> 'f) list"
  | RNothing

datatype ('f, 'g) plan =
    Reply "('f, 'g) http_rsp"
  | Ask "node list" req_type node_req "'g node_data answers \<Rightarrow> ('f, 'g) plan"
  | Panic

definition Query :: "http_req \<Rightarrow> string \<Rightarrow> string" where
  "Query c key = (case map_of (ParseQuery (hr_RawQuery c)) key of None \<Rightarrow> '''' | Some v \<Rightarrow> v)"

definition DefaultQuery :: "http_req \<Rightarrow> string \<Rightarrow> string \<Rightarrow> string" where
  "DefaultQuery c key d = (case map_of (ParseQuery (hr_RawQuery c)) key of None \<Rightarrow> d | Some v \<Rightarrow> v)"

text \<open>Reading the map a handler's \<open>parseParam\<close> returns.\<close>

type_synonym params = "(string \<times> string) list"

definition par :: "params \<Rightarrow> string \<Rightarrow> string" where
  "par m k = (case map_of m k of None \<Rightarrow> '''' | Some v \<Rightarrow> v)"

lemma par_simps [simp]: "par [] k = ''''" "par ((k', v) # m) k = (if k = k' then v else par m k)"
  by (auto simp: par_def)

definition comma_list :: "string \<Rightarrow> string list" where
  "comma_list s = filter (\<lambda>t. length t > 0) (split_on (CHR '','') s)"

subsection \<open>The server\<close>

datatype http_handler =
    SubHandler | HelpHandler | AdaptiveHandler | AdaptiveOpHandler | BoundHandler | NodeHandler | StatHandler | TagHandler
  | UpdateHandler | UserHandler | GatewayHandler | CertHandler | FastAddInboundHandler | TransferCertHandler
  | GetCertsHandler | ClearUserHandler | CopyUserBetweenNodesHandler | AuthHysteria2 | MetricHandler

fun getRelativePath :: "http_handler \<Rightarrow> string" where
  "getRelativePath SubHandler = ''/sub''"
| "getRelativePath HelpHandler = ''/help/*relativePath''"
| "getRelativePath AdaptiveHandler = ''/adaptive''"
| "getRelativePath AdaptiveOpHandler = ''/adaptiveOp''"
| "getRelativePath BoundHandler = ''/bound''"
| "getRelativePath NodeHandler = ''/node''"
| "getRelativePath StatHandler = ''/stat''"
| "getRelativePath TagHandler = ''/tag''"
| "getRelativePath UpdateHandler = ''/update''"
| "getRelativePath UserHandler = ''/user''"
| "getRelativePath GatewayHandler = ''/gateway''"
| "getRelativePath CertHandler = ''/cert''"
| "getRelativePath FastAddInboundHandler = ''/fastAddInbound''"
| "getRelativePath TransferCertHandler = ''/transferCert''"
| "getRelativePath GetCertsHandler = ''/getCerts''"
| "getRelativePath ClearUserHandler = ''/clearUsers''"
| "getRelativePath CopyUserBetweenNodesHandler = ''/copyUserBetweenNodes''"
| "getRelativePath AuthHysteria2 = ''/authHysteria2''"
| "getRelativePath MetricHandler = ''/metrics''"

text \<open>\<open>getHandlers\<close>: whether the handler that checks the token comes first.\<close>

fun getHandlers_auth :: "http_handler \<Rightarrow> bool" where
  "getHandlers_auth SubHandler = False"
| "getHandlers_auth HelpHandler = False"
| "getHandlers_auth GetCertsHandler = False"
| "getHandlers_auth AuthHysteria2 = False"
| "getHandlers_auth _ = True"

record http_server =
  hs_Host :: string
  hs_Port :: int
  hs_Name :: string
  hs_token :: string
  hs_routes :: "(string \<times> string \<times> http_handler) list"
  hs_handlersMap :: "string \<rightharpoonup> http_handler"
  hs_certManager :: cert_manager

record http_config =
  cfg_Listen :: string
  cfg_HttpPort :: int
  cfg_HttpToken :: string
  cfg_ServerName :: string

definition HttpServer_Init :: "http_config \<Rightarrow> cert_manager \<Rightarrow> http_server \<Rightarrow> http_server" where
  "HttpServer_Init cfg certManager s =
     s\<lparr>hs_certManager := certManager, hs_Host := cfg_Listen cfg, hs_Port := cfg_HttpPort cfg,
       hs_token := cfg_HttpToken cfg, hs_Name := cfg_ServerName cfg\<rparr>"

definition HttpServer_SetName :: "string \<Rightarrow> http_server \<Rightarrow> http_server" where
  "HttpServer_SetName name s = s\<lparr>hs_Name := name\<rparr>"

definition RegisterHandler :: "http_handler \<Rightarrow> string \<Rightarrow> http_server \<Rightarrow> http_server" where
  "RegisterHandler handler meth s =
     (let p = getRelativePath handler
      in s\<lparr>hs_handlersMap := (hs_handlersMap s)(p \<mapsto> handler),
           hs_routes := (if meth = ''GET'' \<or> meth = ''POST'' then hs_routes s @ [(meth, p, handler)] else hs_routes s)\<rparr>)"

definition http_init :: "http_server \<Rightarrow> http_server" where
  "http_init s =
     fold (\<lambda>(h, m). RegisterHandler h m)
       [(SubHandler, ''GET''), (HelpHandler, ''GET''), (AdaptiveHandler, ''GET''), (AdaptiveOpHandler, ''GET''), (BoundHandler, ''GET''),
        (NodeHandler, ''GET''), (TagHandler, ''GET''), (UpdateHandler, ''GET''), (UserHandler, ''GET''), (GatewayHandler, ''GET''),
        (CertHandler, ''GET''), (FastAddInboundHandler, ''GET''), (TransferCertHandler, ''GET''), (GetCertsHandler, ''GET''),
        (ClearUserHandler, ''GET''), (CopyUserBetweenNodesHandler, ''GET''), (AuthHysteria2, ''POST'')]
       (s\<lparr>hs_routes := [], hs_handlersMap := Map.empty\<rparr>)"

definition RegisterPrometheus :: "http_server \<Rightarrow> http_server" where
  "RegisterPrometheus s = RegisterHandler MetricHandler ''GET'' s"

text \<open>
  What a handler reads besides its request: the server, the node's view of the cluster, the time,
  and for a loop over a map with given keys its order.
\<close>

record http_ctx =
  hc_server :: http_server
  hc_cluster :: cluster
  hc_now :: int
  hc_order :: "(string \<Rightarrow> bool) \<Rightarrow> string list"

definition keys_of :: "http_ctx \<Rightarrow> (string \<rightharpoonup> 'v) \<Rightarrow> string list" where
  "keys_of ctx m = hc_order ctx (\<lambda>k. m k \<noteq> None)"

definition order_ok :: "http_ctx \<Rightarrow> bool" where
  "order_ok ctx \<longleftrightarrow> (\<forall>P. finite {k. P k} \<longrightarrow> distinct (hc_order ctx P) \<and> set (hc_order ctx P) = {k. P k})"

text \<open>The slice returned is never nil, so a caller's comparison with nil never holds.\<close>

definition GetTargetNodes :: "http_ctx \<Rightarrow> string \<Rightarrow> node list" where
  "GetTargetNodes ctx target0 =
     (let name = hs_Name (hc_server ctx); target = (if target0 = '''' then name else target0);
          ord = keys_of ctx (nm_nodes (cl_NodeManager (hc_cluster ctx)))
      in if target = ''all''
         then Cluster_GetNodesWithFilter (\<lambda>n. nd_Name n = name \<or> Node_IsValid (hc_now ctx) n) ord (hc_cluster ctx)
         else Cluster_GetNodesWithFilter (\<lambda>n. Node_IsValid (hc_now ctx) n \<and> nd_Name n = target) ord (hc_cluster ctx))"

definition joinFailedList :: "http_ctx \<Rightarrow> (string \<rightharpoonup> string) \<Rightarrow> string" where
  "joinFailedList ctx failedList =
     str_join ''|'' (List.map_filter (\<lambda>k. map_option (\<lambda>v. ''node: '' @ k @ '' > err: '' @ v) (failedList k)) (keys_of ctx failedList))"

definition some_failed :: "http_ctx \<Rightarrow> 'd answers \<Rightarrow> bool" where
  "some_failed ctx a \<longleftrightarrow> keys_of ctx (an_failed a) \<noteq> []"

text \<open>The end of most handlers: the errors of the nodes, or success.\<close>

definition report :: "http_ctx \<Rightarrow> 'g node_data answers \<Rightarrow> ('f, 'g) plan" where
  "report ctx a = Reply (RString 200 (if some_failed ctx a then joinFailedList ctx (an_failed a) else ''Succ''))"

definition no_node :: "('f, 'g) plan" where
  "no_node = Reply (RString 200 ''no avaliable node'')"

text \<open>The handlers that ask the nodes of a target once and report.\<close>

definition ask_target :: "http_ctx \<Rightarrow> string \<Rightarrow> req_type \<Rightarrow> node_req \<Rightarrow> ('g node_data answers \<Rightarrow> ('f, 'g) plan) \<Rightarrow> ('f, 'g) plan" where
  "ask_target ctx target reqType req k =
     (let nodes = GetTargetNodes ctx target in if nodes = [] then no_node else Ask nodes reqType req k)"

subsection \<open>Running a plan\<close>

type_synonym ('w, 'g) asker = "node list \<Rightarrow> req_type \<Rightarrow> node_req \<Rightarrow> 'w \<Rightarrow> 'w \<times> 'g node_data answers"

primrec run_plan :: "('w, 'g) asker \<Rightarrow> ('f, 'g) plan \<Rightarrow> 'w \<Rightarrow> 'w \<times> ('f, 'g) http_rsp" where
  "run_plan ask (Reply r) w = (w, r)"
| "run_plan ask Panic w = (w, RString 500 '''')"
| "run_plan ask (Ask nodes reqType req k) w = (case ask nodes reqType req w of (w', a) \<Rightarrow> run_plan ask (k a) w')"

text \<open>\<open>c.Next\<close> runs the handler, \<open>c.Abort\<close> does not.\<close>

definition getAuthHandlerFunc :: "http_server \<Rightarrow> http_req \<Rightarrow> ('f, 'g) plan \<Rightarrow> ('f, 'g) plan" where
  "getAuthHandlerFunc s c nxt =
     (if DefaultQuery c ''token'' '''' \<noteq> hs_token s then Reply (RString 401 ''invalide token'') else nxt)"

end
