(* ===== verification/HttpHandlers.thy ===== *)
theory HttpHandlers
  imports HttpServer
begin

text \<open>
  The handlers of \<open>server/http\<close>, one group per file: \<open>parseParam\<close> as a list of named values and
  \<open>handlerFunc\<close> as a plan. Logging is left out. At the end the dispatch of a request.
\<close>

subsection \<open>Users (user\_handler.go, clear\_user\_handler.go)\<close>

definition userOpMap :: "(string \<times> req_type) list" where
  "userOpMap = [(''1'', AddUsersReqType), (''2'', UpdateUsersReqType), (''3'', DeleteUsersReqType), (''4'', ResetUserReqType)]"

definition uint_param :: "params \<Rightarrow> string \<Rightarrow> int result" where
  "uint_param parmas k =
     (case map_of parmas k of
        None \<Rightarrow> Inr 0
      | Some v \<Rightarrow> (case parse_uint 64 v of Inl err \<Rightarrow> Inl (''invalid '' @ k @ '' param > '' @ err) | Inr n \<Rightarrow> Inr n))"

definition getExpireTime :: "int \<Rightarrow> params \<Rightarrow> int result" where
  "getExpireTime now parmas =
     (case uint_param parmas ''expire'' of
        Inl err \<Rightarrow> Inl err
      | Inr expire \<Rightarrow>
          (case uint_param parmas ''ttl'' of
             Inl err \<Rightarrow> Inl err
           | Inr ttl \<Rightarrow> if ttl = 0 then Inr (wrap64 expire) else Inr (i64_add now (wrap64 ttl))))"

definition UserHandler_parseParam :: "http_ctx \<Rightarrow> http_req \<Rightarrow> params" where
  "UserHandler_parseParam ctx c =
     [(''user'', Query c ''user''), (''pwd'', Query c ''pwd''), (''type'', DefaultQuery c ''type'' ''''),
      (''target'', DefaultQuery c ''target'' (hs_Name (hc_server ctx))), (''tags'', DefaultQuery c ''tags'' ''''),
      (''ttl'', DefaultQuery c ''ttl'' ''0''), (''expire'', DefaultQuery c ''expire'' ''0'')]"

definition UserHandler_handlerFunc :: "http_ctx \<Rightarrow> http_req \<Rightarrow> ('f, 'g) plan" where
  "UserHandler_handlerFunc ctx c =
     (let ps = UserHandler_parseParam ctx c in
      case getExpireTime (hc_now ctx) ps of
        Inl err \<Rightarrow> Reply (RString 200 (''illegal expire time > '' @ err))
      | Inr expire \<Rightarrow>
          (let u = \<lparr>us_Name = par ps ''user'', us_Passwd = par ps ''pwd'', us_ExpireTime = expire,
                 us_Tags = comma_list (par ps ''tags''), us_Downlink = 0, us_Uplink = 0\<rparr>;
               nodes = GetTargetNodes ctx (par ps ''target'')
           in if nodes = [] then no_node
              else case map_of userOpMap (par ps ''type'') of
                Some reqType \<Rightarrow> Ask nodes reqType (UserOpReq [u]) (report ctx)
              | None \<Rightarrow>
                  if par ps ''type'' = ''5''
                  then Ask nodes GetUsersReqType GetUsersReq (\<lambda>a. Reply (RJson 200 (JAnswers (an_succ a))))
                  else Reply (RString 200 (''unsupport operation type '' @ par ps ''type''))))"

definition ClearUserHandler_parseParam :: "http_ctx \<Rightarrow> http_req \<Rightarrow> params" where
  "ClearUserHandler_parseParam ctx c =
     [(''users'', Query c ''users''), (''target'', DefaultQuery c ''target'' (hs_Name (hc_server ctx)))]"

definition ClearUserHandler_handlerFunc :: "http_ctx \<Rightarrow> http_req \<Rightarrow> ('f, 'g) plan" where
  "ClearUserHandler_handlerFunc ctx c =
     (let ps = ClearUserHandler_parseParam ctx c
      in ask_target ctx (par ps ''target'') ClearUsersType (ClearUsersReq (split_on (CHR '','') (par ps ''users''))) (report ctx))"

subsection \<open>Inbounds (bound\_handler.go, fastAddInbound\_handler.go, tag\_handler.go)\<close>

definition BoundHandler_parseParam :: "http_ctx \<Rightarrow> http_req \<Rightarrow> params" where
  "BoundHandler_parseParam ctx c =
     [(''type'', DefaultQuery c ''type'' ''''), (''target'', DefaultQuery c ''target'' (hs_Name (hc_server ctx))),
      (''boundRawString'', DefaultQuery c ''bound_raw_string'' ''''), (''srcTag'', DefaultQuery c ''src_tag'' ''''),
      (''dstTag'', DefaultQuery c ''dst_tag'' ''''), (''newPort'', DefaultQuery c ''new_port'' ''''),
      (''isCopyUser'', DefaultQuery c ''is_copy_user'' ''1''), (''dstProtocol'', DefaultQuery c ''dst_protocol'' '''')]"

text \<open>The switch over the type: a message for the caller, or the request.\<close>

definition bound_request :: "params \<Rightarrow> string + (req_type \<times> node_req)" where
  "bound_request ps =
     (let with_port = (\<lambda>f. case parse_int 32 (par ps ''newPort'') of
            Inl _ \<Rightarrow> Inl (''wrong new port: '' @ par ps ''newPort'') | Inr p \<Rightarrow> Inr (f p));
          op = par ps ''type''
      in if op = ''addInbound'' then Inr (AddInboundReqType, InboundOpReq (par ps ''boundRawString''))
         else if op = ''deleteInbound'' then Inr (DeleteInboundReqType, InboundOpReq (par ps ''srcTag''))
         else if op = ''transferInbound'' then with_port (\<lambda>p. (TransferInboundReqType, TransferInboundReq (par ps ''srcTag'') p))
         else if op = ''copyInbound'' then with_port (\<lambda>p. (CopyInboundReqType,
                CopyInboundReq (par ps ''srcTag'') (par ps ''dstTag'') p (par ps ''dstProtocol'') (par ps ''isCopyUser'' = ''1'')))
         else if op = ''copyUser'' then Inr (CopyUserReqType, CopyUserReq (par ps ''srcTag'') (par ps ''dstTag''))
         else if op = ''getInbound'' then Inr (GetInboundReqType, GetInboundReq (par ps ''srcTag''))
         else Inl (''unsupport operation type '' @ op))"

definition BoundHandler_handlerFunc :: "http_ctx \<Rightarrow> http_req \<Rightarrow> ('f, 'g) plan" where
  "BoundHandler_handlerFunc ctx c =
     (let ps = BoundHandler_parseParam ctx c; nodes = GetTargetNodes ctx (par ps ''target'')
      in if nodes = [] then no_node
         else case bound_request ps of
           Inl msg \<Rightarrow> Reply (RString 200 msg)
         | Inr (reqType, req) \<Rightarrow> Ask nodes reqType req (\<lambda>a.
             if reqType = GetInboundReqType \<and> keys_of ctx (an_succ a) \<noteq> [] then Reply (RJson 200 (JAnswers (an_succ a)))
             else report ctx a))"

definition FastAddInboundHandler_parseParam :: "http_ctx \<Rightarrow> http_req \<Rightarrow> params" where
  "FastAddInboundHandler_parseParam ctx c =
     [(''target'', DefaultQuery c ''target'' (hs_Name (hc_server ctx))), (''tag'', DefaultQuery c ''tag'' ''''),
      (''protocol'', DefaultQuery c ''protocol'' ''vless''), (''port'', DefaultQuery c ''port'' ''0''),
      (''stream'', DefaultQuery c ''stream'' ''tcp''), (''isXtls'', DefaultQuery c ''isXtls'' ''false''),
      (''domain'', DefaultQuery c ''domain'' '''')]"

definition getBuilderType :: "string \<Rightarrow> int" where
  "getBuilderType key =
     (let k = to_lower key
      in if k = ''vless'' then 10 else if k = ''vmess'' then 11 else if k = ''trojan'' then 12
         else if k = ''tcp'' then 20 else if k = ''ws'' then 21 else if k = ''quic'' then 22 else if k = ''mkcp'' then 23
         else if k = ''grpc'' then 24 else if k = ''http'' then 25 else 0)"

definition checkBuilder :: "string \<Rightarrow> string \<Rightarrow> gerror option" where
  "checkBuilder protocol stream =
     (if getBuilderType protocol = 0 then Some (''unsopport protocol: '' @ protocol)
      else if getBuilderType stream = 0 then Some (''unsopport stream type: '' @ stream)
      else None)"

definition int32 :: "int \<Rightarrow> int" where
  "int32 n = sint (word_of_int n :: 32 word)"

definition FastAddInboundHandler_handlerFunc :: "http_ctx \<Rightarrow> http_req \<Rightarrow> ('f, 'g) plan" where
  "FastAddInboundHandler_handlerFunc ctx c =
     (let ps = FastAddInboundHandler_parseParam ctx c in
      case checkBuilder (par ps ''protocol'') (par ps ''stream'') of
        Some err \<Rightarrow> Reply (RString 200 err)
      | None \<Rightarrow>
          (case parse_uint 64 (par ps ''port'') of
             Inl _ \<Rightarrow> Reply (RString 200 (''wrong port: '' @ par ps ''port''))
           | Inr port \<Rightarrow> ask_target ctx (par ps ''target'') FastAddInboundType
               (FastAddInboundReq \<lparr>fr_Domain = par ps ''domain'', fr_InboundBuilderType = getBuilderType (par ps ''protocol''),
                  fr_StreamBuilderType = getBuilderType (par ps ''stream''), fr_Port = int32 port,
                  fr_IsXtls = (par ps ''isXtls'' = ''true''), fr_Tag = par ps ''tag''\<rparr>) (report ctx)))"

definition TagHandler_parseParam :: "http_ctx \<Rightarrow> http_req \<Rightarrow> params" where
  "TagHandler_parseParam ctx c = [(''target'', DefaultQuery c ''target'' (hs_Name (hc_server ctx)))]"

definition TagHandler_handlerFunc :: "http_ctx \<Rightarrow> http_req \<Rightarrow> ('f, 'g) plan" where
  "TagHandler_handlerFunc ctx c =
     ask_target ctx (par (TagHandler_parseParam ctx c) ''target'') GetTagReqType GetTagReq
       (\<lambda>a. Reply (RJson 200 (JAnswers (an_succ a))))"

subsection \<open>Adaptive ports (adaptive\_handler.go, adaptiveOp\_handler.go)\<close>

definition AdaptiveHandler_parseParam :: "http_ctx \<Rightarrow> http_req \<Rightarrow> params" where
  "AdaptiveHandler_parseParam ctx c =
     [(''target'', DefaultQuery c ''target'' (hs_Name (hc_server ctx))), (''tags'', DefaultQuery c ''tags'' '''')]"

definition AdaptiveHandler_handlerFunc :: "http_ctx \<Rightarrow> http_req \<Rightarrow> ('f, 'g) plan" where
  "AdaptiveHandler_handlerFunc ctx c =
     (let ps = AdaptiveHandler_parseParam ctx c
      in ask_target ctx (par ps ''target'') AdaptiveReqType (AdaptiveReq (comma_list (par ps ''tags''))) (report ctx))"

definition AdaptiveOpHandler_parseParam :: "http_ctx \<Rightarrow> http_req \<Rightarrow> params" where
  "AdaptiveOpHandler_parseParam ctx c =
     [(''type'', DefaultQuery c ''type'' ''''), (''target'', DefaultQuery c ''target'' (hs_Name (hc_server ctx))),
      (''ports'', DefaultQuery c ''ports'' ''''), (''tags'', DefaultQuery c ''tags'' '''')]"

definition AdaptiveOpHandler_handlerFunc :: "http_ctx \<Rightarrow> http_req \<Rightarrow> ('f, 'g) plan" where
  "AdaptiveOpHandler_handlerFunc ctx c =
     (let ps = AdaptiveOpHandler_parseParam ctx c
      in ask_target ctx (par ps ''target'')
           (if to_lower (par ps ''type'') = ''del'' then DeleteAdaptiveConfigReqType else AddAdaptiveConfigReqType)
           (AdaptiveOpReq (comma_list (par ps ''ports'')) (comma_list (par ps ''tags''))) (report ctx))"


subsection \<open>Nodes and their proxies (gateway\_handler.go, update\_handler.go, node\_handler.go, stat\_handler.go)\<close>

definition GatewayHandler_parseParam :: "http_ctx \<Rightarrow> http_req \<Rightarrow> params" where
  "GatewayHandler_parseParam ctx c =
     [(''enableGatewayModel'', DefaultQuery c ''enable_gateway_model'' ''0''),
      (''target'', DefaultQuery c ''target'' (hs_Name (hc_server ctx)))]"

definition GatewayHandler_handlerFunc :: "http_ctx \<Rightarrow> http_req \<Rightarrow> ('f, 'g) plan" where
  "GatewayHandler_handlerFunc ctx c =
     (let ps = GatewayHandler_parseParam ctx c
      in ask_target ctx (par ps ''target'') SetGatewayModelReqType (SetGatewayModelReq (par ps ''enableGatewayModel'' = ''1'')) (report ctx))"

definition UpdateHandler_parseParam :: "http_ctx \<Rightarrow> http_req \<Rightarrow> params" where
  "UpdateHandler_parseParam ctx c =
     [(''versionTag'', DefaultQuery c ''version_tag'' ''latest''), (''target'', DefaultQuery c ''target'' (hs_Name (hc_server ctx)))]"

definition UpdateHandler_handlerFunc :: "http_ctx \<Rightarrow> http_req \<Rightarrow> ('f, 'g) plan" where
  "UpdateHandler_handlerFunc ctx c =
     (let ps = UpdateHandler_parseParam ctx c
      in ask_target ctx (par ps ''target'') UpdateProxyReqType (UpdateProxyReq (par ps ''versionTag'')) (report ctx))"

definition NodeHandler_handlerFunc :: "http_ctx \<Rightarrow> http_req \<Rightarrow> ('f, 'g) plan" where
  "NodeHandler_handlerFunc ctx c = Reply (RJson 200 (JNodes (Cluster_GetAllNode (hc_cluster ctx))))"

definition StatHandler_parseParam :: "http_ctx \<Rightarrow> http_req \<Rightarrow> params" where
  "StatHandler_parseParam ctx c =
     [(''reset'', DefaultQuery c ''reset'' ''0''), (''target'', DefaultQuery c ''target'' (hs_Name (hc_server ctx))),
      (''pattern'', DefaultQuery c ''pattern'' '''')]"

definition StatHandler_handlerFunc :: "http_ctx \<Rightarrow> http_req \<Rightarrow> ('f, 'g) plan" where
  "StatHandler_handlerFunc ctx c =
     Ask (GetTargetNodes ctx (par (StatHandler_parseParam ctx c) ''target'')) GetBandWidthStatsReqType GetBandwidthStatsReq (\<lambda>a.
       if keys_of ctx (an_succ a) \<noteq> [] then Reply (RJson 200 (JAnswers (an_succ a)))
       else if some_failed ctx a then Reply (RString 200 (joinFailedList ctx (an_failed a)))
       else Reply RNothing)"

subsection \<open>Certificates (cert\_handler.go, get\_certs\_handler.go, tranfer\_cert\_handler.go)\<close>

definition CertHandler_parseParam :: "http_ctx \<Rightarrow> http_req \<Rightarrow> params" where
  "CertHandler_parseParam ctx c =
     [(''target'', DefaultQuery c ''target'' (hs_Name (hc_server ctx))), (''domain'', DefaultQuery c ''domain'' '''')]"

definition CertHandler_handlerFunc :: "http_ctx \<Rightarrow> http_req \<Rightarrow> ('f, 'g) plan" where
  "CertHandler_handlerFunc ctx c =
     (let ps = CertHandler_parseParam ctx c
      in ask_target ctx (par ps ''target'') ObtainNewCertType (ObtainNewCertReq (par ps ''domain'')) (report ctx))"

definition GetCertsHandler_parseParam :: "http_ctx \<Rightarrow> http_req \<Rightarrow> params" where
  "GetCertsHandler_parseParam ctx c = [(''target'', DefaultQuery c ''target'' (hs_Name (hc_server ctx)))]"

definition GetCertsHandler_handlerFunc :: "http_ctx \<Rightarrow> http_req \<Rightarrow> ('f, 'g) plan" where
  "GetCertsHandler_handlerFunc ctx c =
     Ask (GetTargetNodes ctx (par (GetCertsHandler_parseParam ctx c) ''target'')) GetCertsType GetCertsReq
       (\<lambda>a. Reply (RJson 200 (JAnswers (an_succ a))))"

definition TransferCertHandler_parseParam :: "http_ctx \<Rightarrow> http_req \<Rightarrow> params" where
  "TransferCertHandler_parseParam ctx c =
     [(''target'', DefaultQuery c ''target'' (hs_Name (hc_server ctx))), (''domain'', DefaultQuery c ''domain'' '''')]"

definition readCertFile :: "(string \<Rightarrow> string result) \<Rightarrow> certificate \<Rightarrow> (string \<times> string) result" where
  "readCertFile readFile cert =
     (case readFile (ct_CertificateFile cert) of
        Inl err \<Rightarrow> Inl err
      | Inr certData \<Rightarrow> (case readFile (ct_KeyFile cert) of Inl err \<Rightarrow> Inl err | Inr keyData \<Rightarrow> Inr (certData, keyData)))"

text \<open>
  The loop that takes the node itself out of the slice: it ranges over the array of the original
  slice, in which \<open>append\<close> moves the elements behind the removed one. The state is the array and the
  length of \<open>nodes\<close>; slicing beyond that length panics.
\<close>

definition remove_at :: "string \<Rightarrow> nat \<Rightarrow> node list \<times> nat \<Rightarrow> (node list \<times> nat) option" where
  "remove_at name i s =
     (case s of (arr, len) \<Rightarrow>
        if nd_Name (arr ! i) = name
        then if i + 1 \<le> len then Some (take i arr @ drop (i + 1) (take len arr) @ drop (len - 1) arr, len - 1) else None
        else Some (arr, len))"

fun remove_loop :: "string \<Rightarrow> nat list \<Rightarrow> node list \<times> nat \<Rightarrow> (node list \<times> nat) option" where
  "remove_loop name [] s = Some s"
| "remove_loop name (i # is) s = (case remove_at name i s of None \<Rightarrow> None | Some s' \<Rightarrow> remove_loop name is s')"

definition without_self :: "string \<Rightarrow> node list \<Rightarrow> node list option" where
  "without_self name nodes =
     map_option (\<lambda>(arr, len). take len arr) (remove_loop name [0..<length nodes] (nodes, length nodes))"

definition TransferCertHandler_handlerFunc :: "(string \<Rightarrow> string result) \<Rightarrow> http_ctx \<Rightarrow> http_req \<Rightarrow> ('f, 'g) plan" where
  "TransferCertHandler_handlerFunc readFile ctx c =
     (let ps = TransferCertHandler_parseParam ctx c; s = hc_server ctx in
      case GetCert (hs_certManager s) (par ps ''domain'') of
        None \<Rightarrow> Reply (RString 200 (''can'' @ [CHR 0x27] @ ''t find domain'' @ [CHR 0x27] @ ''s['' @ par ps ''domain'' @ ''] cert''))
      | Some cert \<Rightarrow>
          (case readCertFile readFile cert of
             Inl err \<Rightarrow> Reply (RString 200 (''read cert file err > '' @ err))
           | Inr (certData, keyData) \<Rightarrow>
               (case without_self (hs_Name s) (GetTargetNodes ctx (par ps ''target'')) of
                  None \<Rightarrow> Panic
                | Some [] \<Rightarrow> no_node
                | Some nodes \<Rightarrow> Ask nodes TransferCertType (TransferCertReq (par ps ''domain'') certData keyData)
                    (\<lambda>a. Reply (RJson 200 (JAnswers (an_succ a)))))))"

subsection \<open>Users of another node (copy\_user\_between\_nodes\_handler.go)\<close>

definition CopyUserBetweenNodesHandler_parseParam :: "http_ctx \<Rightarrow> http_req \<Rightarrow> params" where
  "CopyUserBetweenNodesHandler_parseParam ctx c =
     [(''srcNode'', DefaultQuery c ''src_node'' (hs_Name (hc_server ctx))), (''dstNode'', DefaultQuery c ''dst_node'' (hs_Name (hc_server ctx)))]"

definition bare_user :: "user \<Rightarrow> user" where
  "bare_user u = u\<lparr>us_Tags := [], us_Downlink := 0, us_Uplink := 0\<rparr>"

text \<open>The answer is read as a list of users: anything else, a missing answer too, panics.\<close>

definition CopyUserBetweenNodesHandler_handlerFunc :: "http_ctx \<Rightarrow> http_req \<Rightarrow> ('f, 'g) plan" where
  "CopyUserBetweenNodesHandler_handlerFunc ctx c =
     (let ps = CopyUserBetweenNodesHandler_parseParam ctx c; src = par ps ''srcNode''; dst = par ps ''dstNode'' in
      if src = dst then Reply (RString 200 (''src target('' @ src @ '') is same with dst target('' @ dst @ '')''))
      else let srcNodes = GetTargetNodes ctx src; dstNodes = GetTargetNodes ctx dst in
      if srcNodes = [] then Reply (RString 200 ''no avaliable src node'')
      else if dstNodes = [] then Reply (RString 200 ''no avaliable dst node'')
      else Ask srcNodes GetUsersReqType GetUsersReq (\<lambda>a.
        if some_failed ctx a
        then Reply (RString 200 (''get src node user list err > '' @ (case an_failed a src of None \<Rightarrow> '''' | Some e \<Rightarrow> e)))
        else case an_succ a src of
          Some (Some (DUsers users)) \<Rightarrow> Ask dstNodes AddUsersReqType (UserOpReq (map bare_user users)) (report ctx)
        | _ \<Rightarrow> Panic))"

subsection \<open>Subscriptions (sub\_handler.go)\<close>

definition SubHandler_parseParam :: "http_ctx \<Rightarrow> http_req \<Rightarrow> params" where
  "SubHandler_parseParam ctx c =
     [(''user'', Query c ''user''), (''pwd'', Query c ''pwd''), (''tags'', DefaultQuery c ''tags'' ''''),
      (''excludeProtocols'', DefaultQuery c ''exclude_protocols'' ''''),
      (''target'', DefaultQuery c ''target'' (hs_Name (hc_server ctx))), (''useSNI'', DefaultQuery c ''use_sni'' ''true'')]"

definition uris_of :: "'g node_data option option \<Rightarrow> string list option" where
  "uris_of d = (case d of Some (Some (DUris us)) \<Rightarrow> Some us | _ \<Rightarrow> None)"

fun concat_opt :: "'a list option list \<Rightarrow> 'a list option" where
  "concat_opt [] = Some []"
| "concat_opt (None # xs) = None"
| "concat_opt (Some x # xs) = map_option ((@) x) (concat_opt xs)"

text \<open>
  \<open>conv\<close> is the conversion of the links for a client. The converter's text is sent even when it
  comes with an error; then it is empty.
\<close>

definition SubHandler_handlerFunc :: "(string \<Rightarrow> string list \<Rightarrow> string result) \<Rightarrow> http_ctx \<Rightarrow> http_req \<Rightarrow> ('f, 'g) plan" where
  "SubHandler_handlerFunc conv ctx c =
     (let ps = SubHandler_parseParam ctx c;
          u = \<lparr>us_Name = par ps ''user'', us_Passwd = par ps ''pwd'', us_ExpireTime = 0, us_Tags = comma_list (par ps ''tags''),
             us_Downlink = 0, us_Uplink = 0\<rparr>
      in if \<not> IsUserComplete u True then Reply (RString 200 ''invalid user'')
         else Ask (GetTargetNodes ctx (par ps ''target'')) GetSubReqType
           (GetSubReq u (comma_list (par ps ''excludeProtocols'')) (par ps ''useSNI'' = ''true'')) (\<lambda>a.
             case concat_opt (map (\<lambda>n. uris_of (an_succ a n)) (sort (keys_of ctx (an_succ a)))) of
               None \<Rightarrow> Panic
             | Some uris \<Rightarrow>
                 Reply (RString 200 (case conv (to_lower (hr_UserAgent c)) uris of Inl _ \<Rightarrow> '''' | Inr uri \<Rightarrow> uri))))"

subsection \<open>Metrics (metric\_handler.go, prometheus\_desc)\<close>

definition traffic_Collect :: "('f, 'g) float_ops \<Rightarrow> stat list \<Rightarrow> (sample \<times> 'f) list" where
  "traffic_Collect fo stats = concat (map (\<lambda>s.
     [(\<lparr>sm_Name = ''v2raymg_traffic'', sm_Labels = [st_Source s, st_Name s, st_Type s, ''downlink'', st_Proxy s]\<rparr>, fo_int fo (st_Downlink s)),
      (\<lparr>sm_Name = ''v2raymg_traffic'', sm_Labels = [st_Source s, st_Name s, st_Type s, ''uplink'', st_Proxy s]\<rparr>, fo_int fo (st_Uplink s))]) stats)"

definition ping_samples :: "('g \<Rightarrow> 'f) \<Rightarrow> 'g ping_metric \<Rightarrow> 'g proto_ping \<Rightarrow> (sample \<times> 'f) list" where
  "ping_samples float64 m r =
     (let labels = [pm_Source m, pm_Host m, pp_Geo r, pp_Isp r]
      in map (\<lambda>(name, v). (\<lparr>sm_Name = name, sm_Labels = labels\<rparr>, float64 v))
           [(''ping_max'', pp_MaxDelay r), (''ping_min'', pp_MinDelay r), (''ping_avg'', pp_AvgDelay r),
            (''ping_st_dev'', pp_StDevDelay r), (''ping_loss'', pp_Loss r), (''ping_latest'', pp_LatestDelay r)])"

definition ping_Collect :: "('g \<Rightarrow> 'f) \<Rightarrow> 'g ping_metric list \<Rightarrow> (sample \<times> 'f) list" where
  "ping_Collect float64 metrics = concat (map (\<lambda>m. concat (map (ping_samples float64 m) (pm_Results m))) metrics)"

definition MetricHandler_parseParam :: "http_ctx \<Rightarrow> http_req \<Rightarrow> params" where
  "MetricHandler_parseParam ctx c = [(''target'', DefaultQuery c ''target'' (hs_Name (hc_server ctx)))]"

definition stats_of :: "'g node_data option option \<Rightarrow> stat list" where
  "stats_of d = (case d of Some (Some (DStats ss)) \<Rightarrow> ss | _ \<Rightarrow> [])"

text \<open>An answer of another type is a nil metric, which has no results.\<close>

definition metric_of :: "'g node_data option option \<Rightarrow> 'g ping_metric" where
  "metric_of d = (case d of Some (Some (DMetric m)) \<Rightarrow> m | _ \<Rightarrow> \<lparr>pm_Host = '''', pm_Source = '''', pm_Results = []\<rparr>)"

definition prometheusHandler :: "('f, 'g) float_ops \<Rightarrow> ('g \<Rightarrow> 'f) \<Rightarrow> http_ctx \<Rightarrow> http_req \<Rightarrow> ('f, 'g) plan" where
  "prometheusHandler fo float64 ctx c =
     (let nodes = GetTargetNodes ctx (par (MetricHandler_parseParam ctx c) ''target'')
      in Ask nodes GetBandWidthStatsReqType GetBandwidthStatsReq (\<lambda>a.
           let stats = concat (map (\<lambda>n. stats_of (an_succ a n)) (keys_of ctx (an_succ a)))
           in Ask nodes GetPingMetricType GetPingMetricReq (\<lambda>b.
                Reply (RMetrics (traffic_Collect fo stats @
                  ping_Collect float64 (map (\<lambda>n. metric_of (an_succ b n)) (keys_of ctx (an_succ b))))))))"

subsection \<open>Authentication of hysteria users (auth\_hysteria.go)\<close>

text \<open>
  \<open>bindJSON\<close> is the decoding of the body: the address, the secret and the rate. A body that cannot be
  decoded leaves the parameters empty. \<open>users\<close> are the users of this node.
\<close>

text \<open>The conversion of an integer to a string is the character with that number.\<close>

definition rune_string :: "int \<Rightarrow> string" where
  "rune_string n = (if 0 \<le> n \<and> n < 0xD800 \<or> 0xE000 \<le> n \<and> n \<le> 0x10FFFF then utf8 (nat n) else utf8 0xFFFD)"

definition AuthHysteria2_parseParam :: "(string \<Rightarrow> (string \<times> string \<times> int) option) \<Rightarrow> http_req \<Rightarrow> params" where
  "AuthHysteria2_parseParam bindJSON c =
     (case bindJSON (hr_Body c) of
        None \<Rightarrow> []
      | Some (addr, auth, tx) \<Rightarrow> [(''addr'', addr), (''auth'', auth), (''tx'', rune_string tx)])"

definition knows_secret :: "string \<Rightarrow> user \<Rightarrow> bool" where
  "knows_secret auth u \<longleftrightarrow> us_Passwd u = auth \<or> b64_enc b64_std False (us_Passwd u) = auth"

definition AuthHysteria2_handlerFunc ::
    "(string \<Rightarrow> (string \<times> string \<times> int) option) \<Rightarrow> (string \<rightharpoonup> user) \<Rightarrow> http_ctx \<Rightarrow> http_req \<Rightarrow> ('f, 'g) plan" where
  "AuthHysteria2_handlerFunc bindJSON users ctx c =
     (case find (knows_secret (par (AuthHysteria2_parseParam bindJSON c) ''auth'')) (vals_in_order users (keys_of ctx users)) of
        Some u \<Rightarrow> Reply (RJson 200 (JAuth (us_Name u)))
      | None \<Rightarrow> Reply (RString 403 ''''))"

subsection \<open>Help and dispatch (help\_handler.go)\<close>

definition HelpHandler_handlerFunc :: "(http_handler \<Rightarrow> string) \<Rightarrow> string \<Rightarrow> http_ctx \<Rightarrow> ('f, 'g) plan" where
  "HelpHandler_handlerFunc help relativePath ctx =
     (let m = hs_handlersMap (hc_server ctx) in
      case m relativePath of
        Some h \<Rightarrow> Reply (RString 200 (help h))
      | None \<Rightarrow> Reply (RString 200 (str_join newline
          (sort (filter (\<lambda>t. t \<noteq> '''') (map help (vals_in_order m (keys_of ctx m))))))))"

text \<open>What the handlers use of other packages, of this node's state and of its files.\<close>

record ('f, 'g) http_env =
  he_conv :: "string \<Rightarrow> string list \<Rightarrow> string result"
  he_readFile :: "string \<Rightarrow> string result"
  he_bindJSON :: "string \<Rightarrow> (string \<times> string \<times> int) option"
  he_users :: "string \<rightharpoonup> user"
  he_help :: "http_handler \<Rightarrow> string"
  he_floats :: "('f, 'g) float_ops"
  he_float64 :: "'g \<Rightarrow> 'f"

fun handle :: "('f, 'g) http_env \<Rightarrow> http_ctx \<Rightarrow> http_req \<Rightarrow> http_handler \<Rightarrow> ('f, 'g) plan" where
  "handle e ctx c SubHandler = SubHandler_handlerFunc (he_conv e) ctx c"
| "handle e ctx c HelpHandler = HelpHandler_handlerFunc (he_help e) (drop (length ''/help'') (hr_Path c)) ctx"
| "handle e ctx c AdaptiveHandler = AdaptiveHandler_handlerFunc ctx c"
| "handle e ctx c AdaptiveOpHandler = AdaptiveOpHandler_handlerFunc ctx c"
| "handle e ctx c BoundHandler = BoundHandler_handlerFunc ctx c"
| "handle e ctx c NodeHandler = NodeHandler_handlerFunc ctx c"
| "handle e ctx c StatHandler = StatHandler_handlerFunc ctx c"
| "handle e ctx c TagHandler = TagHandler_handlerFunc ctx c"
| "handle e ctx c UpdateHandler = UpdateHandler_handlerFunc ctx c"
| "handle e ctx c UserHandler = UserHandler_handlerFunc ctx c"
| "handle e ctx c GatewayHandler = GatewayHandler_handlerFunc ctx c"
| "handle e ctx c CertHandler = CertHandler_handlerFunc ctx c"
| "handle e ctx c FastAddInboundHandler = FastAddInboundHandler_handlerFunc ctx c"
| "handle e ctx c TransferCertHandler = TransferCertHandler_handlerFunc (he_readFile e) ctx c"
| "handle e ctx c GetCertsHandler = GetCertsHandler_handlerFunc ctx c"
| "handle e ctx c ClearUserHandler = ClearUserHandler_handlerFunc ctx c"
| "handle e ctx c CopyUserBetweenNodesHandler = CopyUserBetweenNodesHandler_handlerFunc ctx c"
| "handle e ctx c AuthHysteria2 = AuthHysteria2_handlerFunc (he_bindJSON e) (he_users e) ctx c"
| "handle e ctx c MetricHandler = prometheusHandler (he_floats e) (he_float64 e) ctx c"

text \<open>A pattern with \<open>*\<close> matches every path with the part before it.\<close>

definition path_matches :: "string \<Rightarrow> string \<Rightarrow> bool" where
  "path_matches pattern path \<longleftrightarrow>
     (if CHR ''*'' \<in> set pattern then has_prefix (takeWhile (\<lambda>ch. ch \<noteq> CHR ''*'') pattern) path else pattern = path)"

definition http_serve :: "('f, 'g) http_env \<Rightarrow> http_ctx \<Rightarrow> http_req \<Rightarrow> ('f, 'g) plan" where
  "http_serve e ctx c =
     (case find (\<lambda>(m, p, h). m = hr_Method c \<and> path_matches p (hr_Path c)) (hs_routes (hc_server ctx)) of
        None \<Rightarrow> Reply (RString 404 ''404 page not found'')
      | Some (m, p, h) \<Rightarrow>
          if getHandlers_auth h then getAuthHandlerFunc (hc_server ctx) c (handle e ctx c h) else handle e ctx c h)"

end
