(* ===== verification/CliClient.thy ===== *)
theory CliClient
  imports HttpHandlers
begin

text \<open>
  The command line client: the requests it makes of the HTTP interface (\<open>cli/client/base_client.go\<close>,
  \<open>cli/client/http_client.go\<close>, \<open>cli/common/const.go\<close>), its commands (\<open>cli/command.go\<close>, \<open>cli/info.go\<close>) and
  what it suggests while a command is typed (\<open>cli/suggest.go\<close>). The HTTP transport, the decoding of
  JSON answers and the functions of the prompt library are arguments; \<open>'w\<close> is the state of the servers.
\<close>

subsection \<open>Requests\<close>

datatype cli_val = VStr string | VInt int | VBool bool

text \<open>\<open>fmt.Sprintf("%v", v)\<close>\<close>

fun show_val :: "cli_val \<Rightarrow> string" where
  "show_val (VStr s) = s"
| "show_val (VInt i) = itoa i"
| "show_val (VBool b) = (if b then ''true'' else ''false'')"

type_synonym cli_params = "(string \<times> cli_val) list"

text \<open>\<open>url.Values.Encode\<close>, for one value per key.\<close>

definition Values_Encode :: "(string \<times> string) list \<Rightarrow> string" where
  "Values_Encode p = str_join ''&'' (map (\<lambda>(k, v). QueryEscape k @ ''='' @ QueryEscape v) (sort_key fst p))"

text \<open>
  The outside: \<open>cw_base\<close> parses the address of a request without its query and cleans its path, or gives
  the error of \<open>url.Parse\<close>; \<open>cw_get\<close> does the request and reads the body.
\<close>

record 'w cli_world =
  cw_base :: "string \<Rightarrow> string result"
  cw_get :: "string \<Rightarrow> string \<Rightarrow> 'w \<Rightarrow> 'w \<times> string result"
  cw_nodes :: "string \<Rightarrow> (string \<rightharpoonup> node) result"
  cw_certs :: "string \<Rightarrow> (string \<rightharpoonup> certificate list) result"
  cw_users :: "string \<Rightarrow> (string \<rightharpoonup> user list) result"

definition DoGetRequest :: "'w cli_world \<Rightarrow> string \<Rightarrow> cli_params \<Rightarrow> 'w \<Rightarrow> 'w \<times> string result" where
  "DoGetRequest cw reqUrl params w =
     (case cw_base cw reqUrl of
        Inl err \<Rightarrow> (w, Inl err)
      | Inr base \<Rightarrow> cw_get cw base (Values_Encode (map (\<lambda>(k, v). (k, show_val v)) params)) w)"

definition decoded :: "(string \<Rightarrow> 'a result) \<Rightarrow> 'w \<times> string result \<Rightarrow> 'w \<times> 'a result" where
  "decoded decode r = (case r of (w, Inl err) \<Rightarrow> (w, Inl err) | (w, Inr d) \<Rightarrow> (w, decode d))"

definition ListNode :: "'w cli_world \<Rightarrow> string \<Rightarrow> string \<Rightarrow> 'w \<Rightarrow> 'w \<times> (string \<rightharpoonup> node) result" where
  "ListNode cw host token w = decoded (cw_nodes cw) (DoGetRequest cw (host @ ''/node'') [(''token'', VStr token)] w)"

definition ListCert :: "'w cli_world \<Rightarrow> string \<Rightarrow> string \<Rightarrow> string \<Rightarrow> 'w \<Rightarrow> 'w \<times> (string \<rightharpoonup> certificate list) result" where
  "ListCert cw host token target w =
     decoded (cw_certs cw) (DoGetRequest cw (host @ ''/getCerts'') [(''token'', VStr token), (''target'', VStr target)] w)"

definition SetGatewayModel :: "'w cli_world \<Rightarrow> string \<Rightarrow> string \<Rightarrow> string \<Rightarrow> bool \<Rightarrow> 'w \<Rightarrow> 'w \<times> string result" where
  "SetGatewayModel cw host token target enableGatewayModel w =
     DoGetRequest cw (host @ ''/gateway'')
       [(''token'', VStr token), (''target'', VStr target),
        (''enable_gateway_model'', VStr (if enableGatewayModel then ''1'' else ''0''))] w"

definition ApplyCert :: "'w cli_world \<Rightarrow> string \<Rightarrow> string \<Rightarrow> string \<Rightarrow> string \<Rightarrow> 'w \<Rightarrow> 'w \<times> string result" where
  "ApplyCert cw host token target domain w =
     DoGetRequest cw (host @ ''/cert'') [(''token'', VStr token), (''target'', VStr target), (''domain'', VStr domain)] w"

definition FastAddInbound ::
    "'w cli_world \<Rightarrow> string \<Rightarrow> string \<Rightarrow> string \<Rightarrow> string \<Rightarrow> string \<Rightarrow> string \<Rightarrow> string \<Rightarrow> bool \<Rightarrow> int \<Rightarrow> 'w \<Rightarrow> 'w \<times> string result" where
  "FastAddInbound cw host token target tag protocol stream domain isXtls port w =
     DoGetRequest cw (host @ ''/fastAddInbound'')
       [(''token'', VStr token), (''target'', VStr target), (''tag'', VStr tag), (''protocol'', VStr protocol), (''stream'', VStr stream),
        (''domain'', VStr domain), (''isXtls'', VBool isXtls), (''port'', VInt port)] w"

definition CopyUserBetweenNodes :: "'w cli_world \<Rightarrow> string \<Rightarrow> string \<Rightarrow> string \<Rightarrow> string \<Rightarrow> 'w \<Rightarrow> 'w \<times> string result" where
  "CopyUserBetweenNodes cw host token srcNode dstNode w =
     DoGetRequest cw (host @ ''/copyUserBetweenNodes'') [(''token'', VStr token), (''src_node'', VStr srcNode), (''dst_node'', VStr dstNode)] w"

definition put :: "string \<times> 'v \<Rightarrow> (string \<times> 'v) list \<Rightarrow> (string \<times> 'v) list" where
  "put kv m = filter (\<lambda>(k, _). k \<noteq> fst kv) m @ [kv]"

definition user_op_params :: "string \<Rightarrow> string \<Rightarrow> int \<Rightarrow> cli_params \<Rightarrow> cli_params" where
  "user_op_params token target opType params =
     fold put params [(''token'', VStr token), (''target'', VStr target), (''type'', VInt opType)]"

definition userOp :: "'w cli_world \<Rightarrow> string \<Rightarrow> string \<Rightarrow> string \<Rightarrow> int \<Rightarrow> cli_params \<Rightarrow> 'w \<Rightarrow> 'w \<times> string result" where
  "userOp cw host token target opType params w = DoGetRequest cw (host @ ''/user'') (user_op_params token target opType params) w"

definition cli_AddUser ::
    "'w cli_world \<Rightarrow> string \<Rightarrow> string \<Rightarrow> string \<Rightarrow> string \<Rightarrow> string \<Rightarrow> string \<Rightarrow> int \<Rightarrow> int \<Rightarrow> 'w \<Rightarrow> 'w \<times> string result" where
  "cli_AddUser cw host token target userName password tags expire ttl w =
     userOp cw host token target 1
       [(''user'', VStr userName), (''pwd'', VStr password), (''expire'', VInt expire), (''ttl'', VInt ttl), (''tags'', VStr tags)] w"

definition cli_UpdateUser ::
    "'w cli_world \<Rightarrow> string \<Rightarrow> string \<Rightarrow> string \<Rightarrow> string \<Rightarrow> string \<Rightarrow> int \<Rightarrow> int \<Rightarrow> 'w \<Rightarrow> 'w \<times> string result" where
  "cli_UpdateUser cw host token target userName password expire ttl w =
     userOp cw host token target 2
       [(''user'', VStr userName), (''pwd'', VStr password), (''expire'', VInt expire), (''ttl'', VInt ttl)] w"

definition cli_DeleteUser :: "'w cli_world \<Rightarrow> string \<Rightarrow> string \<Rightarrow> string \<Rightarrow> string \<Rightarrow> string \<Rightarrow> 'w \<Rightarrow> 'w \<times> string result" where
  "cli_DeleteUser cw host token target userName tags w =
     userOp cw host token target 3 [(''user'', VStr userName), (''tags'', VStr tags)] w"

definition cli_ResetUser :: "'w cli_world \<Rightarrow> string \<Rightarrow> string \<Rightarrow> string \<Rightarrow> string \<Rightarrow> 'w \<Rightarrow> 'w \<times> string result" where
  "cli_ResetUser cw host token target userName w = userOp cw host token target 4 [(''user'', VStr userName)] w"

definition ListUser :: "'w cli_world \<Rightarrow> string \<Rightarrow> string \<Rightarrow> string \<Rightarrow> 'w \<Rightarrow> 'w \<times> (string \<rightharpoonup> user list) result" where
  "ListUser cw host token target w = decoded (cw_users cw) (userOp cw host token target 5 [] w)"

definition ClearUser :: "'w cli_world \<Rightarrow> string \<Rightarrow> string \<Rightarrow> string \<Rightarrow> string \<Rightarrow> 'w \<Rightarrow> 'w \<times> string result" where
  "ClearUser cw host token target users w =
     DoGetRequest cw (host @ ''/clearUsers'') [(''token'', VStr token), (''target'', VStr target), (''users'', VStr users)] w"

definition CopyUserInBound :: "'w cli_world \<Rightarrow> string \<Rightarrow> string \<Rightarrow> string \<Rightarrow> string \<Rightarrow> string \<Rightarrow> 'w \<Rightarrow> 'w \<times> string result" where
  "CopyUserInBound cw host token target srcTag dstTag w =
     DoGetRequest cw (host @ ''/bound'')
       [(''token'', VStr token), (''src_tag'', VStr srcTag), (''dst_tag'', VStr dstTag), (''target'', VStr target), (''type'', VStr ''copyUser'')] w"

definition DeleteInBound :: "'w cli_world \<Rightarrow> string \<Rightarrow> string \<Rightarrow> string \<Rightarrow> string \<Rightarrow> 'w \<Rightarrow> 'w \<times> string result" where
  "DeleteInBound cw host token target srcTag w =
     DoGetRequest cw (host @ ''/bound'')
       [(''token'', VStr token), (''src_tag'', VStr srcTag), (''target'', VStr target), (''type'', VStr ''deleteInbound'')] w"

subsection \<open>Commands\<close>

text \<open>
  The client keeps the nodes and users it has listed; the table of users is nil (\<open>None\<close>) after a
  failed listing at the start. A command returns what it prints and its error, or panics.
  \<open>ce_node\<close>, \<open>ce_cert\<close> and \<open>ce_user\<close> are the texts of values of other packages, \<open>ce_order\<close> is the order
  of the loops over maps. What a failed decoding of the list of nodes leaves in it is dropped.
\<close>

record 'w cli_state =
  cs_Host :: string
  cs_Token :: string
  cs_localNodeList :: "string \<rightharpoonup> node"
  cs_localUserList :: "(string \<rightharpoonup> user list) option"
  cs_world :: 'w

record 'w cli_env =
  ce_world :: "'w cli_world"
  ce_node :: "node \<Rightarrow> string"
  ce_cert :: "certificate \<Rightarrow> string"
  ce_user :: "user \<Rightarrow> string"
  ce_order :: "(string \<Rightarrow> bool) \<Rightarrow> string list"

type_synonym 'w command = "'w cli_state \<Rightarrow> ('w cli_state, string list \<times> gerror option) outcome"

definition cli_keys :: "'w cli_env \<Rightarrow> (string \<rightharpoonup> 'v) \<Rightarrow> string list" where
  "cli_keys ce m = ce_order ce (\<lambda>k. m k \<noteq> None)"

definition updateLocalNodeList :: "'w cli_env \<Rightarrow> 'w cli_state \<Rightarrow> 'w cli_state" where
  "updateLocalNodeList ce s =
     (case ListNode (ce_world ce) (cs_Host s) (cs_Token s) (cs_world s) of
        (w, r) \<Rightarrow> s\<lparr>cs_world := w, cs_localNodeList := (case r of Inl _ \<Rightarrow> Map.empty | Inr nodes \<Rightarrow> nodes)\<rparr>)"

definition updateLocalUserList :: "'w cli_env \<Rightarrow> 'w cli_state \<Rightarrow> 'w cli_state" where
  "updateLocalUserList ce s =
     (case ListUser (ce_world ce) (cs_Host s) (cs_Token s) ''all'' (cs_world s) of
        (w, r) \<Rightarrow> s\<lparr>cs_world := w, cs_localUserList := (case r of Inl _ \<Rightarrow> None | Inr users \<Rightarrow> Some users)\<rparr>)"

text \<open>The commands that print the answer of one request.\<close>

definition answer_of :: "(string \<Rightarrow> string) \<Rightarrow> ('w \<Rightarrow> 'w \<times> string result) \<Rightarrow> 'w command" where
  "answer_of fmt req s =
     (case req (cs_world s) of
        (w, Inl err) \<Rightarrow> Done (s\<lparr>cs_world := w\<rparr>) ([], Some err)
      | (w, Inr result) \<Rightarrow> Done (s\<lparr>cs_world := w\<rparr>) ([fmt result], None))"

definition listNode :: "'w cli_env \<Rightarrow> 'w command" where
  "listNode ce s =
     (case ListNode (ce_world ce) (cs_Host s) (cs_Token s) (cs_world s) of
        (w, Inl err) \<Rightarrow> Done (s\<lparr>cs_world := w, cs_localNodeList := Map.empty\<rparr>) ([], Some err)
      | (w, Inr nodes) \<Rightarrow> Done (s\<lparr>cs_world := w, cs_localNodeList := nodes\<rparr>) (map (ce_node ce) (vals_in_order nodes (cli_keys ce nodes)), None))"

definition listCert :: "'w cli_env \<Rightarrow> string \<Rightarrow> 'w command" where
  "listCert ce target s =
     (case ListCert (ce_world ce) (cs_Host s) (cs_Token s) target (cs_world s) of
        (w, Inl err) \<Rightarrow> Done (s\<lparr>cs_world := w\<rparr>) ([], Some err)
      | (w, Inr certs) \<Rightarrow> Done (s\<lparr>cs_world := w\<rparr>)
          (concat (map (\<lambda>k. (''node['' @ k @ '']:'') # (case certs k of None \<Rightarrow> [] | Some cs \<Rightarrow> map (ce_cert ce) cs)) (cli_keys ce certs)), None))"

definition setGatewayModel :: "'w cli_env \<Rightarrow> string \<Rightarrow> bool \<Rightarrow> 'w command" where
  "setGatewayModel ce target enableGatewayModel s =
     answer_of (\<lambda>r. r) (SetGatewayModel (ce_world ce) (cs_Host s) (cs_Token s) target enableGatewayModel) s"

definition applyCert :: "'w cli_env \<Rightarrow> string \<Rightarrow> string \<Rightarrow> 'w command" where
  "applyCert ce target domain s = answer_of (\<lambda>r. r) (ApplyCert (ce_world ce) (cs_Host s) (cs_Token s) target domain) s"

definition fastAddInbound :: "'w cli_env \<Rightarrow> string \<Rightarrow> string \<Rightarrow> string \<Rightarrow> string \<Rightarrow> string \<Rightarrow> bool \<Rightarrow> int \<Rightarrow> 'w command" where
  "fastAddInbound ce target tag protocol stream domain isXtls port s =
     answer_of (\<lambda>r. r) (FastAddInbound (ce_world ce) (cs_Host s) (cs_Token s) target tag protocol stream domain isXtls port) s"

definition copyUserBetweenNodes :: "'w cli_env \<Rightarrow> string \<Rightarrow> string \<Rightarrow> 'w command" where
  "copyUserBetweenNodes ce srcNode dstNode s =
     answer_of (\<lambda>r. r) (CopyUserBetweenNodes (ce_world ce) (cs_Host s) (cs_Token s) srcNode dstNode) s"

definition addUser :: "'w cli_env \<Rightarrow> string \<Rightarrow> string \<Rightarrow> string \<Rightarrow> string \<Rightarrow> int \<Rightarrow> int \<Rightarrow> 'w command" where
  "addUser ce target userName password tags expire ttl s =
     answer_of (\<lambda>r. ''add user['' @ userName @ ''] with result: '' @ r)
       (cli_AddUser (ce_world ce) (cs_Host s) (cs_Token s) target userName password tags expire ttl) s"

definition updateUser :: "'w cli_env \<Rightarrow> string \<Rightarrow> string \<Rightarrow> string \<Rightarrow> int \<Rightarrow> int \<Rightarrow> 'w command" where
  "updateUser ce target userName password expire ttl s =
     answer_of (\<lambda>r. r) (cli_UpdateUser (ce_world ce) (cs_Host s) (cs_Token s) target userName password expire ttl) s"

definition deleteUser :: "'w cli_env \<Rightarrow> string \<Rightarrow> string \<Rightarrow> string \<Rightarrow> 'w command" where
  "deleteUser ce target userName tags s =
     answer_of (\<lambda>r. r) (cli_DeleteUser (ce_world ce) (cs_Host s) (cs_Token s) target userName tags) s"

definition resetUser :: "'w cli_env \<Rightarrow> string \<Rightarrow> string \<Rightarrow> 'w command" where
  "resetUser ce target userName s = answer_of (\<lambda>r. r) (cli_ResetUser (ce_world ce) (cs_Host s) (cs_Token s) target userName) s"

text \<open>Storing a list in the table of users panics when the table is nil.\<close>

definition listUser :: "'w cli_env \<Rightarrow> string \<Rightarrow> 'w command" where
  "listUser ce target s =
     (case ListUser (ce_world ce) (cs_Host s) (cs_Token s) target (cs_world s) of
        (w, Inl err) \<Rightarrow> Done (s\<lparr>cs_world := w\<rparr>) ([], Some err)
      | (w, Inr result) \<Rightarrow>
          (let keys = cli_keys ce result;
               out = concat (map (\<lambda>k. (k @ '' :'') # (case result k of None \<Rightarrow> [] | Some us \<Rightarrow> map (ce_user ce) us)) keys)
           in case cs_localUserList s of
                None \<Rightarrow> if keys = [] then Done (s\<lparr>cs_world := w\<rparr>) ([], None) else Panicked (s\<lparr>cs_world := w\<rparr>)
              | Some m \<Rightarrow> Done (s\<lparr>cs_world := w, cs_localUserList := Some (m ++ result)\<rparr>) (out, None)))"

definition clearUsers :: "'w cli_env \<Rightarrow> string \<Rightarrow> string \<Rightarrow> 'w command" where
  "clearUsers ce target users s = answer_of (\<lambda>r. r) (ClearUser (ce_world ce) (cs_Host s) (cs_Token s) target users) s"

definition copyUserInbound :: "'w cli_env \<Rightarrow> string \<Rightarrow> string \<Rightarrow> string \<Rightarrow> 'w command" where
  "copyUserInbound ce target srcTag dstTag s =
     answer_of (\<lambda>r. r) (CopyUserInBound (ce_world ce) (cs_Host s) (cs_Token s) target srcTag dstTag) s"

definition deleteInbound :: "'w cli_env \<Rightarrow> string \<Rightarrow> string \<Rightarrow> 'w command" where
  "deleteInbound ce target srcTag s = answer_of (\<lambda>r. r) (DeleteInBound (ce_world ce) (cs_Host s) (cs_Token s) target srcTag) s"

text \<open>An error of adding one user is printed, and the loop goes on.\<close>

fun add_users_loop :: "'w cli_env \<Rightarrow> string \<Rightarrow> string \<Rightarrow> user list \<Rightarrow> 'w cli_state \<Rightarrow> string list \<Rightarrow> ('w cli_state, string list) outcome" where
  "add_users_loop ce target inboundTag [] s out = Done s out"
| "add_users_loop ce target inboundTag (u # us) s out =
     bind_o (addUser ce target (us_Name u) (us_Passwd u) inboundTag (us_ExpireTime u) 0 s) (\<lambda>s (o1, e).
       add_users_loop ce target inboundTag us s (out @ o1 @ (case e of None \<Rightarrow> [] | Some err \<Rightarrow>
         [''add user['' @ us_Name u @ ''] to inbound['' @ inboundTag @ ''] fail, err: '' @ err])))"

definition addAllUserToInbound :: "'w cli_env \<Rightarrow> string \<Rightarrow> string \<Rightarrow> 'w command" where
  "addAllUserToInbound ce target inboundTag s =
     (case ListUser (ce_world ce) (cs_Host s) (cs_Token s) target (cs_world s) of
        (w, Inl err) \<Rightarrow> Done (s\<lparr>cs_world := w\<rparr>) ([], Some err)
      | (w, Inr result) \<Rightarrow>
          bind_o (add_users_loop ce target inboundTag (case result target of None \<Rightarrow> [] | Some us \<Rightarrow> us) (s\<lparr>cs_world := w\<rparr>) [])
            (\<lambda>s out. Done s (out, None)))"

text \<open>What is printed for a command's error.\<close>

definition handlerCallback :: "gerror option \<Rightarrow> string list" where
  "handlerCallback e = (case e of None \<Rightarrow> [] | Some err \<Rightarrow> [''operation failed, err: '' @ err])"

subsection \<open>Suggestions\<close>

record suggest =
  sg_Text :: string
  sg_Description :: string
  sg_Default :: "cli_val option"
  sg_OfHandler :: bool

definition new_suggest :: "string \<Rightarrow> string \<Rightarrow> cli_val \<Rightarrow> suggest" where
  "new_suggest t d v = \<lparr>sg_Text = t, sg_Description = d, sg_Default = Some v, sg_OfHandler = False\<rparr>"

definition targetSuggest :: suggest where "targetSuggest = new_suggest ''target'' ''node name'' (VStr '''')"
definition enableGatewayModelSuggest :: suggest where
  "enableGatewayModelSuggest = new_suggest ''enable_gateway_model'' ''gateway model node will not provide proxy'' (VBool False)"
definition tagSuggest :: suggest where "tagSuggest = new_suggest ''tag'' ''inbound tag'' (VStr '''')"
definition protocolSuggest :: suggest where "protocolSuggest = new_suggest ''protocol'' ''vless, vmess or trojan'' (VStr ''trojan'')"
definition streamSuggest :: suggest where "streamSuggest = new_suggest ''stream'' ''transport layer protocol'' (VStr ''tcp'')"
definition domainSuggest :: suggest where "domainSuggest = new_suggest ''domain'' ''domain name'' (VStr '''')"
definition isXtlsSuggest :: suggest where "isXtlsSuggest = new_suggest ''is_xtls'' ''is xtls'' (VBool False)"
definition portSuggest :: suggest where "portSuggest = new_suggest ''port'' ''inbound port'' (VInt 0)"
definition srcNodeSuggest :: suggest where "srcNodeSuggest = new_suggest ''src_node'' ''src node name'' (VStr '''')"
definition dstNodeSuggest :: suggest where "dstNodeSuggest = new_suggest ''dst_node'' ''dst node name'' (VStr '''')"
definition userNameSuggest :: suggest where "userNameSuggest = new_suggest ''user'' ''user name'' (VStr '''')"
definition userNamesSuggest :: suggest where
  "userNamesSuggest = new_suggest ''users'' ''users name, eg: user1,user2,...,userN'' (VStr '''')"
definition passwordSuggest :: suggest where "passwordSuggest = new_suggest ''password'' ''user password'' (VStr '''')"
definition tagsSuggest :: suggest where "tagsSuggest = new_suggest ''tags'' ''xray/v2ray inbound tags, eg: tag1,tag2'' (VStr '''')"
definition expireSuggest :: suggest where
  "expireSuggest = new_suggest ''expire'' ''user expire time, timestamp, 0 no expire'' (VInt 0)"
definition ttlSuggest :: suggest where
  "ttlSuggest = new_suggest ''ttl'' ''use to clac user expire time, uesr expire time = ttl + current time'' (VInt 0)"
definition srcTagSuggest :: suggest where "srcTagSuggest = new_suggest ''src_tag'' ''src inbound tag'' (VStr '''')"
definition dstTagSuggest :: suggest where "dstTagSuggest = new_suggest ''dst_tag'' ''dst inbound tag'' (VStr '''')"

text \<open>Only the text of the template is taken over.\<close>

definition getSuggestWithTemplate :: "suggest \<Rightarrow> (suggest \<Rightarrow> suggest) list \<Rightarrow> suggest" where
  "getSuggestWithTemplate t opts =
     fold (\<lambda>f s. f s) opts \<lparr>sg_Text = sg_Text t, sg_Description = '''', sg_Default = None, sg_OfHandler = False\<rparr>"

definition WihtDefault :: "cli_val \<Rightarrow> suggest \<Rightarrow> suggest" where
  "WihtDefault d s = s\<lparr>sg_Default := Some d\<rparr>"

definition WihtDescription :: "string \<Rightarrow> suggest \<Rightarrow> suggest" where
  "WihtDescription description s = s\<lparr>sg_Description := description\<rparr>"

text \<open>The commands with their parameters.\<close>

definition registered :: "(string \<times> suggest list) list" where
  "registered =
     (let target = getSuggestWithTemplate targetSuggest [WihtDefault (VStr '''')]; everywhere = getSuggestWithTemplate targetSuggest [WihtDefault (VStr ''all'')]
      in [(''ListNode'', []),
          (''ListCert'', [everywhere]),
          (''SetGatewayModel'', [targetSuggest, enableGatewayModelSuggest]),
          (''ApplyCert'', [targetSuggest, domainSuggest]),
          (''FastAddInbound'', [targetSuggest, tagSuggest, protocolSuggest, streamSuggest, domainSuggest, isXtlsSuggest, portSuggest]),
          (''CopyUserBetweenNodes'', [srcNodeSuggest, dstNodeSuggest]),
          (''ListUser'', [everywhere]),
          (''AddUser'', [target, userNameSuggest, passwordSuggest, tagsSuggest, expireSuggest, ttlSuggest]),
          (''UpdateUser'', [target, userNameSuggest, passwordSuggest, expireSuggest, ttlSuggest]),
          (''DeleteUser'', [target, userNameSuggest, tagsSuggest]),
          (''ResetUser'', [target, userNameSuggest]),
          (''ClearUsers'', [target, userNamesSuggest]),
          (''CopyUserInbound'', [target, srcTagSuggest, dstTagSuggest]),
          (''DeleteInbound'', [target, srcTagSuggest]),
          (''AddAllUserToInbound'', [target, dstTagSuggest])])"

definition typed :: "string \<Rightarrow> suggest" where
  "typed t = \<lparr>sg_Text = t, sg_Description = '''', sg_Default = None, sg_OfHandler = True\<rparr>"

definition isInputNodeName :: "string \<Rightarrow> string \<Rightarrow> bool" where
  "isInputNodeName lastFlag suggestPrefix \<longleftrightarrow>
     lastFlag = suggestPrefix @ sg_Text srcNodeSuggest \<or> lastFlag = suggestPrefix @ sg_Text dstNodeSuggest \<or>
     lastFlag = suggestPrefix @ sg_Text targetSuggest"

definition isInputUserName :: "string \<Rightarrow> string \<Rightarrow> string \<Rightarrow> bool" where
  "isInputUserName lastFlag suggestPrefix handlerName \<longleftrightarrow>
     (lastFlag = suggestPrefix @ sg_Text userNameSuggest \<or> lastFlag = suggestPrefix @ sg_Text userNamesSuggest) \<and> handlerName \<noteq> ''AddUser''"

definition cli_words :: "string \<Rightarrow> string list" where
  "cli_words input = filter (\<lambda>s. length s > 0) (split_on (CHR '' '') input)"

fun after_flag :: "string list \<Rightarrow> string" where
  "after_flag [] = ''''"
| "after_flag [i] = ''''"
| "after_flag (i # j # is) = (if i = ''-target'' then j else after_flag (j # is))"

definition getTargetParam :: "string \<Rightarrow> string" where
  "getTargetParam input = after_flag (cli_words input)"

text \<open>\<open>isMatch\<close> is the matching of the prompt library.\<close>

definition all_user_names :: "'w cli_env \<Rightarrow> (string \<rightharpoonup> user list) \<Rightarrow> (string \<Rightarrow> bool)" where
  "all_user_names ce m name \<longleftrightarrow> list_ex (\<lambda>k. case m k of None \<Rightarrow> False | Some us \<Rightarrow> list_ex (\<lambda>u. us_Name u = name) us) (cli_keys ce m)"

definition getUserSuggest :: "'w cli_env \<Rightarrow> (string \<Rightarrow> string \<Rightarrow> bool) \<Rightarrow> 'w cli_state \<Rightarrow> string \<Rightarrow> string \<Rightarrow> suggest list" where
  "getUserSuggest ce isMatch s node0 currentInput =
     (let m = (case cs_localUserList s of None \<Rightarrow> Map.empty | Some m \<Rightarrow> m) in
      case m node0 of
        None \<Rightarrow> map typed (filter (isMatch currentInput) (ce_order ce (all_user_names ce m)))
      | Some users \<Rightarrow> map (\<lambda>u. typed (us_Name u)) (filter (\<lambda>u. isMatch currentInput (us_Name u)) users))"

definition getNodeSuggest :: "'w cli_env \<Rightarrow> (string \<Rightarrow> string \<Rightarrow> bool) \<Rightarrow> 'w cli_state \<Rightarrow> string \<Rightarrow> suggest list" where
  "getNodeSuggest ce isMatch s input =
     (let m = cs_localNodeList s
      in typed ''all'' # map (\<lambda>n. typed (nd_Name n)) (filter (\<lambda>n. isMatch input (nd_Name n)) (vals_in_order m (cli_keys ce m))))"

text \<open>
  \<open>suggests\<close> is the answer of the library's own function; \<open>isBool\<close> and \<open>isValue\<close> are its tests on the
  words typed so far.
\<close>

definition GetSuggest ::
    "'w cli_env \<Rightarrow> (string \<Rightarrow> string \<Rightarrow> bool) \<Rightarrow> (string \<Rightarrow> bool) \<Rightarrow> (string list \<Rightarrow> bool) \<Rightarrow> string \<Rightarrow> suggest list result \<Rightarrow> string
     \<Rightarrow> 'w cli_state \<Rightarrow> suggest list result" where
  "GetSuggest ce isMatch isBool isValue prefix suggests input s =
     (case suggests of
        Inl err \<Rightarrow> Inl err
      | Inr (x # xs) \<Rightarrow> Inr (x # xs)
      | Inr [] \<Rightarrow>
          (let inputs0 = cli_words input; isInputLast = (input = [] \<or> last input \<noteq> CHR '' '');
               inputs = (if input = [] \<or> \<not> isInputLast then inputs0 @ [''''] else inputs0);
               cur = inputs ! (length inputs - 1); flag = inputs ! (length inputs - 2)
           in if length inputs > 1 \<and> (isBool cur \<or> isValue inputs)
              then if isInputNodeName flag prefix then Inr (getNodeSuggest ce isMatch s cur)
                   else if isInputUserName flag prefix (inputs ! 0) then Inr (getUserSuggest ce isMatch s (getTargetParam input) cur)
                   else Inr []
              else Inr []))"


subsection \<open>The configuration of the client\<close>

record cli_config =
  cg_Host :: string
  cg_Token :: string

text \<open>
  The file: \<open>Inr None\<close> is a missing one. \<open>fe_host\<close> and \<open>fe_token\<close> give what a variable holds after a line was
  scanned into it.
\<close>

record config_env =
  fe_read :: "string option result"
  fe_unmarshal :: "string \<Rightarrow> cli_config \<Rightarrow> cli_config \<times> gerror option"
  fe_marshal :: "cli_config \<Rightarrow> string result"
  fe_write :: "gerror option"
  fe_host :: "string \<Rightarrow> string"
  fe_token :: "string \<Rightarrow> string"

definition inputConfig :: "config_env \<Rightarrow> cli_config \<Rightarrow> cli_config" where
  "inputConfig e c = \<lparr>cg_Host = fe_host e (cg_Host c), cg_Token = fe_token e (cg_Token c)\<rparr>"

text \<open>The configuration, the file when it is written, and the error, with which the client panics.\<close>

definition loadConfig :: "config_env \<Rightarrow> cli_config \<Rightarrow> cli_config \<times> string option \<times> gerror option" where
  "loadConfig e c =
     (case fe_read e of
        Inl err \<Rightarrow> (c, None, Some err)
      | Inr content \<Rightarrow>
          (let c' = (case content of
                None \<Rightarrow> inputConfig e c
              | Some data \<Rightarrow> (case fe_unmarshal e data c of (c1, Some _) \<Rightarrow> inputConfig e c1 | (c1, None) \<Rightarrow> c1))
           in case fe_marshal e c' of
                Inl err \<Rightarrow> (c', None, Some (''marshal config fail, err: '' @ err))
              | Inr d \<Rightarrow> (case fe_write e of Some err \<Rightarrow> (c', None, Some err) | None \<Rightarrow> (c', Some d, None))))"

text \<open>After a start without an error the file holds the configuration in use.\<close>

lemma loadConfig_saves: "loadConfig e c = (c', saved, None) \<Longrightarrow> \<exists>d. saved = Some d \<and> fe_marshal e c' = Inr d"
  by (auto simp: loadConfig_def Let_def split: sum.splits option.splits prod.splits)

end
