(* ===== verification/HttpProps.thy ===== *)
theory HttpProps
  imports HttpHandlers
begin

text \<open>
  What the HTTP interface guarantees: which requests need the token, which nodes a request is sent
  to, when a caller is told that a request succeeded, and what the handlers send.
\<close>

subsection \<open>The token\<close>

lemmas route_simps = http_init_def RegisterPrometheus_def RegisterHandler_def Let_def

text \<open>The routes of a server with metrics, in the order of their registration.\<close>

lemma http_routes:
  "hs_routes (RegisterPrometheus (http_init s)) =
     map (\<lambda>h. (''GET'', getRelativePath h, h))
       [SubHandler, HelpHandler, AdaptiveHandler, AdaptiveOpHandler, BoundHandler, NodeHandler, TagHandler, UpdateHandler, UserHandler,
        GatewayHandler, CertHandler, FastAddInboundHandler, TransferCertHandler, GetCertsHandler, ClearUserHandler, CopyUserBetweenNodesHandler] @
     [(''POST'', ''/authHysteria2'', AuthHysteria2), (''GET'', ''/metrics'', MetricHandler)]"
  by (simp add: route_simps)

lemma path_matches_plain: "CHR ''*'' \<notin> set p \<Longrightarrow> path_matches p path \<longleftrightarrow> p = path"
  by (simp add: path_matches_def)

lemma path_matches_help: "path_matches ''/help/*relativePath'' path \<longleftrightarrow> has_prefix ''/help/'' path"
  by (simp add: path_matches_def)

text \<open>
  C5: operations need the token of the server. On a server with all its routes, a request for the
  path of a handler other than those for subscriptions, help, the list of certificates and the
  authentication of hysteria reaches this handler when it carries the token; otherwise it is
  answered 401 and no node is asked.
\<close>

theorem http_token_required:
  assumes "hs_routes (hc_server ctx) = hs_routes (RegisterPrometheus (http_init s))"
    and "hr_Method c = ''GET''" and "hr_Path c = getRelativePath h"
    and "h \<notin> {SubHandler, HelpHandler, GetCertsHandler, AuthHysteria2, StatHandler}"
  shows "http_serve e ctx c =
    (if DefaultQuery c ''token'' '''' = hs_token (hc_server ctx) then handle e ctx c h else Reply (RString 401 ''invalide token''))"
  using assms(2-4)
  by (cases h) (simp_all add: http_serve_def assms(1) http_routes path_matches_plain path_matches_help getAuthHandlerFunc_def)

definition demo_server :: http_server where
  "demo_server = \<lparr>hs_Host = ''0.0.0.0'', hs_Port = 10086, hs_Name = ''a'', hs_token = ''secret'', hs_routes = [], hs_handlersMap = Map.empty,
     hs_certManager = \<lparr>cm_Email = '''', cm_Secrets = [], cm_DnsProvider = '''', cm_Path = '''', cm_Certs = Map.empty, cm_Args = []\<rparr>\<rparr>"

definition demo_cluster :: "node list \<Rightarrow> cluster" where
  "demo_cluster nodes = \<lparr>cl_Name = ''c'', cl_Token = ''t'', cl_NodeManager = \<lparr>nm_nodes = map_of (map (\<lambda>n. (nd_Name n, n)) nodes), nm_name = ''''\<rparr>,
     cl_WrongTokenNode = NewNodeManager\<rparr>"

text \<open>One loop order for every set of keys.\<close>

definition some_order :: "(string \<Rightarrow> bool) \<Rightarrow> string list" where
  "some_order P = sorted_list_of_set {k. P k}"

definition demo_ctx :: "node list \<Rightarrow> http_ctx" where
  "demo_ctx nodes = \<lparr>hc_server = RegisterPrometheus (http_init demo_server), hc_cluster = demo_cluster nodes, hc_now = 120, hc_order = some_order\<rparr>"

lemma demo_order_ok: "order_ok (demo_ctx nodes)"
  by (simp add: order_ok_def demo_ctx_def some_order_def)

definition get_request :: "string \<Rightarrow> string \<Rightarrow> http_req" where
  "get_request path query = \<lparr>hr_Method = ''GET'', hr_Path = path, hr_RawQuery = query, hr_UserAgent = '''', hr_Body = ''''\<rparr>"

definition demo_http_env :: "(int, int) http_env" where
  "demo_http_env = \<lparr>he_conv = (\<lambda>_ uris. Inr (str_join newline uris)), he_readFile = (\<lambda>_. Inl ''no file''), he_bindJSON = (\<lambda>_. None),
     he_users = Map.empty, he_help = (\<lambda>_. ''''), he_floats = exact_ops, he_float64 = (\<lambda>x. x)\<rparr>"

theorem http_token_required_witness:
  "http_serve demo_http_env (demo_ctx []) (get_request ''/clearUsers'' ''token=guess'') = Reply (RString 401 ''invalide token'')"
proof -
  let ?ctx = "demo_ctx []" and ?c = "get_request ''/clearUsers'' ''token=guess''"
  have "DefaultQuery ?c ''token'' '''' = ''guess''" by code_simp
  moreover have "hs_token (hc_server ?ctx) = ''secret''" by (simp add: demo_ctx_def demo_server_def route_simps)
  moreover have "hs_routes (hc_server ?ctx) = hs_routes (RegisterPrometheus (http_init demo_server))"
    "hr_Method ?c = ''GET''" "hr_Path ?c = getRelativePath ClearUserHandler" by (simp_all add: demo_ctx_def get_request_def)
  ultimately show ?thesis using http_token_required [of ?ctx demo_server ?c ClearUserHandler demo_http_env] by simp
qed

text \<open>The list of certificates is open, whatever token the request carries.\<close>

lemma certificates_without_token:
  assumes "hs_routes (hc_server ctx) = hs_routes (RegisterPrometheus (http_init s))"
    and "hr_Method c = ''GET''" and "hr_Path c = ''/getCerts''"
  shows "http_serve e ctx c = handle e ctx c GetCertsHandler"
  using assms by (simp add: http_serve_def http_routes path_matches_plain path_matches_help)

subsection \<open>The nodes of a target\<close>

lemma keys_of_map: "order_ok ctx \<Longrightarrow> finite (dom m) \<Longrightarrow> distinct (keys_of ctx m) \<and> set (keys_of ctx m) = dom m"
  by (auto simp: order_ok_def keys_of_def dom_def)

lemma keys_of_ranges: "order_ok ctx \<Longrightarrow> finite (dom m) \<Longrightarrow> ranges m (keys_of ctx m)"
  by (simp add: ranges_def keys_of_map)

text \<open>The table of nodes of the context.\<close>

definition known_nodes :: "http_ctx \<Rightarrow> string \<rightharpoonup> node" where
  "known_nodes ctx = nm_nodes (cl_NodeManager (hc_cluster ctx))"

lemma distinct_vals_names:
  "named_table m \<Longrightarrow> distinct ks \<Longrightarrow> distinct (map nd_Name (vals_in_order m ks)) \<and> set (map nd_Name (vals_in_order m ks)) \<subseteq> set ks"
  by (induction ks) (auto split: option.splits dest: named_tableD)

lemma GetTargetNodes_filter:
  "GetTargetNodes ctx t = filter (\<lambda>n.
     (let name = hs_Name (hc_server ctx); t' = (if t = '''' then name else t)
      in if t' = ''all'' then nd_Name n = name \<or> Node_IsValid (hc_now ctx) n else Node_IsValid (hc_now ctx) n \<and> nd_Name n = t'))
     (vals_in_order (known_nodes ctx) (keys_of ctx (known_nodes ctx)))"
  by (simp add: GetTargetNodes_def Let_def Cluster_GetNodesWithFilter_def NodeManager_GetNodesWithFilter_def known_nodes_def)

lemma GetTargetNodes_distinct:
  assumes "order_ok ctx" and "finite (dom (known_nodes ctx))" and "named_table (known_nodes ctx)"
  shows "distinct (map nd_Name (GetTargetNodes ctx t))"
  using distinct_vals_names [OF assms(3)] keys_of_map [OF assms(1,2)] by (simp add: GetTargetNodes_filter distinct_map_filter)

lemma GetTargetNodes_single:
  assumes "order_ok ctx" and "finite (dom (known_nodes ctx))" and "named_table (known_nodes ctx)"
    and "known_nodes ctx t = Some n" and "Node_IsValid (hc_now ctx) n" and "t \<noteq> ''all''" and "t \<noteq> ''''"
  shows "GetTargetNodes ctx t = [n]"
proof -
  have "set (GetTargetNodes ctx t) = {n}"
    using assms(4-7) named_tableD [OF assms(3)] set_vals_in_order [OF keys_of_ranges [OF assms(1,2)]]
    by (auto simp: GetTargetNodes_filter Let_def ran_def)
  moreover have "distinct (GetTargetNodes ctx t)" using GetTargetNodes_distinct [OF assms(1-3), of t] by (simp add: distinct_map)
  ultimately show ?thesis by (cases "GetTargetNodes ctx t"; cases "tl (GetTargetNodes ctx t)") auto
qed

text \<open>
  C24: a target names the right nodes. In a table whose nodes are kept under their names, the target
  \<open>all\<close> stands for this node and every node that is alive, any other target for the one live node of
  that name, and no target for this node; every node comes once.
\<close>

theorem target_nodes:
  assumes "order_ok ctx" and "finite (dom (known_nodes ctx))" and "named_table (known_nodes ctx)"
  shows "distinct (map nd_Name (GetTargetNodes ctx t)) \<and>
    set (GetTargetNodes ctx t) =
      (let name = hs_Name (hc_server ctx); t' = (if t = '''' then name else t) in
       if t' = ''all'' then {n \<in> ran (known_nodes ctx). nd_Name n = name \<or> Node_IsValid (hc_now ctx) n}
       else {n. known_nodes ctx t' = Some n \<and> Node_IsValid (hc_now ctx) n})"
proof
  note vs = set_vals_in_order [OF keys_of_ranges [OF assms(1,2)]]
  show "distinct (map nd_Name (GetTargetNodes ctx t))" by (rule GetTargetNodes_distinct [OF assms])
  show "set (GetTargetNodes ctx t) =
      (let name = hs_Name (hc_server ctx); t' = (if t = '''' then name else t) in
       if t' = ''all'' then {n \<in> ran (known_nodes ctx). nd_Name n = name \<or> Node_IsValid (hc_now ctx) n}
       else {n. known_nodes ctx t' = Some n \<and> Node_IsValid (hc_now ctx) n})"
    using named_tableD [OF assms(3)] by (auto simp: GetTargetNodes_filter vs Let_def ran_def)
qed

lemma demo_known: "known_nodes (demo_ctx nodes) = map_of (map (\<lambda>n. (nd_Name n, n)) nodes)"
  by (simp add: known_nodes_def demo_ctx_def demo_cluster_def)

lemma demo_tables: "finite (dom (known_nodes (demo_ctx nodes)))" "named_table (known_nodes (demo_ctx nodes))"
proof -
  show "finite (dom (known_nodes (demo_ctx nodes)))" by (simp add: demo_known finite_dom_map_of)
  have "map_of (map (\<lambda>n. (nd_Name n, n)) nodes) k = Some n \<Longrightarrow> nd_Name n = k" for k n by (drule map_of_SomeD) auto
  then show "named_table (known_nodes (demo_ctx nodes))" unfolding demo_known named_table_def by blast
qed

lemma demo_valid: "Node_IsValid 120 (demo_peer name)"
  by (simp add: Node_IsValid_def demo_peer_def NodeTimeOut_def i64_add_id in_int64_def)

lemma demo_single:
  assumes "nodes = [demo_peer ''a'', demo_peer ''b'']"
  shows "GetTargetNodes (demo_ctx nodes) ''a'' = [demo_peer ''a'']" and "GetTargetNodes (demo_ctx nodes) ''b'' = [demo_peer ''b'']"
proof -
  have now: "hc_now (demo_ctx ns) = 120" for ns by (simp add: demo_ctx_def)
  show "GetTargetNodes (demo_ctx nodes) ''a'' = [demo_peer ''a'']"
    by (rule GetTargetNodes_single [OF demo_order_ok demo_tables]) (simp_all add: assms demo_known demo_peer_simps demo_valid now)
  show "GetTargetNodes (demo_ctx nodes) ''b'' = [demo_peer ''b'']"
    by (rule GetTargetNodes_single [OF demo_order_ok demo_tables]) (simp_all add: assms demo_known demo_peer_simps demo_valid now)
qed

theorem target_nodes_witness: "set (GetTargetNodes (demo_ctx [demo_peer ''a'', demo_peer ''b'']) ''b'') = {demo_peer ''b''}"
proof -
  have "hc_now (demo_ctx nodes) = 120" for nodes by (simp add: demo_ctx_def)
  then show ?thesis
    using target_nodes [OF demo_order_ok demo_tables, of "[demo_peer ''a'', demo_peer ''b'']" "''b''"]
    by (auto simp: demo_known demo_peer_simps demo_valid Let_def)
qed


subsection \<open>When a caller is told of success\<close>

definition ask_nodes ::
    "node_req client_env \<Rightarrow> int \<Rightarrow> pnode \<Rightarrow> (node \<Rightarrow> gerror option) \<Rightarrow> (node \<Rightarrow> (node_req, 'g node_data) access) \<Rightarrow> string \<Rightarrow> ('w, 'g) asker" where
  "ask_nodes env now localNode dial stub token nodes reqType req w =
     (w, fst (ReqToMultiEndNodeServer env now localNode dial stub nodes reqType req token))"

lemma fold_store_failed:
  "distinct (map nd_Name ns) \<Longrightarrow> an_failed (fold (store_answer call) ns a) k = Some e \<longleftrightarrow>
     (\<exists>n \<in> set ns. nd_Name n = k \<and> call n = Inl e) \<or>
     (\<forall>n \<in> set ns. nd_Name n = k \<longrightarrow> \<not> isl (call n)) \<and> an_failed a k = Some e"
proof (induction ns arbitrary: a)
  case (Cons n ns)
  have other: "m \<in> set ns \<Longrightarrow> nd_Name m \<noteq> nd_Name n" for m using Cons.prems by (auto simp: image_iff)
  have "distinct (map nd_Name ns)" using Cons.prems by simp
  note IH = Cons.IH [OF this, of "store_answer call n a"]
  show ?case
    by (cases "call n"; cases "nd_Name n = k") (use IH other in \<open>auto simp: store_answer_def\<close>)
qed simp

lemma fold_store_succ:
  "distinct (map nd_Name ns) \<Longrightarrow> an_succ (fold (store_answer call) ns a) k = Some d \<longleftrightarrow>
     (\<exists>n \<in> set ns. nd_Name n = k \<and> call n = Inr d) \<or>
     (\<forall>n \<in> set ns. nd_Name n = k \<longrightarrow> isl (call n)) \<and> an_succ a k = Some d"
proof (induction ns arbitrary: a)
  case (Cons n ns)
  have other: "m \<in> set ns \<Longrightarrow> nd_Name m \<noteq> nd_Name n" for m using Cons.prems by (auto simp: image_iff)
  have "distinct (map nd_Name ns)" using Cons.prems by simp
  note IH = Cons.IH [OF this, of "store_answer call n a"]
  show ?case
    by (cases "call n"; cases "nd_Name n = k") (use IH other in \<open>auto simp: store_answer_def\<close>)
qed simp

lemma ask_all_failed:
  assumes "distinct (map nd_Name ns)"
  shows "an_failed (ask_all want call ns) k = Some e \<longleftrightarrow> (\<exists>n \<in> set ns. want n \<and> nd_Name n = k \<and> call n = Inl e)"
  by (auto simp: ask_all_def fold_store_failed [OF distinct_map_filter [OF assms]] no_answers_def)

lemma ask_all_succ:
  assumes "distinct (map nd_Name ns)"
  shows "an_succ (ask_all want call ns) k = Some d \<longleftrightarrow> (\<exists>n \<in> set ns. want n \<and> nd_Name n = k \<and> call n = Inr d)"
  by (auto simp: ask_all_def fold_store_succ [OF distinct_map_filter [OF assms]] no_answers_def)

lemma ask_all_finite:
  assumes "distinct (map nd_Name ns)"
  shows "finite (dom (an_failed (ask_all want call ns)))" "finite (dom (an_succ (ask_all want call ns)))"
proof -
  have "dom (an_failed (ask_all want call ns)) \<subseteq> nd_Name ` set ns" "dom (an_succ (ask_all want call ns)) \<subseteq> nd_Name ` set ns"
    by (auto simp: ask_all_failed [OF assms] ask_all_succ [OF assms])
  then show "finite (dom (an_failed (ask_all want call ns)))" "finite (dom (an_succ (ask_all want call ns)))"
    by (simp_all add: finite_subset)
qed

lemma str_join_first: "x \<noteq> [] \<Longrightarrow> \<exists>t. str_join sep (x # xs) = hd x # t"
  by (cases xs; cases x) auto

lemma joined_not_succ:
  assumes "order_ok ctx" and "finite (dom m)" and "keys_of ctx m \<noteq> []"
  shows "joinFailedList ctx m \<noteq> ''Succ''"
proof -
  obtain k ks where keys: "keys_of ctx m = k # ks" using assms(3) by (cases "keys_of ctx m") auto
  with keys_of_map [OF assms(1,2)] obtain v where "m k = Some v" by (metis domD list.set_intros(1))
  then obtain x xs where "joinFailedList ctx m = str_join ''|'' ((''node: '' @ x) # xs)"
    by (simp add: joinFailedList_def keys map_filter_def)
  with str_join_first [of "''node: '' @ x" "''|''" xs] show ?thesis by auto
qed

lemma report_succ:
  assumes "order_ok ctx" and "finite (dom (an_failed a))"
  shows "report ctx a = Reply (RString 200 ''Succ'') \<longleftrightarrow> an_failed a = Map.empty"
proof -
  have "keys_of ctx (an_failed a) = [] \<longleftrightarrow> an_failed a = Map.empty" using keys_of_map [OF assms] by (metis dom_eq_empty_conv set_empty)
  then show ?thesis using joined_not_succ [OF assms] by (auto simp: report_def some_failed_def)
qed

lemma run_report: "run_plan ask (report ctx a) w = (w, r) \<longleftrightarrow> report ctx a = Reply r"
  by (auto simp: report_def)

text \<open>
  C10: \<open>Succ\<close> means that every node that was asked has accepted. When a handler asks the nodes of a
  target and reports, the caller reads \<open>Succ\<close> exactly when the target has a node and every one of
  them that this node is registered with has answered without an error. A node this one is not
  registered with is not asked, and does not count.
\<close>

theorem success_means_accepted:
  fixes w :: 'w
  assumes "order_ok ctx" and "finite (dom (known_nodes ctx))" and "named_table (known_nodes ctx)"
    and "ce_marshal env req = Inr reqData" and "reqFuncMap env reqType = Some reqFunc"
  shows "run_plan (ask_nodes env now localNode dial stub token) (ask_target ctx target reqType req (report ctx)) w = (w, RString 200 ''Succ'')
    \<longleftrightarrow> GetTargetNodes ctx target \<noteq> [] \<and>
      (\<forall>n \<in> set (GetTargetNodes ctx target). wanted now reqType n \<longrightarrow>
         (\<exists>d. request_node reqFunc reqData localNode token dial stub n = Inr d))"
proof -
  let ?ns = "GetTargetNodes ctx target" and ?call = "request_node reqFunc reqData localNode token dial stub"
  let ?a = "ask_all (wanted now reqType) ?call ?ns"
  have d: "distinct (map nd_Name ?ns)"
    by (rule GetTargetNodes_distinct [OF assms(1-3)])
  have "an_failed ?a = Map.empty \<longleftrightarrow> (\<forall>n \<in> set ?ns. wanted now reqType n \<longrightarrow> (\<exists>d. ?call n = Inr d))"
  proof -
    have "an_failed ?a = Map.empty \<longleftrightarrow> (\<forall>k e. an_failed ?a k \<noteq> Some e)" by (auto simp: fun_eq_iff)
    also have "\<dots> \<longleftrightarrow> (\<forall>n \<in> set ?ns. wanted now reqType n \<longrightarrow> (\<forall>e. ?call n \<noteq> Inl e))" by (auto simp: ask_all_failed [OF d])
    also have "\<dots> \<longleftrightarrow> (\<forall>n \<in> set ?ns. wanted now reqType n \<longrightarrow> (\<exists>d. ?call n = Inr d))" by (metis Inl_Inr_False obj_sumE)
    finally show ?thesis .
  qed
  then show ?thesis
    by (simp add: ask_target_def Let_def no_node_def ask_nodes_def ReqToMultiEndNodeServer_def assms(4,5) run_report
        report_succ [OF assms(1) ask_all_finite(1) [OF d]])
qed


definition demo_codec :: "node_req client_env" where
  "demo_codec = \<lparr>ce_marshal = (\<lambda>_. Inr []), ce_unmarshal = (\<lambda>_ _. Inr GetTagReq), ce_show = (\<lambda>_. ''''), ce_errorf = (\<lambda>s. s)\<rparr>"

definition willing :: "node \<Rightarrow> (node_req, int node_data) access" where
  "willing n = (\<lambda>m auth req token. Inr \<lparr>rp_Code = 0, rp_Msg = '''', rp_Payload = DTags []\<rparr>)"

lemma demo_target:
  "GetTargetNodes (demo_ctx [demo_peer ''b'']) ''b'' = [demo_peer ''b'']"
proof -
  have "keys_of (demo_ctx [demo_peer ''b'']) (known_nodes (demo_ctx [demo_peer ''b''])) = [''b'']"
    by (simp add: demo_known demo_peer_simps keys_of_def, simp add: demo_ctx_def some_order_def)
  moreover have "hc_now (demo_ctx nodes) = 120" for nodes by (simp add: demo_ctx_def)
  ultimately show ?thesis by (simp add: GetTargetNodes_filter demo_known demo_peer_simps demo_valid Let_def)
qed

theorem success_means_accepted_witness:
  "run_plan (ask_nodes demo_codec 120 (nd_Node (demo_peer ''a'')) (\<lambda>_. None) willing ''t'')
     (ask_target (demo_ctx [demo_peer ''b'']) ''b'' ClearUsersType (ClearUsersReq [''u'']) (report (demo_ctx [demo_peer ''b'']))) () =
   ((), RString 200 ''Succ'' :: (int, int) http_rsp)"
proof -
  have "ce_marshal demo_codec (ClearUsersReq [''u'']) = Inr []" by (simp add: demo_codec_def)
  then show ?thesis
    by (subst success_means_accepted [OF demo_order_ok demo_tables, where reqFunc = "ReqClearUsers demo_codec" and reqData = "[]"])
      (simp_all add: demo_target request_node_def ReqClearUsers_def send_req_def demo_codec_def willing_def process_code_def)
qed

text \<open>So a request for nodes this one is not registered with succeeds without being sent.\<close>

lemma success_without_request:
  assumes "order_ok ctx" and "GetTargetNodes ctx target \<noteq> []" and "\<And>n. n \<in> set (GetTargetNodes ctx target) \<Longrightarrow> \<not> wanted now reqType n"
  shows "run_plan (ask_nodes env now localNode dial stub token) (ask_target ctx target reqType req (report ctx)) w = (w, RString 200 ''Succ'')"
proof -
  have "filter (wanted now reqType) (GetTargetNodes ctx target) = []" using assms(3) by (simp add: filter_empty_conv)
  then have "fst (ReqToMultiEndNodeServer env now localNode dial stub (GetTargetNodes ctx target) reqType req token) = no_answers"
    by (simp add: ReqToMultiEndNodeServer_def ask_all_def split: sum.splits option.splits)
  then show ?thesis
    using assms(2) report_succ [OF assms(1), of no_answers]
    by (simp add: ask_target_def Let_def ask_nodes_def run_report, simp add: no_answers_def)
qed

lemma keys_of_empty: "order_ok ctx \<Longrightarrow> keys_of ctx (\<lambda>_. None) = []"
  unfolding order_ok_def keys_of_def by (drule spec [of _ "\<lambda>_. False"]) simp

text \<open>An unknown target is an error for most handlers, but an empty subscription for \<open>/sub\<close>.\<close>

lemma unknown_target_empty_subscription:
  assumes "order_ok ctx" and "GetTargetNodes ctx (par (SubHandler_parseParam ctx c) ''target'') = []"
    and "Query c ''user'' \<noteq> ''''" and "Query c ''pwd'' \<noteq> ''''" and "conv (to_lower (hr_UserAgent c)) [] = Inr txt0"
  shows "run_plan (ask_nodes env now localNode dial stub token) (SubHandler_handlerFunc conv ctx c) w = (w, RString 200 txt0)"
proof -
  have "fst (ReqToMultiEndNodeServer env now localNode dial stub [] GetSubReqType req token) = no_answers" for req
    by (simp add: ReqToMultiEndNodeServer_def ask_all_def split: sum.splits)
  then show ?thesis
    using assms(2-5) by (simp add: keys_of_empty [OF assms(1)] SubHandler_handlerFunc_def Let_def IsUserComplete_def SubHandler_parseParam_def ask_nodes_def no_answers_def)
qed

subsection \<open>Expiry\<close>

lemma uint_param_value: "map_of ps k = Some v \<Longrightarrow> parse_uint 64 v = Inr n \<Longrightarrow> uint_param ps k = Inr n"
  by (simp add: uint_param_def)

lemma parse_uint_range: "parse_uint bits v = Inr n \<Longrightarrow> 0 \<le> n \<and> n < 2 ^ bits"
  by (auto simp: parse_uint_def split: if_splits option.splits)

text \<open>A sum that leaves the signed range once.\<close>

lemma wrap64_once: "2 ^ 63 \<le> s \<Longrightarrow> s < 2 ^ 63 + 2 ^ 64 \<Longrightarrow> wrap64 s = s - 2 ^ 64"
proof -
  assume s: "2 ^ 63 \<le> s" "s < 2 ^ 63 + (2 :: int) ^ 64"
  have "s + 2 ^ 63 = (s - 2 ^ 63) + 2 ^ 64" by simp
  then have "(s + 2 ^ 63) mod 2 ^ 64 = (s - 2 ^ 63) mod 2 ^ 64" by (metis mod_add_self2)
  with s show ?thesis by (simp add: wrap64_def)
qed

text \<open>
  C26: the time of expiry a caller gives to \<open>/user\<close>. A time to live wins over a time of expiry. Both are
  unsigned 64-bit numbers that the program takes as signed ones, and the time to live is added to
  the present in this arithmetic: while the sum stays below \<open>2 ^ 63\<close> the user expires right after
  it; a sum from there up to \<open>2 ^ 64\<close> makes a user that never expires, and from a larger sum \<open>2 ^ 64\<close> is lost,
  which leaves a time before the present. Without a time to live the given time counts; none at all, or
  one of \<open>2 ^ 63\<close> or more, is a user that never expires.
\<close>

theorem expiry_of_request:
  assumes "map_of ps ''expire'' = Some es" and "parse_uint 64 es = Inr x" and "map_of ps ''ttl'' = Some ts" and "parse_uint 64 ts = Inr t"
    and "0 \<le> now" and "now \<le> max_int64"
  shows "\<exists>e. getExpireTime now ps = Inr e \<and>
    (\<forall>later u. us_ExpireTime u = e \<longrightarrow>
       (expired later u \<longleftrightarrow>
          (if t = 0 then 0 < x \<and> x < 2 ^ 63 \<and> x < later
           else if now + t < 2 ^ 63 then now + t < later
           else 2 ^ 64 < now + t \<and> now + t - 2 ^ 64 < later)))"
proof -
  have t: "0 \<le> t" "t < 2 ^ 64" and x: "0 \<le> x" "x < 2 ^ 64" using parse_uint_range [OF assms(4)] parse_uint_range [OF assms(2)] by auto
  have params: "uint_param ps ''expire'' = Inr x" "uint_param ps ''ttl'' = Inr t"
    by (rule uint_param_value [OF assms(1,2)], rule uint_param_value [OF assms(3,4)])
  have signed: "wrap64 s = (if s < 2 ^ 63 then s else s - 2 ^ 64)" if "0 \<le> s" "s < 2 ^ 63 + 2 ^ 64" for s
    using that wrap64_once [of s] by (simp add: wrap64_id in_int64_def)
  show ?thesis
  proof (cases "t = 0")
    case True
    with x signed [of x] show ?thesis by (auto simp: getExpireTime_def params expired_def)
  next
    case False
    have "i64_add now (wrap64 t) = wrap64 (now + t)"
      using wrap64_add_left [of t now] by (simp add: i64_add_def add.commute)
    moreover have "wrap64 (now + t) = (if now + t < 2 ^ 63 then now + t else now + t - 2 ^ 64)"
      using t assms(5,6) by (intro signed) (simp_all add: max_int64_def)
    ultimately show ?thesis using False t assms(5) by (auto simp: getExpireTime_def params expired_def)
  qed
qed

theorem expiry_of_request_witness:
  "\<exists>e. getExpireTime 1000 [(''expire'', ''7''), (''ttl'', ''3600'')] = Inr e \<and>
     \<not> expired 4600 ((named_user ''u'' [])\<lparr>us_ExpireTime := e\<rparr>) \<and> expired 4601 ((named_user ''u'' [])\<lparr>us_ExpireTime := e\<rparr>)"
proof -
  have p: "parse_uint 64 ''7'' = Inr 7" "parse_uint 64 ''3600'' = Inr 3600" by (simp_all add: parse_uint_def is_digit_def digit_val_def)
  have "\<exists>e. getExpireTime 1000 [(''expire'', ''7''), (''ttl'', ''3600'')] = Inr e \<and> (\<forall>later u. us_ExpireTime u = e \<longrightarrow>
       (expired later u \<longleftrightarrow> (if (3600 :: int) = 0 then 0 < (7 :: int) \<and> (7 :: int) < 2 ^ 63 \<and> 7 < later
         else if (1000 :: int) + 3600 < 2 ^ 63 then 1000 + 3600 < later
         else (2 :: int) ^ 64 < 1000 + 3600 \<and> 1000 + 3600 - 2 ^ 64 < later)))"
    by (rule expiry_of_request [OF _ p(1) _ p(2)]) (simp_all add: max_int64_def)
  then obtain e where e: "getExpireTime 1000 [(''expire'', ''7''), (''ttl'', ''3600'')] = Inr e"
    and x: "\<And>later u. us_ExpireTime u = e \<Longrightarrow> expired later u \<longleftrightarrow> 4600 < later"
    by auto
  have "us_ExpireTime ((named_user ''u'' [])\<lparr>us_ExpireTime := e\<rparr>) = e" by simp
  from e x [OF this] show ?thesis by auto
qed

subsection \<open>Sending a certificate to other nodes\<close>

lemma remove_loop_keeps:
  "(\<And>i. i \<in> set is \<Longrightarrow> nd_Name (arr ! i) \<noteq> name) \<Longrightarrow> remove_loop name is (arr, len) = Some (arr, len)"
  by (induction "is") (auto simp: remove_at_def)

lemma remove_loop_append:
  "remove_loop name (is @ js) s = (case remove_loop name is s of None \<Rightarrow> None | Some s' \<Rightarrow> remove_loop name js s')"
  by (induction "is" arbitrary: s) (auto split: option.splits)

text \<open>
  C30: the loop that takes a node out of the slice it ranges over removes exactly that node. For
  nodes with different names it does not panic, and what is left are the other nodes in their
  order, although the loop goes on over the array in which the rest was moved.
\<close>

theorem without_self_filter:
  assumes "distinct (map nd_Name nodes)"
  shows "without_self name nodes = Some (filter (\<lambda>n. nd_Name n \<noteq> name) nodes)"
proof (cases "name \<in> nd_Name ` set nodes")
  case False
  then have "remove_loop name [0..<length nodes] (nodes, length nodes) = Some (nodes, length nodes)"
    by (intro remove_loop_keeps) (auto simp: image_iff dest: nth_mem)
  moreover have "filter (\<lambda>n. nd_Name n \<noteq> name) nodes = nodes" using False by (auto simp: filter_id_conv image_iff)
  ultimately show ?thesis by (simp add: without_self_def)
next
  case True
  then obtain xs n ys where nodes: "nodes = xs @ n # ys" and n: "nd_Name n = name" by (auto dest: split_list)
  have others: "\<And>m. m \<in> set xs \<union> set ys \<Longrightarrow> nd_Name m \<noteq> name" using assms n by (auto simp: nodes image_iff)
  let ?i = "length xs" and ?arr = "xs @ ys @ drop (length ys) (n # ys)"
  have idx: "[0..<length nodes] = [0..<?i] @ ?i # [Suc ?i..<length nodes]"
    unfolding nodes length_append length_Cons by (subst upt_add_eq_append) (simp_all add: upt_conv_Cons del: upt_Suc)
  have before: "remove_loop name [0..<?i] (nodes, length nodes) = Some (nodes, length nodes)"
    by (rule remove_loop_keeps) (simp add: nodes nth_append others)
  have at: "remove_at name ?i (nodes, length nodes) = Some (?arr, length xs + length ys)"
    by (simp add: remove_at_def nodes n)
  have after: "remove_loop name [Suc ?i..<length nodes] (?arr, length xs + length ys) = Some (?arr, length xs + length ys)"
  proof (rule remove_loop_keeps)
    fix j
    assume j: "j \<in> set [Suc ?i..<length nodes]"
    then obtain z zs where ys: "ys = zs @ [z]" by (cases ys rule: rev_cases) (auto simp: nodes)
    have "?arr ! j \<in> set ys" using j by (auto simp: nodes nth_append ys)
    then show "nd_Name (?arr ! j) \<noteq> name" using others by blast
  qed
  have "remove_loop name [0..<length nodes] (nodes, length nodes) = Some (?arr, length xs + length ys)"
    by (simp add: idx remove_loop_append before at after)
  moreover have "filter (\<lambda>n. nd_Name n \<noteq> name) nodes = xs @ ys" using others n by (auto simp: nodes filter_id_conv)
  ultimately show ?thesis by (simp add: without_self_def)
qed

theorem without_self_filter_witness:
  "without_self ''a'' [demo_peer ''b'', demo_peer ''a'', demo_peer ''c''] = Some [demo_peer ''b'', demo_peer ''c'']"
  by (subst without_self_filter) (simp_all add: demo_peer_simps)

subsection \<open>Copying the users of a node\<close>

text \<open>What a plan asks, for given answers.\<close>

primrec asked :: "('w, 'g) asker \<Rightarrow> ('f, 'g) plan \<Rightarrow> 'w \<Rightarrow> (node list \<times> req_type \<times> node_req) list" where
  "asked ask (Reply r) w = []"
| "asked ask Panic w = []"
| "asked ask (Ask nodes reqType req k) w = (nodes, reqType, req) # (case ask nodes reqType req w of (w', a) \<Rightarrow> asked ask (k a) w')"


text \<open>
  A source that gives no list under its own name makes the handler panic: \<open>all\<close>, the empty name,
  and a node this one is not registered with.
\<close>

lemma copy_without_answer_panics:
  assumes "order_ok ctx" and "CopyUserBetweenNodesHandler_parseParam ctx c = ps" and "par ps ''srcNode'' \<noteq> par ps ''dstNode''"
    and "GetTargetNodes ctx (par ps ''srcNode'') \<noteq> []" and "GetTargetNodes ctx (par ps ''dstNode'') \<noteq> []"
    and "ask (GetTargetNodes ctx (par ps ''srcNode'')) GetUsersReqType GetUsersReq w = (w', a)"
    and "an_failed a = Map.empty" and "an_succ a (par ps ''srcNode'') = None"
  shows "run_plan ask (CopyUserBetweenNodesHandler_handlerFunc ctx c) w = (w', RString 500 '''')"
  using assms(2-8) by (simp add: CopyUserBetweenNodesHandler_handlerFunc_def Let_def some_failed_def keys_of_empty [OF assms(1)])

text \<open>
  Copying users between nodes sends the users of the source, unchanged but for tags and traffic,
  to the destination, and nothing else. When the source answers with its users, the plan asks
  exactly twice; the users sent have the names, passwords and times of expiry of those read, and no
  tags, so that the destination puts them into its default inbounds.
\<close>

theorem copy_users_sends_users:
  assumes "order_ok ctx" and "CopyUserBetweenNodesHandler_parseParam ctx c = ps" and "par ps ''srcNode'' \<noteq> par ps ''dstNode''"
    and "GetTargetNodes ctx (par ps ''srcNode'') = src" and "GetTargetNodes ctx (par ps ''dstNode'') = dst" and "src \<noteq> []" and "dst \<noteq> []"
    and "ask src GetUsersReqType GetUsersReq w = (w', a)" and "an_failed a = Map.empty"
    and "an_succ a (par ps ''srcNode'') = Some (Some (DUsers users))"
  shows "\<exists>sent. asked ask (CopyUserBetweenNodesHandler_handlerFunc ctx c) w = [(src, GetUsersReqType, GetUsersReq), (dst, AddUsersReqType, UserOpReq sent)] \<and>
    map (\<lambda>u. (us_Name u, us_Passwd u, us_ExpireTime u)) sent = map (\<lambda>u. (us_Name u, us_Passwd u, us_ExpireTime u)) users \<and>
    (\<forall>u \<in> set sent. us_Tags u = [] \<and> us_Downlink u = 0 \<and> us_Uplink u = 0)"
proof (intro exI [of _ "map bare_user users"] conjI)
  show "asked ask (CopyUserBetweenNodesHandler_handlerFunc ctx c) w =
      [(src, GetUsersReqType, GetUsersReq), (dst, AddUsersReqType, UserOpReq (map bare_user users))]"
    using assms(2-10)
    by (simp add: CopyUserBetweenNodesHandler_handlerFunc_def Let_def some_failed_def keys_of_empty [OF assms(1)] report_def split: prod.splits)
qed (auto simp: bare_user_def)

definition users_of_a :: "(unit, int) asker" where
  "users_of_a nodes reqType req w =
     (w, if reqType = GetUsersReqType
         then \<lparr>an_succ = [''a'' \<mapsto> Some (DUsers [(named_user ''u'' [''x''])\<lparr>us_Passwd := ''p''\<rparr>])], an_failed = Map.empty\<rparr> else no_answers)"

theorem copy_users_sends_users_witness:
  "\<exists>sent. asked users_of_a (CopyUserBetweenNodesHandler_handlerFunc (demo_ctx [demo_peer ''a'', demo_peer ''b''])
        (get_request ''/copyUserBetweenNodes'' ''src_node=a&dst_node=b'') :: (int, int) plan) () =
      [([demo_peer ''a''], GetUsersReqType, GetUsersReq), ([demo_peer ''b''], AddUsersReqType, UserOpReq sent)] \<and>
    map us_Passwd sent = [''p'']"
proof -
  let ?ctx = "demo_ctx [demo_peer ''a'', demo_peer ''b'']" and ?c = "get_request ''/copyUserBetweenNodes'' ''src_node=a&dst_node=b''"
  have "map_of (ParseQuery ''src_node=a&dst_node=b'') ''src_node'' = Some ''a''" "map_of (ParseQuery ''src_node=a&dst_node=b'') ''dst_node'' = Some ''b''"
    by code_simp+
  then have ps: "CopyUserBetweenNodesHandler_parseParam ?ctx ?c = [(''srcNode'', ''a''), (''dstNode'', ''b'')]"
    by (simp add: CopyUserBetweenNodesHandler_parseParam_def DefaultQuery_def get_request_def)
  have "\<exists>sent. asked users_of_a (CopyUserBetweenNodesHandler_handlerFunc ?ctx ?c :: (int, int) plan) () =
      [([demo_peer ''a''], GetUsersReqType, GetUsersReq), ([demo_peer ''b''], AddUsersReqType, UserOpReq sent)] \<and>
    map (\<lambda>u. (us_Name u, us_Passwd u, us_ExpireTime u)) sent =
      map (\<lambda>u. (us_Name u, us_Passwd u, us_ExpireTime u)) [(named_user ''u'' [''x''])\<lparr>us_Passwd := ''p''\<rparr>] \<and>
    (\<forall>u \<in> set sent. us_Tags u = [] \<and> us_Downlink u = 0 \<and> us_Uplink u = 0)"
    by (rule copy_users_sends_users [OF demo_order_ok ps, where a = "snd (users_of_a [] GetUsersReqType GetUsersReq ())"])
      (simp_all add: demo_single users_of_a_def)
  then show ?thesis by (force simp: named_user_def)
qed

subsection \<open>Subscriptions\<close>

lemma concat_opt_Some: "(\<And>x. x \<in> set xs \<Longrightarrow> f x = Some (g x)) \<Longrightarrow> concat_opt (map f xs) = Some (concat (map g xs))"
  by (induction xs) auto

lemma sorted_keys: "order_ok ctx \<Longrightarrow> finite (dom m) \<Longrightarrow> sort (keys_of ctx m) = sorted_list_of_set (dom m)"
  by (metis keys_of_map sorted_list_of_set_sort_remdups distinct_remdups_id)

text \<open>
  C28: a subscription holds the links of the nodes that answered, in the order of their names. The nodes of
  the target, by default this node, are asked for the links of the user with the name and password of the request, for
  the tags it lists, without the protocols it excludes, and with its choice about the server name. Whatever
  order the loops have and whichever nodes fail, the caller gets the conversion, for the client it
  says it is, of the links of one node after the other.
\<close>

theorem subscription_sorted:
  assumes "order_ok ctx" and "Query c ''user'' \<noteq> ''''" and "Query c ''pwd'' \<noteq> ''''"
    and "ask (GetTargetNodes ctx (DefaultQuery c ''target'' (hs_Name (hc_server ctx)))) GetSubReqType
      (GetSubReq \<lparr>us_Name = Query c ''user'', us_Passwd = Query c ''pwd'', us_ExpireTime = 0,
           us_Tags = comma_list (DefaultQuery c ''tags'' ''''), us_Downlink = 0, us_Uplink = 0\<rparr>
         (comma_list (DefaultQuery c ''exclude_protocols'' '''')) (DefaultQuery c ''use_sni'' ''true'' = ''true'')) w = (w', a)"
    and "finite (dom (an_succ a))"
    and "\<And>n. n \<in> dom (an_succ a) \<Longrightarrow> an_succ a n = Some (Some (DUris (links n)))"
    and "conv (to_lower (hr_UserAgent c)) (concat (map links (sorted_list_of_set (dom (an_succ a))))) = Inr uri"
  shows "run_plan ask (SubHandler_handlerFunc conv ctx c) w = (w', RString 200 uri)"
proof -
  have "concat_opt (map (\<lambda>n. uris_of (an_succ a n)) (sorted_list_of_set (dom (an_succ a)))) =
      Some (concat (map links (sorted_list_of_set (dom (an_succ a)))))"
    using assms(5,6) by (intro concat_opt_Some) (simp add: uris_of_def)
  then show ?thesis
    using assms(2,3,4,7)
    by (simp add: SubHandler_handlerFunc_def Let_def IsUserComplete_def SubHandler_parseParam_def sorted_keys [OF assms(1,5)])
qed

text \<open>Two nodes that have links for one user with its password, and for nobody else.\<close>

definition links_of_both :: "(unit, int) asker" where
  "links_of_both nodes reqType req w =
     (case req of
        GetSubReq u exclude sni \<Rightarrow>
          if us_Name u = ''u'' \<and> us_Passwd u = ''p'' \<and> sni
          then (w, \<lparr>an_succ = [''b'' \<mapsto> Some (DUris [''vless://b'']), ''a'' \<mapsto> Some (DUris [''vless://a''])], an_failed = [''c'' \<mapsto> ''refused'']\<rparr>)
          else (w, \<lparr>an_succ = Map.empty, an_failed = Map.empty\<rparr>)
      | _ \<Rightarrow> (w, \<lparr>an_succ = Map.empty, an_failed = Map.empty\<rparr>))"

theorem subscription_sorted_witness:
  "run_plan links_of_both (SubHandler_handlerFunc (\<lambda>_ uris. Inr (str_join newline uris)) (demo_ctx [])
      (get_request ''/sub'' ''user=u&pwd=p&target=all'') :: (int, int) plan) () = ((), RString 200 (''vless://a'' @ newline @ ''vless://b''))"
proof -
  let ?c = "get_request ''/sub'' ''user=u&pwd=p&target=all''" and ?links = "\<lambda>n. [''vless://'' @ n]"
  let ?a = "\<lparr>an_succ = [''b'' \<mapsto> Some (DUris [''vless://b'']), ''a'' \<mapsto> Some (DUris [''vless://a''])], an_failed = [''c'' \<mapsto> ''refused'']\<rparr> :: int node_data answers"
  have q: "Query ?c ''user'' \<noteq> ''''" "Query ?c ''pwd'' \<noteq> ''''" by code_simp+
  have user: "Query ?c ''user'' = ''u''" "Query ?c ''pwd'' = ''p''" "DefaultQuery ?c ''use_sni'' ''true'' = ''true''" by code_simp+
  have d: "dom (an_succ ?a) = {''a'', ''b''}" by auto
  have "sorted_list_of_set {''a'', ''b''} = [''a'', ''b'']" by code_simp
  then show ?thesis
    by (intro subscription_sorted [OF demo_order_ok q, where a = ?a and links = ?links])
      (auto simp: d links_of_both_def user)
qed

subsection \<open>Users of hysteria\<close>



end
