(* ===== verification/CliProps.thy ===== *)
theory CliProps
  imports CliClient HttpProps LinkProps
begin

text \<open>
  The command line client and the HTTP interface together: what the client puts into a query is what
  the handler reads, and a command becomes the request it stands for.
\<close>

subsection \<open>Queries\<close>

lemma QueryEscape_no [simp]:
  "CHR ''='' \<notin> set (QueryEscape s)" "CHR ''&'' \<notin> set (QueryEscape s)" "CHR '';'' \<notin> set (QueryEscape s)"
  using QueryEscape_chars [of _ s] by (force simp: unreserved_def)+

lemma unescape_query: "unescape True (QueryEscape s) = Some s"
  by (simp add: unescape_QueryEscape)

lemma ParseQuery_escaped: "ParseQuery (QueryEscape k @ ''='' @ QueryEscape v) = [(k, v)]"
proof -
  have "cut (CHR ''='') (QueryEscape k @ CHR ''='' # QueryEscape v) = (QueryEscape k, QueryEscape v)" by (rule cut_at) simp
  then show ?thesis
    by (simp add: ParseQuery_def split_on_no_sep map_filter_simps query_pair_def unescape_query)
qed

lemma ParseQuery_Encode: "ParseQuery (Values_Encode p) = sort_key fst p"
proof -
  have "concat (map ParseQuery (map (\<lambda>(k, v). QueryEscape k @ ''='' @ QueryEscape v) xs)) = xs" for xs
    by (induction xs) (auto simp: ParseQuery_escaped simp del: append_Cons append_Nil)
  then show ?thesis by (simp add: Values_Encode_def ParseQuery_str_join)
qed

lemma map_of_sort_key:
  assumes "distinct (map fst p)"
  shows "map_of (sort_key fst p) = map_of p"
proof -
  have "mset (sort_key fst p) = mset p" by simp
  then have "mset (map fst (sort_key fst p)) = mset (map fst p)" by (metis mset_map)
  then have "distinct (map fst (sort_key fst p))" using assms by (metis mset_eq_imp_distinct_iff)
  with assms show ?thesis by (intro map_of_inject_set [THEN iffD2]) simp_all
qed

text \<open>A handler finds the values the client put into a query.\<close>

lemma query_params:
  assumes "distinct (map fst params)" and "hr_RawQuery c = Values_Encode (map (\<lambda>(k, v). (k, show_val v)) params)"
  shows "DefaultQuery c k d = (case map_of params k of None \<Rightarrow> d | Some v \<Rightarrow> show_val v)"
    and "Query c k = (case map_of params k of None \<Rightarrow> '''' | Some v \<Rightarrow> show_val v)"
proof -
  let ?p = "map (\<lambda>(k, v). (k, show_val v)) params"
  have "distinct (map fst ?p)" using assms(1) by (simp add: comp_def case_prod_unfold)
  then have "ParseQuery (hr_RawQuery c) = sort_key fst ?p" "map_of (sort_key fst ?p) = map_of ?p"
    by (simp_all add: assms(2) ParseQuery_Encode map_of_sort_key)
  moreover have "map_of ?p k = map_option show_val (map_of params k)" by (simp add: map_of_map)
  ultimately show "DefaultQuery c k d = (case map_of params k of None \<Rightarrow> d | Some v \<Rightarrow> show_val v)"
    "Query c k = (case map_of params k of None \<Rightarrow> '''' | Some v \<Rightarrow> show_val v)"
    by (simp_all add: DefaultQuery_def Query_def split: option.splits)
qed

text \<open>
  C25: a request carries any values. Whatever bytes the keys and values of the client's parameters have,
  the query it sends is one in which a handler finds under each key the value given, printed, and
  its default for the others.
\<close>

theorem query_roundtrip:
  assumes "distinct (map fst params)" and "cw_base cw reqUrl = Inr base"
  shows "\<exists>q. DoGetRequest cw reqUrl params w = cw_get cw base q w \<and>
    (\<forall>c k d. hr_RawQuery c = q \<longrightarrow>
       DefaultQuery c k d = (case map_of params k of None \<Rightarrow> d | Some v \<Rightarrow> show_val v) \<and>
       Query c k = (case map_of params k of None \<Rightarrow> '''' | Some v \<Rightarrow> show_val v))"
  using query_params [OF assms(1)] by (intro exI conjI) (auto simp: DoGetRequest_def assms(2))

text \<open>A server that answers with the value of one key.\<close>

definition echo_world :: "unit cli_world" where
  "echo_world = \<lparr>cw_base = Inr, cw_get = (\<lambda>base q w. (w, Inr (Query (get_request base q) ''user''))), cw_nodes = (\<lambda>d. Inl ''''),
     cw_certs = (\<lambda>d. Inl ''''), cw_users = (\<lambda>d. Inl '''')\<rparr>"

theorem query_roundtrip_witness:
  "DoGetRequest echo_world ''/user'' [(''user'', VStr ''a&b=c d%''), (''ttl'', VInt 5)] () = ((), Inr ''a&b=c d%'')"
proof -
  have d: "distinct (map fst [(''user'', VStr ''a&b=c d%''), (''ttl'', VInt 5)])" by simp
  have b: "cw_base echo_world ''/user'' = Inr ''/user''" by (simp add: echo_world_def)
  from query_roundtrip [OF d b, of "()"] show ?thesis by (auto simp: echo_world_def get_request_def)
qed

subsection \<open>From a command to a request\<close>

text \<open>The request the server gets for parameters of the client.\<close>

definition cli_request :: "string \<Rightarrow> cli_params \<Rightarrow> http_req" where
  "cli_request path params = \<lparr>hr_Method = ''GET'', hr_Path = path,
     hr_RawQuery = Values_Encode (map (\<lambda>(k, v). (k, show_val v)) params), hr_UserAgent = ''Go-http-client/1.1'', hr_Body = ''''\<rparr>"

lemma cli_DefaultQuery:
  assumes "distinct (map fst params)"
  shows "DefaultQuery (cli_request path params) k d = (case map_of params k of None \<Rightarrow> d | Some v \<Rightarrow> show_val v)"
    and "Query (cli_request path params) k = (case map_of params k of None \<Rightarrow> '''' | Some v \<Rightarrow> show_val v)"
  by (rule query_params [OF assms], simp add: cli_request_def)+

lemma parse_uint_itoa: "0 \<le> i \<Longrightarrow> i < 2 ^ 64 \<Longrightarrow> parse_uint 64 (itoa i) = Inr i"
  by (simp add: parse_uint_def itoa_def digits_val_nat_digits nat_less_iff)

lemma parse_uint_negative: "i < 0 \<Longrightarrow> \<exists>e. parse_uint 64 (itoa i) = Inl e"
  by (simp add: parse_uint_def itoa_def is_digit_def)

definition add_user_params :: "string \<Rightarrow> string \<Rightarrow> string \<Rightarrow> string \<Rightarrow> string \<Rightarrow> int \<Rightarrow> int \<Rightarrow> cli_params" where
  "add_user_params token target userName password tags expire ttl =
     user_op_params token target 1
       [(''user'', VStr userName), (''pwd'', VStr password), (''expire'', VInt expire), (''ttl'', VInt ttl), (''tags'', VStr tags)]"

lemma add_user_params_list:
  "add_user_params token target userName password tags expire ttl =
     [(''token'', VStr token), (''target'', VStr target), (''type'', VInt 1), (''user'', VStr userName), (''pwd'', VStr password),
      (''expire'', VInt expire), (''ttl'', VInt ttl), (''tags'', VStr tags)]"
  by (simp add: add_user_params_def user_op_params_def put_def)

text \<open>The client's \<open>AddUser\<close> sends these parameters.\<close>

lemma cli_AddUser_request:
  "cw_base cw (host @ ''/user'') = Inr base \<Longrightarrow>
   cli_AddUser cw host token target userName password tags expire ttl w =
     cw_get cw base (hr_RawQuery (cli_request ''/user'' (add_user_params token target userName password tags expire ttl))) w"
  by (simp add: cli_AddUser_def userOp_def DoGetRequest_def add_user_params_def cli_request_def)

text \<open>
  C11: the command \<open>AddUser\<close> adds the user it names. The client makes one request, with a query that
  the server, given the token, a known target and times that fit, takes as one to the target's nodes
  to add a user with exactly the name, the password and the tags of the command; a time to live is counted
  from now, otherwise the time of expiry is the one given. The command returns the answer to this request.
\<close>

theorem add_user_command:
  assumes "cw_base cw (host @ ''/user'') = Inr base"
    and "hs_routes (hc_server ctx) = hs_routes (RegisterPrometheus (http_init s))" and "hs_token (hc_server ctx) = token"
    and "GetTargetNodes ctx target = nodes" and "nodes \<noteq> []"
    and "0 \<le> expire" and "expire \<le> max_int64" and "0 \<le> ttl" and "ttl \<le> max_int64"
  shows "\<exists>q. cli_AddUser cw host token target userName password tags expire ttl w = cw_get cw base q w \<and>
    (\<forall>c. hr_Method c = ''GET'' \<longrightarrow> hr_Path c = ''/user'' \<longrightarrow> hr_RawQuery c = q \<longrightarrow>
      http_serve e ctx c =
        Ask nodes AddUsersReqType (UserOpReq [\<lparr>us_Name = userName, us_Passwd = password,
          us_ExpireTime = (if ttl = 0 then expire else i64_add (hc_now ctx) ttl), us_Tags = comma_list tags, us_Downlink = 0, us_Uplink = 0\<rparr>])
          (report ctx))"
proof (intro exI conjI allI impI)
  let ?ps = "add_user_params token target userName password tags expire ttl"
  show "cli_AddUser cw host token target userName password tags expire ttl w =
      cw_get cw base (Values_Encode (map (\<lambda>(k, v). (k, show_val v)) ?ps)) w"
    using cli_AddUser_request [OF assms(1)] by (simp add: cli_request_def)
  fix c :: http_req
  assume c: "hr_Method c = ''GET''" "hr_Path c = ''/user''" "hr_RawQuery c = Values_Encode (map (\<lambda>(k, v). (k, show_val v)) ?ps)"
  have d: "distinct (map fst ?ps)" by (simp add: add_user_params_list)
  note q = query_params [OF d c(3)]
  have params: "UserHandler_parseParam ctx c =
      [(''user'', userName), (''pwd'', password), (''type'', itoa 1), (''target'', target), (''tags'', tags), (''ttl'', itoa ttl), (''expire'', itoa expire)]"
    by (simp add: UserHandler_parseParam_def q, simp add: add_user_params_list)
  have one: "itoa 1 = ''1''" by code_simp
  have tok: "DefaultQuery c ''token'' '''' = token" by (simp add: q, simp add: add_user_params_list)
  have nums: "parse_uint 64 (itoa expire) = Inr expire" "parse_uint 64 (itoa ttl) = Inr ttl"
    using assms(6-9) by (auto intro!: parse_uint_itoa simp: max_int64_def)
  have "getExpireTime (hc_now ctx) (UserHandler_parseParam ctx c) = Inr (if ttl = 0 then expire else i64_add (hc_now ctx) ttl)"
    using assms(6-9) by (simp add: getExpireTime_def uint_param_def params nums wrap64_id in_int64_def max_int64_def)
  then have "handle e ctx c UserHandler = Ask nodes AddUsersReqType (UserOpReq [\<lparr>us_Name = userName, us_Passwd = password,
      us_ExpireTime = (if ttl = 0 then expire else i64_add (hc_now ctx) ttl), us_Tags = comma_list tags, us_Downlink = 0, us_Uplink = 0\<rparr>])
      (report ctx)"
    using assms(4,5) by (simp add: UserHandler_handlerFunc_def Let_def params one userOpMap_def)
  moreover have "http_serve e ctx c = getAuthHandlerFunc (hc_server ctx) c (handle e ctx c UserHandler)"
    using c(1,2) by (simp add: http_serve_def assms(2) http_routes path_matches_plain path_matches_help)
  ultimately show "http_serve e ctx c =
        Ask nodes AddUsersReqType (UserOpReq [\<lparr>us_Name = userName, us_Passwd = password,
          us_ExpireTime = (if ttl = 0 then expire else i64_add (hc_now ctx) ttl), us_Tags = comma_list tags, us_Downlink = 0, us_Uplink = 0\<rparr>])
          (report ctx)" by (simp add: getAuthHandlerFunc_def tok assms(3))
qed

text \<open>A client whose requests reach a server that names the user it is asked to add.\<close>

definition asked_user :: "(int, int) plan \<Rightarrow> string" where
  "asked_user p = (case p of Ask nodes t (UserOpReq [u]) f \<Rightarrow> us_Name u @ '':'' @ us_Passwd u | _ \<Rightarrow> '''')"

definition served_world :: "http_ctx \<Rightarrow> unit cli_world" where
  "served_world ctx = echo_world\<lparr>cw_get := (\<lambda>base q w. (w, Inr (asked_user (http_serve demo_http_env ctx (get_request ''/user'' q)))))\<rparr>"

theorem add_user_command_witness:
  "cli_AddUser (served_world (demo_ctx [demo_peer ''b''])) ''h'' ''secret'' ''b'' ''bob'' ''p'' ''x,,y'' 7 0 () = ((), Inr ''bob:p'')"
proof -
  let ?ctx = "demo_ctx [demo_peer ''b'']"
  have base: "cw_base (served_world ?ctx) (''h'' @ ''/user'') = Inr ''h/user''" by (simp add: served_world_def echo_world_def)
  have server: "hs_routes (hc_server ?ctx) = hs_routes (RegisterPrometheus (http_init demo_server))" "hs_token (hc_server ?ctx) = ''secret''"
    by (simp_all add: demo_ctx_def demo_server_def route_simps)
  obtain q where "cli_AddUser (served_world ?ctx) ''h'' ''secret'' ''b'' ''bob'' ''p'' ''x,,y'' 7 0 () = cw_get (served_world ?ctx) ''h/user'' q ()"
    and "http_serve demo_http_env ?ctx (get_request ''/user'' q) =
      Ask [demo_peer ''b''] AddUsersReqType (UserOpReq [\<lparr>us_Name = ''bob'', us_Passwd = ''p'', us_ExpireTime = 7, us_Tags = comma_list ''x,,y'',
      us_Downlink = 0, us_Uplink = 0\<rparr>]) (report ?ctx)"
    using add_user_command [OF base server demo_target, where e = demo_http_env and userName = "''bob''" and password = "''p''"
        and tags = "''x,,y''" and expire = 7 and ttl = 0 and w = "()"]
    by (auto simp: max_int64_def get_request_def)
  then show ?thesis by (simp add: served_world_def asked_user_def)
qed

text \<open>A time of expiry below zero is refused, and the refusal is not an error of the command.\<close>

lemma add_user_negative_expiry:
  assumes "expire < 0"
  shows "\<exists>msg. UserHandler_handlerFunc ctx (cli_request ''/user'' (add_user_params token target userName password tags expire ttl)) =
    Reply (RString 200 (''illegal expire time > invalid expire param > '' @ msg))"
proof -
  let ?ps = "add_user_params token target userName password tags expire ttl" and ?c = "cli_request ''/user''"
  have d: "distinct (map fst ?ps)" by (simp add: add_user_params_list)
  have "map_of (UserHandler_parseParam ctx (?c ?ps)) ''expire'' = Some (itoa expire)"
    by (simp add: UserHandler_parseParam_def cli_DefaultQuery [OF d], simp add: add_user_params_list)
  moreover obtain m where "parse_uint 64 (itoa expire) = Inl m" using parse_uint_negative [OF assms] by blast
  ultimately show ?thesis by (simp add: UserHandler_handlerFunc_def Let_def getExpireTime_def uint_param_def)
qed

text \<open>
  Adding all users of a node to an inbound without naming the node adds nobody: the answer is
  looked up under the empty name, the server has put it under its own.
\<close>

lemma add_all_users_unnamed_target:
  assumes "ListUser (ce_world ce) (cs_Host s) (cs_Token s) target (cs_world s) = (w, Inr result)" and "result target = None"
  shows "addAllUserToInbound ce target inboundTag s = Done (s\<lparr>cs_world := w\<rparr>) ([], None)"
  by (simp add: addAllUserToInbound_def assms)

text \<open>After a failed listing at the start, listing users panics.\<close>

lemma list_users_after_failed_start:
  assumes "ListUser (ce_world ce) (cs_Host s) (cs_Token s) ''all'' (cs_world s) = (w, Inl err)"
    and "ListUser (ce_world ce) (cs_Host s) (cs_Token s) target w = (w', Inr result)" and "cli_keys ce result \<noteq> []"
  shows "listUser ce target (updateLocalUserList ce s) = Panicked ((updateLocalUserList ce s)\<lparr>cs_world := w'\<rparr>)"
  using assms by (simp add: listUser_def updateLocalUserList_def Let_def)

end
