(* ===== verification/ClashTemplate.thy ===== *)
theory ClashTemplate
  imports Converter
begin

text \<open>
  Putting the proxies of a subscription into a clash configuration (\<open>ClashConverter.Convert\<close>,
  \<open>addToProxyGroup\<close> and \<open>getTemplate\<close> of \<open>proxy/sub/converter/clash_converter.go\<close>). YAML and the HTTP client are
  the record \<open>yaml_ops\<close> over an abstract type of nodes.
\<close>

record proxy_group =
  pg_Name :: string
  pg_Type :: string
  pg_Proxies :: "string list"

record 'n yaml_ops =
  yo_Content :: "'n \<Rightarrow> 'n list"
  yo_with_Content :: "'n list \<Rightarrow> 'n \<Rightarrow> 'n"
  yo_proxies :: "clash_proxy list \<Rightarrow> 'n result" \<comment> \<open>written and read as a node, without the document around it\<close>
  yo_group :: "'n \<Rightarrow> proxy_group result"
  yo_group_node :: "proxy_group \<Rightarrow> 'n result"
  yo_parse :: "string \<Rightarrow> (string \<rightharpoonup> 'n) result"
  yo_print :: "(string \<rightharpoonup> 'n) \<Rightarrow> string result"
  yo_httpGet :: "string \<Rightarrow> string result"

definition proxiesKey :: string where "proxiesKey = ''proxies''"
definition proxyGroupsKey :: string where "proxyGroupsKey = ''proxy-groups''"

definition subConverterMap :: "string list" where
  "subConverterMap =
     [''https://sub.xeton.dev/sub?target=clash&new_name=true&url=%20&insert=true&emoji=true'',
      ''https://api.dler.io/sub?target=clash&new_name=true&url=%20&insert=true&emoji=true'',
      ''https://sub.maoxiongnet.com/sub?target=clash&new_name=true&url=%20&insert=true&emoji=true'',
      ''https://sub.id9.cc/sub?target=clash&new_name=true&url=%20&insert=false&emoji=true'']"

fun template_loop :: "'n yaml_ops \<Rightarrow> string list \<Rightarrow> string \<Rightarrow> (string \<rightharpoonup> 'n) result" where
  "template_loop y [] errMsg = Inl errMsg"
| "template_loop y (v # vs) errMsg =
     (case yo_httpGet y v of
        Inl err \<Rightarrow> template_loop y vs (errMsg @ ''|'' @ err)
      | Inr data \<Rightarrow>
          (case yo_parse y data of
             Inl err \<Rightarrow> template_loop y vs (errMsg @ ''|'' @ err)
           | Inr nodeMap \<Rightarrow> Inr nodeMap))"

definition getTemplate :: "'n yaml_ops \<Rightarrow> (string \<rightharpoonup> 'n) result" where
  "getTemplate y = template_loop y subConverterMap ''''"

text \<open>The last group of the name, or the first group.\<close>

definition target_index :: "'n yaml_ops \<Rightarrow> string \<Rightarrow> 'n list \<Rightarrow> nat" where
  "target_index y groupName content =
     fold (\<lambda>i target. case yo_group y (content ! i) of Inr g \<Rightarrow> if pg_Name g = groupName then i else target | Inl _ \<Rightarrow> target)
       [0..<length content] 0"

text \<open>\<open>None\<close> is the panic for an empty list of groups.\<close>

definition addToProxyGroup :: "'n yaml_ops \<Rightarrow> (string \<rightharpoonup> 'n) \<Rightarrow> string \<Rightarrow> clash_proxy list \<Rightarrow> (string \<rightharpoonup> 'n) option" where
  "addToProxyGroup y nodeMap groupName clashProxies =
     (case nodeMap proxyGroupsKey of
        None \<Rightarrow> Some nodeMap
      | Some proxyGroups \<Rightarrow>
          (let content = yo_Content y proxyGroups; i = target_index y groupName content
           in if content = [] then None
              else case yo_group y (content ! i) of
                Inl _ \<Rightarrow> Some nodeMap
              | Inr g \<Rightarrow>
                  (case yo_group_node y (g\<lparr>pg_Proxies := pg_Proxies g @ map cp_Name clashProxies\<rparr>) of
                     Inl _ \<Rightarrow> Some nodeMap
                   | Inr n \<Rightarrow> Some (nodeMap(proxyGroupsKey \<mapsto> yo_with_Content y (content[i := n]) proxyGroups)))))"

text \<open>A template without proxies gives the empty text and no error: the error returned there is nil.\<close>

definition Clash_Convert :: "'n yaml_ops \<Rightarrow> clash_proxy list \<Rightarrow> string result option" where
  "Clash_Convert y clashProxies =
     (case yo_proxies y clashProxies of
        Inl err \<Rightarrow> Some (Inl err)
      | Inr proxyNode \<Rightarrow>
          (case getTemplate y of
             Inl err \<Rightarrow> Some (Inl err)
           | Inr nodeMap \<Rightarrow>
               if nodeMap proxiesKey = None then Some (Inr '''')
               else (case addToProxyGroup y (nodeMap(proxiesKey \<mapsto> proxyNode)) '''' clashProxies of
                       None \<Rightarrow> None
                     | Some nodeMap' \<Rightarrow> Some (yo_print y nodeMap'))))"

subsection \<open>What is rendered\<close>

lemma target_index_bound:
  assumes "content \<noteq> []"
  shows "target_index y groupName content < length content"
proof -
  have step: "fold (\<lambda>i target. case yo_group y (content ! i) of Inr g \<Rightarrow> if pg_Name g = groupName then i else target | Inl _ \<Rightarrow> target) is t
      < length content"
    if "\<And>i. i \<in> set is \<Longrightarrow> i < length content" "t < length content" for "is" t
    using that
    by (induction "is" arbitrary: t) (auto split: sum.splits)
  show ?thesis unfolding target_index_def by (rule step) (use assms in auto)
qed

text \<open>
  A clash configuration that is made from a template differs from it in two places: its proxies are
  those of the subscription, and one group lists their names after its own. Of this group only the
  name, the type and the proxies are left.
\<close>

lemma clash_configuration:
  assumes "Clash_Convert y ps = Some (Inr out)" and "getTemplate y = Inr t" and "t proxiesKey = Some old"
    and "t proxyGroupsKey = Some groups" and "yo_Content y groups \<noteq> []"
    and "\<And>n. \<exists>g. yo_group y n = Inr g" and "\<And>g. \<exists>n. yo_group_node y g = Inr n"
  shows "\<exists>proxies i g n. yo_proxies y ps = Inr proxies \<and> i < length (yo_Content y groups) \<and> yo_group y (yo_Content y groups ! i) = Inr g \<and>
    yo_group_node y (g\<lparr>pg_Proxies := pg_Proxies g @ map cp_Name ps\<rparr>) = Inr n \<and>
    yo_print y (t(proxiesKey \<mapsto> proxies, proxyGroupsKey \<mapsto> yo_with_Content y ((yo_Content y groups)[i := n]) groups)) = Inr out"
proof -
  let ?i = "target_index y '''' (yo_Content y groups)"
  obtain proxies where p: "yo_proxies y ps = Inr proxies" using assms(1) by (auto simp: Clash_Convert_def split: sum.splits)
  obtain g where g: "yo_group y (yo_Content y groups ! ?i) = Inr g" using assms(6) by blast
  obtain n where n: "yo_group_node y (g\<lparr>pg_Proxies := pg_Proxies g @ map cp_Name ps\<rparr>) = Inr n" using assms(7) by blast
  have keys: "proxyGroupsKey \<noteq> proxiesKey" by (simp add: proxyGroupsKey_def proxiesKey_def)
  have "yo_print y (t(proxiesKey \<mapsto> proxies, proxyGroupsKey \<mapsto> yo_with_Content y ((yo_Content y groups)[?i := n]) groups)) = Inr out"
    using assms(1-5) p g n keys by (simp add: Clash_Convert_def addToProxyGroup_def Let_def)
  with p g n target_index_bound [OF assms(5)] show ?thesis by blast
qed

text \<open>The empty subscription that is no error.\<close>

lemma template_without_proxies:
  assumes "yo_proxies y ps = Inr n" and "getTemplate y = Inr t" and "t proxiesKey = None"
  shows "Clash_Convert y ps = Some (Inr '''')"
  using assms by (simp add: Clash_Convert_def)

text \<open>A template with an empty list of groups panics.\<close>

lemma template_without_groups:
  assumes "yo_proxies y ps = Inr n" and "getTemplate y = Inr t" and "t proxiesKey = Some old" and "t proxyGroupsKey = Some groups"
    and "yo_Content y groups = []"
  shows "Clash_Convert y ps = None"
  using assms by (simp add: Clash_Convert_def addToProxyGroup_def proxyGroupsKey_def proxiesKey_def Let_def)

end
