(* ===== verification/ProxyProcess.thy ===== *)
theory ProxyProcess
  imports NodeHandlers
begin

text \<open>
  The proxy processes of a node: downloading, starting, stopping and updating them
  (\<open>proxy/manager/proxy_server.go\<close>, \<open>version_xray.go\<close>), the operations of the proxy manager on both
  processes and on their initial configuration files (\<open>proxy/manager/proxy_manager.go\<close>), and the
  requests \<open>UpdateProxy\<close> and \<open>SetGatewayModel\<close>. The files of the host are a map from paths to contents;
  the record \<open>host_env\<close> holds what the host and GitHub answer. A process that was started lives until it is
  stopped. Writing to an open file does not fail.
\<close>

subsection \<open>Releases\<close>

record github_info =
  gi_Repo :: string
  gi_Owner :: string
  gi_ReleaseFileName :: string
  gi_FileName :: string

definition softwareGithubInfoMap :: "string \<Rightarrow> github_info option" where
  "softwareGithubInfoMap n =
     (if n = ''xray'' then Some \<lparr>gi_Repo = ''Xray-core'', gi_Owner = ''XTLS'', gi_ReleaseFileName = ''Xray-linux-64.zip'', gi_FileName = ''xray''\<rparr>
      else if n = ''hysteria'' then Some \<lparr>gi_Repo = ''hysteria'', gi_Owner = ''apernet'', gi_ReleaseFileName = ''hysteria-linux-amd64'',
        gi_FileName = ''hysteria-linux-amd64''\<rparr>
      else None)"

text \<open>The match of \<open>^Xray (\d+\.\d+\.\d+)\<close>.\<close>

definition version_of :: "string \<Rightarrow> string option" where
  "version_of out =
     (let p = ''Xray ''; s = drop (length p) out;
          a = takeWhile is_digit s; s1 = drop (length a) s;
          b = takeWhile is_digit (tl s1); s2 = drop (length b) (tl s1);
          c = takeWhile is_digit (tl s2)
      in if has_prefix p out \<and> a \<noteq> [] \<and> has_prefix ''.'' s1 \<and> b \<noteq> [] \<and> has_prefix ''.'' s2 \<and> c \<noteq> []
         then Some (a @ ''.'' @ b @ ''.'' @ c) else None)"

record host_env =
  ho_release :: "string \<Rightarrow> string \<Rightarrow> string \<Rightarrow> (string \<times> string) list result" \<comment> \<open>the assets of a release\<close>
  ho_latest :: "string \<Rightarrow> string \<Rightarrow> (string \<times> string) list result"
  ho_fetch :: "string \<Rightarrow> string result"
  ho_unzip :: "string \<Rightarrow> (string \<times> string) list result" \<comment> \<open>the entries of an archive\<close>
  ho_create :: "string \<Rightarrow> gerror option"
  ho_rename :: "string \<Rightarrow> string \<Rightarrow> gerror option"
  ho_missing :: "string \<Rightarrow> gerror"
  ho_exec :: "string \<Rightarrow> string list \<Rightarrow> gerror option" \<comment> \<open>starting an executable, by its content\<close>
  ho_output :: "string \<Rightarrow> string \<Rightarrow> string result" \<comment> \<open>the buffer holding its first output, for a configuration\<close>

type_synonym files = "string \<rightharpoonup> string"

definition tempShuffix :: string where "tempShuffix = ''.tmp''"
definition latestTagName :: string where "latestTagName = ''latest''"
definition execPath :: string where "execPath = ''./''"

definition getReleaseByTagName :: "host_env \<Rightarrow> string \<Rightarrow> string \<Rightarrow> string \<Rightarrow> (string \<times> string) list result" where
  "getReleaseByTagName e tag owner repo = (if tag \<noteq> latestTagName then ho_release e owner repo tag else ho_latest e owner repo)"

definition getDownloadUrl :: "(string \<times> string) list \<Rightarrow> string \<Rightarrow> string result" where
  "getDownloadUrl assets releaseFileName =
     (case map_of assets releaseFileName of
        Some u \<Rightarrow> Inr u | None \<Rightarrow> Inl (''not found release file: '' @ releaseFileName))"

definition Download :: "host_env \<Rightarrow> string \<Rightarrow> string \<Rightarrow> bool \<Rightarrow> files \<Rightarrow> files \<times> (string \<times> string) list result" where
  "Download e url0 fileName useUnzip fs =
     (case ho_fetch e url0 of
        Inl err \<Rightarrow> (fs, Inl err)
      | Inr data \<Rightarrow>
          if useUnzip then (fs, ho_unzip e data)
          else (case ho_create e (fileName @ tempShuffix) of
                  Some err \<Rightarrow> (fs, Inl err)
                | None \<Rightarrow> (fs(fileName @ tempShuffix \<mapsto> data), Inr [])))"

definition Unzip :: "host_env \<Rightarrow> (string \<times> string) list \<Rightarrow> string \<Rightarrow> files \<Rightarrow> files \<times> gerror option" where
  "Unzip e entries fileName fs =
     (case map_of entries fileName of
        None \<Rightarrow> (fs, Some (''not found file: '' @ fileName @ '' in zip file''))
      | Some data \<Rightarrow>
          (case ho_create e (fileName @ tempShuffix) of
             Some err \<Rightarrow> (fs, Some err) | None \<Rightarrow> (fs(fileName @ tempShuffix \<mapsto> data), None)))"

definition SwitchExec :: "host_env \<Rightarrow> string \<Rightarrow> string \<Rightarrow> files \<Rightarrow> files \<times> gerror option" where
  "SwitchExec e src dst fs =
     (case fs src of
        None \<Rightarrow> (fs, Some (ho_missing e src))
      | Some data \<Rightarrow>
          (case ho_rename e src dst of Some err \<Rightarrow> (fs, Some err) | None \<Rightarrow> ((fs(src := None))(dst \<mapsto> data), None)))"

subsection \<open>A process\<close>

text \<open>\<open>ps_alive\<close> is the content of the executable the live process runs.\<close>

record proxy_server =
  ps_configFile :: string
  ps_path :: string
  ps_isRunning :: bool
  ps_currentVersion :: string
  ps_expectVersion :: string
  ps_softwareName :: string
  ps_softwareGithubInfo :: "github_info option"
  ps_alive :: "string option"

definition NewProxyServer :: "string \<Rightarrow> string \<Rightarrow> string \<Rightarrow> proxy_server" where
  "NewProxyServer file version softwareName =
     \<lparr>ps_configFile = file, ps_path = '''', ps_isRunning = False, ps_currentVersion = '''', ps_expectVersion = version,
      ps_softwareName = softwareName, ps_softwareGithubInfo = softwareGithubInfoMap softwareName, ps_alive = None\<rparr>"

definition release_tag :: "string \<Rightarrow> string" where
  "release_tag tag0 =
     (let tag = (if tag0 = '''' then latestTagName else tag0)
      in if hd tag \<noteq> CHR ''v'' \<and> tag \<noteq> latestTagName then ''v'' @ tag else tag)"

definition UpdateByTagName :: "host_env \<Rightarrow> string \<Rightarrow> github_info \<Rightarrow> files \<Rightarrow> files \<times> gerror option" where
  "UpdateByTagName e tag gi fs =
     (let n = gi_ReleaseFileName gi;
          ends = (\<lambda>suf. length suf \<le> length n \<and> drop (length n - length suf) n = suf);
          useUnzip = (ends ''tar.gz'' \<or> ends ''.zip'')
      in case getReleaseByTagName e (release_tag tag) (gi_Owner gi) (gi_Repo gi) of
           Inl err \<Rightarrow> (fs, Some err)
         | Inr assets \<Rightarrow>
             (case getDownloadUrl assets n of
                Inl err \<Rightarrow> (fs, Some err)
              | Inr u \<Rightarrow>
                  (case Download e u (gi_FileName gi) useUnzip fs of
                     (fs1, Inl err) \<Rightarrow> (fs1, Some err)
                   | (fs1, Inr entries) \<Rightarrow> if useUnzip then Unzip e entries (gi_FileName gi) fs1 else (fs1, None))))"

definition initExecFile :: "host_env \<Rightarrow> proxy_server \<Rightarrow> files \<Rightarrow> proxy_server \<times> files \<times> gerror option" where
  "initExecFile e s fs =
     (if ps_path s \<noteq> '''' \<and> fs (ps_path s) \<noteq> None then (s, fs, None)
      else case ps_softwareGithubInfo s of
        None \<Rightarrow> (s, fs, Some (''softname['' @ ps_softwareName s @ ''] is wrong''))
      | Some gi \<Rightarrow>
          (let s1 = s\<lparr>ps_path := execPath @ gi_FileName gi\<rparr>
           in case UpdateByTagName e (ps_expectVersion s1) gi fs of
                (fs1, Some err) \<Rightarrow> (s1, fs1, Some err)
              | (fs1, None) \<Rightarrow> (case SwitchExec e (gi_FileName gi @ tempShuffix) (ps_path s1) fs1 of (fs2, r) \<Rightarrow> (s1, fs2, r))))"

definition UpdateCurrentVersion :: "string result \<Rightarrow> proxy_server \<Rightarrow> proxy_server \<times> gerror option" where
  "UpdateCurrentVersion out s =
     (case out of
        Inl err \<Rightarrow> (s, Some err)
      | Inr text \<Rightarrow>
          (case version_of text of
             None \<Rightarrow> (s, Some (''can not get current version > '' @ text))
           | Some v \<Rightarrow> (s\<lparr>ps_currentVersion := v\<rparr>, None)))"

text \<open>The executable is there after \<open>initExecFile\<close> succeeded.\<close>

definition Proxy_Start :: "host_env \<Rightarrow> proxy_server \<Rightarrow> files \<Rightarrow> proxy_server \<times> files \<times> gerror option" where
  "Proxy_Start e s fs =
     (if ps_isRunning s then (s, fs, None)
      else case initExecFile e s fs of
        (s1, fs1, Some err) \<Rightarrow> (s1, fs1, Some err)
      | (s1, fs1, None) \<Rightarrow>
          (case fs1 (ps_path s1) of
             None \<Rightarrow> (s1, fs1, Some (ho_missing e (ps_path s1)))
           | Some bin \<Rightarrow>
               if ps_softwareName s1 = ''hysteria''
               then (case ho_exec e bin [''server'', ''-c'', ps_configFile s1] of
                       Some err \<Rightarrow> (s1, fs1, Some err)
                     | None \<Rightarrow> (s1\<lparr>ps_isRunning := True, ps_alive := Some bin\<rparr>, fs1, None))
               else (case fs1 (ps_configFile s1) of
                       None \<Rightarrow> (s1, fs1, Some (ho_missing e (ps_configFile s1)))
                     | Some cfg \<Rightarrow>
                         (case ho_exec e bin [''run''] of
                            Some err \<Rightarrow> (s1, fs1, Some err)
                          | None \<Rightarrow>
                              (case UpdateCurrentVersion (ho_output e bin cfg) s1 of
                                 (s2, Some err) \<Rightarrow> (s2, fs1, Some err)
                               | (s2, None) \<Rightarrow> (s2\<lparr>ps_isRunning := True, ps_alive := Some bin\<rparr>, fs1, None))))))"

definition Proxy_Stop :: "proxy_server \<Rightarrow> proxy_server" where
  "Proxy_Stop s = (if ps_isRunning s then s\<lparr>ps_isRunning := False, ps_alive := None\<rparr> else s)"

text \<open>Updating a server of unknown software dereferences nil.\<close>

definition Proxy_Update :: "host_env \<Rightarrow> string \<Rightarrow> proxy_server \<Rightarrow> files \<Rightarrow> (proxy_server \<times> files, gerror option) outcome" where
  "Proxy_Update e tag s fs =
     (case ps_softwareGithubInfo s of
        None \<Rightarrow> Panicked (s, fs)
      | Some gi \<Rightarrow>
          (case UpdateByTagName e tag gi fs of
             (fs1, Some err) \<Rightarrow> Done (s, fs1) (Some err)
           | (fs1, None) \<Rightarrow>
               (let s1 = Proxy_Stop s
                in case SwitchExec e (gi_FileName gi @ tempShuffix) (ps_path s1) fs1 of
                     (fs2, Some err) \<Rightarrow> Done (s1, fs2) (Some err)
                   | (fs2, None) \<Rightarrow> (case Proxy_Start e s1 fs2 of (s2, fs3, r) \<Rightarrow> Done (s2, fs3) r))))"

subsection \<open>Both processes\<close>

record processes =
  pp_proxyServer :: proxy_server
  pp_hysteriaServer :: proxy_server
  pp_files :: files

definition start_proxy :: "host_env \<Rightarrow> processes \<Rightarrow> processes \<times> gerror option" where
  "start_proxy e p = (case Proxy_Start e (pp_proxyServer p) (pp_files p) of (s, fs, r) \<Rightarrow> (p\<lparr>pp_proxyServer := s, pp_files := fs\<rparr>, r))"

definition start_hysteria :: "host_env \<Rightarrow> processes \<Rightarrow> processes \<times> gerror option" where
  "start_hysteria e p = (case Proxy_Start e (pp_hysteriaServer p) (pp_files p) of (s, fs, r) \<Rightarrow> (p\<lparr>pp_hysteriaServer := s, pp_files := fs\<rparr>, r))"

definition StartProxyServer :: "host_env \<Rightarrow> processes \<Rightarrow> processes \<times> gerror option" where
  "StartProxyServer e p =
     (case start_proxy e p of
        (p1, Some err) \<Rightarrow> (p1, Some err)
      | (p1, None) \<Rightarrow> (case start_hysteria e p1 of (p2, Some err) \<Rightarrow> (p2, Some err) | (p2, None) \<Rightarrow> start_hysteria e p2))"

definition StopProxyServer :: "processes \<Rightarrow> processes" where
  "StopProxyServer p = p\<lparr>pp_proxyServer := Proxy_Stop (pp_proxyServer p), pp_hysteriaServer := Proxy_Stop (pp_hysteriaServer p)\<rparr>"

definition RestartProxyServer :: "host_env \<Rightarrow> processes \<Rightarrow> processes \<times> gerror option" where
  "RestartProxyServer e p = start_proxy e (p\<lparr>pp_proxyServer := Proxy_Stop (pp_proxyServer p)\<rparr>)"

definition UpdateProxyServer :: "host_env \<Rightarrow> string \<Rightarrow> processes \<Rightarrow> (processes, gerror option) outcome" where
  "UpdateProxyServer e tag p =
     (case Proxy_Update e tag (pp_proxyServer p) (pp_files p) of
        Done (s, fs) r \<Rightarrow> Done (p\<lparr>pp_proxyServer := s, pp_files := fs\<rparr>) r
      | Panicked (s, fs) \<Rightarrow> Panicked (p\<lparr>pp_proxyServer := s, pp_files := fs\<rparr>)
      | Blocked (s, fs) \<Rightarrow> Blocked (p\<lparr>pp_proxyServer := s, pp_files := fs\<rparr>))"

definition GetProxyServerVersion :: "processes \<Rightarrow> string" where
  "GetProxyServerVersion p = ps_currentVersion (pp_proxyServer p)"

subsection \<open>Requests\<close>

definition Node_UpdateProxy :: "host_env \<Rightarrow> string \<Rightarrow> processes \<Rightarrow> (processes, op_rsp) outcome" where
  "Node_UpdateProxy e tag p =
     (if tag = GetProxyServerVersion p \<or> ''v'' @ tag = GetProxyServerVersion p
      then Done p (err_rsp 0 ''current version is same with dst version'')
      else bind_o (UpdateProxyServer e tag p) (\<lambda>p r. Done p (case r of Some err \<Rightarrow> err_rsp 1002 err | None \<Rightarrow> ok_rsp)))"

text \<open>The third component is the mode that is stored in the configuration.\<close>

definition Node_SetGatewayModel :: "host_env \<Rightarrow> bool \<Rightarrow> processes \<Rightarrow> processes \<times> op_rsp \<times> bool" where
  "Node_SetGatewayModel e enable p =
     (if enable then (StopProxyServer p, ok_rsp, True) else (fst (StartProxyServer e p), ok_rsp, False))"

subsection \<open>Initial configuration files\<close>

datatype tval = TStr string | TInt int | TBool bool | TList "string list"

record init_env =
  ie_unreadable :: "string \<Rightarrow> bool" \<comment> \<open>\<open>os.Stat\<close> fails with another error than a missing file\<close>
  ie_mkdir :: "string \<Rightarrow> gerror option"
  ie_create :: "string \<Rightarrow> gerror option"
  ie_isIP :: "string \<Rightarrow> bool"
  ie_xray :: "(string \<times> tval) list \<Rightarrow> string result" \<comment> \<open>the rendered templates\<close>
  ie_hysteria :: "(string \<times> tval) list \<Rightarrow> string result"
  ie_HttpPort :: int
  ie_CertEmail :: string
  ie_ProxyHost :: string

definition isFileExist :: "init_env \<Rightarrow> string \<Rightarrow> files \<Rightarrow> bool" where
  "isFileExist e file fs \<longleftrightarrow> fs file \<noteq> None \<or> ie_unreadable e file"

definition pm_mkdir :: "init_env \<Rightarrow> string \<Rightarrow> gerror option" where
  "pm_mkdir e filePath = map_option (\<lambda>err. ''create file['' @ filePath @ ''] dir fail > err: '' @ err) (ie_mkdir e filePath)"

definition writeToFile :: "init_env \<Rightarrow> string \<Rightarrow> string \<Rightarrow> files \<Rightarrow> files \<times> gerror option" where
  "writeToFile e configFile info fs =
     (case pm_mkdir e configFile of
        Some err \<Rightarrow> (fs, Some err)
      | None \<Rightarrow>
          (case ie_create e configFile of
             Some err \<Rightarrow> (fs, Some (''create fil['' @ configFile @ ''] fail > err: '' @ err))
           | None \<Rightarrow> (fs(configFile \<mapsto> info), None)))"

definition initXrayOrV2rayConfig :: "init_env \<Rightarrow> string \<Rightarrow> files \<Rightarrow> files \<times> gerror option" where
  "initXrayOrV2rayConfig e configFile fs =
     (if isFileExist e configFile fs then (fs, None)
      else case ie_xray e [(''template_xray_v2ray_api_port'', TInt 10085)] of
        Inl err \<Rightarrow> (fs, Some (''render xray or v2ray config fail > err: '' @ err))
      | Inr result \<Rightarrow> writeToFile e configFile result fs)"

definition initHysteriaConfig :: "init_env \<Rightarrow> string \<Rightarrow> string \<Rightarrow> files \<Rightarrow> files \<times> gerror option" where
  "initHysteriaConfig e secret configFile fs =
     (if isFileExist e configFile fs then (fs, None)
      else if ie_isIP e (ie_ProxyHost e)
        then (fs, Some ''auto init hysteria must set proxy host with domain which is resolved to the current machine'')
      else case ie_hysteria e
          [(''template_hysteria_listen'', TStr '':443''), (''template_hysteria_bandwidth_up'', TStr ''1 gbps''),
           (''template_hysteria_bandwidth_down'', TStr ''1 gbps''), (''template_hysteria_ignore_client_bandwidth'', TBool False),
           (''template_hysteria_auth_url'', TStr (''http://localhost:'' @ itoa (ie_HttpPort e) @ ''/authHysteria2'')),
           (''template_hysteria_traffic_stats_listen'', TStr ''127.0.0.1:31413''), (''template_hysteria_traffic_stats_secret'', TStr secret),
           (''template_use_acme'', TBool True), (''template_domains'', TList [ie_ProxyHost e]), (''template_email'', TStr (ie_CertEmail e))] of
        Inl err \<Rightarrow> (fs, Some (''render hysteria config fail > err: '' @ err))
      | Inr result \<Rightarrow> writeToFile e configFile result fs)"

text \<open>The merged errors are not assigned to \<open>err\<close>, which is returned.\<close>

definition checkAndInitProxyConfig :: "init_env \<Rightarrow> string \<Rightarrow> string \<Rightarrow> string \<Rightarrow> files \<Rightarrow> files \<times> gerror option" where
  "checkAndInitProxyConfig e secret xrayOrV2rayConfig hysteriaConfig fs =
     (case initXrayOrV2rayConfig e xrayOrV2rayConfig fs of (fs1, _) \<Rightarrow>
        (case initHysteriaConfig e secret hysteriaConfig fs1 of (fs2, _) \<Rightarrow> (fs2, None)))"

subsection \<open>What an update does\<close>

text \<open>The processes of the node run as the manager says, with the executable that is installed.\<close>

definition proc_inv :: "proxy_server \<Rightarrow> bool" where
  "proc_inv s \<longleftrightarrow> (ps_isRunning s \<longleftrightarrow> ps_alive s \<noteq> None)"

lemma initExecFile_fields:
  "initExecFile e s fs = (s1, fs1, r) \<Longrightarrow> ps_isRunning s1 = ps_isRunning s \<and> ps_alive s1 = ps_alive s"
  by (auto simp: initExecFile_def Let_def split: if_splits option.splits prod.splits)

lemma UpdateCurrentVersion_fields:
  "UpdateCurrentVersion out s = (s1, r) \<Longrightarrow> ps_isRunning s1 = ps_isRunning s \<and> ps_alive s1 = ps_alive s"
  by (auto simp: UpdateCurrentVersion_def split: sum.splits option.splits)

lemma Proxy_Start_result:
  assumes "Proxy_Start e s fs = (s1, fs1, r)" and "proc_inv s"
  shows "proc_inv s1" and "r = None \<Longrightarrow> ps_isRunning s1" and "r \<noteq> None \<Longrightarrow> \<not> ps_isRunning s1"
    and "r = None \<Longrightarrow> \<not> ps_isRunning s \<Longrightarrow> ps_alive s1 = fs1 (ps_path s1)"
proof -
  note cases = assms(1) [unfolded Proxy_Start_def]
  have "proc_inv s1 \<and> (r = None \<longrightarrow> ps_isRunning s1) \<and> (r \<noteq> None \<longrightarrow> \<not> ps_isRunning s1) \<and>
      (r = None \<longrightarrow> \<not> ps_isRunning s \<longrightarrow> ps_alive s1 = fs1 (ps_path s1))"
    using cases assms(2)
    by (auto simp: proc_inv_def UpdateCurrentVersion_def split: if_splits option.splits prod.splits sum.splits dest: initExecFile_fields)
  then show "proc_inv s1" and "r = None \<Longrightarrow> ps_isRunning s1" and "r \<noteq> None \<Longrightarrow> \<not> ps_isRunning s1"
    and "r = None \<Longrightarrow> \<not> ps_isRunning s \<Longrightarrow> ps_alive s1 = fs1 (ps_path s1)" by auto
qed

lemma Proxy_Stop_inv: "proc_inv s \<Longrightarrow> proc_inv (Proxy_Stop s) \<and> \<not> ps_isRunning (Proxy_Stop s)"
  by (auto simp: Proxy_Stop_def proc_inv_def)

lemma SwitchExec_result:
  "SwitchExec e src dst fs = (fs1, None) \<Longrightarrow> src \<noteq> dst \<Longrightarrow> fs1 dst = fs src \<and> fs src \<noteq> None \<and> fs1 src = None"
  by (auto simp: SwitchExec_def split: option.splits)

lemma SwitchExec_error: "SwitchExec e src dst fs = (fs1, Some err) \<Longrightarrow> fs1 = fs"
  by (auto simp: SwitchExec_def split: option.splits)

text \<open>Starting a stopped process whose executable is there runs this executable.\<close>

lemma Proxy_Start_installed:
  assumes "Proxy_Start e s fs = (s1, fs1, None)" and "\<not> ps_isRunning s" and "ps_path s \<noteq> ''''" and "fs (ps_path s) \<noteq> None"
  shows "ps_alive s1 = fs (ps_path s)"
proof -
  have "initExecFile e s fs = (s, fs, None)" using assms(3,4) by (simp add: initExecFile_def)
  with assms show ?thesis by (auto simp: Proxy_Start_def UpdateCurrentVersion_def split: if_splits option.splits sum.splits)
qed

lemma Proxy_Update_result:
  assumes "Proxy_Update e tag s fs = Done (s1, fs1) r" and "proc_inv s" and "ps_softwareGithubInfo s = Some gi"
    and "ps_path s = execPath @ gi_FileName gi" and "gi_FileName gi @ tempShuffix \<noteq> execPath @ gi_FileName gi"
  shows "if r = None
    then ps_isRunning s1 \<and> (\<exists>fs0. UpdateByTagName e tag gi fs = (fs0, None) \<and> ps_alive s1 = fs0 (gi_FileName gi @ tempShuffix))
    else s1 = s \<or> ps_alive s1 = None"
proof -
  let ?tmp = "gi_FileName gi @ tempShuffix" and ?s = "Proxy_Stop s"
  have stop: "proc_inv ?s" "\<not> ps_isRunning ?s" "ps_path ?s = execPath @ gi_FileName gi" "ps_path ?s \<noteq> ''''"
    using Proxy_Stop_inv [OF assms(2)] assms(4) by (auto simp: Proxy_Stop_def execPath_def)
  obtain fs0 r0 where dl: "UpdateByTagName e tag gi fs = (fs0, r0)" by fastforce
  obtain fs2 r2 where sw: "SwitchExec e ?tmp (ps_path ?s) fs0 = (fs2, r2)" by fastforce
  obtain s3 fs3 r3 where st: "Proxy_Start e ?s fs2 = (s3, fs3, r3)" by (cases "Proxy_Start e ?s fs2")
  note start = Proxy_Start_result [OF st stop(1)]
  consider "r0 \<noteq> None" | "r0 = None" "r2 \<noteq> None" | "r0 = None" "r2 = None" by blast
  then show ?thesis
  proof cases
    case 1
    with assms(1,3) dl show ?thesis by (auto simp: Proxy_Update_def)
  next
    case 2
    with assms(1,3) dl sw stop show ?thesis by (auto simp: Proxy_Update_def proc_inv_def Let_def)
  next
    case 3
    then have res: "s1 = s3" "r = r3" using assms(1,3) dl sw st by (auto simp: Proxy_Update_def Let_def)
    have new: "fs2 (ps_path ?s) = fs0 ?tmp" "fs2 (ps_path ?s) \<noteq> None"
      using SwitchExec_result [of e ?tmp "ps_path ?s" fs0 fs2] sw 3 assms(5) stop(3) by auto
    show ?thesis using res start(1-3) Proxy_Start_installed [of e ?s fs2 s3 fs3] st stop(2,4) new dl 3(1) by (auto simp: proc_inv_def)
  qed
qed

text \<open>
  C22: what the request to update the proxy does. When the tag is the running version as it stands,
  or becomes it with a \<open>v\<close> in front, it is answered that the version is the same and nothing happens.
  For every other tag it succeeds, and the running process is one started from the file that was
  downloaded for the tag; or it fails with the code 1002, and then the process is the one from
  before, or none runs any more. The comparison is literal: the stored version has no leading \<open>v\<close>, so
  the tag \<open>v1.8.4\<close> over the running \<open>1.8.4\<close> is one of the other tags.
\<close>

theorem update_proxy_result:
  assumes "Node_UpdateProxy e tag p = Done p1 rsp" and "proc_inv (pp_proxyServer p)"
    and "ps_softwareGithubInfo (pp_proxyServer p) = Some gi" and "ps_path (pp_proxyServer p) = execPath @ gi_FileName gi"
    and "gi_FileName gi @ tempShuffix \<noteq> execPath @ gi_FileName gi"
  shows "if tag = ps_currentVersion (pp_proxyServer p) \<or> ''v'' @ tag = ps_currentVersion (pp_proxyServer p)
    then rsp = err_rsp 0 ''current version is same with dst version'' \<and> p1 = p
    else rsp = ok_rsp \<and> ps_isRunning (pp_proxyServer p1) \<and>
        (\<exists>fs. UpdateByTagName e tag gi (pp_files p) = (fs, None) \<and> ps_alive (pp_proxyServer p1) = fs (gi_FileName gi @ tempShuffix)) \<or>
      (\<exists>err. rsp = err_rsp 1002 err) \<and> (pp_proxyServer p1 = pp_proxyServer p \<or> ps_alive (pp_proxyServer p1) = None)"
proof (cases "tag = GetProxyServerVersion p \<or> ''v'' @ tag = GetProxyServerVersion p")
  case True
  with assms(1) show ?thesis by (auto simp: Node_UpdateProxy_def GetProxyServerVersion_def)
next
  case False
  then obtain s fs r where upd: "Proxy_Update e tag (pp_proxyServer p) (pp_files p) = Done (s, fs) r" and p1: "pp_proxyServer p1 = s"
    and rsp: "rsp = (case r of Some err \<Rightarrow> err_rsp 1002 err | None \<Rightarrow> ok_rsp)"
    using assms(1) by (auto simp: Node_UpdateProxy_def UpdateProxyServer_def bind_o_Done_iff split: outcome.splits)
  from Proxy_Update_result [OF upd assms(2-5)] False show ?thesis by (cases r) (auto simp: p1 rsp GetProxyServerVersion_def)
qed

text \<open>A host that serves one release, with an archive that holds the executable.\<close>

definition demo_host :: host_env where
  "demo_host =
     \<lparr>ho_release = (\<lambda>owner repo tag. if tag = ''v1.8.4'' then Inr [(''Xray-linux-64.zip'', ''u'')] else Inl ''404''),
      ho_latest = (\<lambda>owner repo. Inl ''404''), ho_fetch = (\<lambda>u. Inr ''zip''), ho_unzip = (\<lambda>d. Inr [(''xray'', ''new'')]),
      ho_create = (\<lambda>f. None), ho_rename = (\<lambda>a b. None), ho_missing = (\<lambda>f. ''no such file''),
      ho_exec = (\<lambda>bin args. None), ho_output = (\<lambda>bin cfg. Inr ''Xray 1.8.4 (Xray)'')\<rparr>"

definition demo_processes :: processes where
  "demo_processes =
     \<lparr>pp_proxyServer = (NewProxyServer ''config.json'' '''' ''xray'')
        \<lparr>ps_path := ''./xray'', ps_isRunning := True, ps_currentVersion := ''1.8.3'', ps_alive := Some ''old''\<rparr>,
      pp_hysteriaServer = NewProxyServer ''hysteria.yaml'' '''' ''hysteria'',
      pp_files = [''./xray'' \<mapsto> ''old'', ''config.json'' \<mapsto> ''{}'']\<rparr>"

lemmas process_simps =
  Node_UpdateProxy_def UpdateProxyServer_def Proxy_Update_def Proxy_Start_def Proxy_Stop_def initExecFile_def
  UpdateByTagName_def release_tag_def latestTagName_def tempShuffix_def execPath_def getReleaseByTagName_def getDownloadUrl_def
  Download_def Unzip_def SwitchExec_def UpdateCurrentVersion_def version_of_def GetProxyServerVersion_def NewProxyServer_def
  softwareGithubInfoMap_def Let_def

theorem update_proxy_result_witness:
  "\<exists>p1. Node_UpdateProxy demo_host ''1.8.4'' demo_processes = Done p1 ok_rsp \<and> ps_isRunning (pp_proxyServer p1) \<and>
     ps_alive (pp_proxyServer p1) = Some ''new''"
proof -
  let ?gi = "\<lparr>gi_Repo = ''Xray-core'', gi_Owner = ''XTLS'', gi_ReleaseFileName = ''Xray-linux-64.zip'', gi_FileName = ''xray''\<rparr>"
  obtain p1 where run: "Node_UpdateProxy demo_host ''1.8.4'' demo_processes = Done p1 ok_rsp"
    by (simp add: process_simps demo_host_def demo_processes_def is_digit_def)
  have dl: "UpdateByTagName demo_host ''1.8.4'' ?gi (pp_files demo_processes) =
      ((pp_files demo_processes)(''xray.tmp'' \<mapsto> ''new''), None)"
    by (simp add: process_simps demo_host_def)
  have "proc_inv (pp_proxyServer demo_processes)" "ps_softwareGithubInfo (pp_proxyServer demo_processes) = Some ?gi"
    "ps_path (pp_proxyServer demo_processes) = execPath @ gi_FileName ?gi" "gi_FileName ?gi @ tempShuffix \<noteq> execPath @ gi_FileName ?gi"
    by (simp_all add: demo_processes_def proc_inv_def process_simps)
  from update_proxy_result [OF run this] dl
  have "ps_isRunning (pp_proxyServer p1) \<and> ps_alive (pp_proxyServer p1) = Some ''new''"
    by (auto simp: err_rsp_def ok_rsp_def tempShuffix_def demo_processes_def)
  with run show ?thesis by blast
qed

text \<open>
  The installed version has no leading \<open>v\<close>: the second comparison of the request never holds, and
  a tag written \<open>v1.8.4\<close> is downloaded and installed again when it is the running version.
\<close>

lemma version_starts_with_digit: "version_of out = Some v \<Longrightarrow> v \<noteq> [] \<and> is_digit (hd v)"
  by (auto simp: version_of_def Let_def split: if_splits)
    (metis append_is_Nil_conv hd_append2 hd_in_set set_takeWhileD)

lemma v_tag_is_never_current:
  assumes "version_of out = Some v"
  shows "''v'' @ tag \<noteq> v"
  using version_starts_with_digit [OF assms] by (auto simp: is_digit_def)

text \<open>A failing rename leaves the proxy stopped: the old process was stopped before.\<close>

lemma failed_switch_stops_proxy:
  assumes "ps_softwareGithubInfo s = Some gi" and "UpdateByTagName e tag gi fs = (fs1, None)"
    and "fs1 (gi_FileName gi @ tempShuffix) = Some data" and "ho_rename e (gi_FileName gi @ tempShuffix) (ps_path s) = Some err"
  shows "Proxy_Update e tag s fs = Done (Proxy_Stop s, fs1) (Some err)"
  using assms by (auto simp: Proxy_Update_def SwitchExec_def Proxy_Stop_def Let_def)

text \<open>Leaving the gateway mode is answered with success whether or not a proxy could be started.\<close>

lemma gateway_off_hides_start_error:
  "\<exists>e p. snd (StartProxyServer e p) \<noteq> None \<and> fst (snd (Node_SetGatewayModel e False p)) = ok_rsp"
proof -
  have "snd (StartProxyServer demo_host (demo_processes\<lparr>pp_proxyServer := NewProxyServer ''c'' '''' ''v2ray''\<rparr>)) \<noteq> None"
    by (simp add: StartProxyServer_def start_proxy_def process_simps)
  then show ?thesis by (auto simp: Node_SetGatewayModel_def)
qed

text \<open>No error of the initial configuration is reported.\<close>

lemma init_config_reports_nothing: "snd (checkAndInitProxyConfig e secret x h fs) = None"
  by (simp add: checkAndInitProxyConfig_def split: prod.splits)

text \<open>The first start of a process downloads its executable even when it is installed.\<close>

lemma first_start_downloads:
  assumes "softwareGithubInfoMap n = Some gi" and "UpdateByTagName e v gi fs = (fs1, Some err)"
  shows "\<exists>s1. Proxy_Start e (NewProxyServer file v n) fs = (s1, fs1, Some err)"
  using assms by (auto simp: Proxy_Start_def initExecFile_def NewProxyServer_def Let_def)

end
