(* ===== verification/Startup.thy ===== *)
theory Startup
  imports HttpProps ProxyProcess MembershipProps HandlerProps
begin

text \<open>
  The process configuration and how a node starts: \<open>common/config/config_manager.go\<close>, \<open>global/config/config.go\<close>,
  \<open>global/init.go\<close>, the initialisation functions below \<open>global/\<close>, \<open>EndNodeServer.Init\<close> and \<open>Start\<close>, and
  \<open>cmd/server.go\<close>. The configuration library is the record \<open>viper\<close> of the functions that are called. The
  files of the certificates and those of the proxies are separate parts of the file system.
\<close>

subsection \<open>The configuration manager\<close>

datatype cfg_value = CStr string | CBool bool | CUsers "string \<rightharpoonup> string" | CAdaptive raw_adaptive

record 'v viper =
  vp_Read :: "string \<Rightarrow> 'v result" \<comment> \<open>of the text of a file\<close>
  vp_Write :: "'v \<Rightarrow> string result"
  vp_Set :: "string \<Rightarrow> cfg_value \<Rightarrow> 'v \<Rightarrow> 'v"
  vp_GetString :: "'v \<Rightarrow> string \<Rightarrow> string"
  vp_GetInt :: "'v \<Rightarrow> string \<Rightarrow> int"
  vp_GetBool :: "'v \<Rightarrow> string \<Rightarrow> bool"
  vp_GetStringSlice :: "'v \<Rightarrow> string \<Rightarrow> string list"
  vp_GetStringMapString :: "'v \<Rightarrow> string \<Rightarrow> (string \<times> string) list"
  vp_static_nodes :: "'v \<Rightarrow> string \<Rightarrow> static_node list result" \<comment> \<open>the two uses of \<open>UnmarshalKey\<close>\<close>
  vp_raw_adaptive :: "'v \<Rightarrow> string \<Rightarrow> raw_adaptive result"

text \<open>\<open>cf_file\<close> is the text of the configuration file.\<close>

record 'v config_manager =
  cf_v :: 'v
  cf_needFlush :: bool
  cf_file :: string

definition Config_Init :: "'v viper \<Rightarrow> string \<Rightarrow> 'v config_manager result" where
  "Config_Init vp content =
     (case vp_Read vp content of Inl err \<Rightarrow> Inl err | Inr v \<Rightarrow> Inr \<lparr>cf_v = v, cf_needFlush = False, cf_file = content\<rparr>)"

definition Config_Set :: "'v viper \<Rightarrow> string \<Rightarrow> cfg_value \<Rightarrow> 'v config_manager \<Rightarrow> 'v config_manager" where
  "Config_Set vp key val cm = cm\<lparr>cf_v := vp_Set vp key val (cf_v cm), cf_needFlush := True\<rparr>"

definition Config_GetString :: "'v viper \<Rightarrow> 'v config_manager \<Rightarrow> string \<Rightarrow> string" where
  "Config_GetString vp cm key = vp_GetString vp (cf_v cm) key"

definition Config_GetInt :: "'v viper \<Rightarrow> 'v config_manager \<Rightarrow> string \<Rightarrow> int" where
  "Config_GetInt vp cm key = vp_GetInt vp (cf_v cm) key"

definition Config_GetBool :: "'v viper \<Rightarrow> 'v config_manager \<Rightarrow> string \<Rightarrow> bool" where
  "Config_GetBool vp cm key = vp_GetBool vp (cf_v cm) key"

definition Config_GetStringSlice :: "'v viper \<Rightarrow> 'v config_manager \<Rightarrow> string \<Rightarrow> string list" where
  "Config_GetStringSlice vp cm key = vp_GetStringSlice vp (cf_v cm) key"

definition Config_GetStringMapString :: "'v viper \<Rightarrow> 'v config_manager \<Rightarrow> string \<Rightarrow> (string \<times> string) list" where
  "Config_GetStringMapString vp cm key = vp_GetStringMapString vp (cf_v cm) key"



definition equal_fold :: "string \<Rightarrow> string \<Rightarrow> bool" where
  "equal_fold a b \<longleftrightarrow> to_lower a = to_lower b"

definition is_center :: "'v viper \<Rightarrow> 'v config_manager \<Rightarrow> bool" where
  "is_center vp cm \<longleftrightarrow> equal_fold (Config_GetString vp cm ''server.rpc.type'') ''Center''"

definition checkServerConfig :: "'v viper \<Rightarrow> 'v config_manager \<Rightarrow> gerror option" where
  "checkServerConfig vp cm =
     (if Config_GetString vp cm ''server.http.token'' = '''' then Some (''http token can'' @ [CHR 0x27] @ ''t be empty'')
      else if Config_GetString vp cm ''server.name'' = '''' then Some (''server name can'' @ [CHR 0x27] @ ''t be empty'')
      else None)"

definition CheckConfig :: "'v viper \<Rightarrow> 'v config_manager \<Rightarrow> gerror option" where
  "CheckConfig vp cm = (if is_center vp cm then None else checkServerConfig vp cm)"

definition initConfig :: "'v viper \<Rightarrow> string \<Rightarrow> 'v config_manager result" where
  "initConfig vp content =
     (case Config_Init vp content of
        Inl err \<Rightarrow> Inl err
      | Inr cm \<Rightarrow> (case CheckConfig vp cm of Some err \<Rightarrow> Inl err | None \<Rightarrow> Inr cm))"

definition initLogger :: "'v viper \<Rightarrow> 'v config_manager \<Rightarrow> 'v config_manager" where
  "initLogger vp cm =
     (if Config_GetString vp cm ''server.name'' = ''''
      then Config_Set vp ''server.name''
             (CStr (Config_GetString vp cm ''proxy.host'' @ '':'' @ itoa (Config_GetInt vp cm ''server.rpc.port''))) cm
      else cm)"


subsection \<open>Initialising the parts of a node\<close>

text \<open>
  What the start of a process depends on: the configuration library, a fresh token and the time, the
  environments of the certificates and the proxies, the texts of the proxies' configuration files and
  the library that reads them, errors of writing and of listening, and the order of loops over maps.
\<close>

record ('v, 'rt, 'h) start_env =
  se_viper :: "'v viper"
  se_uuid :: string
  se_secret :: string
  se_now :: int
  se_cert :: cert_env
  se_cert_order :: "string list"
  se_init :: init_env
  se_host :: host_env
  se_content :: "files \<Rightarrow> string result" \<comment> \<open>of the proxy's configuration file\<close>
  se_conf :: conf_codec
  se_hysteria :: "files \<Rightarrow> gerror option"
  se_inbound_order :: "string list"
  se_marshal_error :: "gerror option"
  se_write_error :: "gerror option"
  se_codecs :: codecs
  se_xray :: "('rt, 'h) xray"
  se_user_order :: "string list"
  se_cron :: "string \<Rightarrow> bool" \<comment> \<open>the rules cron accepts\<close>
  se_listen :: "string \<Rightarrow> gerror option"

record ('v, 'rt) app =
  ap_config :: "'v config_manager"
  ap_node :: end_node
  ap_certs :: cert_manager
  ap_world :: world
  ap_users :: "'rt user_manager" \<comment> \<open>with the proxy manager\<close>
  ap_processes :: processes

definition cluster_config :: "'v viper \<Rightarrow> 'v config_manager \<Rightarrow> cluster_cfg" where
  "cluster_config vp cm =
     \<lparr>cfg_ProxyHost = Config_GetString vp cm ''proxy.host'', cfg_ServerRpcPort = int32 (Config_GetInt vp cm ''server.rpc.port''),
      cfg_ClusterName = Config_GetString vp cm ''cluster.name'', cluster_cfg.cfg_ServerName = Config_GetString vp cm ''server.name'',
      cfg_ClusterToken = Config_GetString vp cm ''cluster.token'', cfg_ClusterNodes = vp_static_nodes vp (cf_v cm) ''cluster.nodes''\<rparr>"

definition initCluster :: "('v, 'rt, 'h) start_env \<Rightarrow> ('v, 'rt) app \<Rightarrow> ('v, 'rt) app \<times> gerror option" where
  "initCluster e a =
     (let cfg = cluster_config (se_viper e) (ap_config a)
      in case InitCluster cfg (se_uuid e) (se_now e) (en_cluster (ap_node a)) of
           (c, r) \<Rightarrow> (a\<lparr>ap_node := (ap_node a)\<lparr>en_local := initLocalNode cfg (se_uuid e), en_cluster := c\<rparr>\<rparr>, r))"

definition InitCertManager :: "('v, 'rt, 'h) start_env \<Rightarrow> ('v, 'rt) app \<Rightarrow> ('v, 'rt) app" where
  "InitCertManager e a =
     (let vp = se_viper e; cm = ap_config a
      in case CheckAndFullCertManager (se_cert e) (se_cert_order e)
            \<lparr>cm_Email = Config_GetString vp cm ''cert.email'', cm_Secrets = Config_GetStringMapString vp cm ''cert.secrets'',
             cm_DnsProvider = Config_GetString vp cm ''cert.dns_provider'', cm_Path = Config_GetString vp cm ''cert.path'',
             cm_Certs = Map.empty, cm_Args = Config_GetStringSlice vp cm ''cert.args''\<rparr> (ap_world a) of
           (certs, w) \<Rightarrow> a\<lparr>ap_certs := certs, ap_world := w\<rparr>)"

definition PM_Init ::
    "('v, 'rt, 'h) start_env \<Rightarrow> string \<Rightarrow> string \<Rightarrow> string \<Rightarrow> 'rt proxy_manager \<times> processes
     \<Rightarrow> ('rt proxy_manager \<times> processes, gerror option) outcome" where
  "PM_Init e xrayOrV2rayConfigFile hysteriaConfig version s =
     (case s of (pm, p) \<Rightarrow>
       (case checkAndInitProxyConfig (se_init e) (se_secret e) xrayOrV2rayConfigFile hysteriaConfig (pp_files p) of
          (fs, Some err) \<Rightarrow> Done (pm, p\<lparr>pp_files := fs\<rparr>) (Some (''check and init proxy config fai > err: '' @ err))
        | (fs, None) \<Rightarrow>
            (case LoadConfig (se_conf e) (se_content e fs) (se_hysteria e fs) pm of
               (pm1, Some err) \<Rightarrow> Done (pm1, p\<lparr>pp_files := fs\<rparr>) (Some (''load config fail > err: '' @ err))
             | (pm1, None) \<Rightarrow>
                 (let p1 = \<lparr>pp_proxyServer = NewProxyServer xrayOrV2rayConfigFile version ''xray'',
                        pp_hysteriaServer = NewProxyServer hysteriaConfig '''' ''hysteria'', pp_files = fs\<rparr>
                  in case InitRuntimeConfig (se_conf e) (se_inbound_order e) (se_marshal_error e) (se_write_error e) True pm1 of
                       Done pm2 r \<Rightarrow> Done (pm2, p1) r
                     | Panicked pm2 \<Rightarrow> Panicked (pm2, p1)
                     | Blocked pm2 \<Rightarrow> Blocked (pm2, p1)))))"

text \<open>The settings that the initial configuration of hysteria is made from come from the configuration.\<close>

definition with_settings :: "('v, 'rt, 'h) start_env \<Rightarrow> 'v config_manager \<Rightarrow> ('v, 'rt, 'h) start_env" where
  "with_settings e cm =
     (let vp = se_viper e
      in e\<lparr>se_init := (se_init e)\<lparr>ie_HttpPort := Config_GetInt vp cm ''server.http.port'',
             ie_CertEmail := Config_GetString vp cm ''cert.email'', ie_ProxyHost := Config_GetString vp cm ''proxy.host''\<rparr>\<rparr>)"

definition InitProxyManager ::
    "('v, 'rt, 'h) start_env \<Rightarrow> string \<Rightarrow> string \<Rightarrow> string \<Rightarrow> 'v config_manager \<Rightarrow> 'rt proxy_manager \<times> processes
     \<Rightarrow> ('rt proxy_manager \<times> processes, gerror option) outcome" where
  "InitProxyManager e xrayOrV2rayConfigFile hysteriaConfig version cm s =
     bind_o (PM_Init (with_settings e cm) xrayOrV2rayConfigFile hysteriaConfig version s) (\<lambda>s r.
       case r of
         Some err \<Rightarrow> Done s (Some err)
       | None \<Rightarrow>
           (case vp_raw_adaptive (se_viper e) (cf_v cm) ''proxy.adaptive'' of
              Inl err \<Rightarrow> Done s (Some (''please check adaptive config > '' @ err))
            | Inr raw \<Rightarrow> Done (CycleAdaptive (se_cron e) (InitAdaptive raw (fst s)), snd s) None))"

definition initProxyManager :: "('v, 'rt, 'h) start_env \<Rightarrow> ('v, 'rt) app \<Rightarrow> (('v, 'rt) app, gerror option) outcome" where
  "initProxyManager e a =
     (let vp = se_viper e; cm = ap_config a;
          put = (\<lambda>(pm, p). a\<lparr>ap_users := (ap_users a)\<lparr>um_proxy := pm\<rparr>, ap_processes := p\<rparr>)
      in case InitProxyManager e (Config_GetString vp cm ''proxy.xray_or_v2ray_config_file'') (Config_GetString vp cm ''proxy.hysteria_config_file'')
            (Config_GetString vp cm ''proxy.version'') cm (um_proxy (ap_users a), ap_processes a) of
           Done s None \<Rightarrow> Done (put s) None
         | Done s (Some err) \<Rightarrow> Done (put s) (Some (''Init proxy manager fail, err: '' @ err))
         | Panicked s \<Rightarrow> Panicked (put s)
         | Blocked s \<Rightarrow> Blocked (put s))"

definition InitUserManager :: "('v, 'rt, 'h) start_env \<Rightarrow> ('v, 'rt) app \<Rightarrow> (('v, 'rt) app, gerror option) outcome" where
  "InitUserManager e a =
     (let vp = se_viper e; cm = ap_config a
      in case UM_Init (se_codecs e) (se_xray e) (Config_GetStringSlice vp cm ''proxy.default_tags'') (se_user_order e)
            (map_of (Config_GetStringMapString vp cm ''users'')) (ap_users a) of
           Done um' _ \<Rightarrow> Done (a\<lparr>ap_users := um'\<rparr>) None
         | Panicked um' \<Rightarrow> Panicked (a\<lparr>ap_users := um'\<rparr>)
         | Blocked um' \<Rightarrow> Blocked (a\<lparr>ap_users := um'\<rparr>))"

definition InitGlobalInfra :: "('v, 'rt, 'h) start_env \<Rightarrow> string \<Rightarrow> ('v, 'rt) app \<Rightarrow> (('v, 'rt) app, gerror option) outcome" where
  "InitGlobalInfra e content a =
     (case initConfig (se_viper e) content of
        Inl err \<Rightarrow> Done a (Some (''init config fail, err: '' @ err))
      | Inr cm \<Rightarrow>
          (let a1 = a\<lparr>ap_config := initLogger (se_viper e) cm\<rparr>
           in if is_center (se_viper e) (ap_config a1) then Done a1 None
              else case initCluster e a1 of
                (a2, Some err) \<Rightarrow> Done a2 (Some err)
              | (a2, None) \<Rightarrow>
                  bind_o (initProxyManager e (InitCertManager e a2)) (\<lambda>a r.
                    case r of Some err \<Rightarrow> Done a (Some err) | None \<Rightarrow> InitUserManager e a)))"

subsection \<open>Servers\<close>

record end_node_server =
  es_Host :: string
  es_Port :: int
  es_Name :: string
  es_centerNode :: "string \<times> int"

definition EndNodeServer_Init :: "('v, 'rt, 'h) start_env \<Rightarrow> ('v, 'rt) app \<Rightarrow> ('v, 'rt) app \<times> end_node_server" where
  "EndNodeServer_Init e a =
     (let vp = se_viper e; cm = ap_config a; name = Config_GetString vp cm ''server.name''
      in (a\<lparr>ap_processes := fst (StartProxyServer (se_host e) (ap_processes a)), ap_node := (ap_node a)\<lparr>en_Name := name\<rparr>\<rparr>,
          \<lparr>es_Host = Config_GetString vp cm ''server.listen'', es_Port = Config_GetInt vp cm ''server.rpc.port'', es_Name = name,
           es_centerNode = (Config_GetString vp cm ''cluster.center_node.host'', int32 (Config_GetInt vp cm ''cluster.center_node.port''))\<rparr>))"

definition isAddrValid :: "string \<Rightarrow> int \<Rightarrow> bool" where
  "isAddrValid host port \<longleftrightarrow> host \<noteq> '''' \<and> 1000 \<le> port"

text \<open>Whether the server serves requests; otherwise the goroutine ends and the process goes on.\<close>

definition EndNodeServer_Start :: "('v, 'rt, 'h) start_env \<Rightarrow> end_node_server \<Rightarrow> bool" where
  "EndNodeServer_Start e s \<longleftrightarrow> isAddrValid (es_Host s) (es_Port s) \<and> se_listen e (es_Host s @ '':'' @ itoa (es_Port s)) = None"

definition http_config_of :: "'v viper \<Rightarrow> 'v config_manager \<Rightarrow> http_config" where
  "http_config_of vp cm =
     \<lparr>cfg_Listen = Config_GetString vp cm ''server.listen'', cfg_HttpPort = Config_GetInt vp cm ''server.http.port'',
      cfg_HttpToken = Config_GetString vp cm ''server.http.token'', http_config.cfg_ServerName = Config_GetString vp cm ''server.name''\<rparr>"

definition initAndStartHttpServer :: "('v, 'rt, 'h) start_env \<Rightarrow> ('v, 'rt) app \<Rightarrow> http_server \<Rightarrow> http_server" where
  "initAndStartHttpServer e a s =
     (let vp = se_viper e; cm = ap_config a; s1 = HttpServer_Init (http_config_of vp cm) (ap_certs a) s
      in if Config_GetBool vp cm ''server.http.support_prometheus'' then RegisterPrometheus s1 else s1)"

record center_server =
  cs_Host :: string
  cs_Port :: int
  cs_Name :: string
  cs_clusters :: center_clusters

definition CenterNodeServer_Init :: "'v viper \<Rightarrow> 'v config_manager \<Rightarrow> center_server" where
  "CenterNodeServer_Init vp cm =
     (let port = Config_GetInt vp cm ''server.rpc.port''; name = Config_GetString vp cm ''server.name''
      in \<lparr>cs_Host = Config_GetString vp cm ''server.listen'', cs_Port = port,
          cs_Name = (if name = '''' then Config_GetString vp cm ''proxy.host'' @ '':'' @ itoa port else name),
          cs_clusters = NewCenterClusterManager\<rparr>)"

text \<open>How a start ends: with a fatal error, a panic or a lock that is never free, as a centre node or as an end node.\<close>

datatype ('v, 'rt) started =
    Fatal gerror
  | Crashed
  | Hanging
  | CenterStarted "'v config_manager" center_server
  | EndStarted "('v, 'rt) app" end_node_server http_server bool

definition startServer :: "('v, 'rt, 'h) start_env \<Rightarrow> string \<Rightarrow> ('v, 'rt) app \<Rightarrow> http_server \<Rightarrow> ('v, 'rt) started" where
  "startServer e content a s =
     (case InitGlobalInfra e content a of
        Done a1 (Some err) \<Rightarrow> Fatal err
      | Done a1 None \<Rightarrow>
          if is_center (se_viper e) (ap_config a1)
          then (let cs = CenterNodeServer_Init (se_viper e) (ap_config a1)
                in case se_listen e (cs_Host cs @ '':'' @ itoa (cs_Port cs)) of
                     Some err \<Rightarrow> Fatal (''Err=failed to listen: '' @ err @ ''|Addr='' @ cs_Host cs @ '':'' @ itoa (cs_Port cs))
                   | None \<Rightarrow> CenterStarted (ap_config a1) cs)
          else (case EndNodeServer_Init e a1 of (a2, es) \<Rightarrow>
                  EndStarted a2 es (initAndStartHttpServer e a2 s) (EndNodeServer_Start e es))
      | Panicked _ \<Rightarrow> Crashed
      | Blocked _ \<Rightarrow> Hanging)"


subsection \<open>What holds after the start\<close>

lemma initCluster_config: "initCluster e a = (a', r) \<Longrightarrow> ap_config a' = ap_config a"
  by (auto simp: initCluster_def Let_def split: prod.splits)

lemma InitCertManager_keeps: "ap_config (InitCertManager e a) = ap_config a" "ap_node (InitCertManager e a) = ap_node a"
  by (simp_all add: InitCertManager_def Let_def split: prod.splits)

lemma initProxyManager_keeps: "initProxyManager e a = Done a' r \<Longrightarrow> ap_config a' = ap_config a \<and> ap_node a' = ap_node a"
  by (auto simp: initProxyManager_def Let_def split: outcome.splits option.splits prod.splits)

lemma InitUserManager_keeps: "InitUserManager e a = Done a' r \<Longrightarrow> ap_config a' = ap_config a \<and> ap_node a' = ap_node a"
  by (auto simp: InitUserManager_def Let_def split: outcome.splits)

lemmas start_keeps = initCluster_config initProxyManager_keeps InitUserManager_keeps

lemma InitGlobalInfra_checked:
  assumes "InitGlobalInfra e content a = Done a1 None" and "\<not> is_center (se_viper e) (ap_config a1)"
    and "\<And>x v. vp_GetString (se_viper e) (vp_Set (se_viper e) ''server.name'' x v) ''server.rpc.type'' = vp_GetString (se_viper e) v ''server.rpc.type''"
  shows "\<exists>cm a0. vp_Read (se_viper e) content = Inr (cf_v cm) \<and> checkServerConfig (se_viper e) cm = None \<and>
    ap_config a1 = cm \<and> initCluster e (a\<lparr>ap_config := cm\<rparr>) = (a0, None) \<and> ap_node a1 = ap_node a0"
proof -
  let ?vp = "se_viper e"
  obtain cm where cm: "initConfig ?vp content = Inr cm" using assms(1) by (auto simp: InitGlobalInfra_def split: sum.splits)
  then have read: "vp_Read ?vp content = Inr (cf_v cm)" and chk: "CheckConfig ?vp cm = None"
    by (auto simp: initConfig_def Config_Init_def split: sum.splits option.splits)
  let ?cm = "initLogger ?vp cm"
  have end_node: "\<not> is_center ?vp ?cm"
  proof
    assume "is_center ?vp ?cm"
    with assms cm show False by (auto simp: InitGlobalInfra_def Let_def)
  qed
  obtain a2 where c: "initCluster e (a\<lparr>ap_config := ?cm\<rparr>) = (a2, None)" and
    rest: "bind_o (initProxyManager e (InitCertManager e a2)) (\<lambda>a r. case r of Some err \<Rightarrow> Done a (Some err) | None \<Rightarrow> InitUserManager e a) = Done a1 None"
    using assms(1) cm end_node by (auto simp: InitGlobalInfra_def Let_def split: prod.splits option.splits)
  then have kept: "ap_config a1 = ?cm" "ap_node a1 = ap_node a2"
    by (auto simp: bind_o_Done_iff InitCertManager_keeps split: option.splits dest!: start_keeps)
  have "\<not> is_center ?vp cm"
    using end_node assms(3) by (auto simp: is_center_def initLogger_def Config_GetString_def Config_Set_def split: if_splits)
  then have "checkServerConfig ?vp cm = None" "?cm = cm" using chk by (auto simp: CheckConfig_def initLogger_def checkServerConfig_def split: if_splits)
  with read c kept show ?thesis by metis
qed

text \<open>Which handlers a request without the token does not reach, with and without metrics.\<close>

lemma guarded_handlers:
  assumes "hs_routes (hc_server ctx) = (if metrics then hs_routes (RegisterPrometheus (http_init s)) else hs_routes (http_init s))"
    and "hr_Method c = ''GET''" and "hr_Path c = getRelativePath h"
    and "h \<notin> {SubHandler, HelpHandler, GetCertsHandler, AuthHysteria2, StatHandler}" and "h = MetricHandler \<longrightarrow> metrics"
  shows "http_serve e ctx c = getAuthHandlerFunc (hc_server ctx) c (handle e ctx c h)"
proof (cases metrics)
  case True
  then show ?thesis using assms
    by (cases h) (simp_all add: http_serve_def http_routes path_matches_plain path_matches_help)
next
  case False
  then show ?thesis using assms
    by (cases h) (simp_all add: http_serve_def route_simps path_matches_plain path_matches_help)
qed

text \<open>
  C4: an end node starts guarded and as a member of its cluster. When the process serves as an end
  node, its HTTP server has the token of the configuration, which is not empty: a request without
  this token is refused and asks no node, for every handler but the four that are open and the
  statistics, which have no route; the metrics are guarded in the same way on a node that is
  configured to serve them. The node knows itself under the name of the configuration with the
  token its cluster calls need, and it serves cluster calls on ports from 1000 on only.
\<close>

theorem end_node_start:
  assumes "startServer e content a (http_init s) = EndStarted a1 es hs serving"
    and "\<And>x v. vp_GetString (se_viper e) (vp_Set (se_viper e) ''server.name'' x v) ''server.rpc.type'' = vp_GetString (se_viper e) v ''server.rpc.type''"
  shows "(\<exists>v. vp_Read (se_viper e) content = Inr v \<and> hs_token hs = vp_GetString (se_viper e) v ''server.http.token'' \<and>
        hs_Name hs = vp_GetString (se_viper e) v ''server.name'') \<and> hs_token hs \<noteq> '''' \<and> hs_Name hs \<noteq> '''' \<and>
    (\<forall>he ctx c h. hc_server ctx = hs \<longrightarrow> hr_Method c = ''GET'' \<longrightarrow> hr_Path c = getRelativePath h \<longrightarrow>
       h \<notin> {SubHandler, HelpHandler, GetCertsHandler, AuthHysteria2, StatHandler} \<longrightarrow>
       (h = MetricHandler \<longrightarrow> Config_GetBool (se_viper e) (ap_config a1) ''server.http.support_prometheus'') \<longrightarrow>
       DefaultQuery c ''token'' '''' \<noteq> hs_token hs \<longrightarrow>
       http_serve he ctx c = Reply (RString 401 ''invalide token'')) \<and>
    local_ok (ap_node a1) \<and> en_Name (ap_node a1) = hs_Name hs \<and> ln_Token (en_local (ap_node a1)) = se_uuid e \<and>
    (serving \<longrightarrow> 1000 \<le> es_Port es)"
proof -
  let ?vp = "se_viper e"
  obtain a0 where infra: "InitGlobalInfra e content a = Done a0 None" and end_node: "\<not> is_center ?vp (ap_config a0)"
    and init: "EndNodeServer_Init e a0 = (a1, es)" and hs: "hs = initAndStartHttpServer e a1 (http_init s)" and srv: "serving = EndNodeServer_Start e es"
    using assms(1) by (auto simp: startServer_def Let_def split: outcome.splits option.splits if_splits prod.splits)
  obtain cm a2 where cm: "vp_Read ?vp content = Inr (cf_v cm)" "checkServerConfig ?vp cm = None" "ap_config a0 = cm"
    and cl: "initCluster e (a\<lparr>ap_config := cm\<rparr>) = (a2, None)" "ap_node a0 = ap_node a2"
    using InitGlobalInfra_checked [OF infra end_node assms(2)] by blast
  have cfg: "ap_config a1 = cm" using init cm(3) by (auto simp: EndNodeServer_Init_def Let_def)
  have names: "hs_token hs = vp_GetString ?vp (cf_v cm) ''server.http.token''" "hs_Name hs = vp_GetString ?vp (cf_v cm) ''server.name''"
    and routes: "hs_routes hs = (if Config_GetBool ?vp (ap_config a1) ''server.http.support_prometheus''
      then hs_routes (RegisterPrometheus (http_init s)) else hs_routes (http_init s))"
    by (auto simp: hs initAndStartHttpServer_def cfg HttpServer_Init_def http_config_of_def Config_GetString_def RegisterPrometheus_def RegisterHandler_def Let_def)
  have full: "hs_token hs \<noteq> ''''" "hs_Name hs \<noteq> ''''"
    using cm(2) by (auto simp: names checkServerConfig_def Config_GetString_def split: if_splits)
  have guard: "http_serve he ctx c = Reply (RString 401 ''invalide token'')"
    if "hc_server ctx = hs" "hr_Method c = ''GET''" "hr_Path c = getRelativePath h"
      "h \<notin> {SubHandler, HelpHandler, GetCertsHandler, AuthHysteria2, StatHandler}"
      "h = MetricHandler \<longrightarrow> Config_GetBool ?vp (ap_config a1) ''server.http.support_prometheus''"
      "DefaultQuery c ''token'' '''' \<noteq> hs_token hs" for he ctx c h
    using guarded_handlers [of ctx "Config_GetBool ?vp (ap_config a1) ''server.http.support_prometheus''" s c h he] that routes
    by (auto simp: getAuthHandlerFunc_def)
  have node: "ap_node a1 = (ap_node a2)\<lparr>en_Name := hs_Name hs\<rparr>"
    using init cl(2) cm(3) names(2) by (auto simp: EndNodeServer_Init_def Config_GetString_def Let_def)
  have serving_port: "serving \<longrightarrow> 1000 \<le> es_Port es" by (simp add: srv EndNodeServer_Start_def isAddrValid_def)
  obtain c where c: "InitCluster (cluster_config ?vp cm) (se_uuid e) (se_now e) (en_cluster (ap_node a)) = (c, None)"
    and a2: "ap_node a2 = (ap_node a)\<lparr>en_local := initLocalNode (cluster_config ?vp cm) (se_uuid e), en_cluster := c\<rparr>"
    using cl(1) by (auto simp: initCluster_def Let_def split: prod.splits)
  have local: "local_ok (ap_node a1)" "ln_Token (en_local (ap_node a1)) = se_uuid e"
    using InitCluster_has_local [OF c]
    by (auto simp: node a2 local_ok_def initLocalNode_def local_entry_def cluster_config_def Config_GetString_def names(2))
  show ?thesis using cm(1) names full guard node local serving_port by auto
qed


text \<open>A configuration library over tables of strings, and a host on which everything succeeds.\<close>

definition demo_viper :: "(string \<rightharpoonup> string) viper" where
  "demo_viper = \<lparr>vp_Read = (\<lambda>text. Inr [''server.http.token'' \<mapsto> text, ''server.name'' \<mapsto> ''n'', ''server.listen'' \<mapsto> ''0.0.0.0'']),
     vp_Write = (\<lambda>v. Inr (case v ''server.http.token'' of None \<Rightarrow> '''' | Some s \<Rightarrow> s)),
     vp_Set = (\<lambda>k x v. case x of CStr s \<Rightarrow> v(k \<mapsto> s) | _ \<Rightarrow> v),
     vp_GetString = (\<lambda>v k. case v k of None \<Rightarrow> '''' | Some s \<Rightarrow> s), vp_GetInt = (\<lambda>v k. 2000), vp_GetBool = (\<lambda>v k. False),
     vp_GetStringSlice = (\<lambda>v k. []), vp_GetStringMapString = (\<lambda>v k. []), vp_static_nodes = (\<lambda>v k. Inr []),
     vp_raw_adaptive = (\<lambda>v k. Inr \<lparr>ra_Cron = '''', ra_Ports = [], ra_Tags = []\<rparr>)\<rparr>"

definition demo_cert_env :: cert_env where
  "demo_cert_env = \<lparr>legoPath = ''/.lego'', defaultCertPath = ''/cert'', ce_open_write = (\<lambda>p. None), ce_write = (\<lambda>p. None),
     ce_readdir = (\<lambda>d w. Inr []), ce_missing = (\<lambda>p. ''missing''), ce_not_after = (\<lambda>c k. Inr 0), ce_acme = (\<lambda>args w. (w, None))\<rparr>"

definition start_text :: string where
  "start_text = demo_content [ib_Config api_inbound]"

lemma load_start_text:
  "LoadConfig demo_conf (Inr start_text) hyErr pm =
     (let cfgs = [ib_Config api_inbound]; pm1 = pm\<lparr>pm_InboundConfigs := map (\<lambda>c. ib_Config (loaded c)) cfgs, pm_api := demo_api\<rparr>
      in case load_inbounds cfgs (pm_InboundManager pm) of
           (im, Some e) \<Rightarrow> (pm1\<lparr>pm_InboundManager := im\<rparr>, Some e)
         | (im, None) \<Rightarrow> (pm1\<lparr>pm_InboundManager := im\<rparr>, hyErr))"
proof -
  have "rereads demo_conf (ib_Config api_inbound)" "json_ok (encode_config demo_conf demo_api [ib_Config api_inbound])"
    by (simp_all add: rereads_def api_inbound_def decode_ptr_def json_ptr_def encode_config_def encode_inbound_def demo_conf_def)
  then have "unmarshal_config demo_conf start_text = Inr (demo_api, [ib_Config api_inbound])"
    unfolding start_text_def demo_content_def using demo_sections by (intro config_file_roundtrip) auto
  then show ?thesis by (simp add: LoadConfig_def Let_def)
qed

definition demo_start :: "(string \<rightharpoonup> string, string set, string) start_env" where
  "demo_start =
     \<lparr>se_viper = demo_viper, se_uuid = ''uuid'', se_secret = ''secret'', se_now = 5, se_cert = demo_cert_env, se_cert_order = [],
      se_init = \<lparr>ie_unreadable = (\<lambda>f. True), ie_mkdir = (\<lambda>f. None), ie_create = (\<lambda>f. None), ie_isIP = (\<lambda>h. False),
        ie_xray = (\<lambda>vs. Inr ''''), ie_hysteria = (\<lambda>vs. Inr ''''), ie_HttpPort = 0, ie_CertEmail = '''', ie_ProxyHost = ''''\<rparr>,
      se_host = demo_host, se_content = (\<lambda>fs. Inr start_text), se_conf = demo_conf, se_hysteria = (\<lambda>fs. None), se_inbound_order = [],
      se_marshal_error = None, se_write_error = None, se_codecs = demo_codecs, se_xray = demo_xray, se_user_order = [], se_cron = (\<lambda>r. True),
      se_listen = (\<lambda>addr. None)\<rparr>"

definition demo_app :: "(string \<rightharpoonup> string, string set) app" where
  "demo_app =
     \<lparr>ap_config = \<lparr>cf_v = Map.empty, cf_needFlush = False, cf_file = ''''\<rparr>,
      ap_node = \<lparr>en_Name = '''', en_local = initLocalNode demo_cfg '''', en_cluster = demo_cluster, en_shared_rsp = Map.empty\<rparr>,
      ap_certs = hs_certManager demo_server, ap_world = \<lparr>w_files = Map.empty, w_env = Map.empty\<rparr>,
      ap_users = \<lparr>um_users = Map.empty, um_readers = 0, um_writer_waits = False, um_proxy = new_pm {}, um_config = Map.empty, um_defaultTags = []\<rparr>,
      ap_processes = demo_processes\<rparr>"


lemma demo_pm_init:
  "\<exists>pm p. InitProxyManager demo_start f h v cm (new_pm {}, demo_processes) = Done (pm, p) None \<and> pm_InboundConfigs pm = [ib_Config api_inbound]"
  by (simp add: InitProxyManager_def PM_Init_def with_settings_def checkAndInitProxyConfig_def initXrayOrV2rayConfig_def initHysteriaConfig_def
      isFileExist_def demo_start_def demo_viper_def load_start_text InitRuntimeConfig_def GetInbound_map new_pm_def NewInboundManager_def
      InboundManager_Add_def loaded_def api_inbound_def apiTag_def InitAdaptive_def CycleAdaptive_def Let_def)

lemma demo_infra: "\<exists>a0. InitGlobalInfra demo_start ''secret'' demo_app = Done a0 None \<and> cf_v (ap_config a0) ''server.rpc.type'' = None"
proof -
  obtain cm where cm: "initConfig demo_viper ''secret'' = Inr cm" "initLogger demo_viper cm = cm" "\<not> is_center demo_viper cm"
      "cf_v cm ''server.rpc.type'' = None"
    by (simp add: initConfig_def Config_Init_def CheckConfig_def checkServerConfig_def is_center_def equal_fold_def initLogger_def
        demo_viper_def Config_GetString_def to_lower_def char_lower_def)
  let ?a = "demo_app\<lparr>ap_config := cm\<rparr>"
  obtain a2 where a2: "initCluster demo_start ?a = (a2, None)" "ap_config a2 = cm" "ap_users a2 = ap_users demo_app" "ap_processes a2 = demo_processes"
    by (simp add: initCluster_def InitCluster_def Cluster_LoadStaticNode_def NodeManager_LoadStaticNode_def cluster_config_def
        demo_start_def demo_viper_def demo_app_def Let_def)
  let ?a3 = "InitCertManager demo_start a2"
  have a3: "ap_users ?a3 = ap_users demo_app" "ap_processes ?a3 = demo_processes" "ap_config ?a3 = cm"
    using a2 by (simp_all add: InitCertManager_def Let_def split: prod.splits)
  let ?str = "\<lambda>k. Config_GetString demo_viper cm k"
  obtain pm p where pm: "InitProxyManager demo_start (?str ''proxy.xray_or_v2ray_config_file'') (?str ''proxy.hysteria_config_file'')
        (?str ''proxy.version'') cm (new_pm {}, demo_processes) = Done (pm, p) None"
      "pm_InboundConfigs pm = [ib_Config api_inbound]"
    using demo_pm_init by blast
  let ?a4 = "?a3\<lparr>ap_users := (ap_users ?a3)\<lparr>um_proxy := pm\<rparr>, ap_processes := p\<rparr>"
  have vp: "se_viper demo_start = demo_viper" "se_codecs demo_start = demo_codecs" "se_user_order demo_start = []" by (simp_all add: demo_start_def)
  have a4: "initProxyManager demo_start ?a3 = Done ?a4 None"
    using pm(1) by (simp add: initProxyManager_def a3 vp Let_def demo_app_def)
  obtain a5 where a5: "InitUserManager demo_start ?a4 = Done a5 None" "ap_config a5 = cm"
    using pm(2)
    by (simp add: InitUserManager_def UM_Init_def LoadUser_def GetUsersTag_def api_inbound_def GetInboundUsers_def
        VlessProtocolName_def VmessProtocolName_def TrojanProtocolName_def to_lower_def char_lower_def vp a3 Let_def)
  show ?thesis using cm a2(1) a4 a5 by (auto simp: InitGlobalInfra_def vp Let_def)
qed

theorem end_node_start_witness:
  "\<exists>a1 es hs. startServer demo_start ''secret'' demo_app (http_init demo_server) = EndStarted a1 es hs True \<and>
     hs_token hs = ''secret'' \<and> hs_Name hs = ''n'' \<and> local_ok (ap_node a1) \<and> en_Name (ap_node a1) = ''n''"
proof -
  obtain a0 where a0: "InitGlobalInfra demo_start ''secret'' demo_app = Done a0 None" "cf_v (ap_config a0) ''server.rpc.type'' = None"
    using demo_infra by blast
  then have no_center: "\<not> is_center (se_viper demo_start) (ap_config a0)"
    by (simp add: is_center_def equal_fold_def to_lower_def char_lower_def demo_start_def demo_viper_def Config_GetString_def)
  obtain a1 es where init: "EndNodeServer_Init demo_start a0 = (a1, es)" by fastforce
  have other: "vp_GetString (se_viper demo_start) (vp_Set (se_viper demo_start) ''server.name'' x v) ''server.rpc.type'' =
      vp_GetString (se_viper demo_start) v ''server.rpc.type''" for x v
    by (simp add: demo_start_def demo_viper_def split: cfg_value.splits)
  obtain cm where cm: "vp_Read (se_viper demo_start) ''secret'' = Inr (cf_v cm)" "ap_config a0 = cm"
    using InitGlobalInfra_checked [OF a0(1) no_center other] by blast
  then have v: "cf_v (ap_config a0) = [''server.http.token'' \<mapsto> ''secret'', ''server.name'' \<mapsto> ''n'', ''server.listen'' \<mapsto> ''0.0.0.0'']"
    by (simp add: demo_start_def demo_viper_def)
  then have "EndNodeServer_Start demo_start es"
    using init by (auto simp: EndNodeServer_Start_def EndNodeServer_Init_def isAddrValid_def demo_start_def demo_viper_def Config_GetString_def
        Config_GetInt_def Let_def v)
  then have start: "startServer demo_start ''secret'' demo_app (http_init demo_server) =
      EndStarted a1 es (initAndStartHttpServer demo_start a1 (http_init demo_server)) True"
    by (simp add: startServer_def a0(1) no_center init)
  from end_node_start [OF start other] start show ?thesis
    by (auto simp: demo_start_def demo_viper_def)
qed

subsection \<open>Changes of the configuration\<close>















end
