(* ===== verification/AcmeClient.thy ===== *)
theory AcmeClient
  imports Certs
begin

text \<open>
  The embedded ACME client: the storage of certificates and accounts (\<open>lego/certs_storage.go\<close>,
  \<open>lego/accounts_storage.go\<close>, \<open>lego/account.go\<close>), its set-up (\<open>lego/setup.go\<close>), the commands \<open>run\<close> and
  \<open>renew\<close> (\<open>lego/cmd_run.go\<close>, \<open>lego/cmd_renew.go\<close>) and hooks (\<open>lego/hook.go\<close>). The record \<open>acme_lib\<close> holds what the
  source calls: the ACME library and the authority behind it, the parser of the command line, PEM, X.509,
  PKCS 12 and JSON, errors of the file system, and the lines a user types. Directories are not part of
  the state: whether a file can be written is \<open>al_write\<close> and \<open>al_create\<close>. The challenges are part of the
  library's client. An error that is only logged leaves no trace.
\<close>

subsection \<open>Values\<close>

text \<open>The options of a command line.\<close>

record cli_ctx =
  cx_String :: "string \<Rightarrow> string"
  cx_Bool :: "string \<Rightarrow> bool"
  cx_Int :: "string \<Rightarrow> int"
  cx_IsSet :: "string \<Rightarrow> bool"
  cx_StringSlice :: "string \<Rightarrow> string list"

text \<open>\<open>None\<close> is a nil slice.\<close>

record cert_resource =
  rs_Domain :: string
  rs_Certificate :: string
  rs_IssuerCertificate :: "string option"
  rs_PrivateKey :: "string option"

record ('k, 'r) lego_account =
  aa_Email :: string
  aa_Registration :: "'r option"
  aa_key :: "'k option"

record 'k obtain_request =
  or_Domains :: "string list"
  or_Bundle :: bool
  or_PrivateKey :: "'k option"
  or_MustStaple :: bool
  or_PreferredChain :: string
  or_AlwaysDeactivate :: bool

datatype acme_cmd = RunCmd | RenewCmd

record ('k, 'c, 'r) acme_lib =
  al_cli :: "string list \<Rightarrow> (acme_cmd \<times> cli_ctx) result"
  al_ToASCII :: "string \<Rightarrow> string \<times> gerror option"
  al_url_host :: "string \<Rightarrow> string result"
  al_write :: "string \<Rightarrow> gerror option"
  al_create :: "string \<Rightarrow> gerror option"
  al_missing :: "string \<Rightarrow> gerror"
  al_unreadable :: "string \<Rightarrow> bool" \<comment> \<open>\<open>os.Stat\<close> fails with another error than a missing file\<close>
  al_pem :: "string \<Rightarrow> (string \<times> string) option \<times> string" \<comment> \<open>type and bytes of the first block, and the rest\<close>
  al_x509 :: "string \<Rightarrow> 'c result"
  al_rsa :: "string \<Rightarrow> 'k result"
  al_ec :: "string \<Rightarrow> 'k result"
  al_pem_key :: "string \<Rightarrow> 'k result"
  al_key_pem :: "'k \<Rightarrow> string"
  al_generate :: "string \<Rightarrow> 'k result"
  al_pkcs12 :: "'k \<Rightarrow> 'c \<Rightarrow> 'c list \<Rightarrow> string \<Rightarrow> string result"
  al_bundle :: "string \<Rightarrow> 'c list result"
  al_days_left :: "'c \<Rightarrow> int" \<comment> \<open>the hours until the certificate expires, divided by 24 and truncated\<close>
  al_domains :: "'c \<Rightarrow> string list"
  al_csr :: "string \<Rightarrow> string result" \<comment> \<open>the common name of a signing request\<close>
  al_resource_json :: "cert_resource \<Rightarrow> string result"
  al_account_json :: "string \<times> 'r option \<Rightarrow> string result"
  al_account_of :: "string \<Rightarrow> (string \<times> 'r option) \<times> gerror option"
  al_status :: "'r \<Rightarrow> string"
  al_client :: "cli_ctx \<Rightarrow> ('k, 'r) lego_account \<Rightarrow> string \<Rightarrow> gerror option"
  al_resolve :: "cli_ctx \<Rightarrow> 'k option \<Rightarrow> 'r result"
  al_Register :: "('k, 'r) lego_account \<Rightarrow> bool \<Rightarrow> 'r result"
  al_RegisterEAB :: "('k, 'r) lego_account \<Rightarrow> bool \<Rightarrow> string \<Rightarrow> string \<Rightarrow> 'r result"
  al_Obtain :: "cli_ctx \<Rightarrow> ('k, 'r) lego_account \<Rightarrow> 'k obtain_request \<Rightarrow> cert_resource result"
  al_ObtainForCSR :: "cli_ctx \<Rightarrow> ('k, 'r) lego_account \<Rightarrow> string \<Rightarrow> bool \<Rightarrow> string \<Rightarrow> bool \<Rightarrow> cert_resource result"
  al_hook :: "string list \<Rightarrow> (string \<times> string) list \<Rightarrow> world \<Rightarrow> world \<times> gerror option"
  al_stdin :: "string list"

text \<open>\<open>os.WriteFile\<close>, which truncates, and \<open>os.ReadFile\<close>.\<close>

definition acme_write :: "('k, 'c, 'r) acme_lib \<Rightarrow> string \<Rightarrow> string \<Rightarrow> world \<Rightarrow> world \<times> gerror option" where
  "acme_write l path data w =
     (case al_write l path of Some err \<Rightarrow> (w, Some err) | None \<Rightarrow> (w\<lparr>w_files := (w_files w)(path \<mapsto> data)\<rparr>, None))"

definition acme_read :: "('k, 'c, 'r) acme_lib \<Rightarrow> string \<Rightarrow> world \<Rightarrow> string result" where
  "acme_read l path w = (case w_files w path of None \<Rightarrow> Inl (al_missing l path) | Some data \<Rightarrow> Inr data)"

subsection \<open>Certificates\<close>

record certs_storage =
  st_rootPath :: string
  st_archivePath :: string
  st_pem :: bool
  st_pfx :: bool
  st_pfxPassword :: string
  st_filename :: string

definition NewCertificatesStorage :: "cli_ctx \<Rightarrow> certs_storage" where
  "NewCertificatesStorage ctx =
     \<lparr>st_rootPath = path_join (cx_String ctx ''path'') ''certificates'', st_archivePath = path_join (cx_String ctx ''path'') ''archives'',
      st_pem = cx_Bool ctx ''pem'', st_pfx = cx_Bool ctx ''pfx'', st_pfxPassword = cx_String ctx ''pfx.pass'',
      st_filename = cx_String ctx ''filename''\<rparr>"

definition sanitizedDomain :: "('k, 'c, 'r) acme_lib \<Rightarrow> string \<Rightarrow> string" where
  "sanitizedDomain l domain = fst (al_ToASCII l (replace_all ''*'' ''_'' 0 domain))"

definition GetFileName :: "('k, 'c, 'r) acme_lib \<Rightarrow> certs_storage \<Rightarrow> string \<Rightarrow> string \<Rightarrow> string" where
  "GetFileName l s domain extension = path_join (st_rootPath s) (sanitizedDomain l domain @ extension)"

definition Certs_ReadFile :: "('k, 'c, 'r) acme_lib \<Rightarrow> certs_storage \<Rightarrow> string \<Rightarrow> string \<Rightarrow> world \<Rightarrow> string result" where
  "Certs_ReadFile l s domain extension w = acme_read l (GetFileName l s domain extension) w"

definition ReadCertificate :: "('k, 'c, 'r) acme_lib \<Rightarrow> certs_storage \<Rightarrow> string \<Rightarrow> string \<Rightarrow> world \<Rightarrow> 'c list result" where
  "ReadCertificate l s domain extension w =
     (case Certs_ReadFile l s domain extension w of Inl err \<Rightarrow> Inl err | Inr content \<Rightarrow> al_bundle l content)"

definition Certs_WriteFile :: "('k, 'c, 'r) acme_lib \<Rightarrow> certs_storage \<Rightarrow> string \<Rightarrow> string \<Rightarrow> string \<Rightarrow> world \<Rightarrow> world \<times> gerror option" where
  "Certs_WriteFile l s domain extension data w =
     (let baseFileName = (if st_filename s \<noteq> '''' then st_filename s else sanitizedDomain l domain)
      in acme_write l (path_join (st_rootPath s) (baseFileName @ extension)) data w)"

definition pfx_cert :: "('k, 'c, 'r) acme_lib \<Rightarrow> string \<Rightarrow> string \<Rightarrow> string \<Rightarrow> 'c result" where
  "pfx_cert l what domain pem =
     (case fst (al_pem l pem) of
        None \<Rightarrow> Inl (''unable to parse '' @ what @ '' for domain '' @ domain)
      | Some (_, bytes) \<Rightarrow>
          (case al_x509 l bytes of Inl err \<Rightarrow> Inl (''unable to load '' @ what @ '' for domain '' @ domain @ '': '' @ err) | Inr c \<Rightarrow> Inr c))"

definition pfx_key :: "('k, 'c, 'r) acme_lib \<Rightarrow> string \<Rightarrow> string \<Rightarrow> 'k result" where
  "pfx_key l domain pem =
     (case fst (al_pem l pem) of
        None \<Rightarrow> Inl (''unable to parse PrivateKey for domain '' @ domain)
      | Some (ty, bytes) \<Rightarrow>
          if ty = ''RSA PRIVATE KEY''
          then (case al_rsa l bytes of Inl err \<Rightarrow> Inl (''unable to load RSA PrivateKey for domain '' @ domain @ '': '' @ err) | Inr k \<Rightarrow> Inr k)
          else if ty = ''EC PRIVATE KEY''
          then (case al_ec l bytes of Inl err \<Rightarrow> Inl (''unable to load EC PrivateKey for domain '' @ domain @ '': '' @ err) | Inr k \<Rightarrow> Inr k)
          else Inl (''unsupported PrivateKey type '' @ [CHR 0x27] @ ty @ [CHR 0x27] @ '' for domain '' @ domain))"

definition bytes_of :: "string option \<Rightarrow> string" where
  "bytes_of b = (case b of None \<Rightarrow> '''' | Some s \<Rightarrow> s)"

definition WritePFXFile :: "('k, 'c, 'r) acme_lib \<Rightarrow> certs_storage \<Rightarrow> string \<Rightarrow> cert_resource \<Rightarrow> world \<Rightarrow> world \<times> gerror option" where
  "WritePFXFile l s domain certRes w =
     (case pfx_cert l ''Certificate'' domain (rs_Certificate certRes) of
        Inl err \<Rightarrow> (w, Some err)
      | Inr cert \<Rightarrow>
          (case pfx_cert l ''Issuer Certificate'' domain (bytes_of (rs_IssuerCertificate certRes)) of
             Inl err \<Rightarrow> (w, Some err)
           | Inr issuerCert \<Rightarrow>
               (case pfx_key l domain (bytes_of (rs_PrivateKey certRes)) of
                  Inl err \<Rightarrow> (w, Some err)
                | Inr privateKey \<Rightarrow>
                    (case al_pkcs12 l privateKey cert [issuerCert] (st_pfxPassword s) of
                       Inl err \<Rightarrow> (w, Some (''unable to encode PFX data for domain '' @ domain @ '': '' @ err))
                     | Inr pfxBytes \<Rightarrow> Certs_WriteFile l s domain ''.pfx'' pfxBytes w))))"

definition WriteCertificateFiles ::
    "('k, 'c, 'r) acme_lib \<Rightarrow> certs_storage \<Rightarrow> string \<Rightarrow> cert_resource \<Rightarrow> world \<Rightarrow> world \<times> gerror option" where
  "WriteCertificateFiles l s domain certRes w =
     (let key = bytes_of (rs_PrivateKey certRes)
      in case Certs_WriteFile l s domain ''.key'' key w of
           (w1, Some err) \<Rightarrow> (w1, Some (''unable to save key file: '' @ err))
         | (w1, None) \<Rightarrow>
             (case (if st_pem s then Certs_WriteFile l s domain ''.pem'' (rs_Certificate certRes @ key) w1 else (w1, None)) of
                (w2, Some err) \<Rightarrow> (w2, Some (''unable to save PEM file: '' @ err))
              | (w2, None) \<Rightarrow>
                  (case (if st_pfx s then WritePFXFile l s domain certRes w2 else (w2, None)) of
                     (w3, Some err) \<Rightarrow> (w3, Some (''unable to save PFX file: '' @ err))
                   | (w3, None) \<Rightarrow> (w3, None))))"

definition SaveResource :: "('k, 'c, 'r) acme_lib \<Rightarrow> certs_storage \<Rightarrow> cert_resource \<Rightarrow> world \<Rightarrow> world" where
  "SaveResource l s certRes w =
     (let domain = rs_Domain certRes;
          w1 = fst (Certs_WriteFile l s domain ''.crt'' (rs_Certificate certRes) w);
          w2 = (case rs_IssuerCertificate certRes of
                  None \<Rightarrow> w1 | Some issuer \<Rightarrow> fst (Certs_WriteFile l s domain ''.issuer.crt'' issuer w1));
          w3 = (case rs_PrivateKey certRes of None \<Rightarrow> w2 | Some _ \<Rightarrow> fst (WriteCertificateFiles l s domain certRes w2));
          json = (case al_resource_json l certRes of Inl _ \<Rightarrow> '''' | Inr t \<Rightarrow> t)
      in fst (Certs_WriteFile l s domain ''.json'' json w3))"


subsection \<open>Accounts\<close>

record accounts_storage =
  as_userID :: string
  as_rootPath :: string
  as_rootUserPath :: string
  as_keysPath :: string
  as_accountFilePath :: string

text \<open>A server that is no URL gives a nil storage.\<close>

definition NewAccountsStorage :: "('k, 'c, 'r) acme_lib \<Rightarrow> cli_ctx \<Rightarrow> accounts_storage option" where
  "NewAccountsStorage l ctx =
     (case al_url_host l (cx_String ctx ''server'') of
        Inl _ \<Rightarrow> None
      | Inr host \<Rightarrow>
          (let email = cx_String ctx ''email''; rootPath = path_join (cx_String ctx ''path'') ''accounts'';
               serverPath = map (\<lambda>c. if c = CHR '':'' then CHR ''_'' else c) host;
               rootUserPath = path_join (path_join rootPath serverPath) email
           in Some \<lparr>as_userID = email, as_rootPath = rootPath, as_rootUserPath = rootUserPath,
                as_keysPath = path_join rootUserPath ''keys'', as_accountFilePath = path_join rootUserPath ''account.json''\<rparr>))"

definition ExistsAccountFilePath :: "('k, 'c, 'r) acme_lib \<Rightarrow> accounts_storage \<Rightarrow> world \<Rightarrow> bool" where
  "ExistsAccountFilePath l s w \<longleftrightarrow>
     (let accountFile = path_join (as_rootUserPath s) ''account.json'' in \<not> al_unreadable l accountFile \<and> w_files w accountFile \<noteq> None)"

definition Account_Save :: "('k, 'c, 'r) acme_lib \<Rightarrow> accounts_storage \<Rightarrow> ('k, 'r) lego_account \<Rightarrow> world \<Rightarrow> world \<times> gerror option" where
  "Account_Save l s account w =
     (case al_account_json l (aa_Email account, aa_Registration account) of
        Inl err \<Rightarrow> (w, Some err) | Inr json \<Rightarrow> acme_write l (as_accountFilePath s) json w)"

definition tryRecoverRegistration :: "('k, 'c, 'r) acme_lib \<Rightarrow> cli_ctx \<Rightarrow> 'k option \<Rightarrow> 'r result" where
  "tryRecoverRegistration l ctx privateKey = al_resolve l ctx privateKey"

definition LoadAccount ::
    "('k, 'c, 'r) acme_lib \<Rightarrow> cli_ctx \<Rightarrow> accounts_storage \<Rightarrow> 'k option \<Rightarrow> world \<Rightarrow> world \<times> ('k, 'r) lego_account" where
  "LoadAccount l ctx s privateKey w =
     (let fileBytes = (case acme_read l (as_accountFilePath s) w of Inl _ \<Rightarrow> '''' | Inr data \<Rightarrow> data);
          (email, reg) = fst (al_account_of l fileBytes);
          account = \<lparr>aa_Email = email, aa_Registration = reg, aa_key = privateKey\<rparr>
      in if (case reg of None \<Rightarrow> True | Some r \<Rightarrow> al_status l r = '''')
         then (let account' = account\<lparr>aa_Registration := (case tryRecoverRegistration l ctx privateKey of Inl _ \<Rightarrow> None | Inr r \<Rightarrow> Some r)\<rparr>
               in (fst (Account_Save l s account' w), account'))
         else (w, account))"

definition generatePrivateKey :: "('k, 'c, 'r) acme_lib \<Rightarrow> string \<Rightarrow> string \<Rightarrow> world \<Rightarrow> world \<times> 'k result" where
  "generatePrivateKey l file keyType w =
     (case al_generate l keyType of
        Inl err \<Rightarrow> (w, Inl err)
      | Inr key \<Rightarrow>
          (case al_create l file of
             Some err \<Rightarrow> (w, Inl err)
           | None \<Rightarrow> (w\<lparr>w_files := (w_files w)(file \<mapsto> al_key_pem l key)\<rparr>, Inr key)))"

text \<open>A file without a PEM block dereferences nil.\<close>

definition loadPrivateKey :: "('k, 'c, 'r) acme_lib \<Rightarrow> string \<Rightarrow> world \<Rightarrow> (world, 'k result) outcome" where
  "loadPrivateKey l file w =
     (case acme_read l file w of
        Inl err \<Rightarrow> Done w (Inl err)
      | Inr keyBytes \<Rightarrow>
          (case fst (al_pem l keyBytes) of
             None \<Rightarrow> Panicked w
           | Some (ty, bytes) \<Rightarrow>
               Done w (if ty = ''RSA PRIVATE KEY'' then al_rsa l bytes
                       else if ty = ''EC PRIVATE KEY'' then al_ec l bytes
                       else Inl ''unknown private key type'')))"

definition opt_of :: "'a result \<Rightarrow> 'a option" where
  "opt_of r = (case r of Inl _ \<Rightarrow> None | Inr x \<Rightarrow> Some x)"

definition GetPrivateKey ::
    "('k, 'c, 'r) acme_lib \<Rightarrow> accounts_storage \<Rightarrow> string \<Rightarrow> world \<Rightarrow> (world, 'k option) outcome" where
  "GetPrivateKey l s keyType w =
     (let accKeyPath = path_join (as_keysPath s) (as_userID s @ ''.key'')
      in if w_files w accKeyPath = None \<and> \<not> al_unreadable l accKeyPath
         then (case generatePrivateKey l accKeyPath keyType w of (w1, r) \<Rightarrow> Done w1 (opt_of r))
         else bind_o (loadPrivateKey l accKeyPath w) (\<lambda>w r. Done w (opt_of r)))"

subsection \<open>Set-up\<close>

text \<open>The constants of the library by their names.\<close>

definition getKeyType :: "cli_ctx \<Rightarrow> string" where
  "getKeyType ctx =
     (let keyType = map char_upper (cx_String ctx ''key-type'')
      in if keyType \<in> {''RSA2048'', ''RSA4096'', ''RSA8192'', ''EC256'', ''EC384''} then keyType else '''')"

text \<open>A client that could not be made is nil and dereferenced at once, as is a nil storage.\<close>

definition lego_setup ::
    "('k, 'c, 'r) acme_lib \<Rightarrow> cli_ctx \<Rightarrow> accounts_storage option \<Rightarrow> world \<Rightarrow> (world, ('k, 'r) lego_account) outcome" where
  "lego_setup l ctx storage w =
     (case storage of
        None \<Rightarrow> Panicked w
      | Some s \<Rightarrow>
          bind_o (GetPrivateKey l s (getKeyType ctx) w) (\<lambda>w privateKey.
            case (if ExistsAccountFilePath l s w then LoadAccount l ctx s privateKey w
                  else (w, \<lparr>aa_Email = as_userID s, aa_Registration = None, aa_key = privateKey\<rparr>)) of
              (w, account) \<Rightarrow> (case al_client l ctx account (getKeyType ctx) of Some _ \<Rightarrow> Panicked w | None \<Rightarrow> Done w account)))"

text \<open>The CSR is the last block of its type, or the whole file. The fuel is the length of the text.\<close>

fun csr_block :: "('k, 'c, 'r) acme_lib \<Rightarrow> nat \<Rightarrow> string \<Rightarrow> string \<Rightarrow> string" where
  "csr_block l 0 rest raw = raw"
| "csr_block l (Suc n) rest raw =
     (case al_pem l rest of
        (None, _) \<Rightarrow> raw
      | (Some (ty, bytes), rest') \<Rightarrow>
          csr_block l n rest' (if ty = ''CERTIFICATE REQUEST'' \<or> ty = ''NEW CERTIFICATE REQUEST'' then bytes else raw))"

text \<open>The bytes of the request and its common name.\<close>

definition readCSRFile :: "('k, 'c, 'r) acme_lib \<Rightarrow> string \<Rightarrow> world \<Rightarrow> (string \<times> string) result" where
  "readCSRFile l filename w =
     (case acme_read l filename w of
        Inl err \<Rightarrow> Inl err
      | Inr data \<Rightarrow>
          (let raw = csr_block l (Suc (length data)) data data
           in case al_csr l raw of Inl err \<Rightarrow> Inl err | Inr name \<Rightarrow> Inr (raw, name)))"

definition go_space :: "char \<Rightarrow> bool" where
  "go_space c \<longleftrightarrow> c \<in> set [CHR 0x09, CHR 0x0A, CHR 0x0B, CHR 0x0C, CHR 0x0D, CHR '' '']"

text \<open>\<open>strings.Fields\<close> on ASCII.\<close>

fun fields_loop :: "string \<Rightarrow> string \<Rightarrow> string list" where
  "fields_loop acc [] = (if acc = [] then [] else [rev acc])"
| "fields_loop acc (c # cs) =
     (if go_space c then (if acc = [] then fields_loop [] cs else rev acc # fields_loop [] cs) else fields_loop (c # acc) cs)"

text \<open>A hook of spaces only has no first field.\<close>

definition launchHook :: "('k, 'c, 'r) acme_lib \<Rightarrow> string \<Rightarrow> (string \<times> string) list \<Rightarrow> world \<Rightarrow> (world, gerror option) outcome" where
  "launchHook l hook meta w =
     (if hook = '''' then Done w None
      else case fields_loop [] hook of
        [] \<Rightarrow> Panicked w
      | parts \<Rightarrow> (case al_hook l parts meta w of (w', r) \<Rightarrow> Done w' r))"

subsection \<open>The command run\<close>

text \<open>Each element is what one \<open>ReadString\<close> returns; at the end of the input the text is empty.\<close>

fun handleTOS :: "bool \<Rightarrow> string list \<Rightarrow> bool" where
  "handleTOS accept [] = True"
| "handleTOS accept (line # lines) =
     (if accept then True
      else let t = rev (dropWhile (\<lambda>c. c \<in> {CHR 0x0D, CHR 0x0A}) (rev (dropWhile (\<lambda>c. c \<in> {CHR 0x0D, CHR 0x0A}) line)))
           in if t = '''' \<or> t = ''y'' \<or> t = ''Y'' then True
              else if t = ''n'' \<or> t = ''N'' then False
              else handleTOS accept lines)"

text \<open>Without external binding the terms are agreed to whatever the answer was.\<close>

definition register :: "('k, 'c, 'r) acme_lib \<Rightarrow> cli_ctx \<Rightarrow> ('k, 'r) lego_account \<Rightarrow> 'r result" where
  "register l ctx account =
     (let accepted = handleTOS (cx_Bool ctx ''accept-tos'') (al_stdin l)
      in if cx_Bool ctx ''eab'' then al_RegisterEAB l account accepted (cx_String ctx ''kid'') (cx_String ctx ''hmac'')
         else al_Register l account True)"

definition obtainCertificate ::
    "('k, 'c, 'r) acme_lib \<Rightarrow> cli_ctx \<Rightarrow> ('k, 'r) lego_account \<Rightarrow> world \<Rightarrow> cert_resource result" where
  "obtainCertificate l ctx account w =
     (let bundle = (\<not> cx_Bool ctx ''no-bundle''); domains = cx_StringSlice ctx ''domains''
      in if domains \<noteq> []
         then al_Obtain l ctx account
                \<lparr>or_Domains = domains, or_Bundle = bundle, or_PrivateKey = None, or_MustStaple = cx_Bool ctx ''must-staple'',
                 or_PreferredChain = cx_String ctx ''preferred-chain'',
                 or_AlwaysDeactivate = cx_Bool ctx ''always-deactivate-authorizations''\<rparr>
         else (case readCSRFile l (cx_String ctx ''csr'') w of
                 Inl err \<Rightarrow> Inl err
               | Inr (csr, _) \<Rightarrow> al_ObtainForCSR l ctx account csr bundle (cx_String ctx ''preferred-chain'')
                   (cx_Bool ctx ''always-deactivate-authorizations'')))"

definition run_register ::
    "('k, 'c, 'r) acme_lib \<Rightarrow> cli_ctx \<Rightarrow> accounts_storage \<Rightarrow> ('k, 'r) lego_account \<Rightarrow> world \<Rightarrow> world \<times> ('k, 'r) lego_account result" where
  "run_register l ctx s account w =
     (if aa_Registration account \<noteq> None then (w, Inr account)
      else case register l ctx account of
        Inl err \<Rightarrow> (w, Inl err)
      | Inr reg \<Rightarrow>
          (let account' = account\<lparr>aa_Registration := Some reg\<rparr>
           in case Account_Save l s account' w of (w1, Some err) \<Rightarrow> (w1, Inl err) | (w1, None) \<Rightarrow> (w1, Inr account')))"

definition acme_run :: "('k, 'c, 'r) acme_lib \<Rightarrow> cli_ctx \<Rightarrow> world \<Rightarrow> (world, gerror option) outcome" where
  "acme_run l ctx w =
     bind_o (lego_setup l ctx (NewAccountsStorage l ctx) w) (\<lambda>w account.
       case NewAccountsStorage l ctx of
         None \<Rightarrow> Panicked w
       | Some s \<Rightarrow>
           (case run_register l ctx s account w of
              (w, Inl err) \<Rightarrow> Done w (Some err)
            | (w, Inr account) \<Rightarrow>
                (case obtainCertificate l ctx account w of
                   Inl err \<Rightarrow> Done w (Some err)
                 | Inr cert \<Rightarrow>
                     (let st = NewCertificatesStorage ctx
                      in launchHook l (cx_String ctx ''run-hook'')
                           [(''LEGO_ACCOUNT_EMAIL'', aa_Email account), (''LEGO_CERT_DOMAIN'', rs_Domain cert),
                            (''LEGO_CERT_PATH'', GetFileName l st (rs_Domain cert) ''.crt''),
                            (''LEGO_CERT_KEY_PATH'', GetFileName l st (rs_Domain cert) ''.key'')]
                           (SaveResource l st cert w)))))"

subsection \<open>The command renew\<close>

definition needRenewal :: "('k, 'c, 'r) acme_lib \<Rightarrow> 'c \<Rightarrow> int \<Rightarrow> bool" where
  "needRenewal l cert days \<longleftrightarrow> \<not> (days \<ge> 0 \<and> al_days_left l cert > days)"

fun merge :: "string list \<Rightarrow> string list \<Rightarrow> string list" where
  "merge prevDomains [] = prevDomains"
| "merge prevDomains (nxt # nextDomains) =
     merge (if nxt \<in> set prevDomains then prevDomains else prevDomains @ [nxt]) nextDomains"

text \<open>A missing or unreadable certificate is only logged; then the first of no certificates is taken.\<close>

definition renewForDomains ::
    "('k, 'c, 'r) acme_lib \<Rightarrow> cli_ctx \<Rightarrow> ('k, 'r) lego_account \<Rightarrow> certs_storage \<Rightarrow> bool \<Rightarrow> world \<Rightarrow> (world, gerror option) outcome" where
  "renewForDomains l ctx account st bundle w =
     (case cx_StringSlice ctx ''domains'' of
        [] \<Rightarrow> Panicked w
      | domain # others \<Rightarrow>
          (case ReadCertificate l st domain ''.crt'' w of
             Inr (cert # _) \<Rightarrow>
               if \<not> needRenewal l cert (cx_Int ctx ''days'') then Done w None
               else (case (if cx_Bool ctx ''reuse-key''
                           then (case al_pem_key l (case Certs_ReadFile l st domain ''.key'' w of Inl _ \<Rightarrow> '''' | Inr k \<Rightarrow> k) of
                                   Inl err \<Rightarrow> Inl err | Inr k \<Rightarrow> Inr (Some k))
                           else Inr None) of
                       Inl err \<Rightarrow> Done w (Some err)
                     | Inr privateKey \<Rightarrow>
                         (case al_Obtain l ctx account
                                 \<lparr>or_Domains = merge (al_domains l cert) (domain # others), or_Bundle = bundle, or_PrivateKey = privateKey,
                                  or_MustStaple = cx_Bool ctx ''must-staple'', or_PreferredChain = cx_String ctx ''preferred-chain'',
                                  or_AlwaysDeactivate = cx_Bool ctx ''always-deactivate-authorizations''\<rparr> of
                            Inl err \<Rightarrow> Done w (Some err)
                          | Inr certRes \<Rightarrow>
                              launchHook l (cx_String ctx ''renew-hook'')
                                [(''LEGO_ACCOUNT_EMAIL'', aa_Email account), (''LEGO_CERT_DOMAIN'', domain),
                                 (''LEGO_CERT_PATH'', GetFileName l st domain ''.crt''), (''LEGO_CERT_KEY_PATH'', GetFileName l st domain ''.key''),
                                 (''LEGO_CERT_PEM_PATH'', GetFileName l st domain ''.pem''), (''LEGO_CERT_PFX_PATH'', GetFileName l st domain ''.pfx'')]
                                (SaveResource l st certRes w)))
           | _ \<Rightarrow> Panicked w))"

text \<open>An error of the authority is only logged; then nil is saved.\<close>

definition renewForCSR ::
    "('k, 'c, 'r) acme_lib \<Rightarrow> cli_ctx \<Rightarrow> ('k, 'r) lego_account \<Rightarrow> certs_storage \<Rightarrow> bool \<Rightarrow> world \<Rightarrow> (world, gerror option) outcome" where
  "renewForCSR l ctx account st bundle w =
     (case readCSRFile l (cx_String ctx ''csr'') w of
        Inl err \<Rightarrow> Done w (Some err)
      | Inr (csr, domain) \<Rightarrow>
          (case ReadCertificate l st domain ''.crt'' w of
             Inr (cert # _) \<Rightarrow>
               if \<not> needRenewal l cert (cx_Int ctx ''days'') then Done w None
               else (case al_ObtainForCSR l ctx account csr bundle (cx_String ctx ''preferred-chain'')
                            (cx_Bool ctx ''always-deactivate-authorizations'') of
                       Inl err \<Rightarrow> Panicked w
                     | Inr certRes \<Rightarrow>
                         launchHook l (cx_String ctx ''renew-hook'')
                           [(''LEGO_ACCOUNT_EMAIL'', aa_Email account), (''LEGO_CERT_DOMAIN'', domain),
                            (''LEGO_CERT_PATH'', GetFileName l st domain ''.crt''), (''LEGO_CERT_KEY_PATH'', GetFileName l st domain ''.key'')]
                           (SaveResource l st certRes w))
           | _ \<Rightarrow> Panicked w))"

definition renew :: "('k, 'c, 'r) acme_lib \<Rightarrow> cli_ctx \<Rightarrow> world \<Rightarrow> (world, gerror option) outcome" where
  "renew l ctx w =
     bind_o (lego_setup l ctx (NewAccountsStorage l ctx) w) (\<lambda>w account.
       (let st = NewCertificatesStorage ctx; bundle = (\<not> cx_Bool ctx ''no-bundle'')
        in if cx_IsSet ctx ''csr'' then renewForCSR l ctx account st bundle w else renewForDomains l ctx account st bundle w))"

text \<open>\<open>app.Run\<close>, for the two commands that the certificate manager gives.\<close>

definition app_Run :: "('k, 'c, 'r) acme_lib \<Rightarrow> string list \<Rightarrow> world \<Rightarrow> (world, gerror option) outcome" where
  "app_Run l args w =
     (case al_cli l args of
        Inl err \<Rightarrow> Done w (Some err)
      | Inr (RunCmd, ctx) \<Rightarrow> acme_run l ctx w
      | Inr (RenewCmd, ctx) \<Rightarrow> renew l ctx w)"

end
