(* ===== verification/AcmeProps.thy ===== *)
theory AcmeProps
  imports AcmeClient
begin

text \<open>
  Properties of the ACME client and of the certificate manager over it: which files a run writes and
  which of them the node installs, that an account keeps its key, and which domains a renewal covers.
\<close>

subsection \<open>Paths with an extension\<close>

lemma split_on_append_ext:
  "sep \<notin> set ext \<Longrightarrow> split_on sep (s @ ext) = butlast (split_on sep s) @ [last (split_on sep s) @ ext]"
proof (induction s)
  case Nil
  then show ?case by (simp add: split_on_no_sep)
next
  case (Cons c cs)
  then show ?case by (cases "split_on sep cs"; cases "tl (split_on sep cs)") (auto split: list.splits)
qed

lemma clean_parts_last: "q \<notin> {'''', ''.'', ''..''} \<Longrightarrow> clean_parts r (ps @ [q]) st = clean_parts r ps st @ [q]"
  by (induction r ps st rule: clean_parts.induct) auto

lemma str_join_append_ext: "str_join sep (xs @ [x @ ext]) = str_join sep (xs @ [x]) @ ext"
proof (induction xs)
  case (Cons y ys)
  then show ?case by (cases ys) auto
qed simp

definition path_stem :: "string \<Rightarrow> string \<Rightarrow> string" where
  "path_stem a b =
     (let s = (if a = '''' then b else a @ ''/'' @ b); rooted = has_prefix ''/'' s; ps = split_on (CHR ''/'') s
      in (if rooted then ''/'' else '''') @ str_join ''/'' (clean_parts rooted (butlast ps) [] @ [last ps]))"

definition file_ext :: "string \<Rightarrow> bool" where
  "file_ext ext \<longleftrightarrow> CHR ''/'' \<notin> set ext \<and> 3 \<le> length ext"

lemma path_clean_ext:
  assumes "file_ext ext"
  shows "path_clean (s @ ext) = path_stem '''' s @ ext"
proof -
  let ?ps = "split_on (CHR ''/'') s"
  have rooted: "has_prefix ''/'' (s @ ext) = has_prefix ''/'' s"
    using assms by (cases s; cases ext) (auto simp: file_ext_def)
  have q: "last ?ps @ ext \<notin> {'''', ''.'', ''..''}"
  proof
    assume "last ?ps @ ext \<in> {'''', ''.'', ''..''}"
    then have "length (last ?ps @ ext) \<le> 2" by (elim insertE emptyE) (simp_all del: length_append)
    with assms show False by (simp add: file_ext_def)
  qed
  have body: "str_join ''/'' (clean_parts r (split_on (CHR ''/'') (s @ ext)) []) =
      str_join ''/'' (clean_parts r (butlast ?ps) [] @ [last ?ps]) @ ext" for r
    using assms by (simp add: file_ext_def split_on_append_ext clean_parts_last [OF q] str_join_append_ext)
  have "ext \<noteq> []" using assms by (auto simp: file_ext_def)
  then show ?thesis by (simp add: path_clean_def path_stem_def rooted body Let_def)
qed

lemma path_join_ext: "file_ext ext \<Longrightarrow> path_join a (b @ ext) = path_stem a b @ ext"
  using path_clean_ext [of ext b] path_clean_ext [of ext "a @ ''/'' @ b"]
  by (auto simp: path_join_def path_stem_def file_ext_def)

lemma file_exts:
  "file_ext ''.crt''" "file_ext ''.key''" "file_ext ''.json''" "file_ext ''.pem''" "file_ext ''.pfx''" "file_ext ''.issuer.crt''"
  by (simp_all add: file_ext_def)

subsection \<open>Saving a certificate\<close>

lemma WriteFile_files:
  assumes "al_write l = (\<lambda>p. None)" and "st_filename st = ''''" and "file_ext ext"
  shows "Certs_WriteFile l st domain ext data w =
    (w\<lparr>w_files := (w_files w)(path_stem (st_rootPath st) (sanitizedDomain l domain) @ ext \<mapsto> data)\<rparr>, None)"
  using assms by (simp add: Certs_WriteFile_def acme_write_def path_join_ext Let_def)


text \<open>Which other files a PKCS 12 archive leaves alone.\<close>

lemma WritePFXFile_files:
  assumes "al_write l = (\<lambda>p. None)" and "st_filename st = ''''" and "p \<noteq> path_stem (st_rootPath st) (sanitizedDomain l domain) @ ''.pfx''"
  shows "w_files (fst (WritePFXFile l st domain res w)) p = w_files w p"
  using assms by (auto simp: WritePFXFile_def WriteFile_files file_exts split: sum.splits)

lemma WriteCertificateFiles_files:
  assumes "al_write l = (\<lambda>p. None)" and "st_filename st = ''''"
  shows "w_files (fst (WriteCertificateFiles l st domain res w)) (path_stem (st_rootPath st) (sanitizedDomain l domain) @ ''.key'') =
      Some (bytes_of (rs_PrivateKey res))" (is ?key)
    and "p \<notin> (\<lambda>ext. path_stem (st_rootPath st) (sanitizedDomain l domain) @ ext) ` {''.key'', ''.pem'', ''.pfx''} \<Longrightarrow>
      w_files (fst (WriteCertificateFiles l st domain res w)) p = w_files w p" (is "_ \<Longrightarrow> ?frame")
proof -
  let ?f = "\<lambda>ext. path_stem (st_rootPath st) (sanitizedDomain l domain) @ ext" and ?k = "bytes_of (rs_PrivateKey res)"
  let ?w1 = "w\<lparr>w_files := (w_files w)(?f ''.key'' \<mapsto> ?k)\<rparr>"
  let ?w2 = "if st_pem st then ?w1\<lparr>w_files := (w_files ?w1)(?f ''.pem'' \<mapsto> rs_Certificate res @ ?k)\<rparr> else ?w1"
  have "fst (WriteCertificateFiles l st domain res w) = (if st_pfx st then fst (WritePFXFile l st domain res ?w2) else ?w2)"
    by (auto simp: WriteCertificateFiles_def WriteFile_files [OF assms] file_exts Let_def split: prod.splits option.splits)
  then show ?key and "p \<notin> ?f ` {''.key'', ''.pem'', ''.pfx''} \<Longrightarrow> ?frame"
    by (auto simp: WritePFXFile_files [OF assms])
qed

text \<open>What is saved can be read back.\<close>

lemma SaveResource_files:
  assumes "al_write l = (\<lambda>p. None)" and "st_filename st = ''''"
  shows "w_files (SaveResource l st res w) (GetFileName l st (rs_Domain res) ''.crt'') = Some (rs_Certificate res)"
    and "rs_PrivateKey res = Some key \<Longrightarrow> w_files (SaveResource l st res w) (GetFileName l st (rs_Domain res) ''.key'') = Some key"
  by (auto simp: SaveResource_def GetFileName_def path_join_ext WriteFile_files [OF assms] WriteCertificateFiles_files [OF assms] file_exts
      bytes_of_def Let_def split: option.splits)


lemma acme_run_saves:
  assumes "acme_run l ctx w = Done w1 None" and "cx_String ctx ''run-hook'' = ''''"
  shows "\<exists>acc w0 res. obtainCertificate l ctx acc w0 = Inr res \<and> w1 = SaveResource l (NewCertificatesStorage ctx) res w0"
proof -
  obtain w2 account s where s: "NewAccountsStorage l ctx = Some s" and su: "lego_setup l ctx (Some s) w = Done w2 account"
    using assms(1) by (auto simp: acme_run_def bind_o_Done_iff split: option.splits)
  note rest = assms(1) [unfolded acme_run_def s su bind_o.simps option.case launchHook_def assms(2) Let_def]
  obtain w3 r where reg: "run_register l ctx s account w2 = (w3, r)" by fastforce
  obtain acc where acc: "r = Inr acc" using rest by (cases r) (auto simp: reg)
  obtain res where "obtainCertificate l ctx acc w3 = Inr res" using rest by (cases "obtainCertificate l ctx acc w3") (auto simp: reg acc)
  with rest show ?thesis by (auto simp: reg acc)
qed

subsection \<open>Installing a certificate\<close>

lemma copyFile_ok:
  assumes "copyFile e src dst w = (w', None)"
  shows "\<exists>data. w_files w src = Some data \<and> w_files w' = (w_files w)(dst \<mapsto> overwrite data (w_files w dst))"
  using assms by (auto simp: copyFile_def write_file_def split: option.splits)

lemma ext_differ: "s @ ''.crt'' \<noteq> t @ ''.key''"
  by (auto dest: arg_cong [where f = rev])

lemma cert_key_differ: "path_join a (file_name domain ''.crt'') \<noteq> path_join b (file_name domain ''.key'')"
  by (simp add: file_name_def path_join_ext file_exts ext_differ)

lemma copied_cert_and_key:
  assumes "copyCertAndKeyFile e domain cm w = (w', None)"
    and "w_files w (path_join (path_join (legoPath e) subCertPath) (file_name domain ''.crt'')) = Some cert"
    and "w_files w (path_join (path_join (legoPath e) subCertPath) (file_name domain ''.key'')) = Some key"
  shows "w_files w' (path_join (cm_Path cm) (file_name domain ''.crt'')) =
      Some (overwrite cert (w_files w (path_join (cm_Path cm) (file_name domain ''.crt''))))"
    and "w_files w' (path_join (cm_Path cm) (file_name domain ''.key'')) =
      Some (overwrite key (w_files w (path_join (cm_Path cm) (file_name domain ''.key''))))"
proof -
  let ?lego = "path_join (legoPath e) subCertPath"
  let ?crt = "path_join (cm_Path cm) (file_name domain ''.crt'')" and ?key = "path_join (cm_Path cm) (file_name domain ''.key'')"
  obtain w1 where c1: "copyFile e (path_join ?lego (file_name domain ''.crt'')) ?crt w = (w1, None)"
    and c2: "copyFile e (path_join ?lego (file_name domain ''.key'')) ?key w1 = (w', None)"
    using assms(1) by (auto simp: copyCertAndKeyFile_def Let_def split: prod.splits option.splits)
  show "w_files w' ?crt = Some (overwrite cert (w_files w ?crt))" "w_files w' ?key = Some (overwrite key (w_files w ?key))"
    using copyFile_ok [OF c1] copyFile_ok [OF c2] assms(2,3) cert_key_differ cert_key_differ [symmetric] by auto
qed

text \<open>
  Errors of saving are only logged: when no file can be written, the client reports no error and leaves
  the files as they were, and \<open>ObtainNewCert\<close> goes on with an older certificate that lies there.
\<close>

lemma unsaved_certificate:
  assumes "\<And>p. al_write l p \<noteq> None"
  shows "SaveResource l st res w = w"
proof -
  have failing: "\<exists>err. Certs_WriteFile l st d ext data v = (v, Some err)" for d ext data v
  proof -
    let ?p = "path_join (st_rootPath st) ((if st_filename st \<noteq> '''' then st_filename st else sanitizedDomain l d) @ ext)"
    obtain err where "al_write l ?p = Some err" using assms by blast
    then show ?thesis by (simp only: Certs_WriteFile_def acme_write_def Let_def option.case) blast
  qed
  then have none: "fst (Certs_WriteFile l st d ext data v) = v" for d ext data v by (metis fst_conv)
  have "fst (WriteCertificateFiles l st d r v) = v" for d r v
  proof -
    obtain err where "Certs_WriteFile l st d ''.key'' (bytes_of (rs_PrivateKey r)) v = (v, Some err)" using failing by blast
    then show ?thesis by (simp add: WriteCertificateFiles_def Let_def)
  qed
  with none show ?thesis by (simp add: SaveResource_def Let_def split: option.split)
qed

text \<open>
  C21: a certificate that is obtained is the one that is installed. When the certificate manager gets a
  certificate for a new domain without an error, and the client could write its files, the authority has
  issued it for this domain, and the files at the paths the table names start with the issued certificate
  and its key, with the expiry time read from them. The files are not truncated: of a longer file that was there
  before, the rest follows.
\<close>

theorem obtained_cert_installed:
  assumes "ObtainNewCert e domain cm w = (cm', w', None)" and "cm_Certs cm domain = None"
    and "args = [''lego'', ''--accept-tos'', ''--email'', cm_Email cm, ''--domains'', domain, ''--dns'', cm_DnsProvider cm] @ cm_Args cm @ [''run'']"
    and "\<And>v r. ce_acme e args (SetEnvs (cm_Secrets cm) w) = (v, r) \<Longrightarrow> app_Run l args (SetEnvs (cm_Secrets cm) w) = Done v r"
    and "al_cli l args = Inr (RunCmd, ctx)"
    and "cx_String ctx ''path'' = legoPath e" and "cx_String ctx ''filename'' = ''''" and "cx_String ctx ''run-hook'' = ''''"
    and "cx_StringSlice ctx ''domains'' = [domain]"
    and "al_write l = (\<lambda>p. None)" and "fst (al_ToASCII l (replace_all ''*'' ''_'' 0 domain)) = replace_all ''*'' ''_'' 0 domain"
    and "\<And>acc req res. al_Obtain l ctx acc req = Inr res \<Longrightarrow> rs_Domain res = hd (or_Domains req) \<and> rs_PrivateKey res \<noteq> None"
  shows "\<exists>acc req res key w1 c. al_Obtain l ctx acc req = Inr res \<and> or_Domains req = [domain] \<and> rs_PrivateKey res = Some key \<and>
    ce_acme e args (SetEnvs (cm_Secrets cm) w) = (w1, None) \<and> cm_Certs cm' = (cm_Certs cm)(domain \<mapsto> c) \<and> ct_Domain c = domain \<and>
    w_files w' (ct_CertificateFile c) = Some (overwrite (rs_Certificate res) (w_files w1 (ct_CertificateFile c))) \<and>
    w_files w' (ct_KeyFile c) = Some (overwrite key (w_files w1 (ct_KeyFile c))) \<and>
    ce_not_after e (overwrite (rs_Certificate res) (w_files w1 (ct_CertificateFile c))) (overwrite key (w_files w1 (ct_KeyFile c))) =
      Inr (ct_ExpireTime c)"
proof -
  obtain w1 where acme: "ce_acme e args (SetEnvs (cm_Secrets cm) w) = (w1, None)" and copied: "copyCertAndKeyFile e domain cm w1 = (w', None)"
    and table: "\<exists>c. fullCertExpireTime e w' \<lparr>ct_Domain = domain, ct_CertificateFile = path_join (cm_Path cm) (file_name domain ''.crt''),
        ct_KeyFile = path_join (cm_Path cm) (file_name domain ''.key''), ct_ExpireTime = 0, ct_ObtainedByLocal = False\<rparr> = (c, None) \<and>
        cm_Certs cm' = (cm_Certs cm)(domain \<mapsto> c)"
    using assms(1-3) by (fastforce simp: ObtainNewCert_def split: option.splits if_splits prod.splits)
  have "acme_run l ctx (SetEnvs (cm_Secrets cm) w) = Done w1 None"
    using assms(4) [OF acme] assms(5) by (simp add: app_Run_def)
  then obtain acc w0 res where ob: "obtainCertificate l ctx acc w0 = Inr res" and w1: "w1 = SaveResource l (NewCertificatesStorage ctx) res w0"
    using acme_run_saves [OF _ assms(8)] by blast
  obtain req where req: "al_Obtain l ctx acc req = Inr res" "or_Domains req = [domain]"
    using ob assms(9) by (auto simp: obtainCertificate_def Let_def)
  obtain key where key: "rs_Domain res = domain" "rs_PrivateKey res = Some key" using assms(12) [OF req(1)] req(2) by auto
  let ?st = "NewCertificatesStorage ctx"
  have st: "st_filename ?st = ''''" "st_rootPath ?st = path_join (legoPath e) subCertPath"
    using assms(6,7) by (simp_all add: NewCertificatesStorage_def subCertPath_def)
  have name: "GetFileName l ?st domain ext = path_join (path_join (legoPath e) subCertPath) (file_name domain ext)" for ext
    using assms(11) by (simp add: GetFileName_def st sanitizedDomain_def file_name_def)
  have "w_files w1 (path_join (path_join (legoPath e) subCertPath) (file_name domain ''.crt'')) = Some (rs_Certificate res)"
      "w_files w1 (path_join (path_join (legoPath e) subCertPath) (file_name domain ''.key'')) = Some key"
    using SaveResource_files [OF assms(10) st(1), where res = res and w = w0] key by (simp_all add: w1 name)
  note installed = copied_cert_and_key [OF copied this]
  obtain c0 where c0: "cm_Certs cm' = (cm_Certs cm)(domain \<mapsto> c0)"
      "fullCertExpireTime e w' \<lparr>ct_Domain = domain, ct_CertificateFile = path_join (cm_Path cm) (file_name domain ''.crt''),
        ct_KeyFile = path_join (cm_Path cm) (file_name domain ''.key''), ct_ExpireTime = 0, ct_ObtainedByLocal = False\<rparr> = (c0, None)"
    using table by blast
  have c: "cm_Certs cm' = (cm_Certs cm)(domain \<mapsto> c0)" "ct_Domain c0 = domain"
      "ct_CertificateFile c0 = path_join (cm_Path cm) (file_name domain ''.crt'')" "ct_KeyFile c0 = path_join (cm_Path cm) (file_name domain ''.key'')"
      "ce_not_after e (overwrite (rs_Certificate res) (w_files w1 (path_join (cm_Path cm) (file_name domain ''.crt''))))
        (overwrite key (w_files w1 (path_join (cm_Path cm) (file_name domain ''.key'')))) = Inr (ct_ExpireTime c0)"
    using c0 installed by (auto simp: fullCertExpireTime_def split: sum.splits)
  with req key(2) installed acme show ?thesis by metis
qed


subsection \<open>The key of an account\<close>

lemma loadPrivateKey_state: "loadPrivateKey l f w = Done w' r \<Longrightarrow> w' = w"
  by (auto simp: loadPrivateKey_def split: sum.splits option.splits)

text \<open>
  An account keeps its key. Once the client has a key for an account, however it got it, every later
  start of the client finds the same key in the same file, whatever key type it is asked for, as
  long as a key that is written as PEM is read back and the file is left alone.
\<close>

theorem account_key_kept:
  assumes "GetPrivateKey l s keyType w = Done w1 (Some key)"
    and "w_files w2 (path_join (as_keysPath s) (as_userID s @ ''.key'')) = w_files w1 (path_join (as_keysPath s) (as_userID s @ ''.key''))"
    and "\<And>k. \<exists>bytes. fst (al_pem l (al_key_pem l k)) = Some (''RSA PRIVATE KEY'', bytes) \<and> al_rsa l bytes = Inr k \<or>
        fst (al_pem l (al_key_pem l k)) = Some (''EC PRIVATE KEY'', bytes) \<and> al_ec l bytes = Inr k"
  shows "GetPrivateKey l s keyType' w2 = Done w2 (Some key)"
proof -
  let ?f = "path_join (as_keysPath s) (as_userID s @ ''.key'')"
  obtain data where data: "w_files w1 ?f = Some data" and load: "loadPrivateKey l ?f w1 = Done w1 (Inr key)"
  proof (cases "w_files w ?f = None \<and> \<not> al_unreadable l ?f")
    case True
    with assms(1) have "w_files w1 ?f = Some (al_key_pem l key)"
      by (auto simp: GetPrivateKey_def generatePrivateKey_def opt_of_def Let_def split: sum.splits option.splits)
    moreover from this assms(3) [of key] have "loadPrivateKey l ?f w1 = Done w1 (Inr key)"
      by (auto simp: loadPrivateKey_def acme_read_def)
    ultimately show ?thesis by (rule that)
  next
    case False
    with assms(1) obtain r where r: "loadPrivateKey l ?f w = Done w1 r" "opt_of r = Some key"
      by (auto simp: GetPrivateKey_def bind_o_Done_iff Let_def split: if_splits)
    then have "w1 = w" and "r = Inr key" by (auto simp: opt_of_def dest: loadPrivateKey_state split: sum.splits)
    with r(1) have "loadPrivateKey l ?f w = Done w (Inr key)" "w1 = w" by simp_all
    moreover then obtain data where "w_files w ?f = Some data"
      by (cases "w_files w ?f") (auto simp: loadPrivateKey_def acme_read_def)
    ultimately show ?thesis using that by simp
  qed
  then have "loadPrivateKey l ?f w2 = Done w2 (Inr key)"
    using assms(2) by (auto simp: loadPrivateKey_def acme_read_def split: option.splits)
  with data assms(2) show ?thesis by (simp add: GetPrivateKey_def opt_of_def)
qed

subsection \<open>Renewal\<close>

lemma merge_domains:
  "\<exists>added. merge prev nxt = prev @ added \<and> set added = set nxt - set prev \<and> distinct added"
proof (induction prev nxt rule: merge.induct)
  case (2 prev n nxt)
  then obtain added where "merge (if n \<in> set prev then prev else prev @ [n]) nxt = (if n \<in> set prev then prev else prev @ [n]) @ added"
      "set added = set nxt - set (if n \<in> set prev then prev else prev @ [n])" "distinct added" by blast
  then show ?case by (auto split: if_splits intro: exI [of _ "n # added"])
qed simp

text \<open>
  A renewal for a domain whose certificate is not there panics, and with it the process: the error of
  reading it is only logged.
\<close>

lemma renewal_without_certificate_panics:
  assumes "cx_StringSlice ctx ''domains'' = domain # others" and "w_files w (GetFileName l st domain ''.crt'') = None"
  shows "renewForDomains l ctx account st bundle w = Panicked w"
  using assms by (simp add: renewForDomains_def ReadCertificate_def Certs_ReadFile_def acme_read_def)

text \<open>Who refuses the terms of service is registered as having agreed to them.\<close>

lemma refusal_registers:
  assumes "\<not> cx_Bool ctx ''eab''"
  shows "register (l\<lparr>al_stdin := [''n'' @ [CHR 0x0A]]\<rparr>) ctx account = al_Register l account True"
  using assms by (simp add: register_def Let_def)


subsection \<open>A run of the client\<close>

text \<open>An authority that issues \<open>cert\<close> with the key \<open>key\<close> for every domain, and keys that are strings.\<close>

definition demo_ctx_run :: "string \<Rightarrow> cli_ctx" where
  "demo_ctx_run domain =
     \<lparr>cx_String = (\<lambda>k. if k = ''path'' then ''/.lego'' else if k = ''server'' then ''https://ca'' else if k = ''email'' then ''m'' else ''''),
      cx_Bool = (\<lambda>k. k = ''accept-tos''), cx_Int = (\<lambda>k. 30), cx_IsSet = (\<lambda>k. False), cx_StringSlice = (\<lambda>k. [domain])\<rparr>"

definition demo_lib :: "(string, string, unit) acme_lib" where
  "demo_lib =
     \<lparr>al_cli = (\<lambda>args. Inr (RunCmd, demo_ctx_run ''a.b'')), al_ToASCII = (\<lambda>s. (s, None)), al_url_host = (\<lambda>u. Inr ''ca''),
      al_write = (\<lambda>p. None), al_create = (\<lambda>p. None), al_missing = (\<lambda>p. ''missing''), al_unreadable = (\<lambda>p. False),
      al_pem = (\<lambda>t. (Some (''EC PRIVATE KEY'', t), '''')), al_x509 = Inr, al_rsa = (\<lambda>b. Inl ''rsa''), al_ec = Inr, al_pem_key = Inr,
      al_key_pem = (\<lambda>k. k), al_generate = (\<lambda>t. Inr ''k''), al_pkcs12 = (\<lambda>k c cs p. Inr ''''), al_bundle = (\<lambda>t. Inr [t]),
      al_days_left = (\<lambda>c. 0), al_domains = (\<lambda>c. []), al_csr = Inr, al_resource_json = (\<lambda>r. Inr ''{}''),
      al_account_json = (\<lambda>a. Inr (fst a)), al_account_of = (\<lambda>t. ((t, Some ()), None)), al_status = (\<lambda>r. ''valid''),
      al_client = (\<lambda>ctx a k. None), al_resolve = (\<lambda>ctx k. Inr ()), al_Register = (\<lambda>a b. Inr ()), al_RegisterEAB = (\<lambda>a b k h. Inr ()),
      al_Obtain = (\<lambda>ctx a r. Inr \<lparr>rs_Domain = hd (or_Domains r), rs_Certificate = ''cert'', rs_IssuerCertificate = None, rs_PrivateKey = Some ''key''\<rparr>),
      al_ObtainForCSR = (\<lambda>ctx a r b c d. Inl ''no''), al_hook = (\<lambda>p m w. (w, None)), al_stdin = []\<rparr>"

definition run_result :: "(world, gerror option) outcome \<Rightarrow> world \<times> gerror option" where
  "run_result r = (case r of Done w e \<Rightarrow> (w, e) | Panicked w \<Rightarrow> (w, Some ''panic'') | Blocked w \<Rightarrow> (w, Some ''blocked''))"

definition demo_ca_env :: cert_env where
  "demo_ca_env = \<lparr>legoPath = ''/.lego'', defaultCertPath = ''/cert'', ce_open_write = (\<lambda>p. None), ce_write = (\<lambda>p. None),
     ce_readdir = (\<lambda>d w. Inr []), ce_missing = (\<lambda>p. ''missing''), ce_not_after = (\<lambda>c k. Inr (int (length c))),
     ce_acme = (\<lambda>args w. run_result (app_Run demo_lib args w))\<rparr>"

definition demo_ca_manager :: cert_manager where
  "demo_ca_manager = \<lparr>cm_Email = ''m'', cm_Secrets = [], cm_DnsProvider = ''dns'', cm_Path = ''/cert'', cm_Certs = Map.empty, cm_Args = []\<rparr>"

definition empty_world :: world where
  "empty_world = \<lparr>w_files = Map.empty, w_env = Map.empty\<rparr>"

lemmas acme_simps =
  app_Run_def acme_run_def lego_setup_def NewAccountsStorage_def GetPrivateKey_def generatePrivateKey_def opt_of_def ExistsAccountFilePath_def
  run_register_def register_def Account_Save_def acme_write_def obtainCertificate_def launchHook_def

lemma demo_run: "\<exists>w1. app_Run demo_lib args empty_world = Done w1 None"
proof -
  have "path_join a ''account.json'' \<noteq> path_join b ''m.key''" for a b
    using path_join_ext [of "''.json''" a "''account''"] path_join_ext [of "''.key''" b "''m''"]
    by (auto simp: file_exts dest: arg_cong [where f = rev])
  then show ?thesis by (simp add: acme_simps demo_lib_def demo_ctx_run_def empty_world_def Let_def)
qed

lemma acme_obtain: "\<exists>cm' w'. ObtainNewCert demo_ca_env ''a.b'' demo_ca_manager empty_world = (cm', w', None)"
proof -
  let ?e = demo_ca_env and ?args = "[''lego'', ''--accept-tos'', ''--email'', ''m'', ''--domains'', ''a.b'', ''--dns'', ''dns'', ''run'']"
  obtain w1 where run: "app_Run demo_lib ?args empty_world = Done w1 None" using demo_run by blast
  then have "acme_run demo_lib (demo_ctx_run ''a.b'') empty_world = Done w1 None" by (simp add: app_Run_def demo_lib_def)
  from acme_run_saves [OF this] obtain acc w0 res where ob: "obtainCertificate demo_lib (demo_ctx_run ''a.b'') acc w0 = Inr res"
    and w1: "w1 = SaveResource demo_lib (NewCertificatesStorage (demo_ctx_run ''a.b'')) res w0"
    by (auto simp: demo_ctx_run_def)
  have res: "rs_Domain res = ''a.b''" "rs_PrivateKey res = Some ''key''"
    using ob by (auto simp: obtainCertificate_def demo_lib_def demo_ctx_run_def Let_def)
  have name: "GetFileName demo_lib (NewCertificatesStorage (demo_ctx_run ''a.b'')) ''a.b'' ext =
      path_join (path_join (legoPath ?e) subCertPath) (file_name ''a.b'' ext)" for ext
    by (simp add: GetFileName_def NewCertificatesStorage_def sanitizedDomain_def file_name_def subCertPath_def demo_lib_def demo_ctx_run_def demo_ca_env_def)
  have "al_write demo_lib = (\<lambda>p. None)" "st_filename (NewCertificatesStorage (demo_ctx_run ''a.b'')) = ''''"
    by (simp_all add: demo_lib_def NewCertificatesStorage_def demo_ctx_run_def)
  note saved = SaveResource_files [OF this, where res = res and w = w0, folded w1, unfolded res name]
  have host: "ce_open_write ?e p = None" "ce_write ?e p = None" for p by (simp_all add: demo_ca_env_def)
  have "ce_acme ?e ?args empty_world = (w1, None)" using run by (simp add: demo_ca_env_def run_result_def)
  moreover obtain w2 where w2: "copyCertAndKeyFile ?e ''a.b'' demo_ca_manager w1 = (w2, None)"
    using saved cert_key_differ [symmetric] by (auto simp: copyCertAndKeyFile_def copyFile_def write_file_def host Let_def)
  moreover obtain t1 t2 where "w_files w2 (path_join ''/cert'' (file_name ''a.b'' ''.crt'')) = Some t1"
      "w_files w2 (path_join ''/cert'' (file_name ''a.b'' ''.key'')) = Some t2"
    using copied_cert_and_key [OF w2] saved by (fastforce simp: demo_ca_manager_def)
  ultimately show ?thesis
    by (simp add: ObtainNewCert_def demo_ca_manager_def checkConfig_def SetEnvs_def fullCertExpireTime_def) (simp add: demo_ca_env_def)
qed

theorem obtained_cert_installed_witness:
  "\<exists>cm' w' c r1 r2. ObtainNewCert demo_ca_env ''a.b'' demo_ca_manager empty_world = (cm', w', None) \<and> cm_Certs cm' ''a.b'' = Some c \<and>
     w_files w' (ct_CertificateFile c) = Some (''cert'' @ r1) \<and> w_files w' (ct_KeyFile c) = Some (''key'' @ r2)"
proof -
  let ?args = "[''lego'', ''--accept-tos'', ''--email'', ''m'', ''--domains'', ''a.b'', ''--dns'', ''dns'', ''run'']"
  obtain cm' w' where got: "ObtainNewCert demo_ca_env ''a.b'' demo_ca_manager empty_world = (cm', w', None)" using acme_obtain by blast
  obtain w1 where run: "app_Run demo_lib ?args empty_world = Done w1 None" using demo_run by blast
  have "\<exists>acc req res key w1 c. al_Obtain demo_lib (demo_ctx_run ''a.b'') acc req = Inr res \<and> or_Domains req = [''a.b''] \<and>
      rs_PrivateKey res = Some key \<and> ce_acme demo_ca_env ?args (SetEnvs (cm_Secrets demo_ca_manager) empty_world) = (w1, None) \<and>
      cm_Certs cm' = (cm_Certs demo_ca_manager)(''a.b'' \<mapsto> c) \<and> ct_Domain c = ''a.b'' \<and>
      w_files w' (ct_CertificateFile c) = Some (overwrite (rs_Certificate res) (w_files w1 (ct_CertificateFile c))) \<and>
      w_files w' (ct_KeyFile c) = Some (overwrite key (w_files w1 (ct_KeyFile c))) \<and>
      ce_not_after demo_ca_env (overwrite (rs_Certificate res) (w_files w1 (ct_CertificateFile c))) (overwrite key (w_files w1 (ct_KeyFile c))) =
        Inr (ct_ExpireTime c)"
  proof (rule obtained_cert_installed [OF got, where args = ?args and l = demo_lib])
    fix v r
    assume "ce_acme demo_ca_env ?args (SetEnvs (cm_Secrets demo_ca_manager) empty_world) = (v, r)"
    with run show "app_Run demo_lib ?args (SetEnvs (cm_Secrets demo_ca_manager) empty_world) = Done v r"
      by (simp add: demo_ca_env_def run_result_def SetEnvs_def demo_ca_manager_def)
  qed (auto simp: demo_ca_manager_def demo_lib_def demo_ctx_run_def demo_ca_env_def)
  then show ?thesis using got by (auto simp: demo_lib_def overwrite_def)
qed

theorem account_key_kept_witness:
  "\<exists>w1. GetPrivateKey demo_lib \<lparr>as_userID = ''m'', as_rootPath = ''/a'', as_rootUserPath = ''/a/m'', as_keysPath = ''/a/m/keys'',
      as_accountFilePath = ''/a/m/account.json''\<rparr> ''EC256'' empty_world = Done w1 (Some ''k'') \<and>
    GetPrivateKey demo_lib \<lparr>as_userID = ''m'', as_rootPath = ''/a'', as_rootUserPath = ''/a/m'', as_keysPath = ''/a/m/keys'',
      as_accountFilePath = ''/a/m/account.json''\<rparr> ''RSA4096'' w1 = Done w1 (Some ''k'')"
proof -
  let ?s = "\<lparr>as_userID = ''m'', as_rootPath = ''/a'', as_rootUserPath = ''/a/m'', as_keysPath = ''/a/m/keys'',
      as_accountFilePath = ''/a/m/account.json''\<rparr>"
  obtain w1 where first: "GetPrivateKey demo_lib ?s ''EC256'' empty_world = Done w1 (Some ''k'')"
    by (simp add: GetPrivateKey_def generatePrivateKey_def opt_of_def demo_lib_def empty_world_def Let_def)
  have "GetPrivateKey demo_lib ?s ''RSA4096'' w1 = Done w1 (Some ''k'')"
    by (rule account_key_kept [OF first refl]) (simp add: demo_lib_def)
  with first show ?thesis by blast
qed


subsection \<open>Signing requests\<close>

text \<open>The loop over the blocks of a file ends: as every block takes bytes off the rest, the length of the text is fuel enough.\<close>

lemma csr_block_fuel:
  assumes "\<And>s b rest. al_pem l s = (Some b, rest) \<Longrightarrow> length rest < length s" and "length s < n" and "length s < m"
  shows "csr_block l n s raw = csr_block l m s raw"
  using assms(2,3)
proof (induction n arbitrary: s m raw)
  case (Suc n)
  then obtain k where k: "m = Suc k" by (cases m) auto
  show ?case
  proof (cases "al_pem l s")
    case (Pair b rest)
    with assms(1) [of s _ rest] Suc.prems have "length rest < n" "length rest < k" if "b \<noteq> None"
      using that k by fastforce+
    with Suc.IH [of rest k] Pair show ?thesis by (auto simp: k split: option.splits)
  qed
qed simp

end
