(* ===== verification/AcmeCommands.thy ===== *)
theory AcmeCommands
  imports AcmeClient UrlParse
begin

text \<open>
  The other commands of the embedded ACME client and the set-up of its challenges: \<open>lego/cmd_revoke.go\<close>,
  \<open>lego/cmd_list.go\<close>, \<open>MoveToArchive\<close> of \<open>lego/certs_storage.go\<close> and \<open>lego/setup_challenges.go\<close>. The record
  \<open>acme_more\<close> has what they call besides \<open>acme_lib\<close>. The names of a directory come sorted, as \<open>filepath.Glob\<close>
  gives them; the patterns hold no character with a meaning in a pattern but their last star.
\<close>

record 'c acme_more =
  am_names :: "string \<Rightarrow> world \<Rightarrow> string list" \<comment> \<open>the names in a directory\<close>
  am_rename :: "string \<Rightarrow> string \<Rightarrow> gerror option"
  am_now :: int
  am_cert :: "string \<Rightarrow> 'c result" \<comment> \<open>\<open>certcrypto.ParsePEMCertificate\<close>\<close>
  am_common_name :: "'c \<Rightarrow> string"
  am_not_after :: "'c \<Rightarrow> string"
  am_account_dirs :: "string \<Rightarrow> world \<Rightarrow> (string \<times> string) list" \<comment> \<open>directory and path of every account file\<close>
  am_account :: "string \<Rightarrow> (string \<times> string option) result" \<comment> \<open>email and registration URI of an account file\<close>
  am_url_host :: "string \<Rightarrow> string result"

subsection \<open>Archiving\<close>

definition rename_file :: "'c acme_more \<Rightarrow> string \<Rightarrow> string \<Rightarrow> world \<Rightarrow> world \<times> gerror option" where
  "rename_file m old new w =
     (case am_rename m old new of
        Some err \<Rightarrow> (w, Some err)
      | None \<Rightarrow> (w\<lparr>w_files := ((w_files w)(old := None))(new := w_files w old)\<rparr>, None))"

fun archive_loop :: "'c acme_more \<Rightarrow> certs_storage \<Rightarrow> string list \<Rightarrow> world \<Rightarrow> world \<times> gerror option" where
  "archive_loop m s [] w = (w, None)"
| "archive_loop m s (n # ns) w =
     (case rename_file m (path_join (st_rootPath s) n) (path_join (st_archivePath s) (itoa (am_now m) @ ''.'' @ n)) w of
        (w1, Some err) \<Rightarrow> (w1, Some err)
      | (w1, None) \<Rightarrow> archive_loop m s ns w1)"

definition domain_files :: "('k, 'c, 'r) acme_lib \<Rightarrow> 'c acme_more \<Rightarrow> certs_storage \<Rightarrow> string \<Rightarrow> world \<Rightarrow> string list" where
  "domain_files l m s domain w = filter (has_prefix (sanitizedDomain l domain @ ''.'')) (am_names m (st_rootPath s) w)"

definition MoveToArchive ::
    "('k, 'c, 'r) acme_lib \<Rightarrow> 'c acme_more \<Rightarrow> certs_storage \<Rightarrow> string \<Rightarrow> world \<Rightarrow> world \<times> gerror option" where
  "MoveToArchive l m s domain w = archive_loop m s (domain_files l m s domain w) w"

subsection \<open>The command revoke\<close>

text \<open>
  The requests to revoke a certificate are a list, in the order they are sent, with the reason. Errors
  of reading a certificate and of revoking it are only logged; what was not read is sent empty.
\<close>

fun revoke_loop ::
    "('k, 'c, 'r) acme_lib \<Rightarrow> 'c acme_more \<Rightarrow> cli_ctx \<Rightarrow> certs_storage \<Rightarrow> string list \<Rightarrow> world \<times> (string \<times> int) list
     \<Rightarrow> (world \<times> (string \<times> int) list) \<times> gerror option" where
  "revoke_loop l m ctx s [] (w, sent) = ((w, sent), None)"
| "revoke_loop l m ctx s (domain # ds) (w, sent) =
     (let certBytes = (case Certs_ReadFile l s domain ''.crt'' w of Inl err \<Rightarrow> '''' | Inr certBytes \<Rightarrow> certBytes);
          sent' = sent @ [(certBytes, cx_Int ctx ''reason'')]
      in if cx_Bool ctx ''keep'' then ((w, sent'), None)
         else (case MoveToArchive l m s domain w of
                 (w1, Some err) \<Rightarrow> ((w1, sent'), Some err)
               | (w1, None) \<Rightarrow> revoke_loop l m ctx s ds (w1, sent')))"

definition revoke ::
    "('k, 'c, 'r) acme_lib \<Rightarrow> 'c acme_more \<Rightarrow> cli_ctx \<Rightarrow> world \<Rightarrow> (world, gerror option \<times> (string \<times> int) list) outcome" where
  "revoke l m ctx w =
     bind_o (lego_setup l ctx (NewAccountsStorage l ctx) w) (\<lambda>w acc.
       case revoke_loop l m ctx (NewCertificatesStorage ctx) (cx_StringSlice ctx ''domains'') (w, []) of
         ((w1, sent), r) \<Rightarrow> Done w1 (r, sent))"

subsection \<open>The command list\<close>

text \<open>The lines that are printed, with the error that ends the command.\<close>

fun cert_lines ::
    "('k, 'c, 'r) acme_lib \<Rightarrow> 'c acme_more \<Rightarrow> bool \<Rightarrow> string list \<Rightarrow> world \<Rightarrow> string list \<times> gerror option" where
  "cert_lines l m names [] w = ([], None)"
| "cert_lines l m names (filename # rest) w =
     (if has_suffix ''.issuer.crt'' filename then cert_lines l m names rest w
      else case acme_read l filename w of
        Inl err \<Rightarrow> ([], Some err)
      | Inr data \<Rightarrow>
          (case am_cert m data of
             Inl err \<Rightarrow> ([], Some err)
           | Inr pCert \<Rightarrow>
               (case cert_lines l m names rest w of (lines, r) \<Rightarrow>
                  ((if names then [am_common_name m pCert]
                    else [''  Certificate Name: '' @ am_common_name m pCert, ''    Domains: '' @ str_join '', '' (al_domains l pCert),
                          ''    Expiry Date: '' @ am_not_after m pCert, ''    Certificate Path: '' @ filename, '''']) @ lines, r))))"

definition listCertificates ::
    "('k, 'c, 'r) acme_lib \<Rightarrow> 'c acme_more \<Rightarrow> cli_ctx \<Rightarrow> world \<Rightarrow> string list \<times> gerror option" where
  "listCertificates l m ctx w =
     (let root = st_rootPath (NewCertificatesStorage ctx); names = cx_Bool ctx ''names'';
          matches = map (path_join root) (filter (has_suffix ''.crt'') (am_names m root w))
      in if matches = [] then (if names then [] else [''No certificates found.''], None)
         else (case cert_lines l m names matches w of (lines, r) \<Rightarrow>
                 ((if names then [] else [''Found the following certs:'']) @ lines, r)))"

text \<open>\<open>None\<close> for a panic: an account without a registration is dereferenced.\<close>

fun account_lines ::
    "('k, 'c, 'r) acme_lib \<Rightarrow> 'c acme_more \<Rightarrow> (string \<times> string) list \<Rightarrow> world \<Rightarrow> (string list \<times> gerror option) option" where
  "account_lines l m [] w = Some ([], None)"
| "account_lines l m ((dir, filename) # rest) w =
     (case acme_read l filename w of
        Inl err \<Rightarrow> Some ([], Some err)
      | Inr data \<Rightarrow>
          (case am_account m data of
             Inl err \<Rightarrow> Some ([], Some err)
           | Inr (email, None) \<Rightarrow> None
           | Inr (email, Some uri) \<Rightarrow>
               (case am_url_host m uri of
                  Inl err \<Rightarrow> Some ([], Some err)
                | Inr host \<Rightarrow> map_option (\<lambda>(lines, r). ([''  Email: '' @ email, ''  Server: '' @ host, ''  Path: '' @ dir, ''''] @ lines, r))
                    (account_lines l m rest w))))"

definition listAccount ::
    "('k, 'c, 'r) acme_lib \<Rightarrow> 'c acme_more \<Rightarrow> cli_ctx \<Rightarrow> world \<Rightarrow> (string list \<times> gerror option) option" where
  "listAccount l m ctx w =
     (case NewAccountsStorage l ctx of
        None \<Rightarrow> None
      | Some s \<Rightarrow>
          (let matches = am_account_dirs m (as_rootPath s) w
           in if matches = [] then Some ([''No accounts found.''], None)
              else map_option (\<lambda>(lines, r). (''Found the following accounts:'' # lines, r)) (account_lines l m matches w)))"

definition list_command ::
    "('k, 'c, 'r) acme_lib \<Rightarrow> 'c acme_more \<Rightarrow> cli_ctx \<Rightarrow> world \<Rightarrow> (string list \<times> gerror option) option" where
  "list_command l m ctx w =
     (if cx_Bool ctx ''accounts'' \<and> \<not> cx_Bool ctx ''names''
      then (case listAccount l m (ctx\<lparr>cx_String := (cx_String ctx)(''email'' := ''unknown'')\<rparr>) w of
              None \<Rightarrow> None
            | Some (lines, Some err) \<Rightarrow> Some (lines, Some err)
            | Some (lines, None) \<Rightarrow> (case listCertificates l m ctx w of (lines', r) \<Rightarrow> Some (lines @ lines', r)))
      else Some (listCertificates l m ctx w))"


subsection \<open>Challenges\<close>

text \<open>\<open>net.SplitHostPort\<close>; its errors are only logged here, and the results are then empty.\<close>

definition SplitHostPort :: "string \<Rightarrow> (string \<times> string) option" where
  "SplitHostPort hp =
     (case cut_last (CHR '':'') hp of
        None \<Rightarrow> None
      | Some (a, port) \<Rightarrow>
          if has_prefix ''['' hp
          then (case cut (CHR '']'') hp of (h, rest) \<Rightarrow>
                  if CHR '']'' \<in> set hp \<and> rest = '':'' @ port \<and> CHR ''['' \<notin> set (tl hp) \<and> CHR '']'' \<notin> set port
                  then Some (tl h, port) else None)
          else if CHR '':'' \<in> set a \<or> CHR ''['' \<in> set hp \<or> CHR '']'' \<in> set hp then None
          else Some (a, port))"

definition host_port :: "string \<Rightarrow> string \<times> string" where
  "host_port hp = (case SplitHostPort hp of None \<Rightarrow> ('''', '''') | Some r \<Rightarrow> r)"

text \<open>
  The providers of the library by the arguments they are made from; \<open>NoProvider\<close> is nil. A server has a
  host, a port and the header of a proxy.
\<close>

datatype provider = Webroot string | Memcached "string list" | ServerOn string string string | NoProvider

definition setupHTTPProvider :: "cli_ctx \<Rightarrow> provider" where
  "setupHTTPProvider ctx =
     (let header = cx_String ctx ''http.proxy-header''
      in if cx_IsSet ctx ''http.webroot'' then Webroot (cx_String ctx ''http.webroot'')
         else if cx_IsSet ctx ''http.memcached-host'' then Memcached (cx_StringSlice ctx ''http.memcached-host'')
         else if cx_IsSet ctx ''http.port''
           then (case host_port (cx_String ctx ''http.port'') of (host, port) \<Rightarrow> ServerOn host port header)
         else if cx_Bool ctx ''http'' then ServerOn '''' '''' header
         else NoProvider)"

definition setupTLSProvider :: "cli_ctx \<Rightarrow> provider" where
  "setupTLSProvider ctx =
     (if cx_IsSet ctx ''tls.port'' then (case host_port (cx_String ctx ''tls.port'') of (host, port) \<Rightarrow> ServerOn host port '''')
      else if cx_Bool ctx ''tls'' then ServerOn '''' '''' ''''
      else NoProvider)"

text \<open>
  What is set on the client, in order. A DNS provider has its name, its resolvers, whether the complete
  propagation is not awaited, and a timeout in seconds.
\<close>

datatype challenge_setting =
    SetHTTP01Provider provider
  | SetTLSALPN01Provider provider
  | SetDNS01Provider string "string list" bool "int option"

definition setupDNS :: "cli_ctx \<Rightarrow> challenge_setting" where
  "setupDNS ctx =
     SetDNS01Provider (cx_String ctx ''dns'') (cx_StringSlice ctx ''dns.resolvers'') (cx_Bool ctx ''dns.disable-cp'')
       (if cx_IsSet ctx ''dns-timeout'' then Some (cx_Int ctx ''dns-timeout'') else None)"

definition setupChallenges :: "cli_ctx \<Rightarrow> challenge_setting list" where
  "setupChallenges ctx =
     (if cx_Bool ctx ''http'' then [SetHTTP01Provider (setupHTTPProvider ctx)] else [])
     @ (if cx_Bool ctx ''tls'' then [SetTLSALPN01Provider (setupTLSProvider ctx)] else [])
     @ (if cx_IsSet ctx ''dns'' then [setupDNS ctx] else [])"

subsection \<open>Properties\<close>

definition archived :: "'c acme_more \<Rightarrow> certs_storage \<Rightarrow> string \<Rightarrow> string" where
  "archived m s n = path_join (st_archivePath s) (itoa (am_now m) @ ''.'' @ n)"

lemma rename_file_ok:
  "rename_file m old new w = (w', None) \<Longrightarrow> old \<noteq> new \<Longrightarrow>
   w_files w' new = w_files w old \<and> w_files w' old = None \<and> (\<forall>p. p \<noteq> old \<and> p \<noteq> new \<longrightarrow> w_files w' p = w_files w p)"
  by (auto simp: rename_file_def split: option.splits)

lemma archive_loop_step:
  assumes "archive_loop m s (n # ns) w = (w', None)"
  obtains w1 where "rename_file m (path_join (st_rootPath s) n) (archived m s n) w = (w1, None)" "archive_loop m s ns w1 = (w', None)"
  using assms by (auto simp: archived_def split: prod.splits option.splits)

lemma archive_loop_other:
  assumes "archive_loop m s ns w = (w', None)" and "distinct (map (path_join (st_rootPath s)) ns @ map (archived m s) ns)"
    and "p \<notin> path_join (st_rootPath s) ` set ns" "p \<notin> archived m s ` set ns"
  shows "w_files w' p = w_files w p"
  using assms
proof (induction ns arbitrary: w)
  case (Cons n ns)
  from Cons.prems(1) obtain w1 where w1: "rename_file m (path_join (st_rootPath s) n) (archived m s n) w = (w1, None)"
      "archive_loop m s ns w1 = (w', None)" by (rule archive_loop_step)
  from Cons.IH [OF w1(2)] Cons.prems(2-4) rename_file_ok [OF w1(1)] show ?case by simp
qed simp

text \<open>Archiving that succeeds moves every file of the domain with its content, and touches no other file.\<close>

lemma archive_loop_moves:
  assumes "archive_loop m s ns w = (w', None)" and "distinct (map (path_join (st_rootPath s)) ns @ map (archived m s) ns)"
    and "n \<in> set ns"
  shows "w_files w' (archived m s n) = w_files w (path_join (st_rootPath s) n)" "w_files w' (path_join (st_rootPath s) n) = None"
  using assms
proof (induction ns arbitrary: w)
  case (Cons k ns)
  let ?old = "path_join (st_rootPath s)" and ?new = "archived m s"
  {
    fix w assume run: "archive_loop m s (k # ns) w = (w', None)" and d0: "distinct (map ?old (k # ns) @ map ?new (k # ns))"
      and n: "n \<in> set (k # ns)"
    from run obtain w1 where w1: "rename_file m (?old k) (?new k) w = (w1, None)" "archive_loop m s ns w1 = (w', None)"
      by (rule archive_loop_step)
    have d: "?old k \<noteq> ?new k" "distinct (map ?old ns @ map ?new ns)" "?old k \<notin> ?old ` set ns" "?new k \<notin> ?new ` set ns"
      "?old k \<notin> ?new ` set ns" "?new k \<notin> ?old ` set ns"
      using d0 by auto
    note r = rename_file_ok [OF w1(1) d(1)] and other = archive_loop_other [OF w1(2) d(2)]
    have "w_files w' (?new n) = w_files w (?old n) \<and> w_files w' (?old n) = None"
    proof (cases "n \<in> set ns")
      case True
      then have "w_files w1 (?old n) = w_files w (?old n)" using r d by (metis imageI)
      with Cons.IH [OF w1(2) d(2) True] show ?thesis by simp
    next
      case False
      then have "n = k" using n by simp
      with r other d(3-6) show ?thesis by simp
    qed
  }
  note step = this
  case 1
  then show ?case using step by blast
  case 2
  then show ?case using step by blast
qed simp_all

text \<open>
  With \<open>keep\<close> only the certificate of the first domain is revoked, the loop returns there. Without it
  a certificate that could not be read, or whose revocation failed, is archived all the same.
\<close>

lemma keep_revokes_first_only:
  "cx_Bool ctx ''keep'' \<Longrightarrow> revoke_loop l m ctx s (d # ds) (w, []) = ((w, sent), r) \<Longrightarrow> length sent = 1 \<and> r = None"
  by (auto simp: Let_def)

lemma revokes_all:
  assumes "\<not> cx_Bool ctx ''keep''" "revoke_loop l m ctx s ds (w, sent0) = ((w', sent), None)"
  shows "length sent = length sent0 + length ds"
  using assms(2)
  by (induction ds arbitrary: w sent0) (use assms(1) in \<open>auto simp: Let_def split: prod.splits option.splits\<close>)

text \<open>
  No server of a challenge is set without being asked for, and a port that cannot be split gives the
  server the empty host and port, which stand for the default port on all interfaces.
\<close>

lemma challenges_as_asked:
  "setupChallenges ctx = [] \<longleftrightarrow> \<not> cx_Bool ctx ''http'' \<and> \<not> cx_Bool ctx ''tls'' \<and> \<not> cx_IsSet ctx ''dns''"
  "SetHTTP01Provider NoProvider \<notin> set (setupChallenges ctx)" "SetTLSALPN01Provider NoProvider \<notin> set (setupChallenges ctx)"
  by (auto simp: setupChallenges_def setupHTTPProvider_def setupTLSProvider_def setupDNS_def Let_def split: prod.split)

end
