(* ===== verification/LocalCommands.thy ===== *)
theory LocalCommands
  imports Startup Stats
begin

text \<open>
  The commands of \<open>cmd/\<close> that do not start a server: \<open>add\<close>, \<open>remove\<close>, \<open>reset\<close>, \<open>sub\<close> and \<open>query\<close>. Each runs in a
  process of its own, on a fresh proxy manager and a configuration file, and ends with an error
  message (\<open>log.Fatal\<close>) or without one. The flags are the record \<open>flags\<close>.

  These processes never read a configuration of the node: the global configuration manager holds a
  nil pointer to the configuration library. What its getters return then is the argument \<open>nil_viper\<close>
  of the commands, the HTTP port, the email of the certificates and the host; \<open>None\<close> is a panic.
\<close>

subsection \<open>The commands\<close>

record flags =
  fl_host :: string
  fl_port :: int
  fl_email :: string
  fl_inBoundTag :: string
  fl_tag :: string
  fl_nodeName :: string
  fl_uuid :: string
  fl_configFile :: string
  fl_unit :: string
  fl_pattern :: string

type_synonym settings = "(int \<times> string \<times> string) option"

text \<open>
  \<open>ProxyManager.Init\<close> with no hysteria configuration: its file has the empty name, which does not exist
  unless the host says otherwise, so that the settings for a new one are read.
\<close>

definition local_Init ::
    "('v, 'rt, 'h) start_env \<Rightarrow> settings \<Rightarrow> string \<Rightarrow> 'rt proxy_manager \<times> processes
     \<Rightarrow> ('rt proxy_manager \<times> processes, gerror option) outcome" where
  "local_Init e nil_viper configFile s =
     (let e' = e\<lparr>se_hysteria := (\<lambda>fs. None)\<rparr>;
          fs = fst (initXrayOrV2rayConfig (se_init e) configFile (pp_files (snd s)))
      in if isFileExist (se_init e) '''' fs then PM_Init e' configFile '''' '''' s
         else case nil_viper of
           None \<Rightarrow> Panicked (fst s, (snd s)\<lparr>pp_files := fs\<rparr>)
         | Some (httpPort, email, proxyHost) \<Rightarrow>
             PM_Init (e'\<lparr>se_init := (se_init e)\<lparr>ie_HttpPort := httpPort, ie_CertEmail := email, ie_ProxyHost := proxyHost\<rparr>\<rparr>)
               configFile '''' '''' s)"

text \<open>An operation on the proxy manager of the pair; its error is \<open>wrap\<close>ped in a message.\<close>

definition on_manager ::
    "(gerror \<Rightarrow> gerror) \<Rightarrow> ('rt proxy_manager \<Rightarrow> ('rt proxy_manager, puser \<times> gerror option) outcome)
     \<Rightarrow> 'rt proxy_manager \<times> processes \<Rightarrow> ('rt proxy_manager \<times> processes, gerror option) outcome" where
  "on_manager wrap f s =
     (case f (fst s) of
        Done pm (u, r) \<Rightarrow> Done (pm, snd s) (map_option wrap r)
      | Panicked pm \<Rightarrow> Panicked (pm, snd s)
      | Blocked pm \<Rightarrow> Blocked (pm, snd s))"

text \<open>\<open>fresh\<close> and \<open>fresh'\<close> are generated identifiers, \<open>valid\<close> the test for one (google/uuid).\<close>

definition failed_to_add :: "gerror \<Rightarrow> gerror" where
  "failed_to_add err = ''Failed to add user > '' @ err"

definition addUserLocal ::
    "('v, 'rt, 'h) start_env \<Rightarrow> settings \<Rightarrow> (string \<Rightarrow> bool) \<Rightarrow> string \<Rightarrow> string \<Rightarrow> flags \<Rightarrow> 'rt proxy_manager \<times> processes
     \<Rightarrow> ('rt proxy_manager \<times> processes, gerror option) outcome" where
  "addUserLocal e nil_viper valid fresh fresh' fl s =
     bind_o (local_Init e nil_viper (fl_configFile fl) s) (\<lambda>s r. case r of
         Some err \<Rightarrow> Done s (Some (failed_to_add err))
       | None \<Rightarrow>
           (case NewUser fresh (fl_email fl) (fl_inBoundTag fl) [UUID_option valid fresh' (fl_uuid fl)] of
              Inl err \<Rightarrow> Done s (Some err)
            | Inr user \<Rightarrow> on_manager failed_to_add (AddUser (se_codecs e) (se_xray e) user) s))"

definition removeUserLocal ::
    "('v, 'rt, 'h) start_env \<Rightarrow> settings \<Rightarrow> (string \<Rightarrow> bool) \<Rightarrow> string \<Rightarrow> string \<Rightarrow> flags \<Rightarrow> 'rt proxy_manager \<times> processes
     \<Rightarrow> ('rt proxy_manager \<times> processes, gerror option) outcome" where
  "removeUserLocal e nil_viper valid fresh fresh' fl s =
     bind_o (local_Init e nil_viper (fl_configFile fl) s) (\<lambda>s r. case r of
         Some err \<Rightarrow> Done s (Some (failed_to_add err))
       | None \<Rightarrow>
           (case NewUser fresh (fl_email fl) (fl_inBoundTag fl) [UUID_option valid fresh' (fl_uuid fl)] of
              Inl err \<Rightarrow> Done s (Some err)
            | Inr user \<Rightarrow> on_manager (\<lambda>err. err) (RemoveUser (se_codecs e) (se_xray e) user) s))"

text \<open>\<open>Reset\<close> goes on after an error of \<open>Init\<close>, and the command drops its result.\<close>

definition Reset ::
    "('v, 'rt, 'h) start_env \<Rightarrow> settings \<Rightarrow> string \<Rightarrow> string \<Rightarrow> string \<Rightarrow> string \<Rightarrow> 'rt proxy_manager \<times> processes
     \<Rightarrow> ('rt proxy_manager \<times> processes, gerror option) outcome" where
  "Reset e nil_viper fresh configFile email tag s =
     bind_o (local_Init e nil_viper configFile s) (\<lambda>s _.
       case NewUser fresh email tag [] of
         Inl err \<Rightarrow> Done s (Some err)
       | Inr user \<Rightarrow> on_manager (\<lambda>err. err) (PM_ResetUser (se_codecs e) (se_xray e) user) s)"

definition reset_command ::
    "('v, 'rt, 'h) start_env \<Rightarrow> settings \<Rightarrow> string \<Rightarrow> flags \<Rightarrow> 'rt proxy_manager \<times> processes
     \<Rightarrow> ('rt proxy_manager \<times> processes, gerror option) outcome" where
  "reset_command e nil_viper fresh fl s =
     bind_o (Reset e nil_viper fresh (fl_configFile fl) (fl_email fl) (fl_inBoundTag fl) s) (\<lambda>s _. Done s None)"

text \<open>The link of a user, from the global proxy manager, which this command does not initialise.\<close>

definition getSubURI :: "codecs \<Rightarrow> sub_env \<Rightarrow> flags \<Rightarrow> 'rt \<Rightarrow> string attempt" where
  "getSubURI cc se fl rt =
     GetUserSubUri cc se (fl_email fl) (fl_tag fl) (fl_host fl) (fl_nodeName fl) (word_of_int (fl_port fl)) True (new_pm rt)"

subsection \<open>The query\<close>

definition unit_of :: "string \<Rightarrow> int \<times> string" where
  "unit_of unit0 =
     (if to_lower unit0 = ''k'' then (1024, ''K'')
      else if to_lower unit0 = ''g'' then (1024 * 1024 * 1024, ''G'')
      else (1024 * 1024, ''M''))"

text \<open>The verbs \<open>%20s\<close> and \<open>%20d\<close>, for text of one byte per character.\<close>

definition pad :: "nat \<Rightarrow> string \<Rightarrow> string" where
  "pad n s = replicate (n - length s) (CHR '' '') @ s"

text \<open>Go's division of integers rounds towards zero.\<close>

definition go_div :: "int \<Rightarrow> int \<Rightarrow> int" where
  "go_div a b = sgn a * (\<bar>a\<bar> div b)"

definition stat_line :: "string \<Rightarrow> string \<times> stat \<Rightarrow> string list" where
  "stat_line unit0 = (\<lambda>(key, v). case unit_of unit0 of (base, sign) \<Rightarrow>
     if st_Type v \<noteq> ''user'' then []
     else [pad 20 key @ pad 20 (itoa (go_div (st_Downlink v) base)) @ sign @ pad 20 (itoa (go_div (st_Uplink v) base)) @ sign])"

definition query_header :: string where
  "query_header = pad 20 ''User'' @ pad 21 ''Downlink'' @ pad 21 ''Uplink''"

text \<open>
  The lines printed, or the error; \<open>ord\<close> is the order of the loop over the result, holding its keys, and \<open>None\<close> the panic of
  \<open>QueryStats\<close> on a counter with another name.
\<close>

definition queryStats_command ::
    "(string \<Rightarrow> int \<Rightarrow> string \<Rightarrow> bool \<Rightarrow> (string \<times> int) list result) \<Rightarrow> string list \<Rightarrow> flags \<Rightarrow> string list attempt" where
  "queryStats_command query ord fl =
     and_then (QueryStats (query (fl_host fl) (fl_port fl)) (fl_pattern fl) False) (\<lambda>stats.
       ok (if \<forall>n \<in> set ord. stats n = None then []
           else query_header # concat (map (\<lambda>n. case stats n of None \<Rightarrow> [] | Some v \<Rightarrow> stat_line (fl_unit fl) (n, v)) ord)))"


subsection \<open>What the commands do\<close>

lemma on_manager_Done:
  "on_manager wrap f s = Done s' r \<longleftrightarrow> (\<exists>pm u r0. f (fst s) = Done pm (u, r0) \<and> s' = (pm, snd s) \<and> r = map_option wrap r0)"
  by (auto simp: on_manager_def split: outcome.split)

lemma user_file_op_file: "user_file_op f tag i pm = Done pm' r \<Longrightarrow> pm_file pm' = pm_file pm \<and> (r = None \<longrightarrow> pm_needFlush pm')"
  by (auto simp: user_file_op_def put_config_def split: outcome.splits option.splits)

lemma AddUser_file: "AddUser cc x u pm = Done pm' (u', r) \<Longrightarrow> pm_file pm' = pm_file pm \<and> (r = None \<longrightarrow> pm_needFlush pm')"
  by (auto simp: AddUser_def addUserToFile_def bind_o_Done_iff dest: user_file_op_file split: option.splits prod.splits)

lemma RemoveUser_file: "RemoveUser cc x u pm = Done pm' (u', r) \<Longrightarrow> pm_file pm' = pm_file pm \<and> (r = None \<longrightarrow> pm_needFlush pm')"
  by (auto simp: RemoveUser_def removeUserFromFile_def bind_o_Done_iff dest: user_file_op_file split: option.splits prod.splits)

text \<open>
  \<open>add\<close> and \<open>remove\<close> change the running proxy and the table in memory; the change is marked for writing,
  but nothing writes it: when the process ends without an error, the configuration file is the one
  that \<open>Init\<close> left.
\<close>

theorem local_add_not_written:
  assumes "addUserLocal e nil_viper valid fresh fresh' fl s = Done s' None"
  shows "\<exists>s1. local_Init e nil_viper (fl_configFile fl) s = Done s1 None \<and> pm_file (fst s') = pm_file (fst s1)
    \<and> pm_needFlush (fst s')"
  using assms
  by (auto simp: addUserLocal_def bind_o_Done_iff on_manager_Done dest!: AddUser_file split: option.splits sum.splits)

theorem local_remove_not_written:
  assumes "removeUserLocal e nil_viper valid fresh fresh' fl s = Done s' None"
  shows "\<exists>s1. local_Init e nil_viper (fl_configFile fl) s = Done s1 None \<and> pm_file (fst s') = pm_file (fst s1)
    \<and> pm_needFlush (fst s')"
  using assms
  by (auto simp: removeUserLocal_def bind_o_Done_iff on_manager_Done dest!: RemoveUser_file split: option.splits sum.splits)

text \<open>When reading from the nil configuration panics, so do the commands that initialise a manager.\<close>

lemma local_commands_panic:
  assumes "pp_files (snd s) '''' = None" "\<not> ie_unreadable (se_init e) ''''" "fl_configFile fl \<noteq> ''''"
  obtains s' where "addUserLocal e None valid fresh fresh' fl s = Panicked s'" "removeUserLocal e None valid fresh fresh' fl s = Panicked s'"
    "reset_command e None fresh fl s = Panicked s'"
proof -
  have "\<not> isFileExist (se_init e) '''' (fst (initXrayOrV2rayConfig (se_init e) (fl_configFile fl) (pp_files (snd s))))"
    using assms by (auto simp: isFileExist_def initXrayOrV2rayConfig_def writeToFile_def split: sum.split option.split)
  then show thesis
    by (intro that) (simp_all add: addUserLocal_def removeUserLocal_def reset_command_def Reset_def local_Init_def Let_def)
qed

text \<open>The link command asks an empty manager: it fails for every user and tag.\<close>

lemma local_sub_always_fails: "getSubURI cc se fl rt = fails (''inbound with tag('' @ fl_tag fl @ '') is not exist'')"
  by (simp add: getSubURI_def GetUserSubUri_def GetInbound_def InboundManager_Get_def new_pm_def NewInboundManager_def)

text \<open>The query has one line per user it has counters of, in the order of the loop, with the unit of the flag.\<close>

lemma query_lines:
  assumes "queryStats_command query ord fl = ok lines" "QueryStats (query (fl_host fl) (fl_port fl)) (fl_pattern fl) False = ok stats"
    and "set ord = dom stats" "stats \<noteq> Map.empty"
  shows "lines = query_header # concat (map (\<lambda>n. stat_line (fl_unit fl) (n, the (stats n))) ord)"
proof -
  have "concat (map (\<lambda>n. case stats n of None \<Rightarrow> [] | Some v \<Rightarrow> stat_line (fl_unit fl) (n, v)) ord) =
      concat (map (\<lambda>n. stat_line (fl_unit fl) (n, the (stats n))) ord)"
    using assms(3) by (intro arg_cong [where f = concat] map_cong) auto
  moreover obtain n where "stats n \<noteq> None" using assms(4) by (auto simp: fun_eq_iff)
  ultimately show ?thesis using assms(1-3) by (auto simp: queryStats_command_def split: if_splits)
qed

end
