(* ===== verification/V2rayBuild.thy ===== *)
theory V2rayBuild
  imports LinkProps Builders ProxyProcess Stats
begin

text \<open>
  The program built with the tag \<open>v2ray\<close> (\<open>make v2ray\<close>): the files \<open>*_v2ray.go\<close> and \<open>v2ray_builder.go\<close> replace
  \<open>*_xray.go\<close> and \<open>xray_builder.go\<close>. The definitions here, with the prefix \<open>V2_\<close>, are the functions of that build
  that differ from the xray build, and those that call them; what has the same body in both (the
  transports, the reading of settings, the lists of users, the API configuration) is shared with the
  theories of the xray build. The theorems say where both builds agree, and where this one fails.
\<close>

subsection \<open>Users (user_v2ray.go)\<close>

text \<open>There is no XTLS: a user has no flow, nor have the accounts.\<close>

datatype v2_account = V2_VmessAccount string "32 word" | V2_VlessAccount string | V2_TrojanAccount string

record v2_user =
  v2_Tag :: string
  v2_Level :: "32 word"
  v2_Email :: string
  v2_AlterId :: "32 word"
  v2_UUID :: string
  v2_Account :: "v2_account option"
  v2_Protocol :: string

definition V2_NewUser :: "string \<Rightarrow> string \<Rightarrow> string \<Rightarrow> (v2_user \<Rightarrow> v2_user) list \<Rightarrow> v2_user result" where
  "V2_NewUser uuid email bound_tag options =
     (if email = '''' then Inl ''User email can not be empty''
      else Inr (fold (\<lambda>f u. f u) options
        \<lparr>v2_Tag = bound_tag, v2_Level = 0, v2_Email = email, v2_AlterId = 0, v2_UUID = uuid,
         v2_Account = None, v2_Protocol = VmessProtocolName\<rparr>))"

definition V2_UUID_option :: "(string \<Rightarrow> bool) \<Rightarrow> string \<Rightarrow> string \<Rightarrow> v2_user \<Rightarrow> v2_user" where
  "V2_UUID_option valid fresh custon_uuid user =
     (if valid custon_uuid then user\<lparr>v2_UUID := custon_uuid\<rparr> else user\<lparr>v2_UUID := fresh\<rparr>)"

definition V2_Level_option :: "32 word \<Rightarrow> v2_user \<Rightarrow> v2_user" where
  "V2_Level_option level user = user\<lparr>v2_Level := level\<rparr>"

definition V2_Protocol_option :: "string \<Rightarrow> v2_user \<Rightarrow> v2_user" where
  "V2_Protocol_option protocol user = user\<lparr>v2_Protocol := protocol\<rparr>"

text \<open>As in the xray build the error of the default branch is dropped.\<close>

definition V2_SetUserAccount :: "v2_user \<Rightarrow> v2_user \<times> gerror option" where
  "V2_SetUserAccount user =
     (let p = to_lower (v2_Protocol user)
      in if p = VmessProtocolName
           then (user\<lparr>v2_Account := Some (V2_VmessAccount (v2_UUID user) (v2_AlterId user))\<rparr>, None)
         else if p = VlessProtocolName
           then (user\<lparr>v2_Account := Some (V2_VlessAccount (v2_UUID user))\<rparr>, None)
         else if p = TrojanProtocolName
           then (user\<lparr>v2_Account := Some (V2_TrojanAccount (v2_UUID user))\<rparr>, None)
         else (user, None))"

text \<open>The stream settings are not looked at, so nothing is dereferenced.\<close>

definition V2_CompleteUserInformation :: "v2_user \<Rightarrow> inbound option \<Rightarrow> v2_user \<times> gerror option" where
  "V2_CompleteUserInformation user inb =
     (case inb of
        None \<Rightarrow> (user, Some (''inbound with tag('' @ v2_Tag user @ '') is not exist''))
      | Some i \<Rightarrow> V2_SetUserAccount (user\<lparr>v2_Protocol := ic_Protocol (ib_Config i)\<rparr>))"

definition V2_addVmessUser :: "codecs \<Rightarrow> v2_user \<Rightarrow> inbound_cfg \<Rightarrow> (inbound_cfg, gerror option) outcome" where
  "V2_addVmessUser cc user inn =
     bind_o (NewVmessInboundConfig cc inn) (\<lambda>inn r. case r of
         Inl e \<Rightarrow> Done inn (Some e)
       | Inr c \<Rightarrow>
           (let u = \<lparr>iu_Email = v2_Email user, iu_ID = v2_UUID user, iu_Flow = '''', iu_Level = 0, iu_AlterID = 0\<rparr>
            in Done (inn\<lparr>ic_Settings := Some (vmess_enc cc (c\<lparr>vm_Users := vm_Users c @ [encode_user u]\<rparr>))\<rparr>) None))"

definition V2_addVlessUser :: "codecs \<Rightarrow> v2_user \<Rightarrow> inbound_cfg \<Rightarrow> (inbound_cfg, gerror option) outcome" where
  "V2_addVlessUser cc user inn =
     bind_o (NewVlessInboundConfig cc inn) (\<lambda>inn r. case r of
         Inl e \<Rightarrow> Done inn (Some e)
       | Inr c \<Rightarrow>
           (let u = \<lparr>iu_Email = v2_Email user, iu_ID = v2_UUID user, iu_Flow = '''', iu_Level = 0, iu_AlterID = 0\<rparr>
            in Done (inn\<lparr>ic_Settings := Some (vless_enc cc (c\<lparr>vl_Clients := vl_Clients c @ [encode_user u]\<rparr>))\<rparr>) None))"

definition V2_addTrojanUser :: "codecs \<Rightarrow> v2_user \<Rightarrow> inbound_cfg \<Rightarrow> (inbound_cfg, gerror option) outcome" where
  "V2_addTrojanUser cc user inn =
     bind_o (NewTrojanInboundConfig cc inn) (\<lambda>inn r. case r of
         Inl e \<Rightarrow> Done inn (Some e)
       | Inr c \<Rightarrow>
           (let u = \<lparr>tu_Password = v2_UUID user, tu_Email = v2_Email user, tu_Level = ucast (v2_Level user), tu_Flow = ''''\<rparr>
            in Done (inn\<lparr>ic_Settings := Some (trojan_enc cc (c\<lparr>tj_Clients := tj_Clients c @ [u]\<rparr>))\<rparr>) None))"

definition V2_removeVmessUser :: "codecs \<Rightarrow> v2_user \<Rightarrow> inbound_cfg \<Rightarrow> (inbound_cfg, gerror option) outcome" where
  "V2_removeVmessUser cc user inn =
     bind_o (NewVmessInboundConfig cc inn) (\<lambda>inn r. case r of
         Inl e \<Rightarrow> Done inn (Some e)
       | Inr c \<Rightarrow>
           (case remove_first raw_email (''No User '' @ v2_Email user) (v2_Email user) (vm_Users c) of
              Inl e \<Rightarrow> Done inn (Some e)
            | Inr us \<Rightarrow> Done (inn\<lparr>ic_Settings := Some (vmess_enc cc (c\<lparr>vm_Users := us\<rparr>))\<rparr>) None))"

definition V2_removeVlessUser :: "codecs \<Rightarrow> v2_user \<Rightarrow> inbound_cfg \<Rightarrow> (inbound_cfg, gerror option) outcome" where
  "V2_removeVlessUser cc user inn =
     bind_o (NewVlessInboundConfig cc inn) (\<lambda>inn r. case r of
         Inl e \<Rightarrow> Done inn (Some e)
       | Inr c \<Rightarrow>
           (case remove_first raw_email ('' '' @ v2_Email user) (v2_Email user) (vl_Clients c) of
              Inl e \<Rightarrow> Done inn (Some e)
            | Inr us \<Rightarrow> Done (inn\<lparr>ic_Settings := Some (vless_enc cc (c\<lparr>vl_Clients := us\<rparr>))\<rparr>) None))"

definition V2_removeTrojanUser :: "codecs \<Rightarrow> v2_user \<Rightarrow> inbound_cfg \<Rightarrow> (inbound_cfg, gerror option) outcome" where
  "V2_removeTrojanUser cc user inn =
     bind_o (NewTrojanInboundConfig cc inn) (\<lambda>inn r. case r of
         Inl e \<Rightarrow> Done inn (Some e)
       | Inr c \<Rightarrow>
           (case remove_first tu_Email ('' '' @ v2_Email user) (v2_Email user) (tj_Clients c) of
              Inl e \<Rightarrow> Done inn (Some e)
            | Inr us \<Rightarrow> Done (inn\<lparr>ic_Settings := Some (trojan_enc cc (c\<lparr>tj_Clients := us\<rparr>))\<rparr>) None))"

text \<open>The switches of \<open>addUserToFile\<close> and \<open>removeUserFromFile\<close> over these functions.\<close>

definition V2_add_by_protocol :: "codecs \<Rightarrow> v2_user \<Rightarrow> inbound_cfg \<Rightarrow> (inbound_cfg, gerror option) outcome" where
  "V2_add_by_protocol cc user inn =
     (let p = to_lower (ic_Protocol inn)
      in if p = VmessProtocolName then V2_addVmessUser cc user inn
         else if p = VlessProtocolName then V2_addVlessUser cc user inn
         else if p = TrojanProtocolName then V2_addTrojanUser cc user inn
         else Done inn None)"

definition V2_remove_by_protocol :: "codecs \<Rightarrow> v2_user \<Rightarrow> inbound_cfg \<Rightarrow> (inbound_cfg, gerror option) outcome" where
  "V2_remove_by_protocol cc user inn =
     (let p = to_lower (ic_Protocol inn)
      in if p = VmessProtocolName then V2_removeVmessUser cc user inn
         else if p = VlessProtocolName then V2_removeVlessUser cc user inn
         else if p = TrojanProtocolName then V2_removeTrojanUser cc user inn
         else Done inn None)"


subsection \<open>Inbounds (inbound_v2ray.go)\<close>

text \<open>
  The struct of v2ray-core has one optional port range. Its decoder and the function that makes the
  configuration of a handler from it are arguments; \<open>None\<close> is the panic on an inbound without a port.
\<close>

record v2_detour =
  vd_Tag :: string
  vd_PortRange :: "(32 word \<times> 32 word) option"

definition V2_NewInboundHandlerConfig ::
    "(json \<Rightarrow> v2_detour result) \<Rightarrow> (v2_detour \<Rightarrow> 'h result) \<Rightarrow> json \<Rightarrow> 'h attempt" where
  "V2_NewInboundHandlerConfig unmarshal build rawConfig =
     (case unmarshal rawConfig of
        Inl e \<Rightarrow> fails e
      | Inr d \<Rightarrow>
          if vd_Tag d = '''' then fails ''tag can not be empty''
          else deref (vd_PortRange d) (\<lambda>(f, t). if f \<noteq> t then fails ''unsupport port range'' else Some (build d)))"

text \<open>The fields are left at their zero values: no users, and no decryption.\<close>

definition V2_NewProtocolSetting :: "codecs \<Rightarrow> string \<Rightarrow> json" where
  "V2_NewProtocolSetting cc p =
     (if to_lower p = VmessProtocolName then vmess_enc cc \<lparr>vm_Users = [], vm_rest = JNull\<rparr>
      else if to_lower p = TrojanProtocolName then trojan_enc cc \<lparr>tj_Clients = [], tj_Fallbacks = []\<rparr>
      else vless_enc cc \<lparr>vl_Clients = [], vl_Decryption = '''', vl_Fallbacks = []\<rparr>)"

subsection \<open>Links (sub/*_v2ray.go)\<close>

text \<open>The TLS settings are read whatever the security is, and their ALPN list is dereferenced.\<close>

definition V2_newTLSOrXTLSConfig :: "stream_cfg option \<Rightarrow> vless_tls attempt" where
  "V2_newTLSOrXTLSConfig s = deref s (\<lambda>s.
     case ss_TLS s of
       None \<Rightarrow> ok \<lparr>vt_SNI = '''', vt_ALPN = ''''\<rparr>
     | Some t \<Rightarrow> deref (tls_ALPN t) (\<lambda>alpn. ok \<lparr>vt_SNI = tls_ServerName t, vt_ALPN = str_join '','' alpn\<rparr>))"

definition V2_share_Build :: "share_config \<Rightarrow> string attempt" where
  "V2_share_Build c =
     (let tls = (if sc_UseSNI c then sc_TLSConfig c else (sc_TLSConfig c)\<lparr>vt_SNI := ''''\<rparr>)
      in deref (TransportConfig_Build (sc_TransportConfig c)) (\<lambda>transport.
        let params = [ProtocolConfig_Build (sc_ProtocolConfig c), transport, TLSConfig_Build tls]
        in ok (BaseConfig_Build (sc_BaseConfig c) @ ''?'' @ fixUri (str_join ''&'' params)
             @ ''#'' @ QueryEscape (sc_NodeName c))))"

definition V2_parseVlessAccountInfo :: "codecs \<Rightarrow> sub_env \<Rightarrow> inbound_cfg \<Rightarrow> string \<Rightarrow> string attempt" where
  "V2_parseVlessAccountInfo cc e cfg email = deref (ic_Settings cfg) (\<lambda>j.
     case vless_dec cc j of
       Inl err \<Rightarrow> fails err
     | Inr v \<Rightarrow> (case find_raw e email (vl_Clients v) of
           None \<Rightarrow> fails (not_in email cfg)
         | Some raw \<Rightarrow> ok (fst (se_vless_account e raw))))"

definition V2_parseTrojanAccountInfo :: "codecs \<Rightarrow> inbound_cfg \<Rightarrow> string \<Rightarrow> string attempt" where
  "V2_parseTrojanAccountInfo cc cfg email = deref (ic_Settings cfg) (\<lambda>j.
     case trojan_dec cc j of
       Inl err \<Rightarrow> fails err
     | Inr t \<Rightarrow> (case find (\<lambda>u. tu_Email u = email) (tj_Clients t) of
           None \<Rightarrow> fails (not_in email cfg)
         | Some u \<Rightarrow> ok (tu_Password u)))"

text \<open>What both share configurations do once the identifier is known; the flow keeps its zero value.\<close>

definition V2_fill_share ::
    "codecs \<Rightarrow> sub_env \<Rightarrow> (string \<Rightarrow> string) \<Rightarrow> inbound_cfg \<Rightarrow> string \<Rightarrow> string \<Rightarrow> 32 word \<Rightarrow> 'rt proxy_manager
     \<Rightarrow> share_config attempt" where
  "V2_fill_share cc e retype cfg uuid host port pm =
     (let host' = (if host = '''' then ic_ListenOn cfg else host);
          port' = (if port = 0 then ic_PortRange cfg else port)
      in and_then (newProtocolConfig (ic_StreamSetting cfg)) (\<lambda>p.
         and_then (newTransportConfig (ic_StreamSetting cfg)) (\<lambda>t.
         and_then (V2_newTLSOrXTLSConfig (ic_StreamSetting cfg)) (\<lambda>tls.
         deref (GetUpstreamInbound cc (itoa (uint port')) pm) (\<lambda>up.
         and_then (case up of
             Inl err \<Rightarrow> ok (port', tls)
           | Inr u \<Rightarrow> and_then (V2_newTLSOrXTLSConfig (ic_StreamSetting u)) (\<lambda>tls'. ok (ic_PortRange u, tls'))) (\<lambda>(port'', tls'').
         deref (parseHost e host' (vt_SNI tls'')) (\<lambda>remote.
           ok \<lparr>sc_BaseConfig = \<lparr>bc_UUID = uuid, bc_RemoteHost = remote, bc_RemotePort = port'', bc_Flow = ''''\<rparr>,
               sc_ProtocolConfig = p\<lparr>pc_Type := retype (pc_Type p)\<rparr>, sc_TransportConfig = t, sc_TLSConfig = tls'',
               sc_NodeName = '''', sc_UseSNI = False\<rparr>)))))))"

definition V2_NewVlessShareConfig ::
    "codecs \<Rightarrow> sub_env \<Rightarrow> inbound_cfg \<Rightarrow> string \<Rightarrow> string \<Rightarrow> 32 word \<Rightarrow> 'rt proxy_manager \<Rightarrow> share_config attempt" where
  "V2_NewVlessShareConfig cc e cfg email host port pm =
     and_then (V2_parseVlessAccountInfo cc e cfg email) (\<lambda>uuid. V2_fill_share cc e (\<lambda>t. t) cfg uuid host port pm)"

definition V2_NewTrojanShareConfig ::
    "codecs \<Rightarrow> sub_env \<Rightarrow> inbound_cfg \<Rightarrow> string \<Rightarrow> string \<Rightarrow> 32 word \<Rightarrow> 'rt proxy_manager \<Rightarrow> share_config attempt" where
  "V2_NewTrojanShareConfig cc e cfg email host port pm =
     and_then (V2_parseTrojanAccountInfo cc cfg email) (\<lambda>uuid.
       V2_fill_share cc e (\<lambda>t. if t = ''tcp'' then ''original'' else t) cfg uuid host port pm)"

definition V2_insertVmessTlsSetting :: "vmess_share \<Rightarrow> stream_cfg option \<Rightarrow> vmess_share attempt" where
  "V2_insertVmessTlsSetting v streamSetting = deref streamSetting (\<lambda>s.
     if ss_Security s = ''none'' then ok v
     else if ss_Security s = ''tls'' then deref (ss_TLS s) (\<lambda>t. ok (v\<lparr>vs_TLS := ''tls'', vs_Sni := tls_ServerName t\<rparr>))
     else fails (''Unsupport Security protocol '' @ ss_Security s))"

definition V2_vmess_upstream :: "vmess_share \<Rightarrow> inbound_cfg result \<Rightarrow> vmess_share option" where
  "V2_vmess_upstream v up =
     (case up of
        Inl err \<Rightarrow> Some v
      | Inr u \<Rightarrow>
          (let v1 = v\<lparr>vs_Port := itoa (uint (ic_PortRange u))\<rparr>
           in case V2_insertVmessTlsSetting v1 (ic_StreamSetting u) of
                None \<Rightarrow> None | Some (Inl err) \<Rightarrow> Some v1 | Some (Inr v2) \<Rightarrow> Some v2))"

definition V2_NewVmessShareConfig ::
    "codecs \<Rightarrow> sub_env \<Rightarrow> inbound_cfg \<Rightarrow> string \<Rightarrow> string \<Rightarrow> 32 word \<Rightarrow> 'rt proxy_manager \<Rightarrow> vmess_share attempt" where
  "V2_NewVmessShareConfig cc e cfg email host port pm =
     and_then (parseVmessAccountInfo cc e cfg email NewDefaultVmessShareConfig) (\<lambda>v.
       let host' = (if host = '''' then ic_ListenOn cfg else host);
           port' = (if port = 0 then ic_PortRange cfg else port);
           v1 = v\<lparr>vs_Port := itoa (uint port'), vs_TLS := ''tls''\<rparr>
       in and_then (insertVmessStreamSetting v1 (ic_StreamSetting cfg)) (\<lambda>v2.
          and_then (V2_insertVmessTlsSetting v2 (ic_StreamSetting cfg)) (\<lambda>v3.
          deref (GetUpstreamInbound cc (vs_Port v3) pm) (\<lambda>up.
          deref (V2_vmess_upstream v3 up) (\<lambda>v4.
            deref (parseHost e host' (vs_Sni v4)) (\<lambda>remote. ok (v4\<lparr>vs_Add := remote\<rparr>)))))))"

definition V2_GetVlessSub ::
    "codecs \<Rightarrow> sub_env \<Rightarrow> inbound_cfg \<Rightarrow> string \<Rightarrow> string \<Rightarrow> string \<Rightarrow> 32 word \<Rightarrow> bool \<Rightarrow> 'rt proxy_manager \<Rightarrow> string attempt" where
  "V2_GetVlessSub cc e cfg user host nodeName port useSNI pm =
     and_then (V2_NewVlessShareConfig cc e cfg user host port pm) (\<lambda>u.
       and_then (V2_share_Build (u\<lparr>sc_NodeName := nodeName, sc_UseSNI := useSNI\<rparr>)) (\<lambda>s. ok (''vless://'' @ s)))"

definition V2_GetVmessSub ::
    "codecs \<Rightarrow> sub_env \<Rightarrow> inbound_cfg \<Rightarrow> string \<Rightarrow> string \<Rightarrow> string \<Rightarrow> 32 word \<Rightarrow> bool \<Rightarrow> 'rt proxy_manager \<Rightarrow> string attempt" where
  "V2_GetVmessSub cc e cfg user host nodeName port useSNI pm =
     and_then (V2_NewVmessShareConfig cc e cfg user host port pm) (\<lambda>u. ok (getVmessUri (u\<lparr>vs_PS := nodeName, vs_UseSNI := useSNI\<rparr>)))"

definition V2_GetTrojanSub ::
    "codecs \<Rightarrow> sub_env \<Rightarrow> inbound_cfg \<Rightarrow> string \<Rightarrow> string \<Rightarrow> string \<Rightarrow> 32 word \<Rightarrow> bool \<Rightarrow> 'rt proxy_manager \<Rightarrow> string attempt" where
  "V2_GetTrojanSub cc e cfg user host nodeName port useSNI pm =
     and_then (V2_NewTrojanShareConfig cc e cfg user host port pm) (\<lambda>u.
       and_then (V2_share_Build (u\<lparr>sc_NodeName := nodeName, sc_UseSNI := useSNI\<rparr>)) (\<lambda>s. ok (''trojan://'' @ s)))"

definition V2_GetUserSubUri ::
    "codecs \<Rightarrow> sub_env \<Rightarrow> string \<Rightarrow> string \<Rightarrow> string \<Rightarrow> string \<Rightarrow> 32 word \<Rightarrow> bool \<Rightarrow> 'rt proxy_manager \<Rightarrow> string attempt" where
  "V2_GetUserSubUri cc e user tag host nodeName port useSNI pm =
     (case GetInbound pm tag of
        None \<Rightarrow> fails (''inbound with tag('' @ tag @ '') is not exist'')
      | Some i \<Rightarrow>
          (let cfg = ib_Config i; p = to_lower (ic_Protocol cfg)
           in if p = VlessProtocolName then V2_GetVlessSub cc e cfg user host nodeName port useSNI pm
              else if p = VmessProtocolName then V2_GetVmessSub cc e cfg user host nodeName port useSNI pm
              else if p = TrojanProtocolName then V2_GetTrojanSub cc e cfg user host nodeName port useSNI pm
              else fails (''not support protocol: '' @ ic_Protocol cfg)))"


subsection \<open>Builders (v2ray_builder.go)\<close>

text \<open>The flag \<open>isXtls\<close> of a request is stored in the builder and ignored here.\<close>

definition V2_FullTlsXtlsConfig :: "stream_cfg \<Rightarrow> string \<Rightarrow> cert_manager \<Rightarrow> bool \<Rightarrow> stream_cfg" where
  "V2_FullTlsXtlsConfig s domain cm isXtls = s\<lparr>ss_Security := ''tls'', ss_TLS := Some (NewTLSConfig domain cm)\<rparr>"

definition V2_TCPBuilder_Build :: "string \<Rightarrow> cert_manager \<Rightarrow> bool \<Rightarrow> stream_cfg" where
  "V2_TCPBuilder_Build domain cm isXtls = V2_FullTlsXtlsConfig (network_stream ''tcp'') domain cm isXtls"

definition V2_WSBuilder_Build :: "(nat \<Rightarrow> string) \<Rightarrow> string \<Rightarrow> cert_manager \<Rightarrow> bool \<Rightarrow> stream_cfg" where
  "V2_WSBuilder_Build rnd domain cm isXtls =
     V2_FullTlsXtlsConfig ((network_stream ''ws'')\<lparr>ss_WS := Some \<lparr>ws_Path = ''/'' @ rnd 0, ws_Headers = NewWebSocketHeaders (rnd \<circ> Suc)\<rparr>\<rparr>)
       domain cm isXtls"

definition V2_QuicBuilder_Build :: "(nat \<Rightarrow> string) \<Rightarrow> string \<Rightarrow> cert_manager \<Rightarrow> bool \<Rightarrow> stream_cfg" where
  "V2_QuicBuilder_Build rnd domain cm isXtls =
     V2_FullTlsXtlsConfig ((network_stream ''quic'')\<lparr>ss_QUIC := Some \<lparr>quic_Header = Some NewFakeHeader, quic_Security = chacha20, quic_Key = rnd 0\<rparr>\<rparr>)
       domain cm isXtls"

definition V2_MkcpBuilder_Build :: "(nat \<Rightarrow> string) \<Rightarrow> string \<Rightarrow> cert_manager \<Rightarrow> bool \<Rightarrow> stream_cfg" where
  "V2_MkcpBuilder_Build rnd domain cm isXtls =
     V2_FullTlsXtlsConfig ((network_stream ''mkcp'')\<lparr>ss_KCP := Some \<lparr>kcp_Header = Some NewFakeHeader, kcp_Seed = Some (rnd 0)\<rparr>\<rparr>)
       domain cm isXtls"

definition V2_GrpcBuilder_Build :: "(nat \<Rightarrow> string) \<Rightarrow> string \<Rightarrow> cert_manager \<Rightarrow> bool \<Rightarrow> stream_cfg" where
  "V2_GrpcBuilder_Build rnd domain cm isXtls =
     V2_FullTlsXtlsConfig ((network_stream ''grpc'')\<lparr>ss_GRPC := Some (rnd 0)\<rparr>) domain cm isXtls"

definition V2_HttpBuilder_Build :: "(nat \<Rightarrow> string) \<Rightarrow> string \<Rightarrow> cert_manager \<Rightarrow> bool \<Rightarrow> stream_cfg" where
  "V2_HttpBuilder_Build rnd domain cm isXtls =
     V2_FullTlsXtlsConfig ((network_stream ''http'')\<lparr>ss_HTTP := Some \<lparr>h2_Host = Some [rnd 0 @ ''.'' @ rnd 1], h2_Path = ''/'' @ rnd 2\<rparr>\<rparr>)
       domain cm isXtls"

definition V2_GetStreamSettingBuilder :: "(nat \<Rightarrow> string) \<Rightarrow> int \<Rightarrow> (string \<Rightarrow> cert_manager \<Rightarrow> bool \<Rightarrow> stream_cfg) option" where
  "V2_GetStreamSettingBuilder rnd builderType =
     (if builderType = 20 then Some V2_TCPBuilder_Build
      else if builderType = 21 then Some (V2_WSBuilder_Build rnd)
      else if builderType = 22 then Some (V2_QuicBuilder_Build rnd)
      else if builderType = 23 then Some (V2_MkcpBuilder_Build rnd)
      else if builderType = 24 then Some (V2_GrpcBuilder_Build rnd)
      else if builderType = 25 then Some (V2_HttpBuilder_Build rnd)
      else None)"

text \<open>\<open>newInbound\<close> of \<open>end_node_server.go\<close> with these builders; the settings builders are those of the xray build.\<close>

definition V2_newInbound :: "codecs \<Rightarrow> (nat \<Rightarrow> string) \<Rightarrow> fast_req \<Rightarrow> cert_manager \<Rightarrow> inbound result" where
  "V2_newInbound cc rnd req cm =
     (if GetCert cm (fr_Domain req) = None
      then Inl (''not found domain'' @ [CHR 0x27] @ ''s['' @ fr_Domain req @ ''] cert'')
      else case GetInboundSettingBuilder cc (fr_InboundBuilderType req) of
        None \<Rightarrow> Inl ''unsupport protocol''
      | Some (protocol, settings) \<Rightarrow>
          (case V2_GetStreamSettingBuilder rnd (fr_StreamBuilderType req) of
             None \<Rightarrow> Inl ''unsupport stream type''
           | Some build \<Rightarrow>
               Inr \<lparr>ib_Config = \<lparr>ic_Protocol = protocol, ic_PortRange = word_of_int (fr_Port req), ic_ListenOn = ''0.0.0.0'',
                        ic_Settings = Some settings, ic_Tag = fr_Tag req,
                        ic_Allocation = None, ic_StreamSetting = Some (build (fr_Domain req) cm (fr_IsXtls req)), ic_DomainOverride = None, ic_SniffingConfig = None\<rparr>,
                    ib_Tag = fr_Tag req\<rparr>))"

subsection \<open>Statistics and releases (stats_v2ray.go, version_v2ray.go)\<close>

text \<open>\<open>query host port pattern reset\<close> is the answer of the proxy's API at an address.\<close>

definition V2_QueryStats ::
    "(string \<Rightarrow> int \<Rightarrow> string \<Rightarrow> bool \<Rightarrow> (string \<times> int) list result) \<Rightarrow> string \<Rightarrow> string \<Rightarrow> int \<Rightarrow> bool \<Rightarrow> (string \<rightharpoonup> stat) result option" where
  "V2_QueryStats query host pattern port reset =
     (case query host port pattern reset of Inl err \<Rightarrow> Some (Inl err) | Inr resp \<Rightarrow> map_option Inr (parseQueryStats resp))"

text \<open>The call in \<open>ProxyManager.QueryStats\<close>, written for the order of parameters of the xray build.\<close>

definition V2_manager_query ::
    "(string \<Rightarrow> int \<Rightarrow> string \<Rightarrow> bool \<Rightarrow> (string \<times> int) list result) \<Rightarrow> string \<Rightarrow> string \<Rightarrow> int \<Rightarrow> bool \<Rightarrow> (string \<rightharpoonup> stat) result option" where
  "V2_manager_query query pattern runtimeHost runtimePort reset = V2_QueryStats query pattern runtimeHost runtimePort reset"

definition V2_softwareGithubInfoMap :: "string \<Rightarrow> github_info option" where
  "V2_softwareGithubInfoMap n =
     (if n = ''v2ray'' then Some \<lparr>gi_Repo = ''v2ray-core'', gi_Owner = ''v2fly'', gi_ReleaseFileName = ''v2ray-linux-64.zip'', gi_FileName = ''v2ray''\<rparr>
      else if n = ''hysteria'' then Some \<lparr>gi_Repo = ''hysteria'', gi_Owner = ''apernet'', gi_ReleaseFileName = ''hysteria-linux-amd64'',
        gi_FileName = ''hysteria-linux-amd64''\<rparr>
      else None)"

definition V2_NewProxyServer :: "string \<Rightarrow> string \<Rightarrow> string \<Rightarrow> proxy_server" where
  "V2_NewProxyServer file version softwareName =
     \<lparr>ps_configFile = file, ps_path = '''', ps_isRunning = False, ps_currentVersion = '''', ps_expectVersion = version,
      ps_softwareName = softwareName, ps_softwareGithubInfo = V2_softwareGithubInfoMap softwareName, ps_alive = None\<rparr>"

text \<open>The server that \<open>ProxyManager.Init\<close> makes, with the name \<open>xray\<close> in both builds.\<close>

definition V2_Init_proxyServer :: "string \<Rightarrow> string \<Rightarrow> proxy_server" where
  "V2_Init_proxyServer xrayOrV2rayConfigFile version = V2_NewProxyServer xrayOrV2rayConfigFile version ''xray''"

subsection \<open>The users of both builds\<close>

text \<open>A user of this build as a user of the xray build: without XTLS, and with empty flows.\<close>

fun xray_account :: "v2_account \<Rightarrow> account" where
  "xray_account (V2_VmessAccount i a) = VmessAccount i a"
| "xray_account (V2_VlessAccount i) = VlessAccount i ''''"
| "xray_account (V2_TrojanAccount p) = TrojanAccount p ''''"

definition xray_user :: "v2_user \<Rightarrow> puser" where
  "xray_user u = \<lparr>pu_Tag = v2_Tag u, pu_Level = v2_Level u, pu_Email = v2_Email u, pu_AlterId = v2_AlterId u,
     pu_UUID = v2_UUID u, pu_Account = map_option xray_account (v2_Account u), pu_Protocol = v2_Protocol u,
     pu_IsXtls = False, pu_Flow = ''''\<rparr>"

lemma xray_user_simps [simp]:
  "pu_Tag (xray_user u) = v2_Tag u" "pu_Level (xray_user u) = v2_Level u" "pu_Email (xray_user u) = v2_Email u"
  "pu_AlterId (xray_user u) = v2_AlterId u" "pu_UUID (xray_user u) = v2_UUID u"
  "pu_Protocol (xray_user u) = v2_Protocol u" "\<not> pu_IsXtls (xray_user u)" "pu_Flow (xray_user u) = ''''"
  by (simp_all add: xray_user_def)

lemma xray_user_update:
  "(xray_user u)\<lparr>pu_Account := Some (xray_account a)\<rparr> = xray_user (u\<lparr>v2_Account := Some a\<rparr>)"
  "(xray_user u)\<lparr>pu_Protocol := p\<rparr> = xray_user (u\<lparr>v2_Protocol := p\<rparr>)"
  "(xray_user u)\<lparr>pu_IsXtls := False\<rparr> = xray_user u"
  "(xray_user u)\<lparr>pu_Level := l\<rparr> = xray_user (u\<lparr>v2_Level := l\<rparr>)"
  "(xray_user u)\<lparr>pu_UUID := i\<rparr> = xray_user (u\<lparr>v2_UUID := i\<rparr>)"
  by (simp_all add: xray_user_def)

lemma SetUserAccount_sim: "SetUserAccount (xray_user u) = map_prod xray_user id (V2_SetUserAccount u)"
  by (simp add: SetUserAccount_def V2_SetUserAccount_def Let_def xray_user_def)

lemma add_user_sim:
  "V2_addVmessUser cc u inn = addVmessUser cc (xray_user u) inn"
  "V2_addVlessUser cc u inn = addVlessUser cc (xray_user u) inn"
  "V2_addTrojanUser cc u inn = addTrojanUser cc (xray_user u) inn"
  unfolding V2_addVmessUser_def addVmessUser_def V2_addVlessUser_def addVlessUser_def
    V2_addTrojanUser_def addTrojanUser_def xray_user_simps if_cancel by (rule refl)+

lemma remove_user_sim:
  "V2_removeVmessUser cc u inn = removeVmessUser cc (xray_user u) inn"
  "V2_removeVlessUser cc u inn = removeVlessUser cc (xray_user u) inn"
  "V2_removeTrojanUser cc u inn = removeTrojanUser cc (xray_user u) inn"
  unfolding V2_removeVmessUser_def removeVmessUser_def V2_removeVlessUser_def removeVlessUser_def
    V2_removeTrojanUser_def removeTrojanUser_def xray_user_simps by (rule refl)+

lemma by_protocol_sim:
  "V2_add_by_protocol cc u inn = add_by_protocol cc (xray_user u) inn"
  "V2_remove_by_protocol cc u inn = remove_by_protocol cc (xray_user u) inn"
  by (simp_all only: V2_add_by_protocol_def add_by_protocol_def V2_remove_by_protocol_def remove_by_protocol_def
      add_user_sim remove_user_sim)

text \<open>
  On an inbound with stream settings that do not use XTLS both builds complete a user in the same
  way; this build also does where the other one panics, on an inbound without stream settings.
\<close>

lemma v2_completion_refines:
  assumes "\<And>i s. inb = Some i \<Longrightarrow> ic_StreamSetting (ib_Config i) = Some s \<Longrightarrow> ss_Security s \<noteq> XTLSName"
    and "CompleteUserInformation (xray_user u) inb = Some r"
  shows "r = map_prod xray_user id (V2_CompleteUserInformation u inb)"
  using assms
  by (auto simp: CompleteUserInformation_def V2_CompleteUserInformation_def xray_user_update SetUserAccount_sim
      split: option.splits)

text \<open>Adding a user and removing it again, by the contract of the users of an inbound.\<close>

lemma v2_add_remove:
  assumes "codec_ok cc" "readable cc i" "GetInboundUsers cc i = Done i us" "v2_Email u \<notin> set us"
  shows "\<exists>i' i''. V2_add_by_protocol cc u i = Done i' None \<and> V2_remove_by_protocol cc u i' = Done i'' None \<and>
     GetInboundUsers cc i'' = Done i'' us \<and> readable cc i''"
  using file_users.add_remove [OF assms(1-3), of "xray_user u"] assms(4) by (simp add: by_protocol_sim)


subsection \<open>The links of both builds\<close>

text \<open>
  Stream settings both builds read alike: the security is not XTLS, and TLS settings are there only with
  security \<open>tls\<close> and with an ALPN list.
\<close>

definition same_tls :: "stream_cfg option \<Rightarrow> bool" where
  "same_tls s = (case s of
      None \<Rightarrow> True
    | Some s \<Rightarrow> to_lower (ss_Security s) \<noteq> ''xtls'' \<and>
        (case ss_TLS s of None \<Rightarrow> True | Some t \<Rightarrow> to_lower (ss_Security s) = ''tls'' \<and> tls_ALPN t \<noteq> None))"

definition same_tls_everywhere :: "codecs \<Rightarrow> inbound_cfg \<Rightarrow> 'rt proxy_manager \<Rightarrow> bool" where
  "same_tls_everywhere cc cfg pm \<longleftrightarrow> same_tls (ic_StreamSetting cfg) \<and>
     (\<forall>p u. GetUpstreamInbound cc p pm = Some (Inr u) \<longrightarrow> same_tls (ic_StreamSetting u))"

lemma newTLS_same: "same_tls s \<Longrightarrow> V2_newTLSOrXTLSConfig s = newTLSOrXTLSConfig s"
  by (cases s) (auto simp: same_tls_def V2_newTLSOrXTLSConfig_def newTLSOrXTLSConfig_def tls_of_def split: option.splits)

lemma lower_xtls: "to_lower ''xtls'' = ''xtls''"
  by code_simp

lemma vmess_tls_same: "same_tls s \<Longrightarrow> V2_insertVmessTlsSetting v s = insertVmessTlsSetting v s"
  by (cases s) (auto simp: same_tls_def V2_insertVmessTlsSetting_def insertVmessTlsSetting_def lower_xtls)

lemma share_Build_same: "bc_Flow (sc_BaseConfig c) = '''' \<Longrightarrow> V2_share_Build c = share_Build c"
  by (simp add: V2_share_Build_def share_Build_def param_def)

lemma fill_share_same:
  assumes "same_tls_everywhere cc cfg pm"
  shows "V2_fill_share cc e retype cfg uuid host port pm = fill_share cc e retype cfg (uuid, '''') host port pm"
proof -
  have up: "(case up of
             Inl err \<Rightarrow> ok (p', tls)
           | Inr u \<Rightarrow> and_then (V2_newTLSOrXTLSConfig (ic_StreamSetting u)) (\<lambda>tls'. ok (ic_PortRange u, tls'))) =
     (case up of
             Inl err \<Rightarrow> ok (p', tls)
           | Inr u \<Rightarrow> and_then (newTLSOrXTLSConfig (ic_StreamSetting u)) (\<lambda>tls'. ok (ic_PortRange u, tls')))"
    if "GetUpstreamInbound cc p pm = Some up" for p p' up tls
    using that assms by (auto simp: same_tls_everywhere_def newTLS_same split: sum.split)
  have "V2_newTLSOrXTLSConfig (ic_StreamSetting cfg) = newTLSOrXTLSConfig (ic_StreamSetting cfg)"
    using assms by (simp add: same_tls_everywhere_def newTLS_same)
  then show ?thesis
    unfolding V2_fill_share_def fill_share_def
    by (cases "GetUpstreamInbound cc (itoa (uint (if port = 0 then ic_PortRange cfg else port))) pm") (simp_all add: up)
qed

lemma fill_share_flow: "fill_share cc e retype cfg a host port pm = ok c \<Longrightarrow> bc_Flow (sc_BaseConfig c) = snd a"
  by (auto simp: fill_share_def Let_def and_then_ok deref_ok split: sum.split_asm)
    (metis (no_types, lifting) sum.exhaust base_config.select_convs(4) share_config.select_convs(1))


lemma attempt_cases: "(m = None \<Longrightarrow> Q) \<Longrightarrow> (\<And>err. m = fails err \<Longrightarrow> Q) \<Longrightarrow> (\<And>x. m = ok x \<Longrightarrow> Q) \<Longrightarrow> Q"
  by (metis fails_def ok_def option.exhaust sum.exhaust)

text \<open>A link is built alike from the share configuration of either build, when the account has no flow.\<close>

lemma share_link_same:
  assumes "same_tls_everywhere cc cfg pm" "snd a = ''''"
  shows "and_then (V2_fill_share cc e retype cfg (fst a) host port pm) (\<lambda>u.
       and_then (V2_share_Build (u\<lparr>sc_NodeName := n, sc_UseSNI := useSNI\<rparr>)) k) =
     and_then (fill_share cc e retype cfg a host port pm) (\<lambda>u. and_then (share_Build (u\<lparr>sc_NodeName := n, sc_UseSNI := useSNI\<rparr>)) k)"
proof -
  have "V2_fill_share cc e retype cfg (fst a) host port pm = fill_share cc e retype cfg a host port pm"
    using assms by (metis fill_share_same prod.collapse)
  then show ?thesis
    using fill_share_flow [of cc e retype cfg a host port pm] assms(2)
    by (cases "fill_share cc e retype cfg a host port pm" rule: attempt_cases) (simp_all add: share_Build_same)
qed

lemma parse_account_same:
  "V2_parseVlessAccountInfo cc e cfg user = and_then (parseVlessAccountInfo cc e cfg user) (\<lambda>a. ok (fst a))"
  "V2_parseTrojanAccountInfo cc cfg user = and_then (parseTrojanAccountInfo cc cfg user) (\<lambda>a. ok (fst a))"
  by (cases "ic_Settings cfg"; auto simp: V2_parseVlessAccountInfo_def parseVlessAccountInfo_def
      V2_parseTrojanAccountInfo_def parseTrojanAccountInfo_def split: sum.split option.split)+

lemma vless_link_same:
  assumes "same_tls_everywhere cc cfg pm" "\<And>a. parseVlessAccountInfo cc e cfg user = ok a \<Longrightarrow> snd a = ''''"
  shows "V2_GetVlessSub cc e cfg user host nodeName port useSNI pm = GetVlessSub cc e cfg user host nodeName port useSNI pm"
  by (cases "parseVlessAccountInfo cc e cfg user" rule: attempt_cases)
    (simp_all add: V2_GetVlessSub_def GetVlessSub_def V2_NewVlessShareConfig_def NewVlessShareConfig_def
      getVlessUri_def parse_account_same share_link_same [OF assms(1)] assms(2))

lemma trojan_link_same:
  assumes "same_tls_everywhere cc cfg pm" "\<And>a. parseTrojanAccountInfo cc cfg user = ok a \<Longrightarrow> snd a = ''''"
  shows "V2_GetTrojanSub cc e cfg user host nodeName port useSNI pm = GetTrojanSub cc e cfg user host nodeName port useSNI pm"
  by (cases "parseTrojanAccountInfo cc cfg user" rule: attempt_cases)
    (simp_all add: V2_GetTrojanSub_def GetTrojanSub_def V2_NewTrojanShareConfig_def NewTrojanShareConfig_def
      getTrojanUri_def parse_account_same share_link_same [OF assms(1)] assms(2))

lemma set_type_TLS [simp]: "vs_TLS (set_type h v) = vs_TLS v"
  by (simp add: set_type_def split: option.split)

lemma attempt_elims:
  "(if b then x else y) = ok r \<Longrightarrow> (b \<Longrightarrow> x = ok r \<Longrightarrow> Q) \<Longrightarrow> (\<not> b \<Longrightarrow> y = ok r \<Longrightarrow> Q) \<Longrightarrow> Q"
  "deref p f = ok r \<Longrightarrow> (\<And>z. p = Some z \<Longrightarrow> f z = ok r \<Longrightarrow> Q) \<Longrightarrow> Q"
  "and_then m g = ok r \<Longrightarrow> (\<And>z. m = ok z \<Longrightarrow> g z = ok r \<Longrightarrow> Q) \<Longrightarrow> Q"
  by (simp_all add: deref_ok and_then_ok split: if_splits) blast+

lemma vmess_stream_TLS: "insertVmessStreamSetting v s = ok v' \<Longrightarrow> vs_TLS v' = vs_TLS v"
  unfolding insertVmessStreamSetting_def by (elim attempt_elims) (simp_all, auto)

lemma vmess_tls_TLS: "V2_insertVmessTlsSetting v s = ok v' \<Longrightarrow> vs_TLS v = ''tls'' \<Longrightarrow> vs_TLS v' = ''tls''"
  by (auto simp: V2_insertVmessTlsSetting_def deref_ok split: if_splits)

lemma vmess_upstream_TLS: "V2_vmess_upstream v up = Some v' \<Longrightarrow> vs_TLS v = ''tls'' \<Longrightarrow> vs_TLS v' = ''tls''"
  using vmess_tls_TLS [unfolded ok_def]
  by (auto simp: V2_vmess_upstream_def Let_def split: sum.splits option.splits)

lemma vmess_upstream_same:
  "(\<And>u. up = Inr u \<Longrightarrow> same_tls (ic_StreamSetting u)) \<Longrightarrow> V2_vmess_upstream v up = vmess_upstream v up"
  by (auto simp: V2_vmess_upstream_def vmess_upstream_def vmess_tls_same split: sum.split)


lemma and_then_cong: "(\<And>x. m = ok x \<Longrightarrow> f x = g x) \<Longrightarrow> and_then m f = and_then m g"
  by (cases m rule: attempt_cases) simp_all

lemma vmess_upstream_step:
  assumes "same_tls_everywhere cc cfg pm" "GetUpstreamInbound cc p pm = Some r" "vs_TLS v = ''tls''"
  shows "vmess_upstream v r = V2_vmess_upstream v r" "V2_vmess_upstream v r = Some v' \<Longrightarrow> vs_TLS v' = ''tls''"
  using vmess_upstream_same [of r v] vmess_upstream_TLS [of v r v'] assms
  unfolding same_tls_everywhere_def by metis+

lemma vmess_share_same:
  assumes "same_tls_everywhere cc cfg pm"
  shows "V2_NewVmessShareConfig cc e cfg user host port pm = NewVmessShareConfig cc e cfg user host port pm"
proof -
  have tls: "insertVmessTlsSetting w (ic_StreamSetting cfg) = V2_insertVmessTlsSetting w (ic_StreamSetting cfg)" for w
    using assms by (simp add: same_tls_everywhere_def vmess_tls_same)
  show ?thesis
    unfolding V2_NewVmessShareConfig_def NewVmessShareConfig_def Let_def tls
  proof (intro and_then_cong, goal_cases)
    case (1 v v2 v3)
    then have v3: "vs_TLS v3 = ''tls''" using vmess_stream_TLS vmess_tls_TLS by fastforce
    show ?case
    proof (cases "GetUpstreamInbound cc (vs_Port v3) pm")
      case (Some r)
      then show ?thesis
        using vmess_upstream_step [OF assms Some v3] by (cases "V2_vmess_upstream v3 r") simp_all
    qed simp
  qed
qed

text \<open>
  C31: both builds give a user the same link, or the same error, when the stream settings of the inbound
  and of those that fall back to it are read alike, and the account of the user has no flow.
\<close>

theorem v2_links_same:
  assumes "GetInbound pm tag = Some i" and "same_tls_everywhere cc (ib_Config i) pm"
    and "\<And>a. to_lower (ic_Protocol (ib_Config i)) = VlessProtocolName \<Longrightarrow> parseVlessAccountInfo cc e (ib_Config i) user = ok a \<Longrightarrow> snd a = ''''"
    and "\<And>a. to_lower (ic_Protocol (ib_Config i)) = TrojanProtocolName \<Longrightarrow> parseTrojanAccountInfo cc (ib_Config i) user = ok a \<Longrightarrow> snd a = ''''"
  shows "V2_GetUserSubUri cc e user tag host nodeName port useSNI pm = GetUserSubUri cc e user tag host nodeName port useSNI pm"
  using vless_link_same [OF assms(2,3)] trojan_link_same [OF assms(2,4)]
  by (simp add: V2_GetUserSubUri_def GetUserSubUri_def assms(1) V2_GetVmessSub_def GetVmessSub_def Let_def
      vmess_share_same [OF assms(2)])

text \<open>An inbound whose TLS settings name the protocols, and one user.\<close>

definition demo_alpn_cfg :: inbound_cfg where
  "demo_alpn_cfg = (demo_vless_cfg ''tcp'' [demo_bob_account])\<lparr>ic_StreamSetting :=
     Some ((NewStreamSetting ''tcp'' ''tls'' ''k'' ''c'')\<lparr>ss_TLS := Some \<lparr>tls_ServerName = ''h'', tls_ALPN = Some [''h2''], tls_Certs = []\<rparr>\<rparr>)\<rparr>"

definition demo_alpn_pm :: "string set proxy_manager" where
  "demo_alpn_pm = demo_pm\<lparr>pm_InboundManager := \<lparr>im_inbounds = [''v'' \<mapsto> \<lparr>ib_Config = demo_alpn_cfg, ib_Tag = ''v''\<rparr>],
     im_listeningPorts = {2000}\<rparr>, pm_InboundConfigs := []\<rparr>"


lemma demo_alpn_simps:
  "GetInbound demo_alpn_pm ''v'' = Some \<lparr>ib_Config = demo_alpn_cfg, ib_Tag = ''v''\<rparr>"
  "ic_Protocol demo_alpn_cfg = ''vless''"
  "parseVlessAccountInfo demo_codecs demo_env demo_alpn_cfg ''bob'' = ok (''id1'', '''')"
  "same_tls_everywhere demo_codecs demo_alpn_cfg demo_alpn_pm"
proof -
  have "to_lower ''tls'' = ''tls''" by code_simp
  then show "same_tls_everywhere demo_codecs demo_alpn_cfg demo_alpn_pm"
    by (simp add: same_tls_everywhere_def same_tls_def demo_alpn_cfg_def NewStreamSetting_def GetUpstreamInbound_def demo_alpn_pm_def)
  show "parseVlessAccountInfo demo_codecs demo_env demo_alpn_cfg ''bob'' = ok (''id1'', '''')"
    by (simp add: parseVlessAccountInfo_def demo_alpn_cfg_def demo_vless_cfg_def codec_ok_simps [OF codec_ok_demo] demo_env_def
        decode_encode_user demo_bob_account_def)
qed (simp_all add: GetInbound_map demo_alpn_pm_def demo_alpn_cfg_def demo_vless_cfg_def)

theorem v2_links_same_witness:
  "V2_GetUserSubUri demo_codecs demo_env ''bob'' ''v'' '''' ''n'' 0 True demo_alpn_pm =
     ok ''vless://id1@1.2.3.4:2000?type=tcp&security=tls&sni=h&alpn=h2#n''"
proof -
  let ?c = "\<lparr>sc_BaseConfig = \<lparr>bc_UUID = ''id1'', bc_RemoteHost = ''1.2.3.4'', bc_RemotePort = 2000, bc_Flow = ''''\<rparr>,
     sc_ProtocolConfig = \<lparr>pc_Type = ''tcp'', pc_Encryption = ''none''\<rparr>,
     sc_TransportConfig = \<lparr>tc_Security = ''tls'', tc_TransportConfig = Some VlessTcpConfig\<rparr>,
     sc_TLSConfig = \<lparr>vt_SNI = ''h'', vt_ALPN = ''h2''\<rparr>, sc_NodeName = ''n'', sc_UseSNI = True\<rparr>"
  have low: "to_lower ''vless'' = ''vless''" "to_lower ''tls'' = ''tls''" "inProtocols ''tcp''" by code_simp+
  have uri: "getVlessUri ?c = ok ''vless://id1@1.2.3.4:2000?type=tcp&security=tls&sni=h&alpn=h2#n''" by code_simp
  have "NewVlessShareConfig demo_codecs demo_env demo_alpn_cfg ''bob'' '''' 0 demo_alpn_pm = ok (?c\<lparr>sc_NodeName := '''', sc_UseSNI := False\<rparr>)"
    using low by (simp add: demo_alpn_simps NewVlessShareConfig_def fill_share_def newProtocolConfig_def newTransportConfig_def
        newTLSOrXTLSConfig_def) (simp add: demo_alpn_cfg_def demo_vless_cfg_def NewStreamSetting_def GetUpstreamInbound_def
        demo_alpn_pm_def demo_env_def tls_of_def parseHost_def)
  then have "GetUserSubUri demo_codecs demo_env ''bob'' ''v'' '''' ''n'' 0 True demo_alpn_pm = getVlessUri ?c"
    using low by (simp add: GetUserSubUri_def GetVlessSub_def demo_alpn_simps protocol_names)
  then show ?thesis
    using v2_links_same [OF demo_alpn_simps(1), of demo_codecs demo_env "''bob''" "''''" "''n''" 0 True] low(1)
    by (simp add: demo_alpn_simps protocol_names uri)
qed

subsection \<open>Where this build fails\<close>

text \<open>
  The TLS settings that the builders make have no ALPN list. So a user of a vless inbound that was
  made by \<open>FastAddInbound\<close> has no link: the request panics as soon as the account is found.
\<close>

lemma V2_built_stream:
  assumes "V2_newInbound cc rnd req cm = Inr i"
  obtains s t where "ic_StreamSetting (ib_Config i) = Some s" "ss_TLS s = Some t" "tls_ALPN t = None"
    "\<exists>p. newProtocolConfig (Some s) = ok p" "\<exists>c. newTransportConfig (Some s) = ok c"
proof -
  have names: "inProtocols ''tcp''" "inProtocols ''ws''" "inProtocols ''quic''" "inProtocols ''mkcp''" "inProtocols ''grpc''"
    "inProtocols ''http''" by code_simp+
  from assms obtain build where b: "V2_GetStreamSettingBuilder rnd (fr_StreamBuilderType req) = Some build"
      "ic_StreamSetting (ib_Config i) = Some (build (fr_Domain req) cm (fr_IsXtls req))"
    by (auto simp: V2_newInbound_def split: if_splits option.splits)
  then show thesis
    by (intro that [OF b(2)])
      (auto simp: V2_GetStreamSettingBuilder_def V2_TCPBuilder_Build_def V2_WSBuilder_Build_def V2_QuicBuilder_Build_def
        V2_MkcpBuilder_Build_def V2_GrpcBuilder_Build_def V2_HttpBuilder_Build_def V2_FullTlsXtlsConfig_def NewTLSConfig_def
        network_stream_def newProtocolConfig_def newTransportConfig_def header_type_def NewFakeHeader_def names split: if_splits)
qed

theorem v2_built_inbound_panics:
  assumes "V2_newInbound cc rnd req cm = Inr i" and "same_but_settings (ib_Config i) (ib_Config i')"
    and "GetInbound pm tag = Some i'" and "to_lower (ic_Protocol (ib_Config i')) = VlessProtocolName"
    and "V2_parseVlessAccountInfo cc e (ib_Config i') user = ok uuid"
  shows "V2_GetUserSubUri cc e user tag host nodeName port useSNI pm = None"
proof -
  have "ic_StreamSetting (ib_Config i') = ic_StreamSetting (ib_Config i)"
    using assms(2) unfolding same_but_settings_def by (metis inbound_cfg.ext_inject inbound_cfg.surjective inbound_cfg.update_convs(4))
  with V2_built_stream [OF assms(1)] obtain s t where "ic_StreamSetting (ib_Config i') = Some s" "ss_TLS s = Some t" "tls_ALPN t = None"
    "\<exists>p. newProtocolConfig (Some s) = ok p" "\<exists>c. newTransportConfig (Some s) = ok c"
    by metis
  then show ?thesis
    using assms(3-5) by (auto simp: V2_GetUserSubUri_def V2_GetVlessSub_def V2_NewVlessShareConfig_def V2_fill_share_def
        V2_newTLSOrXTLSConfig_def Let_def)
qed

text \<open>
  The manager names its proxy \<open>xray\<close>, which is not in the table of software of this build: the proxy
  is never started, and an update dereferences nil.
\<close>

theorem v2_proxy_never_starts:
  "Proxy_Start e (V2_Init_proxyServer file version) fs =
     (V2_Init_proxyServer file version, fs, Some ''softname[xray] is wrong'')"
  "Proxy_Update e tag0 (V2_Init_proxyServer file version) fs = Panicked (V2_Init_proxyServer file version, fs)"
  by (simp_all add: Proxy_Start_def initExecFile_def Proxy_Update_def V2_Init_proxyServer_def V2_NewProxyServer_def
      V2_softwareGithubInfoMap_def)

text \<open>
  The manager passes the pattern where this build expects the host. When only the proxy's own host
  answers, the statistics cannot be read although the proxy has them.
\<close>

lemma v2_statistics_unreadable:
  assumes "\<And>h p r. h \<noteq> host \<Longrightarrow> query h port p r = Inl (unreachable h)" and "pattern \<noteq> host"
  shows "V2_manager_query query pattern host port reset = Some (Inl (unreachable pattern))"
  using assms by (simp add: V2_manager_query_def V2_QueryStats_def)

end
