(* ===== verification/Spec2Isabelle.thy ===== *)
theory Spec2Isabelle
  imports MembershipProps HandlerProps CertProps CliProps ClashTemplate Startup AcmeProps AcmeCommands LocalCommands V2rayBuild
begin

text \<open>
  A verification of v2raymg, a manager for clusters of xray proxies.

  \<^bold>\<open>The program.\<close> An \<^emph>\<open>end node\<close> runs a proxy and manages its inbounds and users. End nodes of a cluster
  register with each other and exchange heartbeats; a \<^emph>\<open>centre node\<close> tells the nodes of a cluster about
  each other. Requests between nodes are gRPC calls that an interceptor authorises by a token. A user
  of a node gets links to its inbounds as a subscription, which is converted for the client program.
  Operators use the HTTP interface of a node, directly or with a command line client; the node passes
  their requests on to the nodes they name. A node also runs the processes of its proxies, obtains
  certificates with an embedded ACME client, counts traffic and measures delays.

  \<^bold>\<open>The theories\<close>, in the order of their dependence:

  \<^item> \<open>Prelude\<close>: results, outcomes (\<open>Done\<close>, \<open>Panicked\<close>, \<open>Blocked\<close>), 64-bit integers, Go maps and the loops
    over them. \<open>GoStrings\<close>, \<open>Encoding\<close>, \<open>JsonText\<close>, \<open>UrlParse\<close>: the parts of Go's \<open>strings\<close>, \<open>strconv\<close>,
    \<open>encoding/base64\<close>, \<open>encoding/json\<close> and \<open>net/url\<close> the sources call, with their round trips.
    \<open>KeyedStore\<close>: the contract of the tables kept under a name.
  \<^item> \<open>Cluster\<close> (\<open>cluster/node.go\<close>, \<open>node_manager.go\<close>, \<open>cluster.go\<close>, \<open>global/cluster\<close>), \<open>Center\<close>
    (\<open>cluster/cluster_manager.go\<close>, \<open>server/rpc/center_node_server.go\<close>), \<open>Membership\<close> (the interceptor,
    \<open>RegisterNode\<close>, \<open>HeartBeat\<close> and the client side in \<open>server/rpc/end_node_server.go\<close>): the tables of nodes
    and the messages on them. \<open>MembershipProps\<close>: the local node is never dropped, a token that was granted
    is accepted, exactly the authorised requests reach their handler, what a round contacts.
  \<^item> \<open>Config\<close>, \<open>Inbounds\<close>, \<open>ConfigFile\<close>, \<open>ProtocolUsers\<close>, \<open>AdaptivePorts\<close>, \<open>ProxyManager\<close>
    (\<open>proxy/config/v2ray_xray.go\<close> and \<open>proxy/manager\<close>): the configuration of the proxy, its file as text
    (the members of an inbound under their JSON names, decoded without regard to case, the other
    sections by parameters of xray), the table of inbounds with its registry contract,
    the users of an inbound with one contract for the three protocols, the pool of ports, and the
    manager over a running proxy that may refuse every call. \<open>ProxyManagerProps\<close>, \<open>ProxyRuntime\<close>,
    \<open>ProxyOps\<close>: the table stays consistent, every inbound of the table is served by the proxy (a
    refinement: the table abstracts the state of the proxy), adding and removing users, flushing the
    table to its file and loading the text again, moving inbounds.
  \<^item> \<open>UserManager\<close>, \<open>UserProps\<close> (\<open>cluster/user_manager.go\<close>): the users of a node, its lock and its
    configuration; users whose password has no bar survive a restart, with the case of their names
    lost to the configuration's keys, and expired users are removed.
  \<^item> \<open>SubLinks\<close>, \<open>Converter\<close>, \<open>Subscription\<close>, \<open>LinkProps\<close> (\<open>proxy/sub\<close>, \<open>common/error.go\<close>): links of the three
    protocols, their conversion and third-party links; a link holds what it was made from.
  \<^item> \<open>Stats\<close> (\<open>proxy/manager/stats_*.go\<close>, \<open>common/collect.go\<close>, \<open>global/collecter\<close>): traffic counters; what is
    reported is what was collected.
  \<^item> \<open>NodeHandlers\<close>, \<open>HandlerProps\<close> (\<open>server/rpc/end_node_server.go\<close>): the requests on users, inbounds and
    adaptive ports; who gets links, which errors are reported.
  \<^item> \<open>Certs\<close>, \<open>Builders\<close>, \<open>CertProps\<close> (\<open>lego/cert.go\<close>, \<open>proxy/config/xray_builder.go\<close>, the requests on
    certificates and for a new inbound): the table of certificates and what inbounds are built with.
  \<^item> \<open>Encryption\<close> (\<open>common/util/ase.go\<close>, \<open>common/rpc/encrypt_codec.go\<close>), \<open>NodeClient\<close> (\<open>client/rpc\<close>): the codec
    of the messages and the requests to several nodes at once, with the goroutines as a step
    relation; any order of them gives the answers of one call after the other, and they end.

  \<^item> \<open>Ping\<close> (\<open>ping/\<close>, \<open>global/collecter/ping_collect.go\<close>): the ring buffer of delays and its statistics,
    the search in the pages of the ping service, the cycle of pings; the buffer refines the list of
    the last hundred delays, a cycle ends.
  \<^item> \<open>HttpServer\<close>, \<open>HttpHandlers\<close>, \<open>HttpProps\<close> (\<open>server/http\<close>): routes, the token, and each handler as a plan,
    the tree of the requests it makes of other nodes and of its answer; who is let in, which nodes a
    target names, what success means, what a subscription holds.
  \<^item> \<open>CliClient\<close>, \<open>CliProps\<close> (\<open>cli/\<close>): the requests of the command line client, its commands and
    suggestions; a query carries any values, a command becomes the request it stands for.
  \<^item> \<open>ClashTemplate\<close> (\<open>proxy/sub/converter/clash_converter.go\<close>): putting converted proxies into a template.
  \<^item> \<open>ProxyProcess\<close> (\<open>proxy/manager/proxy_server.go\<close>, \<open>version_xray.go\<close>, the process part of
    \<open>proxy_manager.go\<close>, \<open>UpdateProxy\<close> and \<open>SetGatewayModel\<close>): downloads, the life of a process, updates; what
    an update leaves running.
  \<^item> \<open>Startup\<close> (\<open>common/config\<close>, \<open>global/\<close>, \<open>cmd/server.go\<close>): the configuration and the start of a process,
    composed of the initialisations of the other theories; a node that starts is guarded and knows
    itself, changed settings survive a restart.
  \<^item> \<open>AcmeClient\<close>, \<open>AcmeProps\<close> (\<open>lego/\<close>): the storage of certificates and accounts, the commands \<open>run\<close> and
    \<open>renew\<close>; with the certificate manager over it, the certificate that was issued is the one that is
    installed. \<open>AcmeCommands\<close>: \<open>revoke\<close>, \<open>list\<close>, the archive and the providers of the challenges.
  \<^item> \<open>LocalCommands\<close> (\<open>cmd/\<close>): the commands that work on a local configuration file, over the proxy manager
    and its start; which of them fail, and what they leave in the file.
  \<^item> \<open>V2rayBuild\<close> (\<open>*_v2ray.go\<close>, \<open>v2ray_builder.go\<close>): what the variant for v2ray-core has in another way, related
    to the xray build by a simulation of its users and the equality of its links, and where it fails.

  \<^bold>\<open>How the code is modelled.\<close> A struct is a record with the field names behind a prefix, a map is a
  partial function, an error is its text. An operation takes the state and returns it; \<open>outcome\<close> says
  whether it returned, panicked or waits for ever on a lock, and the state is then what other
  goroutines go on with. A loop over a Go map takes the order of the iteration as an argument; \<open>ranges\<close>
  says that a list is such an order, and the theorems hold for every one. Times, random identifiers
  and ports, and the answers of other processes (the proxy, DNS, HTTP, the ACME client, remote nodes)
  are arguments. What they are assumed to do is a named hypothesis (\<open>codec_ok\<close>, \<open>env_ok\<close>, \<open>aes_ok\<close>,
  \<open>sections_reread\<close>, \<open>viper_laws\<close>, the hypotheses on the proxy in \<open>ProxyRuntime\<close>), each with an instance that satisfies it. All functions are
  total: their recursions are structural or have a measure; steps of goroutines are
  inductive relations, with the bound on their number proved.

  Fuel is used by the parser of \<open>JsonText\<close>, where twice the length of the text is enough (for the indented
  text of a configuration file as well, \<open>parse_indented\<close>), and by
  \<open>csr_block\<close>, where the length of the text is (\<open>csr_block_fuel\<close>).

  \<^bold>\<open>Not modelled.\<close> Logging; the ACME protocol, which is the library's, and the challenges beyond the
  providers that are set; the help texts of the ACME client (\<open>dnshelp\<close>, with its generated table) and
  the declarations of its flags; the generated protocol code beyond the messages that the operations
  use; the parser of the command line of \<open>cmd/\<close>; and \<open>resetInboundUser\<close>, which nothing calls.
\<close>

end
